(* ===== verification/JS_Prelude.thy ===== *)
theory JS_Prelude
  imports Complex_Main "HOL-Library.Sublist"
begin

text \<open>
  The part of JavaScript the development needs: run-time values, truthiness, property access,
  the string methods the code calls, printing of integers, and exceptions as values.

  A JavaScript value is a \<open>jsval\<close>. Numbers are exact rationals plus \<open>NaN\<close>: the rounding of
  64-bit floats is not modelled. A string is a list of code units below 256 (Latin-1).
  An object is an association list; the first binding of a key counts. Properties inherited
  from a prototype are not modelled, only \<open>length\<close> of strings and arrays is.
\<close>

named_theorems js_simps \<open>evaluation rules for JavaScript operators\<close>

section \<open>Values\<close>

datatype number = NaN | Fin rat

datatype jsval =
    Undef
  | Null
  | Bool bool
  | Num number
  | Str string
  | Arr "jsval list"
  | Obj "(string \<times> jsval) list"

type_synonym obj = "(string \<times> jsval) list"

abbreviation js_int :: "int \<Rightarrow> jsval" where
  "js_int n \<equiv> Num (Fin (of_int n))"

fun truthy :: "jsval \<Rightarrow> bool" where
  "truthy Undef = False"
| "truthy Null = False"
| "truthy (Bool b) = b"
| "truthy (Num NaN) = False"
| "truthy (Num (Fin x)) = (x \<noteq> 0)"
| "truthy (Str s) = (s \<noteq> [])"
| "truthy (Arr vs) = True"
| "truthy (Obj kvs) = True"

fun nullish :: "jsval \<Rightarrow> bool" where
  "nullish Undef = True"
| "nullish Null = True"
| "nullish v = False"

text \<open>\<open>a || b\<close> and \<open>a ?? b\<close>.\<close>

definition js_or :: "jsval \<Rightarrow> jsval \<Rightarrow> jsval" where
  "js_or a b = (if truthy a then a else b)"

definition js_nullish_or :: "jsval \<Rightarrow> jsval \<Rightarrow> jsval" where
  "js_nullish_or a b = (if nullish a then b else a)"

lemma js_or_simps [js_simps, simp]:
  "truthy a \<Longrightarrow> js_or a b = a" "\<not> truthy a \<Longrightarrow> js_or a b = b"
  by (simp_all add: js_or_def)

lemma truthy_js_or: "truthy b \<Longrightarrow> truthy (js_or a b)"
  by (simp add: js_or_def)

lemma nullish_not_truthy: "nullish v \<Longrightarrow> \<not> truthy v"
  by (cases v) auto

section \<open>Exceptions\<close>

text \<open>
  An \<open>AxiosError\<close> carries the response, when the server answered, whether a request left the
  browser at all, its message and its code.
\<close>

record axios_error =
  err_response :: "(int \<times> jsval) option"
  err_request :: bool
  err_message :: string
  err_code :: "string option"

datatype exn =
    TypeError string
  | SyntaxError string
  | RangeError string
  | Error string
  | AxiosErr axios_error

fun exn_message :: "exn \<Rightarrow> string" where
  "exn_message (TypeError m) = m"
| "exn_message (SyntaxError m) = m"
| "exn_message (RangeError m) = m"
| "exn_message (Error m) = m"
| "exn_message (AxiosErr e) = err_message e"

definition bind_res :: "'e + 'a \<Rightarrow> ('a \<Rightarrow> 'e + 'b) \<Rightarrow> 'e + 'b" where
  "bind_res r f = (case r of Inl e \<Rightarrow> Inl e | Inr a \<Rightarrow> f a)"

lemma bind_res_simps [simp]:
  "bind_res (Inl e) f = Inl e" "bind_res (Inr a) f = f a"
  by (simp_all add: bind_res_def)

section \<open>Objects and properties\<close>

definition field :: "obj \<Rightarrow> string \<Rightarrow> jsval" where
  "field kvs k = (case map_of kvs k of None \<Rightarrow> Undef | Some v \<Rightarrow> v)"

lemma field_eqs [js_simps, simp]:
  "field [] k = Undef"
  "field ((k', v) # kvs) k = (if k = k' then v else field kvs k)"
  by (auto simp: field_def)

text \<open>\<open>v?.k\<close>: \<open>undefined\<close> when \<open>v\<close> is nullish.\<close>

fun opt_get :: "jsval \<Rightarrow> string \<Rightarrow> jsval" where
  "opt_get (Obj kvs) k = field kvs k"
| "opt_get (Arr vs) k = (if k = ''length'' then Num (Fin (of_nat (length vs))) else Undef)"
| "opt_get (Str s) k = (if k = ''length'' then Num (Fin (of_nat (length s))) else Undef)"
| "opt_get v k = Undef"

text \<open>\<open>v.k\<close>: a \<open>TypeError\<close> when \<open>v\<close> is nullish.\<close>

definition get_field :: "jsval \<Rightarrow> string \<Rightarrow> exn + jsval" where
  "get_field v k =
     (if nullish v then Inl (TypeError (''Cannot read properties of ''
        @ (if v = Null then ''null'' else ''undefined'') @ '' (reading '' @ k @ '')''))
      else Inr (opt_get v k))"

lemma get_field_simps [js_simps, simp]:
  "\<not> nullish v \<Longrightarrow> get_field v k = Inr (opt_get v k)"
  by (simp add: get_field_def)

lemma get_field_Inr_iff: "get_field v k = Inr w \<longleftrightarrow> \<not> nullish v \<and> w = opt_get v k"
  by (auto simp: get_field_def)

text \<open>\<open>{...base, over}\<close>: the later binding of a key wins.\<close>

definition spread :: "obj \<Rightarrow> obj \<Rightarrow> obj" where
  "spread base over = over @ filter (\<lambda>(k, v). k \<notin> fst ` set over) base"

lemma map_of_filter_keys:
  "map_of (filter (\<lambda>(k, v). k \<notin> A) kvs) k = (if k \<in> A then None else map_of kvs k)"
  by (induction kvs) auto

lemma field_spread:
  "field (spread base over) k = (if k \<in> fst ` set over then field over k else field base k)"
proof -
  have "map_of over k = None \<longleftrightarrow> k \<notin> fst ` set over"
    by (rule map_of_eq_None_iff)
  then show ?thesis
    by (auto simp: field_def spread_def map_add_def map_of_filter_keys split: option.splits)
qed

text \<open>The elements an array method iterates over.\<close>

fun elements :: "jsval \<Rightarrow> jsval list" where
  "elements (Arr vs) = vs"
| "elements v = []"

fun is_array :: "jsval \<Rightarrow> bool" where
  "is_array (Arr vs) = True"
| "is_array v = False"

lemma is_array_iff: "is_array v \<longleftrightarrow> (\<exists>vs. v = Arr vs)"
  by (cases v) auto

section \<open>Strings\<close>

definition js_space :: "char \<Rightarrow> bool" where
  "js_space c \<longleftrightarrow>
     c \<in> set [CHR 0x09, CHR 0x0A, CHR 0x0B, CHR 0x0C, CHR 0x0D, CHR '' '', CHR 0xA0]"

definition js_trim :: "string \<Rightarrow> string" where
  "js_trim s = rev (dropWhile js_space (rev (dropWhile js_space s)))"

definition lower_char :: "char \<Rightarrow> char" where
  "lower_char c =
     (let n = (of_char c :: nat)
      in if 65 \<le> n \<and> n \<le> 90 \<or> 192 \<le> n \<and> n \<le> 222 \<and> n \<noteq> 215 then char_of (n + 32) else c)"

definition js_lower :: "string \<Rightarrow> string" where
  "js_lower s = map lower_char s"

text \<open>Upper case, for the letters whose upper case is in Latin-1.\<close>

definition upper_char :: "char \<Rightarrow> string" where
  "upper_char c =
     (let n = (of_char c :: nat)
      in if 97 \<le> n \<and> n \<le> 122 \<or> 224 \<le> n \<and> n \<le> 254 \<and> n \<noteq> 247 then [char_of (n - 32)]
         else if n = 223 then ''SS'' else [c])"

definition js_upper :: "string \<Rightarrow> string" where
  "js_upper s = concat (map upper_char s)"

fun js_includes :: "string \<Rightarrow> string \<Rightarrow> bool" where
  "js_includes [] t = (t = [])"
| "js_includes (c # s) t = (prefix t (c # s) \<or> js_includes s t)"

definition js_starts_with :: "string \<Rightarrow> string \<Rightarrow> bool" where
  "js_starts_with s t = prefix t s"

fun js_split :: "char \<Rightarrow> string \<Rightarrow> string list" where
  "js_split c [] = [[]]"
| "js_split c (x # xs) =
     (if x = c then [] # js_split c xs
      else (case js_split c xs of [] \<Rightarrow> [[x]] | w # ws \<Rightarrow> (x # w) # ws))"

fun js_join :: "string \<Rightarrow> string list \<Rightarrow> string" where
  "js_join sep [] = []"
| "js_join sep [x] = x"
| "js_join sep (x # y # ys) = x @ sep @ js_join sep (y # ys)"

text \<open>\<open>s.replace(c, t)\<close> replaces the first occurrence, \<open>s.replace(/c/g, t)\<close> every one.\<close>

fun js_replace_first :: "char \<Rightarrow> string \<Rightarrow> string \<Rightarrow> string" where
  "js_replace_first c t [] = []"
| "js_replace_first c t (x # xs) = (if x = c then t @ xs else x # js_replace_first c t xs)"

definition js_replace_all :: "char \<Rightarrow> string \<Rightarrow> string \<Rightarrow> string" where
  "js_replace_all c t s = concat (map (\<lambda>x. if x = c then t else [x]) s)"

lemma js_includes_sublist: "js_includes s t \<longleftrightarrow> sublist t s"
  by (induction s) (auto simp: sublist_Cons_right)

lemma js_includes_empty [simp]: "js_includes s []"
  by (cases s) auto

lemma js_split_nonempty [simp]: "js_split c s \<noteq> []"
  by (cases s) (auto split: list.splits)

lemma js_split_parts: "w \<in> set (js_split c s) \<Longrightarrow> c \<notin> set w"
  by (induction s arbitrary: w) (auto split: if_splits list.splits)

lemma js_join_split: "js_join [c] (js_split c s) = s"
proof (induction s)
  case (Cons x xs)
  obtain w ws where w: "js_split c xs = w # ws"
    by (cases "js_split c xs") auto
  with Cons show ?case by (cases ws) auto
qed simp

lemma js_split_append:
  "c \<notin> set w \<Longrightarrow> js_split c (w @ c # s) = w # js_split c s"
  by (induction w) auto

lemma js_split_single: "c \<notin> set w \<Longrightarrow> js_split c w = [w]"
  by (induction w) auto

lemma js_split_join:
  "ws \<noteq> [] \<Longrightarrow> \<forall>w \<in> set ws. c \<notin> set w \<Longrightarrow> js_split c (js_join [c] ws) = ws"
  by (induction "[c]" ws rule: js_join.induct) (auto simp: js_split_single js_split_append)

lemma js_join_eq_Nil:
  "\<forall>w \<in> set ws. w \<noteq> [] \<Longrightarrow> js_join sep ws = [] \<longleftrightarrow> ws = []"
  by (induction sep ws rule: js_join.induct) auto

lemma dropWhile_rev_dropWhile:
  "ys = [] \<or> \<not> P (hd ys) \<Longrightarrow>
     dropWhile P (rev (dropWhile P (rev ys))) = rev (dropWhile P (rev ys))"
  by (cases ys) (auto simp: dropWhile_append3)

lemma js_trim_idem [simp]: "js_trim (js_trim s) = js_trim s"
proof -
  let ?ys = "dropWhile js_space s"
  have hd: "?ys = [] \<or> \<not> js_space (hd ?ys)"
    using hd_dropWhile [of js_space s] by blast
  show ?thesis
    using dropWhile_rev_dropWhile [where P = js_space, OF hd] by (simp add: js_trim_def)
qed

section \<open>Printing integers\<close>

definition digit :: "nat \<Rightarrow> char" where
  "digit d = char_of (48 + d)"

fun show_nat :: "nat \<Rightarrow> string" where
  "show_nat n = (if n < 10 then [digit n] else show_nat (n div 10) @ [digit (n mod 10)])"

declare show_nat.simps [simp del]

definition read_nat :: "string \<Rightarrow> nat" where
  "read_nat s = foldl (\<lambda>acc c. acc * 10 + (of_char c - 48)) 0 s"

lemma read_show_nat [simp]: "read_nat (show_nat n) = n"
proof (induction n rule: show_nat.induct)
  case (1 n)
  then show ?case
    by (auto simp: show_nat.simps [of n] read_nat_def digit_def)
qed

lemma show_nat_inj: "show_nat m = show_nat n \<longleftrightarrow> m = n"
  by (metis read_show_nat)

lemma show_nat_nonempty [simp]: "show_nat n \<noteq> []"
  by (subst show_nat.simps) simp

definition show_int :: "int \<Rightarrow> string" where
  "show_int i = (if i < 0 then CHR ''-'' # show_nat (nat (- i)) else show_nat (nat i))"

text \<open>\<open>x.toFixed(1)\<close>: one decimal, halves away from zero.\<close>

definition to_fixed1 :: "rat \<Rightarrow> string" where
  "to_fixed1 x =
     (let n = nat \<lfloor>\<bar>x\<bar> * 10 + 1 / 2\<rfloor>
      in (if x < 0 then ''-'' else '''') @ show_nat (n div 10) @ ''.'' @ show_nat (n mod 10))"

text \<open>
  Conversion to string. A number prints with at most 17 decimals and no trailing zeros; the
  exponent notation of very large and very small numbers is not modelled.
\<close>

definition pad_zeros :: "nat \<Rightarrow> string \<Rightarrow> string" where
  "pad_zeros n s = replicate (n - length s) CHR ''0'' @ s"

definition strip_zeros :: "string \<Rightarrow> string" where
  "strip_zeros s = rev (dropWhile (\<lambda>c. c = CHR ''0'') (rev s))"

definition show_rat :: "rat \<Rightarrow> string" where
  "show_rat x =
     (let n = nat \<lfloor>\<bar>x\<bar>\<rfloor>;
          d = strip_zeros (pad_zeros 17 (show_nat (nat \<lfloor>(\<bar>x\<bar> - of_nat n) * 10 ^ 17\<rfloor>)))
      in (if x < 0 then ''-'' else '''') @ show_nat n @ (if d = [] then [] else CHR ''.'' # d))"

fun js_to_string :: "jsval \<Rightarrow> string" where
  "js_to_string Undef = ''undefined''"
| "js_to_string Null = ''null''"
| "js_to_string (Bool b) = (if b then ''true'' else ''false'')"
| "js_to_string (Num NaN) = ''NaN''"
| "js_to_string (Num (Fin x)) = show_rat x"
| "js_to_string (Str s) = s"
| "js_to_string (Arr vs) = js_join '','' (map (\<lambda>v. if nullish v then [] else js_to_string v) vs)"
| "js_to_string (Obj kvs) = ''[object Object]''"

definition num_add :: "number \<Rightarrow> number \<Rightarrow> number" where
  "num_add a b = (case (a, b) of (Fin x, Fin y) \<Rightarrow> Fin (x + y) | _ \<Rightarrow> NaN)"

definition num_sub :: "number \<Rightarrow> number \<Rightarrow> number" where
  "num_sub a b = (case (a, b) of (Fin x, Fin y) \<Rightarrow> Fin (x - y) | _ \<Rightarrow> NaN)"

text \<open>Division by a number that is not zero, and \<open>Math.round\<close>: halves go up.\<close>

definition num_div :: "number \<Rightarrow> rat \<Rightarrow> number" where
  "num_div a d = (case a of Fin x \<Rightarrow> Fin (x / d) | NaN \<Rightarrow> NaN)"

definition num_mul :: "number \<Rightarrow> rat \<Rightarrow> number" where
  "num_mul a d = (case a of Fin x \<Rightarrow> Fin (x * d) | NaN \<Rightarrow> NaN)"

definition math_round :: "number \<Rightarrow> number" where
  "math_round a = (case a of Fin x \<Rightarrow> Fin (of_int \<lfloor>x + 1 / 2\<rfloor>) | NaN \<Rightarrow> NaN)"

lemma num_simps [js_simps, simp]:
  "num_add (Fin x) (Fin y) = Fin (x + y)" "num_add NaN b = NaN" "num_add a NaN = NaN"
  "num_sub (Fin x) (Fin y) = Fin (x - y)" "num_sub NaN b = NaN" "num_sub a NaN = NaN"
  "num_div (Fin x) d = Fin (x / d)" "num_div NaN d = NaN"
  "num_mul (Fin x) d = Fin (x * d)" "num_mul NaN d = NaN"
  "math_round (Fin x) = Fin (of_int \<lfloor>x + 1 / 2\<rfloor>)" "math_round NaN = NaN"
  by (simp_all add: num_add_def num_sub_def num_div_def num_mul_def math_round_def
      split: number.splits)

lemma round_near: "\<bar>of_int \<lfloor>x + 1 / 2\<rfloor> - x\<bar> \<le> (1 / 2 :: rat)"
proof -
  have "of_int \<lfloor>x + 1 / 2\<rfloor> \<le> x + 1 / 2" "x + 1 / 2 < of_int \<lfloor>x + 1 / 2\<rfloor> + 1"
    using floor_correct [of "x + 1 / 2"] by auto
  then show ?thesis by (simp only: abs_le_iff) linarith
qed

end
