(* ===== verification/Transition.thy ===== *)
theory Transition
  imports JS_Prelude
begin

text \<open>
  Labelled executions of a component with state, and the interface for proving invariants of
  them: a component gives its step relation and an invariant that every step keeps, and gets
  the invariant of every execution. A second interface adds a condition on the labels, for
  properties of the executions that avoid some operation.
\<close>

inductive execution :: "('s \<Rightarrow> 'l \<Rightarrow> 's \<Rightarrow> bool) \<Rightarrow> 's \<Rightarrow> 'l list \<Rightarrow> 's \<Rightarrow> bool"
  for step :: "'s \<Rightarrow> 'l \<Rightarrow> 's \<Rightarrow> bool" where
  exec_nil: "execution step s [] s"
| exec_snoc: "execution step s ls t \<Longrightarrow> step t l u \<Longrightarrow> execution step s (ls @ [l]) u"

lemma execution_append:
  "execution step t ms u \<Longrightarrow> execution step s ls t \<Longrightarrow> execution step s (ls @ ms) u"
proof (induction rule: execution.induct)
  case (exec_nil s)
  then show ?case by simp
next
  case (exec_snoc t' ms v l u)
  have "execution step s ((ls @ ms) @ [l]) u"
    using exec_snoc.IH [OF exec_snoc.prems] exec_snoc.hyps(2) by (rule execution.exec_snoc)
  then show ?case by simp
qed

lemma execution_single: "step s l t \<Longrightarrow> execution step s [l] t"
  using exec_snoc [OF exec_nil] by fastforce

lemma execution_cons:
  "step s l t \<Longrightarrow> execution step t ls u \<Longrightarrow> execution step s (l # ls) u"
  using execution_append [OF _ execution_single] by fastforce

lemma execution_nil_iff [simp]: "execution step s [] t \<longleftrightarrow> s = t"
  by (auto elim: execution.cases intro: exec_nil)

lemma execution_snocE:
  assumes "execution step s (ls @ [l]) u"
  obtains t where "execution step s ls t" "step t l u"
  using assms by (cases rule: execution.cases) auto

section \<open>Invariants\<close>

locale invariant_system =
  fixes init :: "'s \<Rightarrow> bool"
    and step :: "'s \<Rightarrow> 'l \<Rightarrow> 's \<Rightarrow> bool"
    and inv :: "'s \<Rightarrow> bool"
  assumes inv_init: "init s \<Longrightarrow> inv s"
    and inv_step: "step s l t \<Longrightarrow> inv s \<Longrightarrow> inv t"
begin

lemma execution_keeps: "execution step s ls t \<Longrightarrow> inv s \<Longrightarrow> inv t"
  by (induction rule: execution.induct) (auto intro: inv_step)

lemma reachable_inv: "execution step s ls t \<Longrightarrow> init s \<Longrightarrow> inv t"
  using execution_keeps inv_init by blast

end

locale guarded_system = base: invariant_system init step inv
  for init :: "'s \<Rightarrow> bool"
    and step :: "'s \<Rightarrow> 'l \<Rightarrow> 's \<Rightarrow> bool"
    and inv :: "'s \<Rightarrow> bool" +
  fixes allowed :: "'l \<Rightarrow> bool"
    and ginv :: "'s \<Rightarrow> bool"
  assumes ginv_init: "init s \<Longrightarrow> ginv s"
    and ginv_step: "step s l t \<Longrightarrow> allowed l \<Longrightarrow> inv s \<Longrightarrow> ginv s \<Longrightarrow> ginv t"
begin

lemma execution_keeps_ginv:
  "execution step s ls t \<Longrightarrow> inv s \<Longrightarrow> ginv s \<Longrightarrow> list_all allowed ls \<Longrightarrow> ginv t"
proof (induction rule: execution.induct)
  case (exec_nil s)
  then show ?case by simp
next
  case (exec_snoc s ls t l u)
  then have "ginv t" by simp
  moreover have "inv t"
    using base.execution_keeps exec_snoc.hyps(1) exec_snoc.prems(1) by blast
  ultimately show ?case
    using exec_snoc.hyps(2) exec_snoc.prems(3) by (auto intro: ginv_step)
qed

lemma reachable_ginv:
  "execution step s ls t \<Longrightarrow> init s \<Longrightarrow> list_all allowed ls \<Longrightarrow> ginv t"
  using execution_keeps_ginv base.inv_init ginv_init by blast

end

section \<open>Refinement\<close>

text \<open>
  An abstract machine that takes the same labels: if every allowed step of the component is a step of
  the machine on the abstracted states, the labels of an execution determine the abstract state.
\<close>

locale refining_system = guarded_system init step inv allowed ginv
  for init :: "'s \<Rightarrow> bool"
    and step :: "'s \<Rightarrow> 'l \<Rightarrow> 's \<Rightarrow> bool"
    and inv :: "'s \<Rightarrow> bool"
    and allowed :: "'l \<Rightarrow> bool"
    and ginv :: "'s \<Rightarrow> bool" +
  fixes abstr :: "'s \<Rightarrow> 'a"
    and machine :: "'l \<Rightarrow> 'a \<Rightarrow> 'a"
  assumes abstr_step: "step s l t \<Longrightarrow> allowed l \<Longrightarrow> inv s \<Longrightarrow> ginv s \<Longrightarrow> abstr t = machine l (abstr s)"
begin

lemma execution_abstr:
  "execution step s ls t \<Longrightarrow> init s \<Longrightarrow> list_all allowed ls \<Longrightarrow> abstr t = fold machine ls (abstr s)"
proof (induction rule: execution.induct)
  case (exec_snoc s ls t l u)
  then have "abstr t = fold machine ls (abstr s)" and l: "allowed l" and ls: "list_all allowed ls"
    by simp_all
  moreover have "abstr u = machine l (abstr t)"
    using exec_snoc.hyps(2) l base.reachable_inv [OF exec_snoc.hyps(1) exec_snoc.prems(1)]
      reachable_ginv [OF exec_snoc.hyps(1) exec_snoc.prems(1) ls] by (rule abstr_step)
  ultimately show ?case by simp
qed simp

end

end
