(* ===== verification/TS_Types.thy ===== *)
theory TS_Types
  imports JS_Prelude
begin

text \<open>
  TypeScript's structural types as data, what it means for a run-time value to inhabit one, and a
  decision procedure for assignability with its soundness. The interfaces the frontend declares are
  in \<open>Api_Types\<close>.
\<close>

section \<open>Types and their values\<close>

text \<open>A field of an interface is its name, whether it is optional (\<open>?\<close>), and its type.\<close>

datatype ts =
    TAny
  | TString
  | TNumber
  | TBoolean
  | TNull
  | TDate
  | TVoid
  | TLits "string list"
  | TNumLits "int list"
  | TArray ts
  | TRecord ts
  | TIface "(string \<times> bool \<times> ts) list"
  | TOr ts ts

text \<open>
  A \<open>Date\<close> never travels as JSON; as a run-time value it is an object, and no value of
  \<open>jsval\<close> stands for one.
\<close>

fun has_type :: "ts \<Rightarrow> jsval \<Rightarrow> bool" where
  "has_type TAny v = True"
| "has_type TString v = (case v of Str s \<Rightarrow> True | _ \<Rightarrow> False)"
| "has_type TNumber v = (case v of Num x \<Rightarrow> True | _ \<Rightarrow> False)"
| "has_type TBoolean v = (case v of Bool b \<Rightarrow> True | _ \<Rightarrow> False)"
| "has_type TNull v = (v = Null)"
| "has_type TDate v = False"
| "has_type TVoid v = (v = Undef)"
| "has_type (TLits ls) v = (case v of Str s \<Rightarrow> s \<in> set ls | _ \<Rightarrow> False)"
| "has_type (TNumLits ns) v = list_ex (\<lambda>n. v = js_int n) ns"
| "has_type (TArray t) v = (case v of Arr vs \<Rightarrow> list_all (has_type t) vs | _ \<Rightarrow> False)"
| "has_type (TRecord t) v = (case v of Obj kvs \<Rightarrow> list_all (\<lambda>(k, x). has_type t x) kvs | _ \<Rightarrow> False)"
| "has_type (TIface fs) v = (case v of
      Obj kvs \<Rightarrow> list_all (\<lambda>(k, opt, t). opt \<and> field kvs k = Undef \<or> has_type t (field kvs k)) fs
    | _ \<Rightarrow> False)"
| "has_type (TOr t u) v = (has_type t v \<or> has_type u v)"

text \<open>Assignability, where it is sound: \<open>subtype t u\<close> lets a \<open>t\<close> be used as a \<open>u\<close>.\<close>

fun subtype :: "ts \<Rightarrow> ts \<Rightarrow> bool" where
  "subtype t TAny = True"
| "subtype t TString = (case t of TString \<Rightarrow> True | TLits ls \<Rightarrow> True | _ \<Rightarrow> False)"
| "subtype t TNumber = (case t of TNumber \<Rightarrow> True | TNumLits ns \<Rightarrow> True | _ \<Rightarrow> False)"
| "subtype t TBoolean = (t = TBoolean)"
| "subtype t TNull = (t = TNull)"
| "subtype t TDate = (t = TDate)"
| "subtype t TVoid = (t = TVoid)"
| "subtype t (TLits ms) = (case t of TLits ls \<Rightarrow> list_all (\<lambda>l. l \<in> set ms) ls | _ \<Rightarrow> False)"
| "subtype t (TNumLits ms) = (case t of TNumLits ls \<Rightarrow> list_all (\<lambda>l. l \<in> set ms) ls | _ \<Rightarrow> False)"
| "subtype t (TArray u) = (case t of TArray t' \<Rightarrow> subtype t' u | _ \<Rightarrow> False)"
| "subtype t (TRecord u) = (case t of TRecord t' \<Rightarrow> subtype t' u | _ \<Rightarrow> False)"
| "subtype t (TIface gs) = (case t of
      TIface fs \<Rightarrow>
        list_all (\<lambda>(k, opt, u). list_ex (\<lambda>(k', opt', t'). k' = k \<and> (opt' \<longrightarrow> opt) \<and> subtype t' u) fs) gs
    | _ \<Rightarrow> False)"
| "subtype t (TOr a b) = (case t of
      TOr c d \<Rightarrow> (subtype c a \<or> subtype c b) \<and> (subtype d a \<or> subtype d b)
    | _ \<Rightarrow> subtype t a \<or> subtype t b)"

lemma subtype_sound: "subtype t u \<Longrightarrow> has_type t v \<Longrightarrow> has_type u v"
proof (induction t u arbitrary: v rule: subtype.induct)
  case (12 t gs)
  obtain fs kvs where t: "t = TIface fs" and v: "v = Obj kvs"
    using "12.prems" by (auto split: ts.splits jsval.splits)
  have "opt \<and> field kvs k = Undef \<or> has_type u (field kvs k)" if g: "(k, opt, u) \<in> set gs" for k opt u
  proof -
    obtain opt' t' where t': "(k, opt', t') \<in> set fs" "opt' \<longrightarrow> opt" "subtype t' u"
      using "12.prems"(1) g t by (fastforce simp: list_all_iff list_ex_iff)
    have "opt' \<and> field kvs k = Undef \<or> has_type t' (field kvs k)"
      using "12.prems"(2) t t'(1) v by (fastforce simp: list_all_iff)
    with t' "12.IH" [OF t g refl refl t'(1) refl refl t'(3)] show ?thesis by blast
  qed
  with v show ?case by (auto simp: list_all_iff)
qed (auto split: jsval.splits ts.splits simp: list_all_iff list_ex_iff)

section \<open>Reading fields of typed objects\<close>

definition iface_field :: "(string \<times> bool \<times> ts) list \<Rightarrow> string \<Rightarrow> (bool \<times> ts) option" where
  "iface_field fs k = map_of fs k"

lemma has_type_field:
  "has_type (TIface fs) v \<Longrightarrow> iface_field fs k = Some (opt, t) \<Longrightarrow>
     opt \<and> opt_get v k = Undef \<or> has_type t (opt_get v k)"
  by (cases v) (auto simp: list_all_iff iface_field_def dest!: map_of_SomeD)

lemma has_type_required:
  "has_type (TIface fs) v \<Longrightarrow> iface_field fs k = Some (False, t) \<Longrightarrow> has_type t (opt_get v k)"
  using has_type_field by fastforce

lemma has_type_iface_obj: "has_type (TIface fs) v \<Longrightarrow> \<exists>kvs. v = Obj kvs"
  by (cases v) auto

lemma has_type_iface_truthy: "has_type (TIface fs) v \<Longrightarrow> truthy v \<and> \<not> nullish v"
  by (cases v) auto

lemma has_type_array_obj: "has_type (TArray t) v \<Longrightarrow> \<exists>vs. v = Arr vs \<and> list_all (has_type t) vs"
  by (cases v) auto

end
