(* ===== verification/Api_Types.thy ===== *)
theory Api_Types
  imports TS_Types
begin

text \<open>
  The interfaces of the frontend's two type modules, one definition per declaration, with the
  same fields in the same order. A generic interface takes its type argument.
\<close>

section \<open>The interfaces of lib/types/api.ts\<close>

definition api_InterviewStatus :: ts where
  "api_InterviewStatus = TLits [''pending'', ''scheduled'', ''in_progress'', ''completed'', ''cancelled'']"

definition api_Interview :: ts where
  "api_Interview = TIface [
      (''id'', False, TString),
      (''candidateName'', False, TString),
      (''candidateEmail'', False, TString),
      (''position'', False, TString),
      (''scheduledAt'', False, TString),
      (''duration'', False, TNumber),
      (''status'', False, api_InterviewStatus),
      (''interviewerIds'', False, (TArray TString)),
      (''tags'', False, (TArray TString)),
      (''createdAt'', False, TString),
      (''updatedAt'', False, TString)]"

definition api_CreateInterviewRequest :: ts where
  "api_CreateInterviewRequest = TIface [
      (''candidateName'', False, TString),
      (''candidateEmail'', False, TString),
      (''position'', False, TString),
      (''scheduledAt'', False, TString),
      (''duration'', False, TNumber),
      (''interviewerIds'', False, (TArray TString)),
      (''tags'', True, (TArray TString))]"

definition api_EvaluationStatus :: ts where
  "api_EvaluationStatus = TLits [''pending'', ''in_review'', ''completed'', ''failed'']"

definition api_Recommendation :: ts where
  "api_Recommendation = TLits [''strong_hire'', ''hire'', ''maybe'', ''no_hire'']"

definition api_Evaluation :: ts where
  "api_Evaluation = TIface [
      (''id'', False, TString),
      (''interviewId'', False, TString),
      (''evaluatorId'', False, TString),
      (''evaluatorName'', False, TString),
      (''evaluatorEmail'', False, TString),
      (''technicalScore'', False, TNumber),
      (''communicationScore'', False, TNumber),
      (''problemSolvingScore'', False, TNumber),
      (''culturalFitScore'', False, TNumber),
      (''overallScore'', False, TNumber),
      (''strengths'', False, (TArray TString)),
      (''weaknesses'', False, (TArray TString)),
      (''recommendation'', False, api_Recommendation),
      (''comments'', False, TString),
      (''status'', False, api_EvaluationStatus),
      (''createdAt'', False, TString),
      (''updatedAt'', False, TString)]"

definition api_CreateEvaluationRequest :: ts where
  "api_CreateEvaluationRequest = TIface [
      (''interviewId'', False, TString),
      (''evaluatorName'', False, TString),
      (''evaluatorEmail'', False, TString),
      (''technicalScore'', False, TNumber),
      (''communicationScore'', False, TNumber),
      (''problemSolvingScore'', False, TNumber),
      (''culturalFitScore'', False, TNumber),
      (''strengths'', False, (TArray TString)),
      (''weaknesses'', False, (TArray TString)),
      (''recommendation'', False, api_Recommendation),
      (''comments'', False, TString)]"

definition api_ReportStatus :: ts where
  "api_ReportStatus = TLits [''pending'', ''ready'', ''sent'']"

definition api_Report :: ts where
  "api_Report = TIface [
      (''id'', False, TString),
      (''interviewId'', False, TString),
      (''candidateName'', False, TString),
      (''position'', False, TString),
      (''interviewDate'', False, TString),
      (''evaluationCount'', False, TNumber),
      (''averageTechnical'', False, TNumber),
      (''averageCommunication'', False, TNumber),
      (''averageCultureFit'', False, TNumber),
      (''averageOverall'', False, TNumber),
      (''finalRecommendation'', False, TString),
      (''status'', False, api_ReportStatus),
      (''generatedAt'', True, TString),
      (''sentAt'', True, TString),
      (''createdAt'', False, TString),
      (''updatedAt'', False, TString)]"

definition api_GenerateReportRequest :: ts where
  "api_GenerateReportRequest = TIface [
      (''interviewId'', False, TString),
      (''includeNotes'', False, TBoolean)]"

definition api_ActivityItem :: ts where
  "api_ActivityItem = TIface [
      (''id'', False, TString),
      (''type'', False, (TLits [''interview'', ''evaluation'', ''report''])),
      (''action'', False, TString),
      (''timestamp'', False, TString),
      (''user'', True, TString)]"

definition api_DashboardStats :: ts where
  "api_DashboardStats = TIface [
      (''totalInterviews'', False, TNumber),
      (''pendingEvaluations'', False, TNumber),
      (''completedReports'', False, TNumber),
      (''averageEvaluationTime'', False, TNumber),
      (''interviewsByStatus'', False, (TRecord TNumber)),
      (''evaluationsByStatus'', False, (TRecord TNumber)),
      (''recentActivity'', False, (TArray api_ActivityItem))]"

definition api_QueueStats :: ts where
  "api_QueueStats = TIface [
      (''name'', False, TString),
      (''description'', False, TString),
      (''messagesInQueue'', False, TNumber),
      (''messagesProcessing'', False, TNumber),
      (''messagesCompleted'', False, TNumber),
      (''messagesFailed'', False, TNumber),
      (''averageProcessingTime'', False, TNumber),
      (''status'', False, TString),
      (''lastProcessed'', False, TString)]"

definition api_QueueMessage :: ts where
  "api_QueueMessage = TIface [
      (''id'', False, TString),
      (''queueName'', False, TString),
      (''type'', False, TString),
      (''subject'', False, TString),
      (''priority'', False, TNumber),
      (''status'', False, TString),
      (''createdAt'', False, TString),
      (''processedAt'', True, TString)]"

definition api_APIResponse :: "ts \<Rightarrow> ts" where
  "api_APIResponse t = TIface [
      (''success'', False, TBoolean),
      (''data'', True, t),
      (''error'', True, TString),
      (''message'', True, TString)]"

definition api_Pagination :: ts where
  "api_Pagination = TIface [
      (''page'', False, TNumber),
      (''pageSize'', False, TNumber),
      (''totalItems'', False, TNumber),
      (''totalPages'', False, TNumber)]"

definition api_PaginatedResponse :: "ts \<Rightarrow> ts" where
  "api_PaginatedResponse t = TIface [
      (''success'', False, TBoolean),
      (''data'', False, (TArray t)),
      (''pagination'', False, api_Pagination)]"

section \<open>The interfaces of types/index.ts\<close>

definition index_InterviewStatus :: ts where
  "index_InterviewStatus = TLits [''pending'', ''scheduled'', ''in_progress'', ''completed'', ''cancelled'']"

definition index_EvaluationStatus :: ts where
  "index_EvaluationStatus = TLits [''pending'', ''in_review'', ''completed'', ''failed'']"

definition index_Priority :: ts where
  "index_Priority = TNumLits [1, 2, 3, 4]"

definition index_Interview :: ts where
  "index_Interview = TIface [
      (''id'', False, TString),
      (''candidateId'', False, TString),
      (''candidateName'', False, TString),
      (''candidateEmail'', False, TString),
      (''position'', False, TString),
      (''scheduledAt'', False, TString),
      (''duration'', False, TNumber),
      (''status'', False, index_InterviewStatus),
      (''interviewerIds'', False, (TArray TString)),
      (''tags'', False, (TArray TString)),
      (''createdAt'', False, TString),
      (''updatedAt'', False, TString)]"

definition index_CreateInterviewRequest :: ts where
  "index_CreateInterviewRequest = TIface [
      (''candidateName'', False, TString),
      (''candidateEmail'', False, TString),
      (''position'', False, TString),
      (''scheduledAt'', False, TString),
      (''duration'', False, TNumber),
      (''interviewerIds'', False, (TArray TString)),
      (''tags'', True, (TArray TString))]"

definition index_Evaluation :: ts where
  "index_Evaluation = TIface [
      (''id'', False, TString),
      (''interviewId'', False, TString),
      (''evaluatorId'', False, TString),
      (''evaluatorName'', False, TString),
      (''technicalScore'', False, TNumber),
      (''communicationScore'', False, TNumber),
      (''cultureFitScore'', False, TNumber),
      (''overallScore'', False, TNumber),
      (''strengths'', False, (TArray TString)),
      (''weaknesses'', False, (TArray TString)),
      (''recommendation'', False, (TLits [''strong_hire'', ''hire'', ''maybe'', ''no_hire''])),
      (''notes'', False, TString),
      (''status'', False, index_EvaluationStatus),
      (''createdAt'', False, TString),
      (''updatedAt'', False, TString)]"

definition index_CreateEvaluationRequest :: ts where
  "index_CreateEvaluationRequest = TIface [
      (''interviewId'', False, TString),
      (''technicalScore'', False, TNumber),
      (''communicationScore'', False, TNumber),
      (''cultureFitScore'', False, TNumber),
      (''strengths'', False, (TArray TString)),
      (''weaknesses'', False, (TArray TString)),
      (''recommendation'', False, (TLits [''strong_hire'', ''hire'', ''maybe'', ''no_hire''])),
      (''notes'', False, TString)]"

definition index_Report :: ts where
  "index_Report = TIface [
      (''id'', False, TString),
      (''interviewId'', False, TString),
      (''candidateName'', False, TString),
      (''position'', False, TString),
      (''interviewDate'', False, TString),
      (''evaluationCount'', False, TNumber),
      (''averageTechnical'', False, TNumber),
      (''averageCommunication'', False, TNumber),
      (''averageCultureFit'', False, TNumber),
      (''averageOverall'', False, TNumber),
      (''finalRecommendation'', False, TString),
      (''status'', False, (TLits [''pending'', ''ready'', ''sent''])),
      (''generatedAt'', True, TString),
      (''sentAt'', True, TString),
      (''createdAt'', False, TString),
      (''updatedAt'', False, TString)]"

definition index_GenerateReportRequest :: ts where
  "index_GenerateReportRequest = TIface [
      (''interviewId'', False, TString),
      (''includeNotes'', True, TBoolean)]"

definition index_Notification :: ts where
  "index_Notification = TIface [
      (''id'', False, TString),
      (''userId'', False, TString),
      (''type'', False, (TLits [''interview_scheduled'', ''evaluation_pending'', ''report_ready'', ''reminder''])),
      (''title'', False, TString),
      (''message'', False, TString),
      (''priority'', False, index_Priority),
      (''read'', False, TBoolean),
      (''actionUrl'', True, TString),
      (''createdAt'', False, TString)]"

definition index_QueueMessage :: "ts \<Rightarrow> ts" where
  "index_QueueMessage t = TIface [
      (''id'', False, TString),
      (''queueName'', False, TString),
      (''payload'', False, t),
      (''priority'', False, index_Priority),
      (''scheduledFor'', True, TString),
      (''createdAt'', False, TString),
      (''status'', False, (TLits [''pending'', ''processing'', ''completed'', ''failed''])),
      (''retryCount'', False, TNumber),
      (''maxRetries'', False, TNumber)]"

definition index_ActivityItem :: ts where
  "index_ActivityItem = TIface [
      (''id'', False, TString),
      (''type'', False, (TLits [''interview'', ''evaluation'', ''report''])),
      (''action'', False, TString),
      (''timestamp'', False, TString),
      (''user'', True, TString)]"

definition index_DashboardStats :: ts where
  "index_DashboardStats = TIface [
      (''totalInterviews'', False, TNumber),
      (''pendingEvaluations'', False, TNumber),
      (''completedReports'', False, TNumber),
      (''completedEvaluations'', True, TNumber),
      (''averageEvaluationTime'', False, TNumber),
      (''interviewsByStatus'', False, (TRecord TNumber)),
      (''evaluationsByStatus'', False, (TRecord TNumber)),
      (''recentActivity'', False, (TArray index_ActivityItem))]"

definition index_ApiResponse :: "ts \<Rightarrow> ts" where
  "index_ApiResponse t = TIface [
      (''success'', False, TBoolean),
      (''data'', True, t),
      (''error'', True, TString),
      (''message'', True, TString)]"

definition index_PaginatedResponse :: "ts \<Rightarrow> ts" where
  "index_PaginatedResponse t = TIface [
      (''success'', False, TBoolean),
      (''data'', False, (TArray t)),
      (''pagination'', False, (TIface [(''page'', False, TNumber), (''pageSize'', False, TNumber), (''totalItems'', False, TNumber), (''totalPages'', False, TNumber)]))]"

definition index_InterviewFormData :: ts where
  "index_InterviewFormData = TIface [
      (''candidateName'', False, TString),
      (''candidateEmail'', False, TString),
      (''position'', False, TString),
      (''scheduledAt'', False, TDate),
      (''duration'', False, TNumber),
      (''interviewerIds'', False, (TArray TString)),
      (''tags'', False, (TArray TString))]"

definition index_EvaluationFormData :: ts where
  "index_EvaluationFormData = TIface [
      (''technicalScore'', False, TNumber),
      (''communicationScore'', False, TNumber),
      (''cultureFitScore'', False, TNumber),
      (''strengths'', False, TString),
      (''weaknesses'', False, TString),
      (''recommendation'', False, (TLits [''strong_hire'', ''hire'', ''maybe'', ''no_hire''])),
      (''notes'', False, TString)]"

lemmas api_types_defs =
  api_InterviewStatus_def api_Interview_def api_CreateInterviewRequest_def
  api_EvaluationStatus_def api_Recommendation_def api_Evaluation_def
  api_CreateEvaluationRequest_def api_ReportStatus_def api_Report_def
  api_GenerateReportRequest_def api_ActivityItem_def api_DashboardStats_def
  api_QueueStats_def api_QueueMessage_def api_APIResponse_def
  api_Pagination_def api_PaginatedResponse_def index_InterviewStatus_def
  index_EvaluationStatus_def index_Priority_def index_Interview_def
  index_CreateInterviewRequest_def index_Evaluation_def index_CreateEvaluationRequest_def
  index_Report_def index_GenerateReportRequest_def index_Notification_def
  index_QueueMessage_def index_ActivityItem_def index_DashboardStats_def
  index_ApiResponse_def index_PaginatedResponse_def index_InterviewFormData_def
  index_EvaluationFormData_def

section \<open>How the two modules relate\<close>

lemma iff_by_subtype:
  "subtype t u \<Longrightarrow> subtype u t \<Longrightarrow> has_type t v \<longleftrightarrow> has_type u v"
  using subtype_sound by blast

lemma modules_interchangeable:
  "has_type api_CreateInterviewRequest v \<longleftrightarrow> has_type index_CreateInterviewRequest v"
  "has_type api_Report v \<longleftrightarrow> has_type index_Report v"
  "has_type api_ActivityItem v \<longleftrightarrow> has_type index_ActivityItem v"
  by (rule iff_by_subtype; simp add: api_types_defs)+

definition sample_wire_evaluation :: jsval where
  "sample_wire_evaluation = Obj [
     (''id'', Str ''e1''), (''interviewId'', Str ''i1''), (''evaluatorId'', Str ''u1''),
     (''evaluatorName'', Str ''Jane''), (''evaluatorEmail'', Str ''jane@x.com''),
     (''technicalScore'', js_int 7), (''communicationScore'', js_int 7), (''problemSolvingScore'', js_int 7),
     (''culturalFitScore'', js_int 7), (''overallScore'', js_int 7),
     (''strengths'', Arr []), (''weaknesses'', Arr []), (''recommendation'', Str ''hire''),
     (''comments'', Str []), (''status'', Str ''completed''),
     (''createdAt'', Str ''2025-01-01T00:00:00Z''), (''updatedAt'', Str ''2025-01-01T00:00:00Z'')]"

lemma sample_wire_typed: "has_type api_Evaluation sample_wire_evaluation" "\<not> has_type index_Evaluation sample_wire_evaluation"
  by (simp_all add: api_types_defs sample_wire_evaluation_def field_def)


end
