(* ===== verification/Http_Action.thy ===== *)
theory Http_Action
  imports Api_Types
begin

text \<open>
  Asynchronous code as actions: an action takes the state of the program's contact with the
  outside, and returns a result or an exception with the state after it. \<open>await\<close> is
  sequencing. The combinators are for any state, so that pages can use them with theirs. The backend is a parameter: a function from a request and its own state to an
  axios failure or the body of the response (\<open>response.data\<close>), with its next state.
  Every request sent and every line written to the console is recorded.
\<close>

datatype http_method = GET | POST | PUT

record request =
  req_method :: http_method
  req_url :: string
  req_params :: jsval
  req_body :: jsval
  req_blob :: bool

datatype console_entry = ConsoleError string exn | ConsoleLog string

record 'w io =
  net :: 'w
  sent :: "request list"
  console :: "console_entry list"

type_synonym 'w server = "request \<Rightarrow> 'w \<Rightarrow> (axios_error + jsval) \<times> 'w"
type_synonym ('s, 'a) act = "'s \<Rightarrow> (exn + 'a) \<times> 's"
type_synonym ('w, 'a) action = "('w io, 'a) act"

section \<open>Composing actions\<close>

definition return_a :: "'a \<Rightarrow> ('s, 'a) act" where
  "return_a a s = (Inr a, s)"

definition lift_res :: "exn + 'a \<Rightarrow> ('s, 'a) act" where
  "lift_res r s = (r, s)"

definition await :: "('s, 'a) act \<Rightarrow> ('a \<Rightarrow> ('s, 'b) act) \<Rightarrow> ('s, 'b) act" where
  "await m f s = (case m s of (Inl e, s') \<Rightarrow> (Inl e, s') | (Inr a, s') \<Rightarrow> f a s')"

definition try_catch :: "('s, 'a) act \<Rightarrow> (exn \<Rightarrow> ('s, 'a) act) \<Rightarrow> ('s, 'a) act" where
  "try_catch m h s = (case m s of (Inl e, s') \<Rightarrow> h e s' | (Inr a, s') \<Rightarrow> (Inr a, s'))"

definition console_error :: "string \<Rightarrow> exn \<Rightarrow> ('w, unit) action" where
  "console_error msg e s = (Inr (), s\<lparr>console := console s @ [ConsoleError msg e]\<rparr>)"

definition console_log :: "string \<Rightarrow> ('w, unit) action" where
  "console_log msg s = (Inr (), s\<lparr>console := console s @ [ConsoleLog msg]\<rparr>)"

lemmas action_defs = return_a_def lift_res_def await_def try_catch_def console_error_def
  console_log_def

text \<open>\<open>await Promise.all(xs.map(f))\<close>, one element after the other.\<close>

fun all_of :: "('a \<Rightarrow> ('s, 'b) act) \<Rightarrow> 'a list \<Rightarrow> ('s, 'b list) act" where
  "all_of f [] = return_a []"
| "all_of f (x # xs) = await (f x) (\<lambda>y. await (all_of f xs) (\<lambda>ys. return_a (y # ys)))"

lemma await_Inr:
  "m s = (Inr a, s') \<Longrightarrow> await m f s = f a s'"
  by (simp add: await_def)

lemma await_Inl:
  "m s = (Inl e, s') \<Longrightarrow> await m f s = (Inl e, s')"
  by (simp add: await_def)

lemma try_catch_Inr:
  "m s = (Inr a, s') \<Longrightarrow> try_catch m h s = (Inr a, s')"
  by (simp add: try_catch_def)

lemma all_of_length:
  "all_of f xs s = (Inr ys, s') \<Longrightarrow> length ys = length xs"
  by (induction xs arbitrary: s ys s')
     (auto simp: await_def return_a_def split: prod.splits sum.splits)

text \<open>An action that cannot throw, run over a list: one result per element, in order.\<close>

lemma all_of_total:
  assumes "\<And>x s. \<exists>y s'. f x s = (Inr y, s') \<and> P x y"
  shows "\<exists>ys s'. all_of f xs s = (Inr ys, s') \<and> list_all2 P xs ys"
proof (induction xs arbitrary: s)
  case Nil
  show ?case by (simp add: return_a_def)
next
  case (Cons x xs)
  obtain y s1 where y: "f x s = (Inr y, s1)" "P x y"
    using assms by blast
  obtain ys s2 where ys: "all_of f xs s1 = (Inr ys, s2)" "list_all2 P xs ys"
    using Cons.IH by blast
  from y ys show ?case by (simp add: await_def return_a_def)
qed

lemma all_of_sent:
  assumes "\<And>x s. x \<in> set xs \<Longrightarrow> sent (snd (f x s)) = sent s @ [r x]"
    and "\<And>x s. x \<in> set xs \<Longrightarrow> \<exists>y. fst (f x s) = Inr y"
  shows "sent (snd (all_of f xs s)) = sent s @ map r xs"
  using assms
proof (induction xs arbitrary: s)
  case Nil
  then show ?case by (simp add: return_a_def)
next
  case (Cons x xs)
  obtain y s1 where y: "f x s = (Inr y, s1)"
    using Cons.prems(2) [of x s] by (metis list.set_intros(1) prod.exhaust_sel)
  have s1: "sent s1 = sent s @ [r x]"
    using Cons.prems(1) [of x s] y by simp
  have IH: "sent (snd (all_of f xs s1)) = sent s1 @ map r xs"
    using Cons.prems by (intro Cons.IH) auto
  show ?case
    using y IH s1 by (auto simp: await_def return_a_def split: prod.splits sum.splits)
qed

end
