(* ===== verification/Api_Client.thy ===== *)
theory Api_Client
  imports Http_Action
begin

text \<open>
  \<^verbatim>\<open>lib/api/client.ts\<close>: the shared axios instance with its response interceptor, and the
  methods of \<open>APIClient\<close>. Getters that look up one thing or a plain list swallow every
  exception and return \<open>null\<close> or \<open>[]\<close>; paginated lists, the dashboard and every method that
  changes something let it through.
\<close>

section \<open>The axios instance and its interceptor\<close>

text \<open>
  The interceptor logs one line that tells the three kinds of failure apart and rejects again
  with the same error.
\<close>

definition interceptor_message :: "axios_error \<Rightarrow> string" where
  "interceptor_message e =
     (if err_response e \<noteq> None then ''[API Client] Server error:''
      else if err_request e then ''[API Client] Network error:''
      else ''[API Client] Request setup error:'')"

definition on_rejected :: "axios_error \<Rightarrow> ('w, 'a) action" where
  "on_rejected e s =
     (Inl (AxiosErr e), s\<lparr>console := console s @ [ConsoleError (interceptor_message e) (AxiosErr e)]\<rparr>)"

definition http :: "'w server \<Rightarrow> request \<Rightarrow> ('w, jsval) action" where
  "http srv r s =
     (case srv r (net s) of
        (Inl e, w) \<Rightarrow> on_rejected e (s\<lparr>net := w, sent := sent s @ [r]\<rparr>)
      | (Inr body, w) \<Rightarrow> (Inr body, s\<lparr>net := w, sent := sent s @ [r]\<rparr>))"

definition get_req :: "string \<Rightarrow> request" where
  "get_req url = \<lparr>req_method = GET, req_url = url, req_params = Undef, req_body = Undef, req_blob = False\<rparr>"

definition get_params :: "string \<Rightarrow> jsval \<Rightarrow> request" where
  "get_params url ps = (get_req url)\<lparr>req_params := ps\<rparr>"

definition get_blob :: "string \<Rightarrow> request" where
  "get_blob url = (get_req url)\<lparr>req_blob := True\<rparr>"

definition post_req :: "string \<Rightarrow> jsval \<Rightarrow> request" where
  "post_req url body = (get_req url)\<lparr>req_method := POST, req_body := body\<rparr>"

definition put_req :: "string \<Rightarrow> jsval \<Rightarrow> request" where
  "put_req url body = (get_req url)\<lparr>req_method := PUT, req_body := body\<rparr>"

lemmas request_defs = get_req_def get_params_def get_blob_def post_req_def put_req_def

text \<open>\<open>response.data.data || d\<close>, and the check shared by the methods that change something.\<close>

definition data_or :: "jsval \<Rightarrow> jsval \<Rightarrow> exn + jsval" where
  "data_or body d = bind_res (get_field body ''data'') (\<lambda>x. Inr (js_or x d))"

definition require_data :: "string \<Rightarrow> jsval \<Rightarrow> exn + jsval" where
  "require_data msg body =
     bind_res (get_field body ''success'') (\<lambda>ok.
       if \<not> truthy ok \<or> \<not> truthy (opt_get body ''data'')
       then Inl (Error (js_to_string (js_or (opt_get body ''error'') (Str msg))))
       else Inr (opt_get body ''data''))"

section \<open>Dashboard\<close>

definition empty_stats :: jsval where
  "empty_stats = Obj [
     (''totalInterviews'', js_int 0),
     (''pendingEvaluations'', js_int 0),
     (''completedReports'', js_int 0),
     (''averageEvaluationTime'', js_int 0),
     (''interviewsByStatus'', Obj []),
     (''evaluationsByStatus'', Obj []),
     (''recentActivity'', Arr [])]"

definition getDashboardStats :: "'w server \<Rightarrow> ('w, jsval) action" where
  "getDashboardStats srv =
     await (http srv (get_req ''/api/dashboard/stats'')) (\<lambda>body. lift_res (data_or body empty_stats))"

definition getDashboardActivity :: "'w server \<Rightarrow> ('w, jsval) action" where
  "getDashboardActivity srv =
     await (http srv (get_req ''/api/dashboard/activity'')) (\<lambda>body. lift_res (data_or body (Arr [])))"

section \<open>Interviews\<close>

definition empty_page :: jsval where
  "empty_page = Obj [
     (''success'', Bool True),
     (''data'', Arr []),
     (''pagination'', Obj [
        (''page'', js_int 1), (''pageSize'', js_int 20),
        (''totalItems'', js_int 0), (''totalPages'', js_int 0)])]"

definition listInterviews :: "'w server \<Rightarrow> jsval \<Rightarrow> ('w, jsval) action" where
  "listInterviews srv params =
     await (http srv (get_params ''/api/interviews'' params)) (\<lambda>body. return_a (js_or body empty_page))"

definition getInterview :: "'w server \<Rightarrow> string \<Rightarrow> ('w, jsval) action" where
  "getInterview srv i =
     try_catch
       (await (http srv (get_req (''/api/interviews/'' @ i))) (\<lambda>body. lift_res (data_or body Null)))
       (\<lambda>e. await (console_error ''[API Client] Failed to get interview:'' e) (\<lambda>_. return_a Null))"

definition createInterview :: "'w server \<Rightarrow> jsval \<Rightarrow> ('w, jsval) action" where
  "createInterview srv d =
     await (http srv (post_req ''/api/interviews'' d))
       (\<lambda>body. lift_res (require_data ''Failed to create interview'' body))"

definition updateInterview :: "'w server \<Rightarrow> string \<Rightarrow> jsval \<Rightarrow> ('w, jsval) action" where
  "updateInterview srv i updates =
     await (http srv (put_req (''/api/interviews/'' @ i) updates))
       (\<lambda>body. lift_res (require_data ''Failed to update interview'' body))"

definition cancelInterview :: "'w server \<Rightarrow> string \<Rightarrow> ('w, jsval) action" where
  "cancelInterview srv i =
     await (http srv (post_req (''/api/interviews/'' @ i @ ''/cancel'') Undef))
       (\<lambda>body. lift_res (require_data ''Failed to cancel interview'' body))"

definition startInterview :: "'w server \<Rightarrow> string \<Rightarrow> ('w, jsval) action" where
  "startInterview srv i =
     await (http srv (post_req (''/api/interviews/'' @ i @ ''/start'') Undef))
       (\<lambda>body. lift_res (require_data ''Failed to start interview'' body))"

definition completeInterview :: "'w server \<Rightarrow> string \<Rightarrow> ('w, jsval) action" where
  "completeInterview srv i =
     await (http srv (post_req (''/api/interviews/'' @ i @ ''/complete'') Undef))
       (\<lambda>body. lift_res (require_data ''Failed to complete interview'' body))"

definition getInterviewEvaluations :: "'w server \<Rightarrow> string \<Rightarrow> ('w, jsval) action" where
  "getInterviewEvaluations srv i =
     try_catch
       (await (http srv (get_req (''/api/interviews/'' @ i @ ''/evaluations'')))
          (\<lambda>body. lift_res (data_or body (Arr []))))
       (\<lambda>e. await (console_error ''[API Client] Failed to get interview evaluations:'' e)
          (\<lambda>_. return_a (Arr [])))"

definition getInterviewReport :: "'w server \<Rightarrow> string \<Rightarrow> ('w, jsval) action" where
  "getInterviewReport srv i =
     try_catch
       (await (http srv (get_req (''/api/interviews/'' @ i @ ''/report'')))
          (\<lambda>body. lift_res (data_or body Null)))
       (\<lambda>e. await (console_error ''[API Client] Failed to get interview report:'' e)
          (\<lambda>_. return_a Null))"

section \<open>Evaluations\<close>

definition listEvaluations :: "'w server \<Rightarrow> jsval \<Rightarrow> ('w, jsval) action" where
  "listEvaluations srv params =
     await (http srv (get_params ''/api/evaluations'' params)) (\<lambda>body. return_a (js_or body empty_page))"

definition getEvaluation :: "'w server \<Rightarrow> string \<Rightarrow> ('w, jsval) action" where
  "getEvaluation srv i =
     try_catch
       (await (http srv (get_req (''/api/evaluations/'' @ i))) (\<lambda>body. lift_res (data_or body Null)))
       (\<lambda>e. await (console_error ''[API Client] Failed to get evaluation:'' e) (\<lambda>_. return_a Null))"

definition getPendingEvaluations :: "'w server \<Rightarrow> ('w, jsval) action" where
  "getPendingEvaluations srv =
     try_catch
       (await (http srv (get_req ''/api/evaluations/pending'')) (\<lambda>body. lift_res (data_or body (Arr []))))
       (\<lambda>e. await (console_error ''[API Client] Failed to get pending evaluations:'' e)
          (\<lambda>_. return_a (Arr [])))"

definition createEvaluation :: "'w server \<Rightarrow> jsval \<Rightarrow> ('w, jsval) action" where
  "createEvaluation srv d =
     await (http srv (post_req ''/api/evaluations'' d))
       (\<lambda>body. lift_res (require_data ''Failed to create evaluation'' body))"

definition updateEvaluation :: "'w server \<Rightarrow> string \<Rightarrow> jsval \<Rightarrow> ('w, jsval) action" where
  "updateEvaluation srv i updates =
     await (http srv (put_req (''/api/evaluations/'' @ i) updates))
       (\<lambda>body. lift_res (require_data ''Failed to update evaluation'' body))"

section \<open>Reports\<close>

definition listReports :: "'w server \<Rightarrow> jsval \<Rightarrow> ('w, jsval) action" where
  "listReports srv params =
     await (http srv (get_params ''/api/reports'' params)) (\<lambda>body. return_a (js_or body empty_page))"

definition getReport :: "'w server \<Rightarrow> string \<Rightarrow> ('w, jsval) action" where
  "getReport srv i =
     try_catch
       (await (http srv (get_req (''/api/reports/'' @ i))) (\<lambda>body. lift_res (data_or body Null)))
       (\<lambda>e. await (console_error ''[API Client] Failed to get report:'' e) (\<lambda>_. return_a Null))"

definition generateReport :: "'w server \<Rightarrow> jsval \<Rightarrow> ('w, jsval) action" where
  "generateReport srv d =
     await (http srv (post_req ''/api/reports/generate'' d))
       (\<lambda>body. lift_res (require_data ''Failed to generate report'' body))"

definition sendReport :: "'w server \<Rightarrow> string \<Rightarrow> ('w, jsval) action" where
  "sendReport srv i =
     await (http srv (post_req (''/api/reports/'' @ i @ ''/send'') Undef))
       (\<lambda>body. lift_res (bind_res (get_field body ''success'') (\<lambda>ok.
          if \<not> truthy ok
          then Inl (Error (js_to_string (js_or (opt_get body ''error'') (Str ''Failed to send report''))))
          else Inr Undef)))"

definition downloadReportPDF :: "'w server \<Rightarrow> string \<Rightarrow> ('w, jsval) action" where
  "downloadReportPDF srv i = http srv (get_blob (''/api/reports/'' @ i @ ''/pdf''))"

section \<open>Queue monitoring\<close>

definition listQueues :: "'w server \<Rightarrow> ('w, jsval) action" where
  "listQueues srv =
     try_catch
       (await (http srv (get_req ''/api/queues'')) (\<lambda>body. lift_res (data_or body (Arr []))))
       (\<lambda>e. await (console_error ''[API Client] Failed to list queues:'' e) (\<lambda>_. return_a (Arr [])))"

definition getQueueStats :: "'w server \<Rightarrow> string \<Rightarrow> ('w, jsval) action" where
  "getQueueStats srv name =
     try_catch
       (await (http srv (get_req (''/api/queues/'' @ name @ ''/stats'')))
          (\<lambda>body. lift_res (data_or body Null)))
       (\<lambda>e. await (console_error ''[API Client] Failed to get queue stats:'' e) (\<lambda>_. return_a Null))"

definition getRecentMessages :: "'w server \<Rightarrow> ('w, jsval) action" where
  "getRecentMessages srv =
     try_catch
       (await (http srv (get_req ''/api/queues/messages/recent''))
          (\<lambda>body. lift_res (data_or body (Arr []))))
       (\<lambda>e. await (console_error ''[API Client] Failed to get recent messages:'' e)
          (\<lambda>_. return_a (Arr [])))"

end
