(* ===== verification/Api_Calls.thy ===== *)
theory Api_Calls
  imports Api_Client
begin

text \<open>
  What \<open>APIClient\<close> promises, as a table: for each method the one request it sends, what it makes
  of the answer, and the TypeScript type it declares. The methods of \<^verbatim>\<open>Api_Client\<close> refine the
  table, and the client's properties are properties of the table's few kinds of call.
\<close>

datatype api_call =
    GetDashboardStats
  | GetDashboardActivity
  | ListInterviews jsval
  | GetInterview string
  | CreateInterview jsval
  | UpdateInterview string jsval
  | CancelInterview string
  | StartInterview string
  | CompleteInterview string
  | GetInterviewEvaluations string
  | GetInterviewReport string
  | ListEvaluations jsval
  | GetEvaluation string
  | GetPendingEvaluations
  | CreateEvaluation jsval
  | UpdateEvaluation string jsval
  | ListReports jsval
  | GetReport string
  | GenerateReport jsval
  | SendReport string
  | DownloadReportPDF string
  | ListQueues
  | GetQueueStats string
  | GetRecentMessages

fun perform :: "'w server \<Rightarrow> api_call \<Rightarrow> ('w, jsval) action" where
  "perform srv GetDashboardStats = getDashboardStats srv"
| "perform srv GetDashboardActivity = getDashboardActivity srv"
| "perform srv (ListInterviews p) = listInterviews srv p"
| "perform srv (GetInterview i) = getInterview srv i"
| "perform srv (CreateInterview d) = createInterview srv d"
| "perform srv (UpdateInterview i u) = updateInterview srv i u"
| "perform srv (CancelInterview i) = cancelInterview srv i"
| "perform srv (StartInterview i) = startInterview srv i"
| "perform srv (CompleteInterview i) = completeInterview srv i"
| "perform srv (GetInterviewEvaluations i) = getInterviewEvaluations srv i"
| "perform srv (GetInterviewReport i) = getInterviewReport srv i"
| "perform srv (ListEvaluations p) = listEvaluations srv p"
| "perform srv (GetEvaluation i) = getEvaluation srv i"
| "perform srv GetPendingEvaluations = getPendingEvaluations srv"
| "perform srv (CreateEvaluation d) = createEvaluation srv d"
| "perform srv (UpdateEvaluation i u) = updateEvaluation srv i u"
| "perform srv (ListReports p) = listReports srv p"
| "perform srv (GetReport i) = getReport srv i"
| "perform srv (GenerateReport d) = generateReport srv d"
| "perform srv (SendReport i) = sendReport srv i"
| "perform srv (DownloadReportPDF i) = downloadReportPDF srv i"
| "perform srv ListQueues = listQueues srv"
| "perform srv (GetQueueStats n) = getQueueStats srv n"
| "perform srv GetRecentMessages = getRecentMessages srv"

section \<open>The specification table\<close>

fun request_of :: "api_call \<Rightarrow> request" where
  "request_of GetDashboardStats = get_req ''/api/dashboard/stats''"
| "request_of GetDashboardActivity = get_req ''/api/dashboard/activity''"
| "request_of (ListInterviews p) = get_params ''/api/interviews'' p"
| "request_of (GetInterview i) = get_req (''/api/interviews/'' @ i)"
| "request_of (CreateInterview d) = post_req ''/api/interviews'' d"
| "request_of (UpdateInterview i u) = put_req (''/api/interviews/'' @ i) u"
| "request_of (CancelInterview i) = post_req (''/api/interviews/'' @ i @ ''/cancel'') Undef"
| "request_of (StartInterview i) = post_req (''/api/interviews/'' @ i @ ''/start'') Undef"
| "request_of (CompleteInterview i) = post_req (''/api/interviews/'' @ i @ ''/complete'') Undef"
| "request_of (GetInterviewEvaluations i) = get_req (''/api/interviews/'' @ i @ ''/evaluations'')"
| "request_of (GetInterviewReport i) = get_req (''/api/interviews/'' @ i @ ''/report'')"
| "request_of (ListEvaluations p) = get_params ''/api/evaluations'' p"
| "request_of (GetEvaluation i) = get_req (''/api/evaluations/'' @ i)"
| "request_of GetPendingEvaluations = get_req ''/api/evaluations/pending''"
| "request_of (CreateEvaluation d) = post_req ''/api/evaluations'' d"
| "request_of (UpdateEvaluation i u) = put_req (''/api/evaluations/'' @ i) u"
| "request_of (ListReports p) = get_params ''/api/reports'' p"
| "request_of (GetReport i) = get_req (''/api/reports/'' @ i)"
| "request_of (GenerateReport d) = post_req ''/api/reports/generate'' d"
| "request_of (SendReport i) = post_req (''/api/reports/'' @ i @ ''/send'') Undef"
| "request_of (DownloadReportPDF i) = get_blob (''/api/reports/'' @ i @ ''/pdf'')"
| "request_of ListQueues = get_req ''/api/queues''"
| "request_of (GetQueueStats n) = get_req (''/api/queues/'' @ n @ ''/stats'')"
| "request_of GetRecentMessages = get_req ''/api/queues/messages/recent''"

text \<open>
  The kinds of call: the data or a default; the same with every exception logged and turned into
  the default; the whole page or an empty one; data the server must confirm; a bare
  confirmation; the raw body.
\<close>

datatype call_kind =
    Data_or jsval
  | Soft jsval string
  | Page
  | Checked string
  | Acknowledged string
  | Raw

fun kind_of :: "api_call \<Rightarrow> call_kind" where
  "kind_of GetDashboardStats = Data_or empty_stats"
| "kind_of GetDashboardActivity = Data_or (Arr [])"
| "kind_of (ListInterviews p) = Page"
| "kind_of (GetInterview i) = Soft Null ''[API Client] Failed to get interview:''"
| "kind_of (CreateInterview d) = Checked ''Failed to create interview''"
| "kind_of (UpdateInterview i u) = Checked ''Failed to update interview''"
| "kind_of (CancelInterview i) = Checked ''Failed to cancel interview''"
| "kind_of (StartInterview i) = Checked ''Failed to start interview''"
| "kind_of (CompleteInterview i) = Checked ''Failed to complete interview''"
| "kind_of (GetInterviewEvaluations i) = Soft (Arr []) ''[API Client] Failed to get interview evaluations:''"
| "kind_of (GetInterviewReport i) = Soft Null ''[API Client] Failed to get interview report:''"
| "kind_of (ListEvaluations p) = Page"
| "kind_of (GetEvaluation i) = Soft Null ''[API Client] Failed to get evaluation:''"
| "kind_of GetPendingEvaluations = Soft (Arr []) ''[API Client] Failed to get pending evaluations:''"
| "kind_of (CreateEvaluation d) = Checked ''Failed to create evaluation''"
| "kind_of (UpdateEvaluation i u) = Checked ''Failed to update evaluation''"
| "kind_of (ListReports p) = Page"
| "kind_of (GetReport i) = Soft Null ''[API Client] Failed to get report:''"
| "kind_of (GenerateReport d) = Checked ''Failed to generate report''"
| "kind_of (SendReport i) = Acknowledged ''Failed to send report''"
| "kind_of (DownloadReportPDF i) = Raw"
| "kind_of ListQueues = Soft (Arr []) ''[API Client] Failed to list queues:''"
| "kind_of (GetQueueStats n) = Soft Null ''[API Client] Failed to get queue stats:''"
| "kind_of GetRecentMessages = Soft (Arr []) ''[API Client] Failed to get recent messages:''"

text \<open>What the server's refusal of a call says: its own error text, or the method's.\<close>

definition refusal :: "string \<Rightarrow> jsval \<Rightarrow> exn" where
  "refusal msg body = Error (js_to_string (js_or (opt_get body ''error'') (Str msg)))"

fun on_body :: "call_kind \<Rightarrow> jsval \<Rightarrow> exn + jsval" where
  "on_body (Data_or d) body = data_or body d"
| "on_body (Soft d msg) body = data_or body d"
| "on_body Page body = Inr (js_or body empty_page)"
| "on_body (Checked msg) body =
     bind_res (get_field body ''success'') (\<lambda>ok.
       if truthy ok \<and> truthy (opt_get body ''data'') then Inr (opt_get body ''data'')
       else Inl (refusal msg body))"
| "on_body (Acknowledged msg) body =
     bind_res (get_field body ''success'') (\<lambda>ok. if truthy ok then Inr Undef else Inl (refusal msg body))"
| "on_body Raw body = Inr body"

fun on_failure :: "call_kind \<Rightarrow> exn \<Rightarrow> (exn + jsval) \<times> console_entry list" where
  "on_failure (Soft d msg) e = (Inr d, [ConsoleError msg e])"
| "on_failure k e = (Inl e, [])"

definition call_spec :: "'w server \<Rightarrow> request \<Rightarrow> call_kind \<Rightarrow> ('w, jsval) action" where
  "call_spec srv r k s =
     (case srv r (net s) of
        (Inl e, w) \<Rightarrow>
          (case on_failure k (AxiosErr e) of (res, ls) \<Rightarrow>
             (res, s\<lparr>net := w, sent := sent s @ [r],
                     console := console s @ ConsoleError (interceptor_message e) (AxiosErr e) # ls\<rparr>))
      | (Inr body, w) \<Rightarrow>
          (case on_body k body of
             Inr v \<Rightarrow> (Inr v, s\<lparr>net := w, sent := sent s @ [r]\<rparr>)
           | Inl e \<Rightarrow>
               (case on_failure k e of (res, ls) \<Rightarrow>
                  (res, s\<lparr>net := w, sent := sent s @ [r], console := console s @ ls\<rparr>))))"

lemmas client_method_defs =
  getDashboardStats_def getDashboardActivity_def listInterviews_def getInterview_def
  createInterview_def updateInterview_def cancelInterview_def startInterview_def
  completeInterview_def getInterviewEvaluations_def getInterviewReport_def listEvaluations_def
  getEvaluation_def getPendingEvaluations_def createEvaluation_def updateEvaluation_def
  listReports_def getReport_def generateReport_def sendReport_def downloadReportPDF_def
  listQueues_def getQueueStats_def getRecentMessages_def

section \<open>The shapes of the methods\<close>

lemma http_cases:
  obtains (fail) e w where "srv r (net s) = (Inl e, w)"
      "http srv r s = (Inl (AxiosErr e), s\<lparr>net := w, sent := sent s @ [r],
         console := console s @ [ConsoleError (interceptor_message e) (AxiosErr e)]\<rparr>)"
    | (ok) body w where "srv r (net s) = (Inr body, w)"
      "http srv r s = (Inr body, s\<lparr>net := w, sent := sent s @ [r]\<rparr>)"
  by (cases "srv r (net s)"; cases "fst (srv r (net s))") (auto simp: http_def on_rejected_def)

lemma shape_data_or:
  "await (http srv r) (\<lambda>body. lift_res (data_or body d)) s = call_spec srv r (Data_or d) s"
  by (cases rule: http_cases [of srv r s])
     (auto simp: call_spec_def await_def lift_res_def split: sum.splits)

lemma shape_soft:
  "try_catch (await (http srv r) (\<lambda>body. lift_res (data_or body d)))
     (\<lambda>e. await (console_error msg e) (\<lambda>_. return_a d)) s = call_spec srv r (Soft d msg) s"
  by (cases rule: http_cases [of srv r s])
     (auto simp: call_spec_def action_defs split: sum.splits)

lemma shape_page:
  "await (http srv r) (\<lambda>body. return_a (js_or body empty_page)) s = call_spec srv r Page s"
  by (cases rule: http_cases [of srv r s])
     (auto simp: call_spec_def action_defs split: sum.splits)

lemma require_data_on_body: "require_data msg body = on_body (Checked msg) body"
  by (auto simp: require_data_def refusal_def bind_res_def split: sum.splits)

lemma shape_checked:
  "await (http srv r) (\<lambda>body. lift_res (require_data msg body)) s = call_spec srv r (Checked msg) s"
  unfolding require_data_on_body
  by (cases rule: http_cases [of srv r s])
     (auto simp: call_spec_def action_defs simp del: on_body.simps split: sum.splits)

lemma shape_acknowledged:
  "await (http srv r) (\<lambda>body. lift_res (bind_res (get_field body ''success'') (\<lambda>ok.
      if \<not> truthy ok
      then Inl (Error (js_to_string (js_or (opt_get body ''error'') (Str msg)))) else Inr Undef))) s
   = call_spec srv r (Acknowledged msg) s"
proof -
  have "(bind_res (get_field body ''success'') (\<lambda>ok.
      if \<not> truthy ok
      then Inl (Error (js_to_string (js_or (opt_get body ''error'') (Str msg)))) else Inr Undef))
    = on_body (Acknowledged msg) body" for body
    by (auto simp: refusal_def bind_res_def split: sum.splits)
  then show ?thesis
    by (cases rule: http_cases [of srv r s])
       (auto simp: call_spec_def action_defs simp del: on_body.simps split: sum.splits)
qed

lemma shape_raw: "http srv r s = call_spec srv r Raw s"
  by (cases rule: http_cases [of srv r s]) (auto simp: call_spec_def)

lemmas client_shapes =
  shape_data_or shape_soft shape_page shape_checked shape_acknowledged

lemma perform_spec: "perform srv c s = call_spec srv (request_of c) (kind_of c) s"
  by (cases c) (simp_all add: client_method_defs client_shapes shape_raw)

end
