(* ===== verification/Api_Contract.thy ===== *)
theory Api_Contract
  imports Api_Calls
begin

text \<open>
  What the client promises its callers: one request per call, on a route the backend serves;
  which calls cannot throw; when a call that changes something succeeds; and that every call
  returns a value of the type it declares, provided the server keeps its response types.
\<close>

section \<open>The backend's routes\<close>

datatype segment = Lit string | Param

text \<open>
  The routes mounted under \<^verbatim>\<open>/api\<close> by the backend's \<^verbatim>\<open>main.go\<close>, in its order, each with the
  name of its handler. A parameter matches one non-empty path segment; the first route that
  matches serves the request.
\<close>

definition backend_routes :: "(http_method \<times> segment list \<times> string) list" where
  "backend_routes = [
     (GET, [Lit ''api'', Lit ''events''], ''SSEHandler''),
     (GET, [Lit ''api'', Lit ''dashboard'', Lit ''stats''], ''GetDashboardStats''),
     (GET, [Lit ''api'', Lit ''dashboard'', Lit ''activity''], ''GetDashboardActivity''),
     (GET, [Lit ''api'', Lit ''interviews''], ''ListInterviews''),
     (POST, [Lit ''api'', Lit ''interviews''], ''CreateInterview''),
     (GET, [Lit ''api'', Lit ''interviews'', Param], ''GetInterview''),
     (PUT, [Lit ''api'', Lit ''interviews'', Param], ''UpdateInterview''),
     (POST, [Lit ''api'', Lit ''interviews'', Param, Lit ''cancel''], ''CancelInterview''),
     (POST, [Lit ''api'', Lit ''interviews'', Param, Lit ''start''], ''StartInterview''),
     (POST, [Lit ''api'', Lit ''interviews'', Param, Lit ''complete''], ''CompleteInterview''),
     (GET, [Lit ''api'', Lit ''interviews'', Param, Lit ''evaluations''], ''GetInterviewEvaluations''),
     (GET, [Lit ''api'', Lit ''interviews'', Param, Lit ''report''], ''GetInterviewReport''),
     (GET, [Lit ''api'', Lit ''evaluations''], ''ListEvaluations''),
     (POST, [Lit ''api'', Lit ''evaluations''], ''CreateEvaluation''),
     (GET, [Lit ''api'', Lit ''evaluations'', Lit ''pending''], ''GetPendingEvaluations''),
     (GET, [Lit ''api'', Lit ''evaluations'', Param], ''GetEvaluation''),
     (PUT, [Lit ''api'', Lit ''evaluations'', Param], ''UpdateEvaluation''),
     (GET, [Lit ''api'', Lit ''reports''], ''ListReports''),
     (POST, [Lit ''api'', Lit ''reports'', Lit ''generate''], ''GenerateReport''),
     (GET, [Lit ''api'', Lit ''reports'', Param], ''GetReport''),
     (POST, [Lit ''api'', Lit ''reports'', Param, Lit ''send''], ''SendReport''),
     (GET, [Lit ''api'', Lit ''reports'', Param, Lit ''pdf''], ''DownloadReportPDF''),
     (GET, [Lit ''api'', Lit ''queues''], ''ListQueues''),
     (GET, [Lit ''api'', Lit ''queues'', Param, Lit ''stats''], ''GetQueueStats''),
     (GET, [Lit ''api'', Lit ''queues'', Lit ''messages'', Lit ''recent''], ''GetRecentMessages'')]"

fun segment_matches :: "segment \<Rightarrow> string \<Rightarrow> bool" where
  "segment_matches (Lit l) s = (s = l)"
| "segment_matches Param s = (s \<noteq> [])"

fun path_matches :: "segment list \<Rightarrow> string list \<Rightarrow> bool" where
  "path_matches [] [] = True"
| "path_matches (p # ps) (s # ss) = (segment_matches p s \<and> path_matches ps ss)"
| "path_matches _ _ = False"

fun first_route :: "(http_method \<times> segment list \<times> string) list \<Rightarrow> http_method \<Rightarrow> string list \<Rightarrow> string option" where
  "first_route [] m ss = None"
| "first_route ((m', ps, h) # rs) m ss =
     (if m' = m \<and> path_matches ps ss then Some h else first_route rs m ss)"

definition served_by :: "request \<Rightarrow> string option" where
  "served_by r = first_route backend_routes (req_method r) (tl (js_split CHR ''/'' (req_url r)))"

text \<open>The handler each method of the client is written for.\<close>

fun handler_of :: "api_call \<Rightarrow> string" where
  "handler_of GetDashboardStats = ''GetDashboardStats''"
| "handler_of GetDashboardActivity = ''GetDashboardActivity''"
| "handler_of (ListInterviews p) = ''ListInterviews''"
| "handler_of (GetInterview i) = ''GetInterview''"
| "handler_of (CreateInterview d) = ''CreateInterview''"
| "handler_of (UpdateInterview i u) = ''UpdateInterview''"
| "handler_of (CancelInterview i) = ''CancelInterview''"
| "handler_of (StartInterview i) = ''StartInterview''"
| "handler_of (CompleteInterview i) = ''CompleteInterview''"
| "handler_of (GetInterviewEvaluations i) = ''GetInterviewEvaluations''"
| "handler_of (GetInterviewReport i) = ''GetInterviewReport''"
| "handler_of (ListEvaluations p) = ''ListEvaluations''"
| "handler_of (GetEvaluation i) = ''GetEvaluation''"
| "handler_of GetPendingEvaluations = ''GetPendingEvaluations''"
| "handler_of (CreateEvaluation d) = ''CreateEvaluation''"
| "handler_of (UpdateEvaluation i u) = ''UpdateEvaluation''"
| "handler_of (ListReports p) = ''ListReports''"
| "handler_of (GetReport i) = ''GetReport''"
| "handler_of (GenerateReport d) = ''GenerateReport''"
| "handler_of (SendReport i) = ''SendReport''"
| "handler_of (DownloadReportPDF i) = ''DownloadReportPDF''"
| "handler_of ListQueues = ''ListQueues''"
| "handler_of (GetQueueStats n) = ''GetQueueStats''"
| "handler_of GetRecentMessages = ''GetRecentMessages''"

text \<open>The path parameter of a call, if it has one.\<close>

fun param_of :: "api_call \<Rightarrow> string option" where
  "param_of (GetInterview i) = Some i"
| "param_of (UpdateInterview i u) = Some i"
| "param_of (CancelInterview i) = Some i"
| "param_of (StartInterview i) = Some i"
| "param_of (CompleteInterview i) = Some i"
| "param_of (GetInterviewEvaluations i) = Some i"
| "param_of (GetInterviewReport i) = Some i"
| "param_of (GetEvaluation i) = Some i"
| "param_of (UpdateEvaluation i u) = Some i"
| "param_of (GetReport i) = Some i"
| "param_of (SendReport i) = Some i"
| "param_of (DownloadReportPDF i) = Some i"
| "param_of (GetQueueStats n) = Some n"
| "param_of _ = None"

text \<open>
  Parameters that no URL parser, proxy or router rewrites: not empty, and made of letters,
  digits, \<open>-\<close> and \<open>_\<close>. An evaluation called \<open>pending\<close> cannot be fetched: its URL is that
  of the list of pending evaluations.
\<close>

definition url_safe :: "char \<Rightarrow> bool" where
  "url_safe ch \<longleftrightarrow>
     (let n = (of_char ch :: nat)
      in 48 \<le> n \<and> n \<le> 57 \<or> 65 \<le> n \<and> n \<le> 90 \<or> 97 \<le> n \<and> n \<le> 122 \<or> n = 45 \<or> n = 95)"

definition clean_param :: "api_call \<Rightarrow> bool" where
  "clean_param c \<longleftrightarrow>
     (case param_of c of None \<Rightarrow> True | Some i \<Rightarrow> i \<noteq> [] \<and> list_all url_safe i)
     \<and> c \<noteq> GetEvaluation ''pending''"

lemma url_safe_no_slash: "list_all url_safe i \<Longrightarrow> CHR ''/'' \<notin> set i"
  by (auto simp: list_all_iff url_safe_def)

lemma served_call:
  "clean_param c \<Longrightarrow> served_by (request_of c) = Some (handler_of c)"
  by (cases c)
     (simp_all add: clean_param_def served_by_def request_defs backend_routes_def
        js_split_append js_split_single url_safe_no_slash)

section \<open>The outcomes of a call\<close>

lemma call_spec_sent: "sent (snd (call_spec srv r k s)) = sent s @ [r]"
  by (auto simp: call_spec_def split: prod.splits sum.splits)

lemma call_spec_soft: "\<exists>v. fst (call_spec srv r (Soft d msg) s) = Inr v"
  by (auto simp: call_spec_def split: prod.splits sum.splits)

lemma call_spec_InrE:
  assumes "fst (call_spec srv r k s) = Inr v"
  obtains (answered) body w where "srv r (net s) = (Inr body, w)" "on_body k body = Inr v"
    | (gave_up) msg where "k = Soft v msg"
  using assms by (cases k) (auto simp: call_spec_def split: prod.splits sum.splits)

lemma on_failure_strict: "(\<And>d msg. k \<noteq> Soft d msg) \<Longrightarrow> on_failure k e = (Inl e, [])"
  by (cases k) auto

lemma call_spec_Inl:
  assumes "fst (call_spec srv r k s) = Inl e"
  shows "(\<exists>f w. srv r (net s) = (Inl f, w) \<and> e = AxiosErr f)
       \<or> (\<exists>body w. srv r (net s) = (Inr body, w) \<and> on_body k body = Inl e)"
  using assms by (cases k) (auto simp: call_spec_def split: prod.splits sum.splits)

section \<open>Types of the answers\<close>

text \<open>The body the backend sends for a call, and the result type the method declares.\<close>

fun wire_type :: "api_call \<Rightarrow> ts" where
  "wire_type GetDashboardStats = api_APIResponse api_DashboardStats"
| "wire_type GetDashboardActivity = api_APIResponse TAny"
| "wire_type (ListInterviews p) = api_PaginatedResponse api_Interview"
| "wire_type (GetInterviewEvaluations i) = api_APIResponse (TArray api_Evaluation)"
| "wire_type (GetInterviewReport i) = api_APIResponse api_Report"
| "wire_type (ListEvaluations p) = api_PaginatedResponse api_Evaluation"
| "wire_type (GetEvaluation i) = api_APIResponse api_Evaluation"
| "wire_type GetPendingEvaluations = api_APIResponse (TArray api_Evaluation)"
| "wire_type (CreateEvaluation d) = api_APIResponse api_Evaluation"
| "wire_type (UpdateEvaluation i u) = api_APIResponse api_Evaluation"
| "wire_type (ListReports p) = api_PaginatedResponse api_Report"
| "wire_type (GetReport i) = api_APIResponse api_Report"
| "wire_type (GenerateReport d) = api_APIResponse api_Report"
| "wire_type (SendReport i) = api_APIResponse TAny"
| "wire_type (DownloadReportPDF i) = TAny"
| "wire_type ListQueues = api_APIResponse (TArray api_QueueStats)"
| "wire_type (GetQueueStats n) = api_APIResponse api_QueueStats"
| "wire_type GetRecentMessages = api_APIResponse (TArray api_QueueMessage)"
| "wire_type c = api_APIResponse api_Interview"

fun result_type :: "api_call \<Rightarrow> ts" where
  "result_type GetDashboardStats = api_DashboardStats"
| "result_type GetDashboardActivity = TAny"
| "result_type (ListInterviews p) = api_PaginatedResponse api_Interview"
| "result_type (GetInterview i) = TOr api_Interview TNull"
| "result_type (GetInterviewEvaluations i) = TArray api_Evaluation"
| "result_type (GetInterviewReport i) = TOr api_Report TNull"
| "result_type (ListEvaluations p) = api_PaginatedResponse api_Evaluation"
| "result_type (GetEvaluation i) = TOr api_Evaluation TNull"
| "result_type GetPendingEvaluations = TArray api_Evaluation"
| "result_type (CreateEvaluation d) = api_Evaluation"
| "result_type (UpdateEvaluation i u) = api_Evaluation"
| "result_type (ListReports p) = api_PaginatedResponse api_Report"
| "result_type (GetReport i) = TOr api_Report TNull"
| "result_type (GenerateReport d) = api_Report"
| "result_type (SendReport i) = TVoid"
| "result_type (DownloadReportPDF i) = TAny"
| "result_type ListQueues = TArray api_QueueStats"
| "result_type (GetQueueStats n) = TOr api_QueueStats TNull"
| "result_type GetRecentMessages = TArray api_QueueMessage"
| "result_type c = api_Interview"

text \<open>The server keeps its side of one call's types.\<close>

definition answers_typed :: "'w server \<Rightarrow> api_call \<Rightarrow> bool" where
  "answers_typed srv c \<longleftrightarrow>
     (\<forall>w body w'. srv (request_of c) w = (Inr body, w') \<longrightarrow> has_type (wire_type c) body)"

lemma response_data_typed:
  "has_type (api_APIResponse t) body \<Longrightarrow> truthy (opt_get body ''data'') \<Longrightarrow>
     has_type t (opt_get body ''data'')"
  by (cases body) (auto simp: api_APIResponse_def)

lemma typed_data_or:
  "has_type (api_APIResponse t) body \<Longrightarrow> data_or body d = Inr v \<Longrightarrow> has_type t v \<or> v = d"
  by (auto simp: data_or_def js_or_def bind_res_def get_field_Inr_iff response_data_typed
      split: sum.splits if_splits)

lemma typed_checked:
  "has_type (api_APIResponse t) body \<Longrightarrow> on_body (Checked msg) body = Inr v \<Longrightarrow> has_type t v"
  by (auto simp: bind_res_def response_data_typed split: sum.splits if_splits)

lemma typed_page:
  "has_type (api_PaginatedResponse t) body \<Longrightarrow> on_body Page body = Inr v \<Longrightarrow>
     has_type (api_PaginatedResponse t) v"
  by (cases body) (auto simp: api_PaginatedResponse_def)

lemma typed_acknowledged: "on_body (Acknowledged msg) body = Inr v \<Longrightarrow> v = Undef"
  by (auto simp: bind_res_def split: sum.splits if_splits)

lemma has_type_empty_stats: "has_type api_DashboardStats empty_stats"
  by (simp add: api_types_defs empty_stats_def)

text \<open>Which types the rows of each kind declare.\<close>

lemma row_checked: "kind_of c = Checked msg \<Longrightarrow> wire_type c = api_APIResponse (result_type c)"
  by (cases c) simp_all

lemma row_page:
  "kind_of c = Page \<Longrightarrow> result_type c = wire_type c \<and> (\<exists>t. wire_type c = api_PaginatedResponse t)"
  by (cases c) auto

lemma row_acknowledged: "kind_of c = Acknowledged msg \<Longrightarrow> result_type c = TVoid"
  by (cases c) simp_all

lemma row_raw: "kind_of c = Raw \<Longrightarrow> result_type c = TAny"
  by (cases c) simp_all

lemma row_default:
  "kind_of c = Soft d msg \<or> kind_of c = Data_or d \<Longrightarrow>
     has_type (result_type c) d
     \<and> (\<exists>t. wire_type c = api_APIResponse t \<and> (\<forall>v. has_type t v \<longrightarrow> has_type (result_type c) v))"
proof (cases c)
  case GetDashboardStats
  assume "kind_of c = Soft d msg \<or> kind_of c = Data_or d"
  with GetDashboardStats show ?thesis
    using has_type_empty_stats by auto
qed auto

lemma typed_on_body:
  assumes "has_type (wire_type c) body" "on_body (kind_of c) body = Inr v"
  shows "has_type (result_type c) v"
proof (cases "kind_of c")
  case (Data_or d)
  with assms row_default [of c d] typed_data_or show ?thesis by fastforce
next
  case (Soft d msg)
  with assms row_default [of c d msg] typed_data_or show ?thesis by fastforce
next
  case Page
  with assms row_page [of c] typed_page show ?thesis by metis
next
  case (Checked msg)
  with assms row_checked [of c msg] typed_checked show ?thesis by metis
next
  case (Acknowledged msg)
  with assms(2) typed_acknowledged [of msg body v] row_acknowledged [of c msg] show ?thesis by simp
next
  case Raw
  with row_raw [of c] show ?thesis by simp
qed

lemma typed_default:
  "kind_of c = Soft v msg \<Longrightarrow> has_type (result_type c) v"
  by (cases c) auto

section \<open>Properties of the client\<close>


text \<open>
  C16. A call sends exactly one request, whatever the server does with it, and the backend routes
  that request to the handler the method is meant for. The call's path parameter must be free of
  characters with a meaning in URLs.
\<close>

theorem one_request_to_the_right_handler:
  assumes "clean_param c"
  shows "\<exists>r. sent (snd (perform srv c s)) = sent s @ [r] \<and> served_by r = Some (handler_of c)"
  using served_call [OF assms] by (simp add: perform_spec call_spec_sent)

theorem one_request_to_the_right_handler_witness:
  "\<exists>r. sent (snd (perform (\<lambda>r w. (Inr Null, w)) (CancelInterview ''i-7'') \<lparr>net = (), sent = [], console = []\<rparr>))
       = [r] \<and> served_by r = Some ''CancelInterview''"
proof -
  have "clean_param (CancelInterview ''i-7'')" by code_simp
  from one_request_to_the_right_handler [OF this] show ?thesis
    by (metis append_Nil handler_of.simps(7) io.select_convs(2))
qed

text \<open>
  C34. The lookups that return \<open>null\<close> or an empty list on failure never throw: not when the
  network fails, not when the server answers with an error status, not when the body is
  malformed.
\<close>

theorem lookups_never_throw:
  assumes "kind_of c = Soft d msg"
  shows "\<exists>v. fst (perform srv c s) = Inr v"
  using call_spec_soft by (simp add: perform_spec assms)

theorem lookups_never_throw_witness:
  "\<exists>v. fst (perform (\<lambda>r w. (Inr Null, w)) ListQueues \<lparr>net = (), sent = [], console = []\<rparr>) = Inr v"
  by (rule lookups_never_throw [OF kind_of.simps(22)])



text \<open>
  When a call that changes something fails, the caller gets either axios's own error, or an
  error whose text is the server's \<open>error\<close> field if it has one and the method's own text
  otherwise (a body that is \<open>null\<close> or missing is a \<open>TypeError\<close>).
\<close>

theorem failed_changes_say_why:
  assumes "kind_of c = Checked msg" and "fst (perform srv c s) = Inl e"
  shows "(\<exists>f w. srv (request_of c) (net s) = (Inl f, w) \<and> e = AxiosErr f)
       \<or> (\<exists>body w. srv (request_of c) (net s) = (Inr body, w)
            \<and> (nullish body \<and> (\<exists>m. e = TypeError m)
               \<or> truthy (opt_get body ''error'') \<and> e = Error (js_to_string (opt_get body ''error''))
               \<or> \<not> truthy (opt_get body ''error'') \<and> e = Error msg))"
proof -
  have "\<exists>m. e' = TypeError m" if "get_field body k = Inl e'" for body k e'
    using that by (auto simp: get_field_def split: if_splits)
  moreover have "nullish body" if "get_field body k = Inl e'" for body k e'
    using that by (auto simp: get_field_def split: if_splits)
  ultimately have "on_body (Checked msg) body = Inl e \<Longrightarrow>
      nullish body \<and> (\<exists>m. e = TypeError m)
      \<or> truthy (opt_get body ''error'') \<and> e = Error (js_to_string (opt_get body ''error''))
      \<or> \<not> truthy (opt_get body ''error'') \<and> e = Error msg" for body
    by (auto simp: bind_res_def refusal_def js_or_def split: sum.splits if_splits)
  with call_spec_Inl [OF assms(2) [unfolded perform_spec]] assms(1) show ?thesis
    by metis
qed

theorem failed_changes_say_why_witness:
  "(\<exists>f w. (\<lambda>r w. (Inr (Obj [(''error'', Str ''no'')]), w)) (request_of (StartInterview ''a'')) ()
        = (Inl f, w :: unit) \<and> Error ''no'' = AxiosErr f)
   \<or> (\<exists>body w. (\<lambda>r w. (Inr (Obj [(''error'', Str ''no'')]) :: axios_error + jsval, w))
          (request_of (StartInterview ''a'')) () = (Inr body, w)
        \<and> (nullish body \<and> (\<exists>m. Error ''no'' = TypeError m)
           \<or> truthy (opt_get body ''error'') \<and> Error ''no'' = Error (js_to_string (opt_get body ''error''))
           \<or> \<not> truthy (opt_get body ''error'') \<and> Error ''no'' = Error ''Failed to start interview''))"
proof -
  let ?srv = "\<lambda>r w. (Inr (Obj [(''error'', Str ''no'')]), w) :: (axios_error + jsval) \<times> unit"
  let ?s = "\<lparr>net = (), sent = [], console = []\<rparr>"
  have "fst (perform ?srv (StartInterview ''a'') ?s) = Inl (Error ''no'')"
    by (simp add: perform_spec call_spec_def refusal_def del: perform.simps)
  from failed_changes_say_why [OF kind_of.simps(8) this] show ?thesis by simp
qed

text \<open>
  C17. If the server's answers to a call have the type the backend declares, what the method
  returns has the type the client declares, defaults included.
\<close>

theorem client_results_typed:
  assumes "answers_typed srv c" and "fst (perform srv c s) = Inr v"
  shows "has_type (result_type c) v"
  using assms(2) unfolding perform_spec
proof (cases rule: call_spec_InrE)
  case (answered body w)
  with assms(1) have "has_type (wire_type c) body" unfolding answers_typed_def by blast
  then show ?thesis using answered(2) by (rule typed_on_body)
next
  case (gave_up msg)
  then show ?thesis by (rule typed_default)
qed

theorem client_results_typed_witness: "has_type (result_type (GetInterview ''a'')) Null"
proof -
  let ?srv = "\<lambda>r w. (Inr (Obj [(''success'', Bool False)]), w) :: (axios_error + jsval) \<times> unit"
  let ?s = "\<lparr>net = (), sent = [], console = []\<rparr>"
  have "answers_typed ?srv (GetInterview ''a'')"
    by (simp add: answers_typed_def api_APIResponse_def)
  moreover have "fst (perform ?srv (GetInterview ''a'') ?s) = Inr Null"
    by (simp add: perform_spec call_spec_def data_or_def del: perform.simps)
  ultimately show ?thesis by (rule client_results_typed)
qed

end
