(* ===== verification/Api_Modules.thy ===== *)
theory Api_Modules
  imports Api_Contract
begin

text \<open>
  \<^verbatim>\<open>lib/api/*.ts\<close>: the thin modules the React hooks use, on the same axios instance as
  \<open>APIClient\<close>. Most return the response body as it is. \<open>evaluationsApi.getStats\<close> is the one with
  logic: it fetches two pages, adds the interview to each evaluation, and averages times.
\<close>

section \<open>dashboard.ts, queues.ts, interviews.ts, reports.ts\<close>

definition dashboardApi_getStats :: "'w server \<Rightarrow> ('w, jsval) action" where
  "dashboardApi_getStats srv = http srv (get_req ''/api/dashboard/stats'')"

definition dashboardApi_getActivity :: "'w server \<Rightarrow> jsval \<Rightarrow> ('w, jsval) action" where
  "dashboardApi_getActivity srv limit =
     http srv (get_params ''/api/dashboard/activity'' (Obj [(''limit'', limit)]))"

definition queuesApi_listQueues :: "'w server \<Rightarrow> ('w, jsval) action" where
  "queuesApi_listQueues srv =
     await (http srv (get_req ''/api/queues'')) (\<lambda>body. lift_res (data_or body (Arr [])))"

definition queuesApi_getQueueStats :: "'w server \<Rightarrow> string \<Rightarrow> ('w, jsval) action" where
  "queuesApi_getQueueStats srv name =
     await (http srv (get_req (''/api/queues/'' @ name @ ''/stats'')))
       (\<lambda>body. lift_res (get_field body ''data''))"

definition queuesApi_getRecentMessages :: "'w server \<Rightarrow> ('w, jsval) action" where
  "queuesApi_getRecentMessages srv =
     await (http srv (get_req ''/api/queues/messages/recent'')) (\<lambda>body. lift_res (data_or body (Arr [])))"

definition interviewsApi_getAll :: "'w server \<Rightarrow> jsval \<Rightarrow> ('w, jsval) action" where
  "interviewsApi_getAll srv params = http srv (get_params ''/api/interviews'' params)"

definition interviewsApi_getById :: "'w server \<Rightarrow> string \<Rightarrow> ('w, jsval) action" where
  "interviewsApi_getById srv i = http srv (get_req (''/api/interviews/'' @ i))"

definition interviewsApi_create :: "'w server \<Rightarrow> jsval \<Rightarrow> ('w, jsval) action" where
  "interviewsApi_create srv d = http srv (post_req ''/api/interviews'' d)"

definition interviewsApi_update :: "'w server \<Rightarrow> string \<Rightarrow> jsval \<Rightarrow> ('w, jsval) action" where
  "interviewsApi_update srv i d = http srv (put_req (''/api/interviews/'' @ i) d)"

definition interviewsApi_cancel :: "'w server \<Rightarrow> string \<Rightarrow> ('w, jsval) action" where
  "interviewsApi_cancel srv i = http srv (post_req (''/api/interviews/'' @ i @ ''/cancel'') Undef)"

definition interviewsApi_complete :: "'w server \<Rightarrow> string \<Rightarrow> ('w, jsval) action" where
  "interviewsApi_complete srv i = http srv (post_req (''/api/interviews/'' @ i @ ''/complete'') Undef)"

definition reportsApi_getAll :: "'w server \<Rightarrow> jsval \<Rightarrow> ('w, jsval) action" where
  "reportsApi_getAll srv params = http srv (get_params ''/api/reports'' params)"

definition reportsApi_getById :: "'w server \<Rightarrow> string \<Rightarrow> ('w, jsval) action" where
  "reportsApi_getById srv i = http srv (get_req (''/api/reports/'' @ i))"

definition reportsApi_getByInterview :: "'w server \<Rightarrow> string \<Rightarrow> ('w, jsval) action" where
  "reportsApi_getByInterview srv i = http srv (get_req (''/api/interviews/'' @ i @ ''/report''))"

definition reportsApi_generate :: "'w server \<Rightarrow> jsval \<Rightarrow> ('w, jsval) action" where
  "reportsApi_generate srv d = http srv (post_req ''/api/reports/generate'' d)"

definition reportsApi_send :: "'w server \<Rightarrow> string \<Rightarrow> ('w, jsval) action" where
  "reportsApi_send srv i = http srv (post_req (''/api/reports/'' @ i @ ''/send'') Undef)"

definition reportsApi_downloadPdf :: "'w server \<Rightarrow> string \<Rightarrow> ('w, jsval) action" where
  "reportsApi_downloadPdf srv i = http srv (get_blob (''/api/reports/'' @ i @ ''/pdf''))"

section \<open>evaluations.ts\<close>

definition EvaluationWithInterview :: ts where
  "EvaluationWithInterview = (case index_Evaluation of
     TIface fs \<Rightarrow> TIface (fs @ [
       (''interview'', True, index_Interview),
       (''candidateName'', True, TString),
       (''position'', True, TString),
       (''interviewDate'', True, TString)])
   | t \<Rightarrow> t)"

text \<open>
  \<open>URLSearchParams\<close> writes a value in form encoding: letters, digits and \<open>*-._\<close> stay, a space
  becomes \<open>+\<close>, every other byte of its UTF-8 form becomes \<open>%\<close> and two hexadecimal digits.
\<close>

definition hex_digit :: "nat \<Rightarrow> char" where
  "hex_digit d = (if d < 10 then char_of (48 + d) else char_of (55 + d))"

definition percent :: "nat \<Rightarrow> string" where
  "percent b = [CHR ''%'', hex_digit (b div 16), hex_digit (b mod 16)]"

definition form_encode_char :: "char \<Rightarrow> string" where
  "form_encode_char c =
     (let n = (of_char c :: nat)
      in if 48 \<le> n \<and> n \<le> 57 \<or> 65 \<le> n \<and> n \<le> 90 \<or> 97 \<le> n \<and> n \<le> 122 \<or> n \<in> {42, 45, 46, 95} then [c]
         else if n = 32 then ''+''
         else if n < 128 then percent n
         else percent (192 + n div 64) @ percent (128 + n mod 64))"

definition form_encode :: "string \<Rightarrow> string" where
  "form_encode s = concat (map form_encode_char s)"

definition query_string :: "(string \<times> string) list \<Rightarrow> string" where
  "query_string ps = js_join ''&'' (map (\<lambda>(k, v). form_encode k @ ''='' @ form_encode v) ps)"

definition evaluations_url :: "string option \<Rightarrow> nat \<Rightarrow> nat \<Rightarrow> string" where
  "evaluations_url status page pageSize =
     ''/api/evaluations?'' @ query_string
       ((case status of None \<Rightarrow> [] | Some st \<Rightarrow> if st = [] then [] else [(''status'', st)])
        @ [(''page'', show_nat page), (''pageSize'', show_nat pageSize)])"

definition evaluationsApi_list :: "'w server \<Rightarrow> string option \<Rightarrow> nat \<Rightarrow> nat \<Rightarrow> ('w, jsval) action" where
  "evaluationsApi_list srv status page pageSize = http srv (get_req (evaluations_url status page pageSize))"

definition evaluationsApi_getByInterview :: "'w server \<Rightarrow> string \<Rightarrow> ('w, jsval) action" where
  "evaluationsApi_getByInterview srv i = http srv (get_req (''/api/interviews/'' @ i @ ''/evaluations''))"

definition evaluationsApi_getById :: "'w server \<Rightarrow> string \<Rightarrow> ('w, jsval) action" where
  "evaluationsApi_getById srv i = http srv (get_req (''/api/evaluations/'' @ i))"

definition evaluationsApi_create :: "'w server \<Rightarrow> jsval \<Rightarrow> ('w, jsval) action" where
  "evaluationsApi_create srv d = http srv (post_req ''/api/evaluations'' d)"

definition evaluationsApi_update :: "'w server \<Rightarrow> string \<Rightarrow> jsval \<Rightarrow> ('w, jsval) action" where
  "evaluationsApi_update srv i d = http srv (put_req (''/api/evaluations/'' @ i) d)"

definition evaluationsApi_getPending :: "'w server \<Rightarrow> ('w, jsval) action" where
  "evaluationsApi_getPending srv = http srv (get_req ''/api/evaluations/pending'')"

subsection \<open>getStats\<close>

text \<open>\<open>{...evaluation, k: v, ...}\<close> of a run-time value; only an object has fields to copy.\<close>

fun spread_val :: "jsval \<Rightarrow> obj \<Rightarrow> jsval" where
  "spread_val (Obj kvs) over = Obj (spread kvs over)"
| "spread_val v over = Obj over"

definition with_interview :: "jsval \<Rightarrow> jsval \<Rightarrow> jsval" where
  "with_interview evaluation interview = spread_val evaluation [
     (''interview'', interview),
     (''candidateName'', opt_get interview ''candidateName''),
     (''position'', opt_get interview ''position''),
     (''interviewDate'', opt_get interview ''scheduledAt'')]"

definition enrichEvaluation :: "'w server \<Rightarrow> jsval \<Rightarrow> ('w, jsval) action" where
  "enrichEvaluation srv evaluation =
     try_catch
       (await (lift_res (get_field evaluation ''interviewId'')) (\<lambda>i.
        await (interviewsApi_getById srv (js_to_string i)) (\<lambda>interviewRes.
        await (lift_res (get_field interviewRes ''data'')) (\<lambda>interview.
          if \<not> truthy interview then return_a evaluation
          else return_a (with_interview evaluation interview)))))
       (\<lambda>e. return_a evaluation)"

text \<open>
  \<open>Promise.all\<close> of the two pages: both requests go out; the first failure in the order of the
  array is the one reported. \<open>Promise.all(xs.map(f))\<close> throws when \<open>xs\<close> is not an array.
\<close>

definition both :: "('w, 'a) action \<Rightarrow> ('w, 'b) action \<Rightarrow> ('w, 'a \<times> 'b) action" where
  "both m n s =
     (case m s of (r1, s1) \<Rightarrow> case n s1 of (r2, s2) \<Rightarrow>
        (case r1 of Inl e \<Rightarrow> (Inl e, s2)
         | Inr a \<Rightarrow> (case r2 of Inl e \<Rightarrow> (Inl e, s2) | Inr b \<Rightarrow> (Inr (a, b), s2))))"

definition map_all :: "(jsval \<Rightarrow> ('w, jsval) action) \<Rightarrow> jsval \<Rightarrow> ('w, jsval list) action" where
  "map_all f v =
     (case v of Arr vs \<Rightarrow> all_of f vs | _ \<Rightarrow> lift_res (Inl (TypeError ''map is not a function'')))"

text \<open>
  \<open>new Date(x).getTime()\<close> is a parameter \<open>ms\<close> of the model: the milliseconds a value stands
  for, \<open>NaN\<close> if it is no date.
\<close>

fun sum_times :: "(jsval \<Rightarrow> number) \<Rightarrow> jsval list \<Rightarrow> number \<times> nat \<Rightarrow> exn + number \<times> nat" where
  "sum_times ms [] acc = Inr acc"
| "sum_times ms (e # es) (totalTimeHours, completedCount) =
     bind_res (get_field e ''updatedAt'') (\<lambda>u.
       if truthy u \<and> truthy (opt_get e ''createdAt'')
       then (let diffHours = num_div (num_sub (ms u) (ms (opt_get e ''createdAt''))) (1000 * 60 * 60)
             in sum_times ms es (num_add totalTimeHours diffHours, completedCount + 1))
       else sum_times ms es (totalTimeHours, completedCount))"

definition average_hours :: "number \<times> nat \<Rightarrow> number" where
  "average_hours = (\<lambda>(total, n). if n > 0 then num_div total (of_nat n) else Fin 0)"

definition round1 :: "number \<Rightarrow> number" where
  "round1 x = num_div (math_round (num_mul x 10)) 10"

definition evaluationsApi_getStats :: "'w server \<Rightarrow> (jsval \<Rightarrow> number) \<Rightarrow> ('w, jsval) action" where
  "evaluationsApi_getStats srv ms =
     await (both (evaluationsApi_list srv (Some ''pending'') 1 100)
                 (evaluationsApi_list srv (Some ''completed'') 1 100)) (\<lambda>(pendingRes, completedRes).
     await (lift_res (data_or pendingRes (Arr []))) (\<lambda>pending.
     await (lift_res (data_or completedRes (Arr []))) (\<lambda>completed.
     await (map_all (enrichEvaluation srv) pending) (\<lambda>enrichedPending.
     await (map_all (enrichEvaluation srv) completed) (\<lambda>enrichedCompleted.
     await (lift_res (sum_times ms enrichedCompleted (Fin 0, 0))) (\<lambda>acc.
       return_a (Obj [
         (''pending'', Arr enrichedPending),
         (''completed'', Arr enrichedCompleted),
         (''pendingCount'', js_or (opt_get (opt_get pendingRes ''pagination'') ''totalItems'')
            (js_int (int (length enrichedPending)))),
         (''completedCount'', js_or (opt_get (opt_get completedRes ''pagination'') ''totalItems'')
            (js_int (int (length enrichedCompleted)))),
         (''avgTimeHours'', Num (round1 (average_hours acc)))])))))))"

section \<open>The two styles of client agree where nothing fails\<close>

text \<open>
  \<open>queuesApi.listQueues\<close> and \<open>apiClient.listQueues\<close> send the same request; the first throws
  where the second returns an empty list.
\<close>

lemma queuesApi_shapes:
  "queuesApi_listQueues srv s = call_spec srv (request_of ListQueues) (Data_or (Arr [])) s"
  "queuesApi_getRecentMessages srv s = call_spec srv (request_of GetRecentMessages) (Data_or (Arr [])) s"
  by (simp_all add: queuesApi_listQueues_def queuesApi_getRecentMessages_def shape_data_or)

lemma data_or_versus_soft:
  "fst (call_spec srv r (Soft d msg) s) =
     (case fst (call_spec srv r (Data_or d) s) of Inl e \<Rightarrow> Inr d | Inr v \<Rightarrow> Inr v)"
  by (auto simp: call_spec_def split: prod.splits sum.splits)

end
