(* ===== verification/Eval_Stats.thy ===== *)
theory Eval_Stats
  imports Api_Modules
begin

text \<open>
  \<open>evaluationsApi.getStats\<close>: what the enrichment may change, which requests it costs, that a
  failing interview lookup never fails the whole, and how far the rounded average is from the
  mean.
\<close>

section \<open>Enriching one evaluation\<close>

definition enriched :: "jsval \<Rightarrow> jsval \<Rightarrow> bool" where
  "enriched e y \<longleftrightarrow> y = e \<or> (\<exists>iv. truthy iv \<and> y = with_interview e iv)"

definition added_fields :: "string list" where
  "added_fields = [''interview'', ''candidateName'', ''position'', ''interviewDate'']"

definition interview_req :: "jsval \<Rightarrow> request" where
  "interview_req e = get_req (''/api/interviews/'' @ js_to_string (opt_get e ''interviewId''))"

lemma lift_res_Inr [simp]: "lift_res (Inr a) = return_a a"
  by (simp add: fun_eq_iff action_defs)

lemma await_return [simp]: "await (return_a a) f = f a"
  by (simp add: fun_eq_iff action_defs)

lemma get_field_cases:
  obtains e where "get_field v k = Inl e" "nullish v" | "get_field v k = Inr (opt_get v k)" "\<not> nullish v"
  by (cases "nullish v") (auto simp: get_field_def)

text \<open>Once the evaluation is an object, its interview is looked up with one request.\<close>

lemma enrich_unfold:
  assumes "\<not> nullish e"
  shows "enrichEvaluation srv e s =
    (case http srv (interview_req e) s of
       (Inl _, s') \<Rightarrow> (Inr e, s')
     | (Inr body, s') \<Rightarrow>
         (case get_field body ''data'' of
            Inl _ \<Rightarrow> (Inr e, s')
          | Inr iv \<Rightarrow> (Inr (if truthy iv then with_interview e iv else e), s')))"
  using assms
  by (auto simp: enrichEvaluation_def interviewsApi_getById_def interview_req_def action_defs
      split: prod.splits sum.splits)

lemma enrich_nullish: "nullish e \<Longrightarrow> enrichEvaluation srv e s = (Inr e, s)"
  by (auto simp: enrichEvaluation_def action_defs get_field_def)

lemma enrich_total: "\<exists>y s'. enrichEvaluation srv e s = (Inr y, s') \<and> enriched e y"
proof (cases "nullish e")
  case True
  then show ?thesis by (simp add: enrich_nullish enriched_def)
next
  case False
  then show ?thesis
    by (auto simp: enrich_unfold enriched_def split: prod.splits sum.splits)
qed

lemma http_sent: "sent (snd (http srv r s)) = sent s @ [r]"
  by (cases rule: http_cases [of srv r s]) auto

lemma enrich_sent:
  assumes "\<not> nullish e"
  shows "sent (snd (enrichEvaluation srv e s)) = sent s @ [interview_req e]"
  using http_sent [of srv "interview_req e" s]
  by (auto simp: enrich_unfold [OF assms] split: prod.splits sum.splits)

lemma enriched_field:
  assumes "enriched e y" and "k \<notin> set added_fields"
  shows "opt_get y k = (case e of Obj kvs \<Rightarrow> opt_get e k | _ \<Rightarrow> opt_get y k)"
  using assms
  by (cases e) (auto simp: enriched_def with_interview_def field_spread added_fields_def)

lemma enriched_field_obj:
  "enriched (Obj kvs) y \<Longrightarrow> k \<notin> set added_fields \<Longrightarrow> opt_get y k = field kvs k"
  using enriched_field [of "Obj kvs" y k] by simp

lemma enriched_obj: "enriched (Obj kvs) y \<Longrightarrow> \<exists>kvs'. y = Obj kvs'"
  by (auto simp: enriched_def with_interview_def)

lemma enriched_not_nullish: "enriched e y \<Longrightarrow> \<not> nullish e \<Longrightarrow> \<not> nullish y"
  by (cases e) (auto simp: enriched_def with_interview_def)

lemma enrich_all_total:
  "\<exists>ys s'. all_of (enrichEvaluation srv) es s = (Inr ys, s') \<and> list_all2 enriched es ys"
  by (rule all_of_total) (rule enrich_total)

lemma enrich_all_sent:
  assumes "\<forall>e \<in> set es. \<not> nullish e"
  shows "sent (snd (all_of (enrichEvaluation srv) es s)) = sent s @ map interview_req es"
proof (rule all_of_sent)
  show "\<And>e s. e \<in> set es \<Longrightarrow> sent (snd (enrichEvaluation srv e s)) = sent s @ [interview_req e]"
    using assms enrich_sent by blast
  show "\<And>e s. e \<in> set es \<Longrightarrow> \<exists>y. fst (enrichEvaluation srv e s) = Inr y"
    using enrich_total by (metis fst_conv)
qed

section \<open>The average\<close>

text \<open>An evaluation whose two timestamps are dates \<open>h\<close> hours apart.\<close>

definition timed :: "(jsval \<Rightarrow> number) \<Rightarrow> jsval \<Rightarrow> rat \<Rightarrow> bool" where
  "timed ms e h \<longleftrightarrow>
     (\<exists>kvs b a. e = Obj kvs \<and> truthy (field kvs ''updatedAt'') \<and> truthy (field kvs ''createdAt'')
        \<and> ms (field kvs ''updatedAt'') = Fin b \<and> ms (field kvs ''createdAt'') = Fin a
        \<and> h = (b - a) / (1000 * 60 * 60))"

lemma timed_enriched: "timed ms e h \<Longrightarrow> enriched e y \<Longrightarrow> timed ms y h"
proof -
  assume t: "timed ms e h" and y: "enriched e y"
  then obtain kvs where e: "e = Obj kvs" by (auto simp: timed_def)
  with y obtain kvs' where y': "y = Obj kvs'" using enriched_obj by blast
  have "field kvs' k = field kvs k" if "k \<in> {''updatedAt'', ''createdAt''}" for k
    using enriched_field_obj [of kvs y k] y e y' that by (auto simp: added_fields_def)
  with t e y' show ?thesis by (simp add: timed_def)
qed

lemma sum_times_timed:
  "list_all2 (timed ms) es hs \<Longrightarrow>
     sum_times ms es (Fin t, n) = Inr (Fin (t + sum_list hs), n + length hs)"
proof (induction es hs arbitrary: t n rule: list_all2_induct)
  case Nil
  then show ?case by simp
next
  case (Cons e es h hs)
  obtain kvs b a where e: "e = Obj kvs" "truthy (field kvs ''updatedAt'')"
      "truthy (field kvs ''createdAt'')" "ms (field kvs ''updatedAt'') = Fin b"
      "ms (field kvs ''createdAt'') = Fin a" and h: "h = (b - a) / (1000 * 60 * 60)"
    using Cons.hyps(1) by (auto simp: timed_def)
  have "sum_times ms (e # es) (Fin t, n) = sum_times ms es (Fin (t + h), n + 1)"
    unfolding h by (simp add: e)
  with Cons.IH show ?case by (simp add: add.assoc)
qed

lemma sum_times_total:
  "\<forall>e \<in> set es. \<not> nullish e \<Longrightarrow> \<exists>acc'. sum_times ms es acc = Inr acc'"
  by (induction ms es acc rule: sum_times.induct) (auto simp: Let_def)

lemma round1_Fin: "\<exists>y. round1 (Fin x) = Fin y"
  by (simp only: round1_def num_simps) blast

lemma round1_near: "round1 (Fin x) = Fin y \<Longrightarrow> \<bar>y - x\<bar> \<le> 1 / 20"
proof -
  assume "round1 (Fin x) = Fin y"
  then have y: "y = of_int \<lfloor>x * 10 + 1 / 2\<rfloor> / 10"
    by (simp add: round1_def)
  have "\<bar>of_int \<lfloor>x * 10 + 1 / 2\<rfloor> - x * 10\<bar> \<le> (1 / 2 :: rat)"
    by (rule round_near)
  then have "\<bar>(of_int \<lfloor>x * 10 + 1 / 2\<rfloor> - x * 10) / 10\<bar> \<le> (1 / 20 :: rat)"
    by (simp add: abs_divide)
  then show ?thesis by (simp add: y diff_divide_distrib)
qed

section \<open>getStats as a whole\<close>

abbreviation pending_req :: request where
  "pending_req \<equiv> get_req (evaluations_url (Some ''pending'') 1 100)"

abbreviation completed_req :: request where
  "completed_req \<equiv> get_req (evaluations_url (Some ''completed'') 1 100)"

text \<open>Both pages arrive, with arrays of objects as their data.\<close>

definition pages_arrive :: "'w server \<Rightarrow> 'w \<Rightarrow> jsval list \<Rightarrow> jsval list \<Rightarrow> bool" where
  "pages_arrive srv w ps cs \<longleftrightarrow>
     (\<exists>p c w1 w2. srv pending_req w = (Inr p, w1) \<and> srv completed_req w1 = (Inr c, w2)
        \<and> opt_get p ''data'' = Arr ps \<and> opt_get c ''data'' = Arr cs)
     \<and> (\<forall>e \<in> set (ps @ cs). \<not> nullish e)"

lemma opt_get_some: "opt_get v k = Arr vs \<Longrightarrow> \<not> nullish v"
  by (cases v) auto

lemma getStats_runs:
  assumes "pages_arrive srv (net s) ps cs"
  obtains v ps' cs' acc where
    "fst (evaluationsApi_getStats srv ms s) = Inr v"
    "opt_get v ''pending'' = Arr ps'" "opt_get v ''completed'' = Arr cs'"
    "opt_get v ''avgTimeHours'' = Num (round1 (average_hours acc))"
    "list_all2 enriched ps ps'" "list_all2 enriched cs cs'"
    "sum_times ms cs' (Fin 0, 0) = Inr acc"
    "sent (snd (evaluationsApi_getStats srv ms s))
       = sent s @ [pending_req, completed_req] @ map interview_req (ps @ cs)"
proof -
  obtain p c w1 w2 where srv: "srv pending_req (net s) = (Inr p, w1)" "srv completed_req w1 = (Inr c, w2)"
    and data: "opt_get p ''data'' = Arr ps" "opt_get c ''data'' = Arr cs"
    and nn: "\<forall>e \<in> set ps. \<not> nullish e" "\<forall>e \<in> set cs. \<not> nullish e"
    using assms by (auto simp: pages_arrive_def)
  let ?s2 = "s\<lparr>net := w2, sent := sent s @ [pending_req, completed_req]\<rparr>"
  have both: "both (evaluationsApi_list srv (Some ''pending'') 1 100)
      (evaluationsApi_list srv (Some ''completed'') 1 100) s = (Inr (p, c), ?s2)"
    using srv by (simp add: both_def evaluationsApi_list_def http_def)
  have d: "data_or p (Arr []) = Inr (Arr ps)" "data_or c (Arr []) = Inr (Arr cs)"
    using data opt_get_some by (auto simp: data_or_def)
  obtain ps' s3 where ps': "all_of (enrichEvaluation srv) ps ?s2 = (Inr ps', s3)" "list_all2 enriched ps ps'"
    using enrich_all_total by blast
  obtain cs' s4 where cs': "all_of (enrichEvaluation srv) cs s3 = (Inr cs', s4)" "list_all2 enriched cs cs'"
    using enrich_all_total by blast
  have "\<forall>e \<in> set cs'. \<not> nullish e"
    using cs'(2) nn(2) by (metis enriched_not_nullish in_set_conv_nth list_all2_conv_all_nth)
  then obtain acc where acc: "sum_times ms cs' (Fin 0, 0) = Inr acc"
    using sum_times_total by blast
  have "sent s4 = sent s @ [pending_req, completed_req] @ map interview_req (ps @ cs)"
    using enrich_all_sent [OF nn(1), of srv ?s2] enrich_all_sent [OF nn(2), of srv s3] ps'(1) cs'(1)
    by simp
  then show ?thesis
    using both d ps' cs' acc
    by (intro that) (auto simp: evaluationsApi_getStats_def await_Inr map_all_def return_a_def)
qed


text \<open>A sample server: every answer carries one evaluation that took two hours.\<close>

definition sample_eval :: jsval where
  "sample_eval = Obj [(''interviewId'', Str ''i1''), (''createdAt'', Str ''a''), (''updatedAt'', Str ''b'')]"

definition sample_srv :: "unit server" where
  "sample_srv r w = (Inr (Obj [(''data'', Arr [sample_eval])]), w)"

definition sample_ms :: "jsval \<Rightarrow> number" where
  "sample_ms v = (if v = Str ''b'' then Fin 7200000 else Fin 0)"

lemma sample_pages: "pages_arrive sample_srv () [sample_eval] [sample_eval]"
  by (simp add: pages_arrive_def sample_srv_def sample_eval_def)

lemma sample_timed: "list_all2 (timed sample_ms) [sample_eval] [2]"
  by (simp add: timed_def sample_eval_def sample_ms_def)


text \<open>
  \<open>getStats\<close> costs two requests and one more per evaluation, in this order: the pending page,
  the completed page, then the interview of every pending and of every completed evaluation,
  with repetitions.
\<close>

theorem getStats_requests:
  assumes "pages_arrive srv (net s) ps cs"
  shows "sent (snd (evaluationsApi_getStats srv ms s))
       = sent s @ [pending_req, completed_req] @ map interview_req (ps @ cs)"
  by (rule getStats_runs [OF assms, of ms])

theorem getStats_requests_witness:
  "sent (snd (evaluationsApi_getStats sample_srv sample_ms \<lparr>net = (), sent = [], console = []\<rparr>))
   = [pending_req, completed_req, get_req ''/api/interviews/i1'', get_req ''/api/interviews/i1'']"
proof -
  let ?s = "\<lparr>net = (), sent = [], console = []\<rparr>"
  have "pages_arrive sample_srv (net ?s) [sample_eval] [sample_eval]"
    by (simp add: sample_pages)
  from getStats_requests [OF this, of sample_ms] show ?thesis
    by (simp add: interview_req_def sample_eval_def)
qed

text \<open>
  C22. The average shown is within three minutes (a twentieth of an hour) of the mean time from
  creation to update of the completed evaluations.
\<close>

theorem getStats_average:
  assumes "pages_arrive srv (net s) ps cs" and "list_all2 (timed ms) cs hs" and "hs \<noteq> []"
  shows "\<exists>v a. fst (evaluationsApi_getStats srv ms s) = Inr v
           \<and> opt_get v ''avgTimeHours'' = Num (Fin a)
           \<and> \<bar>a - sum_list hs / of_nat (length hs)\<bar> \<le> 1 / 20"
proof -
  obtain v cs' acc where run: "fst (evaluationsApi_getStats srv ms s) = Inr v"
      "opt_get v ''avgTimeHours'' = Num (round1 (average_hours acc))"
      "list_all2 enriched cs cs'" "sum_times ms cs' (Fin 0, 0) = Inr acc"
    by (rule getStats_runs [OF assms(1), of ms])
  have "list_all2 (timed ms) cs' hs"
    using run(3) assms(2) by (auto simp: list_all2_conv_all_nth) (metis timed_enriched)
  then have "acc = (Fin (sum_list hs), length hs)"
    using run(4) sum_times_timed [of ms cs' hs 0 0] by simp
  with assms(3) have avg: "average_hours acc = Fin (sum_list hs / of_nat (length hs))"
    by (simp add: average_hours_def)
  then obtain a where a: "round1 (average_hours acc) = Fin a"
    using round1_Fin by metis
  with avg have "\<bar>a - sum_list hs / of_nat (length hs)\<bar> \<le> 1 / 20"
    using round1_near by simp
  with run(1,2) a show ?thesis by auto
qed

theorem getStats_average_witness:
  "\<exists>v a. fst (evaluationsApi_getStats sample_srv sample_ms \<lparr>net = (), sent = [], console = []\<rparr>) = Inr v
     \<and> opt_get v ''avgTimeHours'' = Num (Fin a) \<and> \<bar>a - 2\<bar> \<le> 1 / 20"
proof -
  let ?s = "\<lparr>net = (), sent = [], console = []\<rparr>"
  have "pages_arrive sample_srv (net ?s) [sample_eval] [sample_eval]"
    by (simp add: sample_pages)
  from getStats_average [OF this sample_timed] show ?thesis by simp
qed

end
