(* ===== verification/SSE_Hook.thy ===== *)
theory SSE_Hook
  imports Transition
begin

text \<open>
  \<^verbatim>\<open>hooks/useSSE.ts\<close>: the React hook that keeps one \<open>EventSource\<close> open. The state holds the
  hook's refs and React state, and the part of the browser it works with: the event sources ever
  created, numbered in order, each with its \<open>readyState\<close>, and the timers pending, each with its
  delay (every timer of the hook calls \<open>connect\<close>). A step is one call of the hook's code by
  React, by its user or by the browser; the browser delivers an event only to a source that is
  not closed.

  A message is represented by what \<open>JSON.parse\<close> makes of its data (\<open>None\<close> when it throws).
  \<open>options.reconnectDelay\<close> is taken to be the same on every render.
\<close>

datatype ready_state = CONNECTING | OPEN | CLOSED

text \<open>The callbacks of \<open>UseSSEOptions\<close>.\<close>

datatype callback =
    OnEvent
  | OnInterviewCreated
  | OnInterviewScheduled
  | OnInterviewUpdated
  | OnEvaluationCreated
  | OnEvaluationUpdated
  | OnReportGenerated
  | OnNotificationSent

record hook =
  isConnected :: bool
  lastEvent :: jsval
  eventSourceRef :: "nat option"
  reconnectTimeoutRef :: "nat option"
  options :: "callback list"
  reconnectDelay :: nat
  mounted :: bool
  sources :: "ready_state list"
  timers :: "(nat \<times> nat) list"
  next_timer :: nat
  calls :: "(callback \<times> jsval) list"

definition init_hook :: "callback list \<Rightarrow> nat option \<Rightarrow> hook" where
  "init_hook opts delay =
     \<lparr>isConnected = False, lastEvent = Null, eventSourceRef = None, reconnectTimeoutRef = None,
      options = opts,
      reconnectDelay = (case delay of None \<Rightarrow> 3000 | Some d \<Rightarrow> if d = 0 then 3000 else d),
      mounted = False, sources = [], timers = [], next_timer = 1, calls = []\<rparr>"

section \<open>The code of the hook\<close>

definition connect :: "hook \<Rightarrow> hook" where
  "connect s =
     (case eventSourceRef s of
        Some i \<Rightarrow> s
      | None \<Rightarrow> s\<lparr>sources := sources s @ [CONNECTING], eventSourceRef := Some (length (sources s))\<rparr>)"

definition set_timeout :: "nat \<Rightarrow> hook \<Rightarrow> hook" where
  "set_timeout delay s = s\<lparr>timers := timers s @ [(next_timer s, delay)], next_timer := next_timer s + 1\<rparr>"

definition clear_timeout :: "nat \<Rightarrow> hook \<Rightarrow> hook" where
  "clear_timeout t s = s\<lparr>timers := filter (\<lambda>(u, d). u \<noteq> t) (timers s)\<rparr>"

definition onopen :: "hook \<Rightarrow> hook" where
  "onopen s = s\<lparr>isConnected := True\<rparr>"

text \<open>
  The listeners: event type, callback. The listener of \<open>connected\<close> only parses and logs.
\<close>

definition listeners :: "(string \<times> callback) list" where
  "listeners = [
     (''interview_created'', OnInterviewCreated),
     (''interview_scheduled'', OnInterviewScheduled),
     (''interview_updated'', OnInterviewUpdated),
     (''evaluation_created'', OnEvaluationCreated),
     (''evaluation_updated'', OnEvaluationUpdated),
     (''report_generated'', OnReportGenerated),
     (''notification_sent'', OnNotificationSent)]"

text \<open>\<open>optionsRef.current.cb?.(arg)\<close>: the argument is evaluated only if the callback is there.\<close>

definition invoke :: "callback \<Rightarrow> exn + jsval \<Rightarrow> hook \<Rightarrow> hook" where
  "invoke cb arg s =
     (if cb \<in> set (options s)
      then (case arg of Inl e \<Rightarrow> s | Inr v \<Rightarrow> s\<lparr>calls := calls s @ [(cb, v)]\<rparr>)
      else s)"

definition on_event :: "callback \<Rightarrow> jsval option \<Rightarrow> hook \<Rightarrow> hook" where
  "on_event cb parsed s =
     (case parsed of
        None \<Rightarrow> s
      | Some event \<Rightarrow>
          invoke cb (get_field event ''data'') (invoke OnEvent (Inr event) (s\<lparr>lastEvent := event\<rparr>)))"

definition on_message :: "string \<Rightarrow> jsval option \<Rightarrow> hook \<Rightarrow> hook" where
  "on_message ty parsed s =
     (case map_of listeners ty of None \<Rightarrow> s | Some cb \<Rightarrow> on_event cb parsed s)"

text \<open>\<open>onerror\<close>: only a source the browser has closed for good is replaced, after a delay.\<close>

definition onerror :: "nat \<Rightarrow> hook \<Rightarrow> hook" where
  "onerror i s =
     (if sources s ! i = CLOSED
      then (let s1 = s\<lparr>isConnected := False, eventSourceRef := None\<rparr>;
                s2 = set_timeout (reconnectDelay s1) s1
            in s2\<lparr>reconnectTimeoutRef := Some (next_timer s1)\<rparr>)
      else s)"

definition disconnect :: "hook \<Rightarrow> hook" where
  "disconnect s =
     (let s1 = (case reconnectTimeoutRef s of None \<Rightarrow> s | Some t \<Rightarrow> clear_timeout t s);
          s2 = (case eventSourceRef s1 of
                  None \<Rightarrow> s1
                | Some i \<Rightarrow> s1\<lparr>sources := (sources s1)[i := CLOSED], eventSourceRef := None\<rparr>)
      in s2\<lparr>isConnected := False\<rparr>)"

definition reconnect :: "hook \<Rightarrow> hook" where
  "reconnect s = set_timeout 100 (disconnect s)"

lemmas hook_code_defs = connect_def set_timeout_def clear_timeout_def onopen_def on_message_def
  on_event_def invoke_def onerror_def disconnect_def reconnect_def Let_def

section \<open>Steps\<close>

datatype hook_label =
    Mount
  | Unmount
  | Rerender "callback list"
  | Opened nat
  | Message nat string "jsval option"
  | ConnectionLost nat
  | ConnectionFailed nat
  | TimerFires nat
  | Disconnect
  | Reconnect

definition live_sources :: "hook \<Rightarrow> nat set" where
  "live_sources s = {i. i < length (sources s) \<and> sources s ! i \<noteq> CLOSED}"

inductive hook_step :: "hook \<Rightarrow> hook_label \<Rightarrow> hook \<Rightarrow> bool" where
  step_mount: "\<not> mounted s \<Longrightarrow> hook_step s Mount (connect (s\<lparr>mounted := True\<rparr>))"
| step_unmount: "mounted s \<Longrightarrow> hook_step s Unmount (disconnect (s\<lparr>mounted := False\<rparr>))"
| step_rerender: "hook_step s (Rerender opts) (s\<lparr>options := opts\<rparr>)"
| step_opened: "i < length (sources s) \<Longrightarrow> sources s ! i = CONNECTING \<Longrightarrow>
    hook_step s (Opened i) (onopen (s\<lparr>sources := (sources s)[i := OPEN]\<rparr>))"
| step_message: "i < length (sources s) \<Longrightarrow> sources s ! i = OPEN \<Longrightarrow>
    hook_step s (Message i ty parsed) (on_message ty parsed s)"
| step_lost: "i < length (sources s) \<Longrightarrow> sources s ! i = OPEN \<Longrightarrow>
    hook_step s (ConnectionLost i) (onerror i (s\<lparr>sources := (sources s)[i := CONNECTING]\<rparr>))"
| step_failed: "i \<in> live_sources s \<Longrightarrow>
    hook_step s (ConnectionFailed i) (onerror i (s\<lparr>sources := (sources s)[i := CLOSED]\<rparr>))"
| step_timer: "(t, d) \<in> set (timers s) \<Longrightarrow> hook_step s (TimerFires t) (connect (clear_timeout t s))"
| step_disconnect: "hook_step s Disconnect (disconnect s)"
| step_reconnect: "hook_step s Reconnect (reconnect s)"

inductive_simps hook_step_simps [simp]:
  "hook_step s Mount t" "hook_step s Unmount t" "hook_step s (TimerFires u) t"
  "hook_step s (ConnectionFailed i) t" "hook_step s (Message i ty p) t" "hook_step s (Opened i) t"
  "hook_step s Reconnect t" "hook_step s Disconnect t"

section \<open>Invariants\<close>

text \<open>The ref names the one source that is not closed.\<close>

definition hook_inv :: "hook \<Rightarrow> bool" where
  "hook_inv s \<longleftrightarrow> live_sources s = set_option (eventSourceRef s)"

text \<open>
  As long as \<open>reconnect\<close> is not called: a pending timer is the one the ref remembers, there is
  none while a source is open, and after unmounting there is neither.
\<close>

definition tidy :: "hook \<Rightarrow> bool" where
  "tidy s \<longleftrightarrow>
     (\<forall>(t, d) \<in> set (timers s). reconnectTimeoutRef s = Some t)
     \<and> (eventSourceRef s \<noteq> None \<longrightarrow> timers s = [])
     \<and> (\<not> mounted s \<longrightarrow> timers s = [] \<and> eventSourceRef s = None)"

text \<open>As long as \<open>disconnect\<close> is not called by the user: connected or about to connect.\<close>

definition trying :: "hook \<Rightarrow> bool" where
  "trying s \<longleftrightarrow> (mounted s \<longrightarrow> eventSourceRef s \<noteq> None \<or> timers s \<noteq> [])"

lemma disconnect_fields [simp]:
  "eventSourceRef (disconnect s) = None"
  "mounted (disconnect s) = mounted s"
  "isConnected (disconnect s) = False"
  by (auto simp: hook_code_defs split: option.splits)

lemma connect_fields [simp]:
  "timers (connect s) = timers s" "mounted (connect s) = mounted s"
  "reconnectTimeoutRef (connect s) = reconnectTimeoutRef s"
  by (auto simp: connect_def split: option.splits)

lemma on_message_fields [simp]:
  "timers (on_message ty p s) = timers s" "mounted (on_message ty p s) = mounted s"
  "reconnectTimeoutRef (on_message ty p s) = reconnectTimeoutRef s"
  "sources (on_message ty p s) = sources s"
  "eventSourceRef (on_message ty p s) = eventSourceRef s"
  by (auto simp: hook_code_defs split: option.splits sum.splits)

lemma live_sources_append:
  "sources s' = sources s @ [r] \<Longrightarrow> r \<noteq> CLOSED \<Longrightarrow>
     live_sources s' = insert (length (sources s)) (live_sources s)"
  by (auto simp: live_sources_def nth_append)

lemma live_sources_close:
  "sources s' = (sources s)[i := CLOSED] \<Longrightarrow> live_sources s' = live_sources s - {i}"
  by (cases "i < length (sources s)") (auto simp: live_sources_def nth_list_update)

lemma live_sources_keep:
  "sources s' = (sources s)[i := r] \<Longrightarrow> i \<in> live_sources s \<Longrightarrow> r \<noteq> CLOSED \<Longrightarrow>
     live_sources s' = live_sources s"
  by (auto simp: live_sources_def nth_list_update)

lemma live_sources_frame: "sources s' = sources s \<Longrightarrow> live_sources s' = live_sources s"
  by (simp add: live_sources_def)

lemma live_sources_length: "i \<in> live_sources s \<Longrightarrow> i < length (sources s)"
  by (simp add: live_sources_def)

lemma live_sourcesI: "i < length (sources s) \<Longrightarrow> sources s ! i \<noteq> CLOSED \<Longrightarrow> i \<in> live_sources s"
  by (simp add: live_sources_def)

lemma connect_sources:
  "sources (connect s) = sources s @ (if eventSourceRef s = None then [CONNECTING] else [])"
  "eventSourceRef (connect s) =
     (if eventSourceRef s = None then Some (length (sources s)) else eventSourceRef s)"
  by (auto simp: connect_def split: option.splits)

lemma disconnect_sources:
  "sources (disconnect s) =
     (case eventSourceRef s of None \<Rightarrow> sources s | Some i \<Rightarrow> (sources s)[i := CLOSED])"
  by (auto simp: hook_code_defs split: option.splits)

lemma disconnect_timers:
  "timers (disconnect s) =
     (case reconnectTimeoutRef s of None \<Rightarrow> timers s | Some t \<Rightarrow> filter (\<lambda>(u, d). u \<noteq> t) (timers s))"
  "reconnectTimeoutRef (disconnect s) = reconnectTimeoutRef s"
  by (auto simp: hook_code_defs split: option.splits)

lemma hook_inv_frame:
  "hook_inv s \<Longrightarrow> sources s' = sources s \<Longrightarrow> eventSourceRef s' = eventSourceRef s \<Longrightarrow> hook_inv s'"
  by (simp add: hook_inv_def live_sources_frame [of s' s])

lemma hook_inv_connect:
  assumes "hook_inv s"
  shows "hook_inv (connect s)"
proof (cases "eventSourceRef s")
  case None
  then have "live_sources (connect s) = insert (length (sources s)) (live_sources s)"
    using live_sources_append [of "connect s" s CONNECTING] by (simp add: connect_sources)
  with assms None show ?thesis by (simp add: hook_inv_def connect_sources)
next
  case (Some i)
  then show ?thesis using assms by (simp add: connect_def)
qed

lemma hook_inv_disconnect:
  assumes "hook_inv s"
  shows "hook_inv (disconnect s)"
proof (cases "eventSourceRef s")
  case None
  with assms show ?thesis
    by (intro hook_inv_frame [OF assms]) (simp_all add: disconnect_sources)
next
  case (Some i)
  then have "live_sources (disconnect s) = live_sources s - {i}"
    by (intro live_sources_close) (simp add: disconnect_sources)
  with assms Some show ?thesis by (simp add: hook_inv_def)
qed

lemma hook_inv_keep:
  "hook_inv s \<Longrightarrow> i \<in> live_sources s \<Longrightarrow> r \<noteq> CLOSED \<Longrightarrow> sources s' = (sources s)[i := r] \<Longrightarrow>
     eventSourceRef s' = eventSourceRef s \<Longrightarrow> hook_inv s'"
  using live_sources_keep [of s' s i r] by (simp add: hook_inv_def)

lemma onerror_closed:
  assumes "i < length (sources s)"
  shows "onerror i (s\<lparr>sources := (sources s)[i := CLOSED]\<rparr>) =
    s\<lparr>isConnected := False, eventSourceRef := None, reconnectTimeoutRef := Some (next_timer s),
      sources := (sources s)[i := CLOSED],
      timers := timers s @ [(next_timer s, reconnectDelay s)], next_timer := next_timer s + 1\<rparr>"
  using assms by (simp add: onerror_def set_timeout_def Let_def)

lemma onerror_retrying:
  assumes "i < length (sources s)"
  shows "onerror i (s\<lparr>sources := (sources s)[i := CONNECTING]\<rparr>) = s\<lparr>sources := (sources s)[i := CONNECTING]\<rparr>"
  using assms by (simp add: onerror_def)

lemma hook_inv_step: "hook_step s l t \<Longrightarrow> hook_inv s \<Longrightarrow> hook_inv t"
proof (induction rule: hook_step.induct)
  case (step_mount s)
  show ?case by (rule hook_inv_connect [OF hook_inv_frame [OF step_mount.prems]]) simp_all
next
  case (step_unmount s)
  show ?case by (rule hook_inv_disconnect [OF hook_inv_frame [OF step_unmount.prems]]) simp_all
next
  case (step_opened i s)
  then have "i \<in> live_sources s" by (intro live_sourcesI) simp_all
  then show ?case
    by (rule hook_inv_keep [OF step_opened.prems, of i OPEN]) (simp_all add: onopen_def)
next
  case (step_lost i s)
  then have live: "i \<in> live_sources s" by (intro live_sourcesI) simp_all
  show ?case
    by (rule hook_inv_keep [OF step_lost.prems live, of CONNECTING])
       (simp_all add: onerror_retrying step_lost.hyps)
next
  case (step_failed i s)
  let ?t = "onerror i (s\<lparr>sources := (sources s)[i := CLOSED]\<rparr>)"
  note t = onerror_closed [OF live_sources_length [OF step_failed.hyps]]
  have "live_sources ?t = live_sources s - {i}"
    by (rule live_sources_close) (simp add: t)
  moreover have "eventSourceRef s = Some i"
    using step_failed by (simp add: hook_inv_def elem_set)
  ultimately show ?case
    using step_failed.prems by (simp add: hook_inv_def t)
next
  case (step_timer t d s)
  show ?case by (rule hook_inv_connect [OF hook_inv_frame [OF step_timer.prems]]) (simp_all add: clear_timeout_def)
next
  case (step_reconnect s)
  show ?case
    by (rule hook_inv_frame [OF hook_inv_disconnect [OF step_reconnect.prems]]) (simp_all add: reconnect_def set_timeout_def)
next
  case (step_disconnect s)
  show ?case by (rule hook_inv_disconnect [OF step_disconnect.prems])
next
  case (step_rerender s opts)
  show ?case by (rule hook_inv_frame [OF step_rerender.prems]) simp_all
next
  case (step_message i s ty parsed)
  then show ?case by (intro hook_inv_frame [OF step_message.prems]) simp_all
qed

end
