(* ===== verification/SSE_Lifecycle.thy ===== *)
theory SSE_Lifecycle
  imports SSE_Hook
begin

text \<open>
  The life cycle of the SSE hook: its step relation instantiates the invariant interfaces of
  \<^verbatim>\<open>Transition\<close>, and the properties say that it never holds two connections, that it cleans up on
  unmount unless \<open>reconnect\<close> was called, that it never gives up while mounted, and what one
  server event does.
\<close>

definition hook_initial :: "hook \<Rightarrow> bool" where
  "hook_initial s \<longleftrightarrow> (\<exists>opts delay. s = init_hook opts delay)"

lemma hook_initialI [simp, intro]: "hook_initial (init_hook opts delay)"
  by (auto simp: hook_initial_def)

lemma hook_inv_initial: "hook_initial s \<Longrightarrow> hook_inv s"
  by (auto simp: hook_initial_def init_hook_def hook_inv_def live_sources_def)

lemma tidy_initial: "hook_initial s \<Longrightarrow> tidy s"
  by (auto simp: hook_initial_def init_hook_def tidy_def)

lemma trying_initial: "hook_initial s \<Longrightarrow> trying s"
  by (auto simp: hook_initial_def init_hook_def trying_def)

section \<open>Preservation of the two conditional invariants\<close>

lemma tidy_timers_cleared:
  "tidy s \<Longrightarrow> timers (disconnect s) = []"
proof (cases "reconnectTimeoutRef s")
  case None
  moreover assume "tidy s"
  ultimately show ?thesis
    by (cases "timers s") (auto simp: tidy_def disconnect_timers)
qed (auto simp: tidy_def disconnect_timers filter_empty_conv)

lemma tidy_connect:
  "timers s = [] \<Longrightarrow> mounted s \<Longrightarrow> tidy (connect s)"
  by (auto simp: tidy_def)

lemma tidy_frame:
  "tidy s \<Longrightarrow> timers s' = timers s \<Longrightarrow> eventSourceRef s' = eventSourceRef s \<Longrightarrow> mounted s' = mounted s \<Longrightarrow>
     reconnectTimeoutRef s' = reconnectTimeoutRef s \<Longrightarrow> tidy s'"
  by (simp add: tidy_def)

lemma tidy_disconnected:
  "timers s = [] \<Longrightarrow> eventSourceRef s = None \<Longrightarrow> tidy s"
  by (simp add: tidy_def)

lemma tidy_step:
  "hook_step s l t \<Longrightarrow> l \<noteq> Reconnect \<Longrightarrow> hook_inv s \<Longrightarrow> tidy s \<Longrightarrow> tidy t"
proof (induction rule: hook_step.induct)
  case (step_mount s)
  then show ?case by (intro tidy_connect) (simp_all add: tidy_def)
next
  case (step_unmount s)
  have "timers (disconnect (s\<lparr>mounted := False\<rparr>)) = timers (disconnect s)"
    by (simp add: disconnect_timers split: option.splits)
  with step_unmount show ?case
    by (intro tidy_disconnected) (simp_all add: tidy_timers_cleared)
next
  case (step_opened i s)
  then show ?case by (intro tidy_frame [OF step_opened.prems(3)]) (simp_all add: onopen_def)
next
  case (step_lost i s)
  then show ?case by (intro tidy_frame [OF step_lost.prems(3)]) (simp_all add: onerror_retrying)
next
  case (step_failed i s)
  have "eventSourceRef s = Some i"
    using step_failed.hyps step_failed.prems(2) by (simp add: hook_inv_def elem_set)
  with step_failed show ?case
    by (auto simp: tidy_def onerror_closed live_sources_length)
next
  case (step_timer t d s)
  from step_timer have only: "\<forall>(u, e) \<in> set (timers s). reconnectTimeoutRef s = Some u"
    by (simp add: tidy_def)
  with step_timer.hyps have "reconnectTimeoutRef s = Some t" by auto
  with only have "\<forall>(u, e) \<in> set (timers s). u = t" by auto
  then have "timers (clear_timeout t s) = []"
    by (auto simp: clear_timeout_def filter_empty_conv)
  moreover have "mounted s"
    using step_timer by (auto simp: tidy_def)
  ultimately show ?case by (intro tidy_connect) (simp_all add: clear_timeout_def)
next
  case (step_disconnect s)
  then show ?case by (intro tidy_disconnected) (simp_all add: tidy_timers_cleared)
next
  case (step_rerender s opts)
  then show ?case by (intro tidy_frame [OF step_rerender.prems(3)]) simp_all
next
  case (step_message i s ty parsed)
  then show ?case by (intro tidy_frame [OF step_message.prems(3)]) simp_all
qed simp

lemma trying_step:
  "hook_step s l t \<Longrightarrow> l \<noteq> Disconnect \<Longrightarrow> hook_inv s \<Longrightarrow> trying s \<Longrightarrow> trying t"
proof (induction rule: hook_step.induct)
  case (step_failed i s)
  then show ?case by (simp add: trying_def onerror_closed live_sources_length)
qed (simp_all add: trying_def connect_sources onerror_retrying onopen_def reconnect_def set_timeout_def)

interpretation sse: invariant_system hook_initial hook_step hook_inv
  by unfold_locales (auto intro: hook_inv_initial hook_inv_step)

interpretation sse_tidy: guarded_system hook_initial hook_step hook_inv "\<lambda>l. l \<noteq> Reconnect" tidy
  by unfold_locales (auto intro: tidy_initial tidy_step)

interpretation sse_trying: guarded_system hook_initial hook_step hook_inv "\<lambda>l. l \<noteq> Disconnect" trying
  by unfold_locales (auto intro: trying_initial trying_step)

section \<open>The hook as a machine of four states\<close>

text \<open>
  What the hook promises: a connection while mounted, a wait between a failed connection and the next,
  and nothing after \<open>disconnect\<close> until it is mounted again.
\<close>

datatype link = Unmounted | Online | Waiting | Stopped

fun link_machine :: "hook_label \<Rightarrow> link \<Rightarrow> link" where
  "link_machine Mount _ = Online"
| "link_machine Unmount _ = Unmounted"
| "link_machine (ConnectionFailed _) _ = Waiting"
| "link_machine (TimerFires _) _ = Online"
| "link_machine Disconnect l = (if l = Unmounted then Unmounted else Stopped)"
| "link_machine _ l = l"

definition link_of :: "hook \<Rightarrow> link" where
  "link_of s =
     (if list_ex (\<lambda>r. r \<noteq> CLOSED) (sources s) then Online
      else if timers s \<noteq> [] then Waiting
      else if mounted s then Stopped else Unmounted)"

lemma link_of_inv:
  assumes "hook_inv s"
  shows "link_of s = (if eventSourceRef s \<noteq> None then Online else if timers s \<noteq> [] then Waiting
     else if mounted s then Stopped else Unmounted)"
proof -
  have "list_ex (\<lambda>r. r \<noteq> CLOSED) (sources s) \<longleftrightarrow> live_sources s \<noteq> {}"
    unfolding list_ex_iff live_sources_def by (metis (mono_tags, lifting) Collect_empty_eq in_set_conv_nth)
  also have "\<dots> \<longleftrightarrow> eventSourceRef s \<noteq> None"
    using assms by (auto simp: hook_inv_def)
  finally show ?thesis by (simp add: link_of_def)
qed

lemma link_step:
  assumes "hook_step s l t" and "l \<noteq> Reconnect" and "hook_inv s" and "tidy s"
  shows "link_of t = link_machine l (link_of s)"
proof -
  have "hook_inv t" using assms(1,3) by (rule hook_inv_step)
  note simps = link_of_inv [OF assms(3)] link_of_inv [OF this]
  from assms show ?thesis unfolding simps
  proof (induction rule: hook_step.induct)
    case (step_unmount s)
    have "timers (disconnect (s\<lparr>mounted := False\<rparr>)) = timers (disconnect s)"
      by (simp add: disconnect_timers split: option.splits)
    with step_unmount show ?case by (simp add: tidy_timers_cleared)
  next
    case (step_failed i s)
    then show ?case by (simp add: onerror_closed live_sources_length)
  next
    case (step_disconnect s)
    then show ?case by (auto simp: tidy_timers_cleared tidy_def)
  next
    case (step_lost i s)
    then show ?case by (simp add: onerror_retrying)
  qed (simp_all add: connect_sources onopen_def)
qed

interpretation sse_link: refining_system hook_initial hook_step hook_inv "\<lambda>l. l \<noteq> Reconnect" tidy
    link_of link_machine
  by unfold_locales (rule link_step)

section \<open>Properties\<close>

text \<open>
  C2. Whatever React, the user of the hook and the network do, at most one connection is open,
  and it is the one the hook can close.
\<close>

theorem one_connection:
  assumes "execution hook_step (init_hook opts delay) ls s"
    and "i \<in> live_sources s" and "j \<in> live_sources s"
  shows "i = j \<and> eventSourceRef s = Some i"
proof -
  have "hook_inv s"
    using sse.reachable_inv [OF assms(1)] by simp
  with assms(2,3) show ?thesis by (auto simp: hook_inv_def elem_set)
qed

lemma on_event_object:
  "on_event cb (Some (Obj kvs)) s =
     s\<lparr>lastEvent := Obj kvs,
       calls := calls s @ filter (\<lambda>(c, v). c \<in> set (options s)) [(OnEvent, Obj kvs), (cb, field kvs ''data'')]\<rparr>"
  by (simp add: on_event_def invoke_def)

lemma live_sources_closed:
  assumes "set (sources s) \<subseteq> {CLOSED}"
  shows "live_sources s = {}"
proof -
  have "sources s ! i = CLOSED" if "i < length (sources s)" for i
    using assms nth_mem [OF that] by blast
  then show ?thesis by (auto simp: live_sources_def)
qed

definition after_mount :: hook where
  "after_mount = connect ((init_hook [] None)\<lparr>mounted := True\<rparr>)"

lemma exec_mount: "execution hook_step (init_hook [] None) [Mount] after_mount"
  by (rule execution_single) (simp add: after_mount_def init_hook_def)

theorem one_connection_witness:
  "(0::nat) = 0 \<and> eventSourceRef after_mount = Some 0"
proof -
  have "0 \<in> live_sources after_mount"
    by (simp add: after_mount_def init_hook_def connect_def live_sources_def)
  from one_connection [OF exec_mount this this] show ?thesis by simp
qed

text \<open>
  C6. Unmounting cleans up: if \<open>reconnect\<close> was never called, an unmounted hook has no open
  connection and no pending timer, so nothing can ever open one again.
\<close>

theorem unmount_cleans_up:
  assumes "execution hook_step (init_hook opts delay) ls s"
    and "list_all (\<lambda>l. l \<noteq> Reconnect) ls" and "\<not> mounted s"
  shows "live_sources s = {} \<and> timers s = []"
proof -
  have "tidy s"
    using sse_tidy.reachable_ginv [OF assms(1) _ assms(2)] by simp
  moreover have "hook_inv s"
    using sse.reachable_inv [OF assms(1)] by simp
  ultimately show ?thesis using assms(3) by (simp add: tidy_def hook_inv_def)
qed

theorem unmount_cleans_up_witness:
  "live_sources (disconnect (after_mount\<lparr>mounted := False\<rparr>)) = {}
   \<and> timers (disconnect (after_mount\<lparr>mounted := False\<rparr>)) = []"
proof -
  let ?s = "disconnect (after_mount\<lparr>mounted := False\<rparr>)"
  have "execution hook_step (init_hook [] None) ([Mount] @ [Unmount]) ?s"
    by (rule exec_snoc [OF exec_mount]) (simp add: after_mount_def)
  moreover have "list_all (\<lambda>l. l \<noteq> Reconnect) ([Mount] @ [Unmount])" "\<not> mounted ?s"
    by simp_all
  ultimately show ?thesis by (rule unmount_cleans_up)
qed

text \<open>
  Without that condition it is false: the timer \<open>reconnect\<close> starts is not remembered, so it
  survives unmounting and opens a connection that no code of the hook will close.
\<close>

theorem reconnect_leaks_after_unmount:
  "\<exists>s. execution hook_step (init_hook [] None) [Mount, Reconnect, Unmount, TimerFires 1] s
     \<and> \<not> mounted s \<and> live_sources s = {1} \<and> timers s = []"
proof -
  let ?s1 = "after_mount" and ?s2 = "reconnect after_mount"
  let ?s3 = "disconnect (?s2\<lparr>mounted := False\<rparr>)"
  let ?s4 = "connect (clear_timeout 1 ?s3)"
  have m: "mounted after_mount"
    by (simp add: after_mount_def)
  have "hook_step ?s1 Reconnect ?s2" by simp
  moreover have "hook_step ?s2 Unmount ?s3" using m by (simp add: reconnect_def set_timeout_def)
  moreover have "(1, 100) \<in> set (timers ?s3)" by code_simp
  then have "hook_step ?s3 (TimerFires 1) ?s4" by auto
  moreover have "hook_step (init_hook [] None) Mount ?s1"
    by (simp add: after_mount_def init_hook_def)
  ultimately have "execution hook_step (init_hook [] None) [Mount, Reconnect, Unmount, TimerFires 1] ?s4"
    by (intro execution_cons [of hook_step] execution_single) (assumption | simp)+
  moreover have "\<not> mounted ?s4" "timers ?s4 = []" "sources ?s4 = [CLOSED, CONNECTING]" by code_simp+
  moreover from this(3) have "live_sources ?s4 = {1}"
    by (auto simp: live_sources_def less_Suc_eq)
  ultimately show ?thesis by blast
qed

text \<open>
  C5. A mounted hook never gives up: unless its user called \<open>disconnect\<close>, it has an open
  connection, or a pending timer, and whichever pending timer fires next gives it one.
\<close>

theorem never_gives_up:
  assumes "execution hook_step (init_hook opts delay) ls s"
    and "list_all (\<lambda>l. l \<noteq> Disconnect) ls" and "mounted s" and "live_sources s = {}"
  shows "timers s \<noteq> [] \<and> (\<forall>t s'. hook_step s (TimerFires t) s' \<longrightarrow> live_sources s' \<noteq> {})"
proof -
  have inv: "hook_inv s"
    using sse.reachable_inv [OF assms(1)] by simp
  with assms(4) have ref: "eventSourceRef s = None"
    by (cases "eventSourceRef s") (simp_all add: hook_inv_def)
  have "trying s"
    using sse_trying.reachable_ginv [OF assms(1) _ assms(2)] by simp
  with assms(3) ref have "timers s \<noteq> []" by (simp add: trying_def)
  moreover have "live_sources s' \<noteq> {}" if "hook_step s (TimerFires t) s'" for t s'
  proof -
    from that have s': "s' = connect (clear_timeout t s)" by auto
    have "hook_inv s'" using that inv by (rule hook_inv_step)
    moreover have "eventSourceRef s' \<noteq> None" by (simp add: s' connect_sources)
    ultimately show ?thesis by (auto simp: hook_inv_def)
  qed
  ultimately show ?thesis by blast
qed

theorem never_gives_up_witness:
  "timers (onerror 0 (after_mount\<lparr>sources := [CLOSED]\<rparr>)) \<noteq> []"
proof -
  let ?s = "onerror 0 (after_mount\<lparr>sources := [CLOSED]\<rparr>)"
  have src: "sources after_mount = [CONNECTING]" by code_simp
  have "hook_step after_mount (ConnectionFailed 0) ?s"
    by (simp add: src live_sources_def)
  with exec_mount have "execution hook_step (init_hook [] None) ([Mount] @ [ConnectionFailed 0]) ?s"
    by (rule exec_snoc)
  moreover have "list_all (\<lambda>l. l \<noteq> Disconnect) ([Mount] @ [ConnectionFailed 0])" by simp
  moreover have "mounted ?s" by code_simp
  moreover have "sources ?s = [CLOSED]" by code_simp
  then have "live_sources ?s = {}" by (intro live_sources_closed) simp
  ultimately show ?thesis using never_gives_up by blast
qed

text \<open>
  A server event of a known type whose data parses to an object is stored as the last event
  and handed first to \<open>onEvent\<close> (whole) and then to the callback of its type (its \<open>data\<close>), to
  those of the two that are given; nothing else changes. An event whose data does not parse, and
  an event of another type, change nothing.
\<close>

theorem event_dispatch:
  assumes "hook_step s (Message i ty parsed) t"
  shows "t = (case (map_of listeners ty, parsed) of
      (Some cb, Some (Obj kvs)) \<Rightarrow>
        s\<lparr>lastEvent := Obj kvs,
          calls := calls s @ filter (\<lambda>(c, v). c \<in> set (options s)) [(OnEvent, Obj kvs), (cb, field kvs ''data'')]\<rparr>
    | (Some cb, Some v) \<Rightarrow> on_event cb (Some v) s
    | _ \<Rightarrow> s)"
proof -
  have t: "t = on_message ty parsed s" using assms by simp
  show ?thesis
  proof (cases "map_of listeners ty")
    case (Some cb)
    show ?thesis
    proof (cases parsed)
      case None
      with Some t show ?thesis by (simp add: on_message_def on_event_def)
    next
      case (Some v)
      with \<open>map_of listeners ty = Some cb\<close> t show ?thesis
        by (cases v) (simp_all add: on_message_def on_event_object)
    qed
  qed (simp add: t on_message_def)
qed

theorem event_dispatch_witness:
  "hook_step (onopen (after_mount\<lparr>sources := [OPEN]\<rparr>)) (Message 0 ''report_generated'' (Some (Obj [])))
     ((onopen (after_mount\<lparr>sources := [OPEN]\<rparr>))\<lparr>lastEvent := Obj []\<rparr>)
   \<and> (onopen (after_mount\<lparr>sources := [OPEN]\<rparr>))\<lparr>lastEvent := Obj []\<rparr>
     = (onopen (after_mount\<lparr>sources := [OPEN]\<rparr>))\<lparr>lastEvent := Obj [], calls := []\<rparr>"
proof -
  let ?s = "onopen (after_mount\<lparr>sources := [OPEN]\<rparr>)" and ?m = "Message 0 ''report_generated'' (Some (Obj []))"
  have opts: "options ?s = []" "calls ?s = []"
    by code_simp+
  have step: "hook_step ?s ?m (?s\<lparr>lastEvent := Obj []\<rparr>)"
    by (simp add: onopen_def on_message_def on_event_def invoke_def listeners_def
        opts(1) [unfolded onopen_def, simplified])
  from event_dispatch [OF step] have "?s\<lparr>lastEvent := Obj []\<rparr> = ?s\<lparr>lastEvent := Obj [], calls := []\<rparr>"
    by (simp add: listeners_def opts)
  with step show ?thesis by simp
qed

text \<open>
  C7. The hook refines the machine of four states: without calls of \<open>reconnect\<close>, whether it holds an
  open connection, waits with a timer, was stopped, or is unmounted follows from the calls and browser
  events so far as the machine says.
\<close>

theorem hook_refines_link:
  assumes "execution hook_step (init_hook opts delay) ls s"
    and "list_all (\<lambda>l. l \<noteq> Reconnect) ls"
  shows "link_of s = fold link_machine ls Unmounted"
proof -
  have "link_of (init_hook opts delay) = Unmounted"
    by (simp add: link_of_def init_hook_def)
  with sse_link.execution_abstr [OF assms(1) _ assms(2)] show ?thesis by simp
qed

theorem hook_refines_link_witness:
  "link_of (disconnect (onerror 0 (after_mount\<lparr>sources := [CLOSED]\<rparr>))) = Stopped"
proof -
  let ?s = "onerror 0 (after_mount\<lparr>sources := [CLOSED]\<rparr>)"
  let ?ls = "([Mount] @ [ConnectionFailed 0]) @ [Disconnect]"
  have src: "sources after_mount = [CONNECTING]" by code_simp
  have "hook_step after_mount (ConnectionFailed 0) ?s"
    by (simp add: src live_sources_def)
  with exec_mount have "execution hook_step (init_hook [] None) ([Mount] @ [ConnectionFailed 0]) ?s"
    by (rule exec_snoc)
  then have "execution hook_step (init_hook [] None) ?ls (disconnect ?s)"
    by (rule exec_snoc) simp
  moreover have "list_all (\<lambda>l. l \<noteq> Reconnect) ?ls" by simp
  ultimately have "link_of (disconnect ?s) = fold link_machine ?ls Unmounted"
    by (rule hook_refines_link)
  then show ?thesis by simp
qed

end
