(* ===== verification/Ui_Action.thy ===== *)
theory Ui_Action
  imports Http_Action
begin

text \<open>
  Event handlers of pages: actions on the program's contact with the outside together with the
  page's own React state, which record the calls of the libraries a handler uses: toasts, the
  query cache, the router, and windows and downloads of the browser.
\<close>

type_synonym query_key = "jsval list"

text \<open>
  \<open>Sonner\<close> is a toast of the library \<open>sonner\<close> (kind, title, description), \<open>AppToast\<close> one of
  \<^verbatim>\<open>hooks/use-toast.ts\<close> (title, description, destructive or not).
\<close>

datatype toast_kind = Success | Info | Failure

datatype effect =
    Sonner toast_kind jsval jsval
  | AppToast string string bool
  | Invalidate query_key
  | Refetch query_key
  | Push string
  | OpenWindow jsval jsval
  | Download jsval string

record ('w, 'p) ui =
  outside :: "'w io"
  effects :: "effect list"
  page :: 'p

type_synonym ('w, 'p, 'a) handler = "(('w, 'p) ui, 'a) act"

definition call :: "('w, 'a) action \<Rightarrow> ('w, 'p, 'a) handler" where
  "call m u = (case m (outside u) of (r, io) \<Rightarrow> (r, u\<lparr>outside := io\<rparr>))"

definition effect :: "effect \<Rightarrow> ('w, 'p, unit) handler" where
  "effect e u = (Inr (), u\<lparr>effects := effects u @ [e]\<rparr>)"

definition set_page :: "('p \<Rightarrow> 'p) \<Rightarrow> ('w, 'p, unit) handler" where
  "set_page f u = (Inr (), u\<lparr>page := f (page u)\<rparr>)"

text \<open>\<open>try { m } finally { f }\<close>, where the \<open>finally\<close> block does not throw.\<close>

definition finally_do :: "('s, 'a) act \<Rightarrow> ('s, unit) act \<Rightarrow> ('s, 'a) act" where
  "finally_do m f s = (case m s of (r, s') \<Rightarrow> (r, snd (f s')))"

lemmas handler_defs = call_def effect_def set_page_def finally_do_def

text \<open>
  \<open>error instanceof Error ? error.message : d\<close>: every exception of the model is an \<open>Error\<close>.
\<close>

abbreviation error_message :: "exn \<Rightarrow> string" where
  "error_message \<equiv> exn_message"

text \<open>\<open>error.response?.data?.message || d\<close>\<close>

definition response_message :: "exn \<Rightarrow> string \<Rightarrow> jsval" where
  "response_message e d =
     (case e of
        AxiosErr a \<Rightarrow> (case err_response a of
            Some (status, data) \<Rightarrow> js_or (opt_get data ''message'') (Str d)
          | None \<Rightarrow> Str d)
      | _ \<Rightarrow> Str d)"

section \<open>Running handlers\<close>

lemma call_effects [simp]:
  "effects (snd (call m u)) = effects u" "page (snd (call m u)) = page u"
  "fst (call m u) = fst (m (outside u))" "outside (snd (call m u)) = snd (m (outside u))"
  by (simp_all add: call_def split: prod.splits)

lemma effect_run [simp]: "effect e u = (Inr (), u\<lparr>effects := effects u @ [e]\<rparr>)"
  by (simp add: effect_def)

lemma set_page_run [simp]: "set_page f u = (Inr (), u\<lparr>page := f (page u)\<rparr>)"
  by (simp add: set_page_def)

text \<open>A call either answers or fails; both leave effects and page as they are.\<close>

lemma call_cases:
  obtains (fails) e io where "m (outside u) = (Inl e, io)" "call m u = (Inl e, u\<lparr>outside := io\<rparr>)"
    | (answers) a io where "m (outside u) = (Inr a, io)" "call m u = (Inr a, u\<lparr>outside := io\<rparr>)"
  by (cases "m (outside u)"; cases "fst (m (outside u))") (auto simp: call_def)

lemma finally_fst [simp]: "fst (finally_do m f s) = fst (m s)"
  by (simp add: finally_do_def split: prod.splits)

lemma finally_snd [simp]: "snd (finally_do m f s) = snd (f (snd (m s)))"
  by (simp add: finally_do_def split: prod.splits)

end
