(* ===== verification/Query_Hooks.thy ===== *)
theory Query_Hooks
  imports Ui_Action Eval_Stats
begin

text \<open>
  \<^verbatim>\<open>lib/hooks/*.ts\<close>: the query keys, the options each hook passes to \<open>useQuery\<close>, and the three
  callbacks each hook passes to \<open>useMutation\<close>. React Query itself is not modelled: a hook is the
  value it hands over. Which cached queries an invalidated key reaches is a parameter of the
  properties.
\<close>

section \<open>Query keys\<close>

abbreviation key :: "string \<Rightarrow> jsval" where
  "key \<equiv> Str"

text \<open>\<open>[...base, x]\<close>\<close>

definition sub_key :: "query_key \<Rightarrow> jsval list \<Rightarrow> query_key" where
  "sub_key base xs = base @ xs"

definition interviewKeys_all :: query_key where
  "interviewKeys_all = [key ''interviews'']"

definition interviewKeys_lists :: query_key where
  "interviewKeys_lists = sub_key interviewKeys_all [key ''list'']"

definition interviewKeys_list :: "jsval \<Rightarrow> query_key" where
  "interviewKeys_list filters = sub_key interviewKeys_lists [filters]"

definition interviewKeys_details :: query_key where
  "interviewKeys_details = sub_key interviewKeys_all [key ''detail'']"

definition interviewKeys_detail :: "jsval \<Rightarrow> query_key" where
  "interviewKeys_detail i = sub_key interviewKeys_details [i]"

definition evaluationKeys_all :: query_key where
  "evaluationKeys_all = [key ''evaluations'']"

definition evaluationKeys_lists :: query_key where
  "evaluationKeys_lists = sub_key evaluationKeys_all [key ''list'']"

definition evaluationKeys_list :: "jsval \<Rightarrow> query_key" where
  "evaluationKeys_list filters = sub_key evaluationKeys_lists [filters]"

definition evaluationKeys_details :: query_key where
  "evaluationKeys_details = sub_key evaluationKeys_all [key ''detail'']"

definition evaluationKeys_detail :: "jsval \<Rightarrow> query_key" where
  "evaluationKeys_detail i = sub_key evaluationKeys_details [i]"

definition evaluationKeys_byInterview :: "jsval \<Rightarrow> query_key" where
  "evaluationKeys_byInterview i = sub_key evaluationKeys_all [key ''interview'', i]"

definition evaluationKeys_pending :: query_key where
  "evaluationKeys_pending = sub_key evaluationKeys_all [key ''pending'']"

definition evaluationKeys_stats :: query_key where
  "evaluationKeys_stats = sub_key evaluationKeys_all [key ''stats'']"

definition reportKeys_all :: query_key where
  "reportKeys_all = [key ''reports'']"

definition reportKeys_lists :: query_key where
  "reportKeys_lists = sub_key reportKeys_all [key ''list'']"

definition reportKeys_list :: "jsval \<Rightarrow> query_key" where
  "reportKeys_list filters = sub_key reportKeys_lists [filters]"

definition reportKeys_details :: query_key where
  "reportKeys_details = sub_key reportKeys_all [key ''detail'']"

definition reportKeys_detail :: "jsval \<Rightarrow> query_key" where
  "reportKeys_detail i = sub_key reportKeys_details [i]"

definition reportKeys_byInterview :: "jsval \<Rightarrow> query_key" where
  "reportKeys_byInterview i = sub_key reportKeys_all [key ''interview'', i]"

definition reportKeys_stats :: query_key where
  "reportKeys_stats = sub_key reportKeys_all [key ''stats'']"

definition dashboardKeys_all :: query_key where
  "dashboardKeys_all = [key ''dashboard'']"

definition dashboardKeys_stats :: query_key where
  "dashboardKeys_stats = sub_key dashboardKeys_all [key ''stats'']"

definition dashboardKeys_activity :: "jsval \<Rightarrow> query_key" where
  "dashboardKeys_activity limit = sub_key dashboardKeys_all [key ''activity'', limit]"

lemmas interview_key_defs = interviewKeys_all_def interviewKeys_lists_def interviewKeys_list_def
  interviewKeys_details_def interviewKeys_detail_def

lemmas evaluation_key_defs = evaluationKeys_all_def evaluationKeys_lists_def evaluationKeys_list_def
  evaluationKeys_details_def evaluationKeys_detail_def evaluationKeys_byInterview_def
  evaluationKeys_pending_def evaluationKeys_stats_def

lemmas report_key_defs = reportKeys_all_def reportKeys_lists_def reportKeys_list_def
  reportKeys_details_def reportKeys_detail_def reportKeys_byInterview_def reportKeys_stats_def

lemmas dashboard_key_defs = dashboardKeys_all_def dashboardKeys_stats_def dashboardKeys_activity_def

lemmas key_defs = interview_key_defs evaluation_key_defs report_key_defs dashboard_key_defs sub_key_def

section \<open>Queries\<close>

text \<open>
  The options of a query: \<open>enabled\<close> is true, and \<open>refetchInterval\<close> is \<open>None\<close>, where the hook
  does not set them. A function of no arguments is the action it performs.
\<close>

record 'w query =
  queryKey :: query_key
  queryFn :: "('w, jsval) action"
  refetchInterval :: "nat option"
  enabled :: bool

definition query :: "query_key \<Rightarrow> ('w, jsval) action \<Rightarrow> 'w query" where
  "query k f = \<lparr>queryKey = k, queryFn = f, refetchInterval = None, enabled = True\<rparr>"

definition polled :: "nat \<Rightarrow> 'w query \<Rightarrow> 'w query" where
  "polled n q = q\<lparr>refetchInterval := Some n\<rparr>"

definition when_given :: "string \<Rightarrow> 'w query \<Rightarrow> 'w query" where
  "when_given i q = q\<lparr>enabled := (i \<noteq> [])\<rparr>"

definition useDashboardStats :: "'w server \<Rightarrow> 'w query" where
  "useDashboardStats srv = polled 30000 (query dashboardKeys_stats (dashboardApi_getStats srv))"

definition useDashboardActivity :: "'w server \<Rightarrow> jsval \<Rightarrow> 'w query" where
  "useDashboardActivity srv limit =
     polled 30000 (query (dashboardKeys_activity limit) (dashboardApi_getActivity srv limit))"

definition useQueues :: "'w server \<Rightarrow> 'w query" where
  "useQueues srv = polled 5000 (query [key ''queues''] (queuesApi_listQueues srv))"

definition useQueueStats :: "'w server \<Rightarrow> string \<Rightarrow> 'w query" where
  "useQueueStats srv queueName = when_given queueName
     (polled 5000 (query [key ''queue-stats'', Str queueName] (queuesApi_getQueueStats srv queueName)))"

definition useRecentMessages :: "'w server \<Rightarrow> 'w query" where
  "useRecentMessages srv = polled 5000 (query [key ''recent-messages''] (queuesApi_getRecentMessages srv))"

definition useInterviews :: "'w server \<Rightarrow> jsval \<Rightarrow> 'w query" where
  "useInterviews srv params = query (interviewKeys_list params) (interviewsApi_getAll srv params)"

definition useInterview :: "'w server \<Rightarrow> string \<Rightarrow> 'w query" where
  "useInterview srv i = when_given i (query (interviewKeys_detail (Str i)) (interviewsApi_getById srv i))"

definition opt_str :: "string option \<Rightarrow> jsval" where
  "opt_str s = (case s of None \<Rightarrow> Undef | Some t \<Rightarrow> Str t)"

definition useEvaluations :: "'w server \<Rightarrow> string option \<Rightarrow> nat \<Rightarrow> nat \<Rightarrow> 'w query" where
  "useEvaluations srv status pg pageSize = query
     (evaluationKeys_list (Obj [(''status'', opt_str status), (''page'', js_int (int pg)),
        (''pageSize'', js_int (int pageSize))]))
     (evaluationsApi_list srv status pg pageSize)"

definition useEvaluationStats :: "'w server \<Rightarrow> (jsval \<Rightarrow> number) \<Rightarrow> 'w query" where
  "useEvaluationStats srv ms = polled 30000 (query evaluationKeys_stats (evaluationsApi_getStats srv ms))"

definition useEvaluationsByInterview :: "'w server \<Rightarrow> string \<Rightarrow> 'w query" where
  "useEvaluationsByInterview srv i = when_given i
     (query (evaluationKeys_byInterview (Str i)) (evaluationsApi_getByInterview srv i))"

definition useEvaluation :: "'w server \<Rightarrow> string \<Rightarrow> 'w query" where
  "useEvaluation srv i = when_given i
     (query (evaluationKeys_detail (Str i)) (evaluationsApi_getById srv i))"

definition usePendingEvaluations :: "'w server \<Rightarrow> 'w query" where
  "usePendingEvaluations srv = query evaluationKeys_pending (evaluationsApi_getPending srv)"

definition useReports :: "'w server \<Rightarrow> jsval \<Rightarrow> 'w query" where
  "useReports srv params = query (reportKeys_list params) (reportsApi_getAll srv params)"

definition useReport :: "'w server \<Rightarrow> string \<Rightarrow> 'w query" where
  "useReport srv i = when_given i (query (reportKeys_detail (Str i)) (reportsApi_getById srv i))"

definition useReportByInterview :: "'w server \<Rightarrow> string \<Rightarrow> 'w query" where
  "useReportByInterview srv i = when_given i
     (query (reportKeys_byInterview (Str i)) (reportsApi_getByInterview srv i))"

text \<open>
  \<open>reports.filter((r) => r.status === "ready")\<close> throws if \<open>reports\<close> is no array or an element is
  \<open>null\<close> or \<open>undefined\<close>.
\<close>

fun with_status :: "string \<Rightarrow> jsval list \<Rightarrow> exn + jsval list" where
  "with_status st [] = Inr []"
| "with_status st (r # rs) =
     bind_res (get_field r ''status'') (\<lambda>x.
     bind_res (with_status st rs) (\<lambda>ys. Inr (if x = Str st then r # ys else ys)))"

definition filter_status :: "string \<Rightarrow> jsval \<Rightarrow> exn + jsval" where
  "filter_status st v =
     (case v of Arr rs \<Rightarrow> bind_res (with_status st rs) (\<lambda>ys. Inr (Arr ys))
      | _ \<Rightarrow> Inl (TypeError ''reports.filter is not a function''))"

definition report_groups :: "jsval \<Rightarrow> exn + jsval" where
  "report_groups body =
     bind_res (data_or body (Arr [])) (\<lambda>reports.
     bind_res (filter_status ''ready'' reports) (\<lambda>ready.
     bind_res (filter_status ''pending'' reports) (\<lambda>pending.
     bind_res (filter_status ''sent'' reports) (\<lambda>was_sent.
       Inr (Obj [
         (''all'', reports), (''total'', opt_get reports ''length''),
         (''ready'', ready), (''pending'', pending), (''sent'', was_sent)])))))"

definition all_reports_params :: jsval where
  "all_reports_params = Obj [(''pageSize'', js_int 1000)]"

definition useReportsStats :: "'w server \<Rightarrow> 'w query" where
  "useReportsStats srv = polled 30000 (query reportKeys_stats
     (await (reportsApi_getAll srv all_reports_params)
        (\<lambda>allReports. lift_res (report_groups allReports))))"

lemmas query_defs = query_def polled_def when_given_def

section \<open>Mutations\<close>

text \<open>
  The callbacks of a mutation. \<open>onSuccess\<close> gets the result and the variables, \<open>onError\<close> the
  exception; their state is the list of effects so far. A callback that throws keeps the effects
  it had before.
\<close>

type_synonym reaction = "(effect list, unit) act"

definition emit :: "effect \<Rightarrow> reaction" where
  "emit e es = (Inr (), es @ [e])"

fun emit_all :: "effect list \<Rightarrow> reaction" where
  "emit_all [] = return_a ()"
| "emit_all (e # es) = await (emit e) (\<lambda>_. emit_all es)"

record ('w, 'v) mutation =
  mutationFn :: "'v \<Rightarrow> ('w, jsval) action"
  onSuccess :: "jsval \<Rightarrow> 'v \<Rightarrow> reaction"
  onError :: "exn \<Rightarrow> reaction"

definition succeeded :: "string \<Rightarrow> query_key list \<Rightarrow> reaction" where
  "succeeded msg ks = emit_all (map Invalidate ks @ [Sonner Success (Str msg) Undef])"

definition failed :: "string \<Rightarrow> exn \<Rightarrow> reaction" where
  "failed msg e = emit (Sonner Failure (response_message e msg) Undef)"

definition useCreateInterview :: "'w server \<Rightarrow> ('w, jsval) mutation" where
  "useCreateInterview srv =
     \<lparr>mutationFn = interviewsApi_create srv,
      onSuccess = (\<lambda>_ _. succeeded ''Interview scheduled successfully!'' [interviewKeys_lists]),
      onError = failed ''Failed to schedule interview''\<rparr>"

definition useUpdateInterview :: "'w server \<Rightarrow> ('w, string \<times> jsval) mutation" where
  "useUpdateInterview srv =
     \<lparr>mutationFn = (\<lambda>(i, d). interviewsApi_update srv i d),
      onSuccess = (\<lambda>_ (i, d). succeeded ''Interview updated successfully!''
        [interviewKeys_detail (Str i), interviewKeys_lists]),
      onError = failed ''Failed to update interview''\<rparr>"

definition useCancelInterview :: "'w server \<Rightarrow> ('w, string) mutation" where
  "useCancelInterview srv =
     \<lparr>mutationFn = interviewsApi_cancel srv,
      onSuccess = (\<lambda>_ i. succeeded ''Interview cancelled successfully!''
        [interviewKeys_detail (Str i), interviewKeys_lists]),
      onError = failed ''Failed to cancel interview''\<rparr>"

definition useCompleteInterview :: "'w server \<Rightarrow> ('w, string) mutation" where
  "useCompleteInterview srv =
     \<lparr>mutationFn = interviewsApi_complete srv,
      onSuccess = (\<lambda>_ i. succeeded ''Interview marked as completed!''
        [interviewKeys_detail (Str i), interviewKeys_lists]),
      onError = failed ''Failed to complete interview''\<rparr>"

definition useCreateEvaluation :: "'w server \<Rightarrow> ('w, obj) mutation" where
  "useCreateEvaluation srv =
     \<lparr>mutationFn = (\<lambda>d. evaluationsApi_create srv (Obj d)),
      onSuccess = (\<lambda>_ d. succeeded ''Evaluation submitted successfully!''
        [evaluationKeys_byInterview (field d ''interviewId''), evaluationKeys_pending]),
      onError = failed ''Failed to submit evaluation''\<rparr>"

definition useUpdateEvaluation :: "'w server \<Rightarrow> ('w, string \<times> jsval) mutation" where
  "useUpdateEvaluation srv =
     \<lparr>mutationFn = (\<lambda>(i, d). evaluationsApi_update srv i d),
      onSuccess = (\<lambda>response (i, d).
        await (emit (Invalidate (evaluationKeys_detail (Str i)))) (\<lambda>_.
        await (lift_res (get_field response ''data'')) (\<lambda>x.
        await (if truthy x
               then emit (Invalidate (evaluationKeys_byInterview (opt_get x ''interviewId'')))
               else return_a ()) (\<lambda>_.
          emit (Sonner Success (Str ''Evaluation updated successfully!'') Undef))))),
      onError = failed ''Failed to update evaluation''\<rparr>"

definition useGenerateReport :: "'w server \<Rightarrow> ('w, obj) mutation" where
  "useGenerateReport srv =
     \<lparr>mutationFn = (\<lambda>d. reportsApi_generate srv (Obj d)),
      onSuccess = (\<lambda>_ d. succeeded ''Report generated successfully!''
        [reportKeys_byInterview (field d ''interviewId''), reportKeys_lists, reportKeys_stats]),
      onError = failed ''Failed to generate report''\<rparr>"

definition useSendReport :: "'w server \<Rightarrow> ('w, string) mutation" where
  "useSendReport srv =
     \<lparr>mutationFn = reportsApi_send srv,
      onSuccess = (\<lambda>_ i. succeeded ''Report sent successfully!''
        [reportKeys_detail (Str i), reportKeys_lists, reportKeys_stats]),
      onError = failed ''Failed to send report''\<rparr>"

text \<open>
  \<open>useDownloadReport\<close> saves the blob as a file in its \<open>mutationFn\<close>: the steps on the temporary
  link end in one download. Its error toast does not look at the error.
\<close>

definition useDownloadReport_mutationFn :: "'w server \<Rightarrow> string \<Rightarrow> ('w, 'p, unit) handler" where
  "useDownloadReport_mutationFn srv i =
     await (call (reportsApi_downloadPdf srv i)) (\<lambda>blob.
       effect (Download blob (''report-'' @ i @ ''.pdf'')))"

definition useDownloadReport_onSuccess :: reaction where
  "useDownloadReport_onSuccess = emit (Sonner Success (Str ''Report downloaded successfully!'') Undef)"

definition useDownloadReport_onError :: reaction where
  "useDownloadReport_onError = emit (Sonner Failure (Str ''Failed to download report'') Undef)"

lemmas mutation_hook_defs = useCreateInterview_def useUpdateInterview_def useCancelInterview_def
  useCompleteInterview_def useCreateEvaluation_def useGenerateReport_def useSendReport_def

lemma emit_run [simp]: "emit e es = (Inr (), es @ [e])"
  by (simp add: emit_def)

lemma emit_all_run [simp]: "emit_all new es = (Inr (), es @ new)"
  by (induction new arbitrary: es) (simp_all add: action_defs)

lemma succeeded_run [simp]:
  "succeeded msg ks es = (Inr (), es @ map Invalidate ks @ [Sonner Success (Str msg) Undef])"
  by (simp add: succeeded_def)

lemma failed_run [simp]:
  "failed msg e es = (Inr (), es @ [Sonner Failure (response_message e msg) Undef])"
  by (simp add: failed_def)

section \<open>Which cached queries an effect reaches\<close>

text \<open>
  \<open>invalidateQueries({ queryKey: k })\<close> marks the cached queries whose key \<open>k\<close> matches. React
  Query documents that a filter key made of strings matches exactly the keys it is a prefix of.
\<close>

fun is_str :: "jsval \<Rightarrow> bool" where
  "is_str (Str s) = True"
| "is_str v = False"

definition key_matching :: "(query_key \<Rightarrow> query_key \<Rightarrow> bool) \<Rightarrow> bool" where
  "key_matching m \<longleftrightarrow> (\<forall>k q. list_all is_str k \<longrightarrow> (m k q \<longleftrightarrow> prefix k q))"

definition invalidates :: "(query_key \<Rightarrow> query_key \<Rightarrow> bool) \<Rightarrow> effect list \<Rightarrow> query_key \<Rightarrow> bool" where
  "invalidates m es q \<longleftrightarrow> (\<exists>k. Invalidate k \<in> set es \<and> m k q)"

lemma invalidates_simps [simp]:
  "\<not> invalidates m [] q"
  "invalidates m (Invalidate k # es) q \<longleftrightarrow> m k q \<or> invalidates m es q"
  "invalidates m (Sonner tk t d # es) q \<longleftrightarrow> invalidates m es q"
  "invalidates m (es @ es') q \<longleftrightarrow> invalidates m es q \<or> invalidates m es' q"
  by (auto simp: invalidates_def)

lemma key_matchingD: "key_matching m \<Longrightarrow> list_all is_str k \<Longrightarrow> m k q \<longleftrightarrow> prefix k q"
  by (simp add: key_matching_def)

lemma prefix_matching: "key_matching prefix"
  by (simp add: key_matching_def)

text \<open>
  The interface of a key factory: lists and details hang under the root by different strings.
  Its clients are the mutations, which invalidate \<open>lists\<close> and one \<open>detail\<close>, and the live updates,
  which invalidate the root.
\<close>

locale key_factory =
  fixes root :: query_key and lists :: query_key and list_of :: "jsval \<Rightarrow> query_key"
    and detail :: "jsval \<Rightarrow> query_key"
  assumes root_str: "list_all is_str root"
    and lists_str: "list_all is_str lists"
    and detail_str: "is_str i \<Longrightarrow> list_all is_str (detail i)"
    and lists_under: "prefix root lists"
    and list_under: "prefix lists (list_of p)"
    and detail_under: "prefix root (detail i)"
    and detail_inj: "prefix (detail i) (detail j) \<longleftrightarrow> i = j"
    and lists_apart: "\<not> prefix lists (detail i)"
    and details_apart: "\<not> prefix (detail i) (list_of p)"
begin

lemma root_reaches:
  assumes "key_matching m"
  shows "m root (list_of p)" "m root (detail i)"
  using key_matchingD [OF assms root_str] lists_under list_under detail_under
  by (blast intro: prefix_order.trans)+

lemma lists_reaches:
  assumes "key_matching m"
  shows "m lists (list_of p)" "\<not> m lists (detail i)"
  using key_matchingD [OF assms lists_str] list_under lists_apart by blast+

lemma detail_reaches:
  assumes "key_matching m" "is_str i"
  shows "m (detail i) (detail j) \<longleftrightarrow> i = j" "\<not> m (detail i) (list_of p)"
  using key_matchingD [OF assms(1) detail_str [OF assms(2)]] detail_inj details_apart by blast+

end

interpretation interview_keys: key_factory interviewKeys_all interviewKeys_lists
    interviewKeys_list interviewKeys_detail
  by unfold_locales (auto simp: interview_key_defs sub_key_def)

interpretation evaluation_keys: key_factory evaluationKeys_all evaluationKeys_lists
    evaluationKeys_list evaluationKeys_detail
  by unfold_locales (auto simp: evaluation_key_defs sub_key_def)

interpretation report_keys: key_factory reportKeys_all reportKeys_lists
    reportKeys_list reportKeys_detail
  by unfold_locales (auto simp: report_key_defs sub_key_def)

end
