(* ===== verification/Live_Updates.thy ===== *)
theory Live_Updates
  imports SSE_Lifecycle Query_Hooks
begin

text \<open>
  \<^verbatim>\<open>components/SSEProvider.tsx\<close>: what each server event does once the SSE hook hands it over, a
  toast and the invalidation of cached queries, and the path from the event on the wire to the
  queries it refreshes.
\<close>

section \<open>The callbacks\<close>

text \<open>A template literal reads its properties before the toast is shown.\<close>

definition toast_then :: "toast_kind \<Rightarrow> string \<Rightarrow> exn + jsval \<Rightarrow> reaction \<Rightarrow> reaction" where
  "toast_then tk title description rest =
     await (lift_res description) (\<lambda>d. await (emit (Sonner tk (Str title) d)) (\<lambda>_. rest))"

definition onInterviewCreated :: "jsval \<Rightarrow> reaction" where
  "onInterviewCreated data = toast_then Success ''New interview created''
     (bind_res (get_field data ''candidateName'') (\<lambda>n.
        Inr (Str (js_to_string n @ '' - '' @ js_to_string (opt_get data ''position'')))))
     (emit (Invalidate [key ''interviews'']))"

definition onInterviewScheduled :: "jsval \<Rightarrow> reaction" where
  "onInterviewScheduled data = toast_then Info ''Interview scheduled''
     (bind_res (get_field data ''candidateName'') (\<lambda>n.
        Inr (Str (js_to_string n @ '' - Calendar invites sent''))))
     (emit (Invalidate [key ''interviews'']))"

definition onInterviewUpdated :: "jsval \<Rightarrow> reaction" where
  "onInterviewUpdated data = toast_then Info ''Interview updated''
     (bind_res (get_field data ''candidateName'') (\<lambda>n.
        Inr (Str (js_to_string n @ '' - Status: '' @ js_to_string (opt_get data ''status'')))))
     (await (emit (Invalidate [key ''interviews''])) (\<lambda>_.
        if truthy (opt_get data ''id'')
        then emit (Invalidate [key ''interview'', opt_get data ''id''])
        else return_a ()))"

definition onEvaluationCreated :: "jsval \<Rightarrow> reaction" where
  "onEvaluationCreated data = toast_then Success ''New evaluation submitted''
     (Inr (Str ''Interview evaluation completed'')) (emit (Invalidate [key ''evaluations'']))"

definition onEvaluationUpdated :: "jsval \<Rightarrow> reaction" where
  "onEvaluationUpdated data = toast_then Info ''Evaluation updated''
     (Inr (Str ''Evaluation status changed'')) (emit (Invalidate [key ''evaluations'']))"

definition onReportGenerated :: "jsval \<Rightarrow> reaction" where
  "onReportGenerated data = toast_then Success ''Report generated''
     (Inr (Str ''New report is available'')) (emit (Invalidate [key ''reports'']))"

definition onNotificationSent :: "jsval \<Rightarrow> reaction" where
  "onNotificationSent data = toast_then Info ''Notification sent''
     (bind_res (get_field data ''message'') (\<lambda>m.
        Inr (js_or m (Str ''Notification delivered successfully''))))
     (return_a ())"

text \<open>The options the provider gives the hook, and what a call of one of them does.\<close>

definition provider_options :: "SSE_Hook.callback list" where
  "provider_options = [OnInterviewCreated, OnInterviewScheduled, OnInterviewUpdated,
     OnEvaluationCreated, OnEvaluationUpdated, OnReportGenerated, OnNotificationSent]"

fun provider_callback :: "SSE_Hook.callback \<Rightarrow> jsval \<Rightarrow> reaction" where
  "provider_callback OnEvent = (\<lambda>_. return_a ())"
| "provider_callback OnInterviewCreated = onInterviewCreated"
| "provider_callback OnInterviewScheduled = onInterviewScheduled"
| "provider_callback OnInterviewUpdated = onInterviewUpdated"
| "provider_callback OnEvaluationCreated = onEvaluationCreated"
| "provider_callback OnEvaluationUpdated = onEvaluationUpdated"
| "provider_callback OnReportGenerated = onReportGenerated"
| "provider_callback OnNotificationSent = onNotificationSent"

text \<open>
  The effects of the calls a hook has made so far: a callback that throws does not stop the
  calls after it, because each runs in its own listener.
\<close>

fun reactions :: "(SSE_Hook.callback \<times> jsval) list \<Rightarrow> effect list" where
  "reactions [] = []"
| "reactions ((cb, v) # cs) = snd (provider_callback cb v []) @ reactions cs"

lemma reactions_append [simp]: "reactions (cs @ ds) = reactions cs @ reactions ds"
  by (induction cs rule: reactions.induct) simp_all

lemmas provider_defs = onInterviewCreated_def onInterviewScheduled_def onInterviewUpdated_def
  onEvaluationCreated_def onEvaluationUpdated_def onReportGenerated_def onNotificationSent_def
  toast_then_def

lemma in_provider_options: "cb \<noteq> OnEvent \<Longrightarrow> cb \<in> set provider_options"
  by (cases cb) (simp_all add: provider_options_def)

lemma provider_options_OnEvent: "OnEvent \<notin> set provider_options"
  by (simp add: provider_options_def)

lemma listeners_not_OnEvent: "map_of listeners ty = Some cb \<Longrightarrow> cb \<noteq> OnEvent"
  by (auto simp: listeners_def split: if_splits)

section \<open>From the event to the queries\<close>

text \<open>What the event of one type with these data should refresh.\<close>

definition refreshed_by :: "string \<Rightarrow> obj \<Rightarrow> query_key \<Rightarrow> bool" where
  "refreshed_by ty d q \<longleftrightarrow>
     (ty \<in> {''interview_created'', ''interview_scheduled'', ''interview_updated''} \<and> prefix interviewKeys_all q)
     \<or> (ty = ''interview_updated'' \<and> truthy (field d ''id'') \<and> prefix [Str ''interview'', field d ''id''] q)
     \<or> (ty \<in> {''evaluation_created'', ''evaluation_updated''} \<and> prefix evaluationKeys_all q)
     \<or> (ty = ''report_generated'' \<and> prefix reportKeys_all q)"

definition plain_id :: "obj \<Rightarrow> bool" where
  "plain_id d \<longleftrightarrow> is_str (field d ''id'') \<or> \<not> truthy (field d ''id'')"

lemma callback_refreshes:
  assumes "key_matching m" "plain_id d" "map_of listeners ty = Some cb"
  shows "invalidates m (snd (provider_callback cb (Obj d) [])) q \<longleftrightarrow> refreshed_by ty d q"
proof -
  have m1: "m [key k] q \<longleftrightarrow> prefix [key k] q" for k
    using assms(1) by (simp add: key_matchingD)
  have m2: "truthy (field d ''id'') \<Longrightarrow>
      m [key ''interview'', field d ''id''] q \<longleftrightarrow> prefix [key ''interview'', field d ''id''] q"
    using assms(1,2) by (simp add: key_matchingD plain_id_def)
  show ?thesis
    using assms(3) m1 m2
    by (auto simp: listeners_def provider_defs action_defs refreshed_by_def
        interviewKeys_all_def evaluationKeys_all_def reportKeys_all_def split: if_splits)
qed

text \<open>What one message adds to the calls of a hook that runs under the provider.\<close>

lemma message_reactions:
  assumes "map_of listeners ty = Some cb" "field kvs ''data'' = Obj d" "options s = provider_options"
  shows "reactions (SSE_Hook.calls (on_message ty (Some (Obj kvs)) s))
       = reactions (SSE_Hook.calls s) @ snd (provider_callback cb (Obj d) [])"
  using assms in_provider_options [OF listeners_not_OnEvent [OF assms(1)]] provider_options_OnEvent
  by (simp add: on_message_def on_event_object)

text \<open>
  C14. Under the provider, a server event whose data is an object refreshes exactly the cached
  queries it should: an interview event every query under \<open>interviews\<close>, an update also the
  detail query of its interview, an evaluation event every query under \<open>evaluations\<close>, a report
  event every query under \<open>reports\<close>, a notification none.
\<close>

theorem live_update_refreshes:
  assumes "key_matching m" and "map_of listeners ty = Some cb" and "field kvs ''data'' = Obj d"
    and "plain_id d" and "options s = provider_options"
    and "hook_step s (Message i ty (Some (Obj kvs))) t"
  shows "\<exists>new. reactions (SSE_Hook.calls t) = reactions (SSE_Hook.calls s) @ new
           \<and> (\<forall>q. invalidates m new q \<longleftrightarrow> refreshed_by ty d q)"
proof -
  have t: "t = on_message ty (Some (Obj kvs)) s"
    using assms(6) by simp
  show ?thesis
    unfolding t message_reactions [OF assms(2,3,5)]
    using callback_refreshes [OF assms(1,4,2)] by blast
qed

definition provider_hook :: hook where
  "provider_hook = onopen (after_mount\<lparr>sources := [OPEN], options := provider_options\<rparr>)"

lemma provider_hook_fields:
  "options provider_hook = provider_options" "SSE_Hook.calls provider_hook = []"
  "sources provider_hook = [OPEN]"
  by (simp_all add: provider_hook_def onopen_def after_mount_def init_hook_def connect_def)

theorem live_update_refreshes_witness:
  "\<exists>new. reactions (SSE_Hook.calls (on_message ''interview_updated''
       (Some (Obj [(''data'', Obj [(''id'', Str ''i1'')])])) provider_hook)) = reactions (SSE_Hook.calls provider_hook) @ new
     \<and> (\<forall>q. invalidates prefix new q \<longleftrightarrow> refreshed_by ''interview_updated'' [(''id'', Str ''i1'')] q)"
proof (rule live_update_refreshes [OF prefix_matching])
  let ?kvs = "[(''data'', Obj [(''id'', Str ''i1'')])]" and ?ty = "''interview_updated''"
  show "map_of listeners ?ty = Some OnInterviewUpdated"
    by (simp add: listeners_def)
  show "field ?kvs ''data'' = Obj [(''id'', Str ''i1'')]" by simp
  show "plain_id [(''id'', Str ''i1'')]" by (simp add: plain_id_def)
  show "options provider_hook = provider_options" by (rule provider_hook_fields)
  show "hook_step provider_hook (Message 0 ?ty (Some (Obj ?kvs)))
      (on_message ?ty (Some (Obj ?kvs)) provider_hook)"
    by (rule step_message) (simp_all add: provider_hook_fields)
qed

section \<open>What the mutations refresh\<close>

definition effects_of :: "reaction \<Rightarrow> effect list" where
  "effects_of r = snd (r [])"

text \<open>
  C23. After a successful update, cancellation or completion of an interview, every cached list of
  interviews is stale and so is the interview's own detail query, and no other detail query is.
\<close>

theorem interview_changes_refresh:
  assumes "key_matching m" and "f \<in> {onSuccess (useCancelInterview srv) body i,
      onSuccess (useCompleteInterview srv) body i, onSuccess (useUpdateInterview srv) body (i, d)}"
  shows "invalidates m (effects_of f) (interviewKeys_list p)
       \<and> (invalidates m (effects_of f) (interviewKeys_detail (Str j)) \<longleftrightarrow> i = j)"
proof -
  have "f [] = (Inr (), [Invalidate (interviewKeys_detail (Str i)), Invalidate interviewKeys_lists,
      snd (f []) ! 2])"
    using assms(2) by (auto simp: mutation_hook_defs)
  moreover have "\<exists>msg. snd (f []) ! 2 = Sonner Success msg Undef"
    using assms(2) by (auto simp: mutation_hook_defs)
  ultimately have "\<exists>msg. effects_of f = [Invalidate (interviewKeys_detail (Str i)),
      Invalidate interviewKeys_lists, Sonner Success msg Undef]"
    by (auto simp: effects_of_def)
  then show ?thesis
    using interview_keys.lists_reaches [OF assms(1)] interview_keys.detail_reaches [OF assms(1), of "Str i"]
    by auto
qed

theorem interview_changes_refresh_witness:
  "invalidates prefix (effects_of (onSuccess (useCancelInterview sample_srv) Null ''i1'')) (interviewKeys_list Undef)"
  using interview_changes_refresh [OF prefix_matching, of _ sample_srv Null "''i1''"] by simp

text \<open>
  C24. A report that was generated or sent makes every list of reports and the report statistics
  stale. A new evaluation makes the evaluations of its interview and the pending ones stale, but
  neither the lists of evaluations nor the statistics the evaluations page shows.
\<close>

theorem report_and_evaluation_changes_refresh:
  assumes "key_matching m" and "field d ''interviewId'' = Str i"
  shows "(\<forall>f \<in> {onSuccess (useSendReport srv) body r, onSuccess (useGenerateReport srv) body d}.
            invalidates m (effects_of f) (reportKeys_list p) \<and> invalidates m (effects_of f) reportKeys_stats)
         \<and> (let es = effects_of (onSuccess (useCreateEvaluation srv) body d)
            in invalidates m es (evaluationKeys_byInterview (Str i)) \<and> invalidates m es evaluationKeys_pending
               \<and> \<not> invalidates m es (evaluationKeys_list p) \<and> \<not> invalidates m es evaluationKeys_stats)"
proof -
  have r: "m reportKeys_stats reportKeys_stats"
    using assms(1) by (simp add: key_matchingD report_key_defs sub_key_def)
  have e: "m (evaluationKeys_byInterview (Str i)) q \<longleftrightarrow> prefix (evaluationKeys_byInterview (Str i)) q"
    "m evaluationKeys_pending q \<longleftrightarrow> prefix evaluationKeys_pending q" for q
    using assms(1) by (auto simp: key_matchingD evaluation_key_defs sub_key_def)
  have "\<not> prefix (evaluationKeys_byInterview (Str i)) q \<and> \<not> prefix evaluationKeys_pending q"
    if "q \<in> {evaluationKeys_list p, evaluationKeys_stats}" for q
    using that by (auto simp: evaluation_key_defs sub_key_def)
  then show ?thesis
    using r e assms(2) report_keys.lists_reaches [OF assms(1)]
    by (simp add: effects_of_def mutation_hook_defs)
qed

theorem report_and_evaluation_changes_refresh_witness:
  "\<not> invalidates prefix (effects_of (onSuccess (useCreateEvaluation sample_srv) Null
       [(''interviewId'', Str ''i1'')])) evaluationKeys_stats"
proof -
  have "field [(''interviewId'', Str ''i1'')] ''interviewId'' = Str ''i1''" by simp
  from report_and_evaluation_changes_refresh [OF prefix_matching this, of sample_srv Null "[]" Undef]
  show ?thesis by (simp add: Let_def)
qed

text \<open>
  What the user reads after a failed mutation: the server's \<open>message\<close>, if its answer has one
  that is not empty, and else a fixed text, even where the answer says why under \<open>error\<close>, the
  key the backend uses.
\<close>

theorem mutation_error_text:
  "effects_of (onError (useCancelInterview srv) e) =
     [Sonner Failure
        (case e of
           AxiosErr a \<Rightarrow> (case err_response a of
               Some (st, Obj kvs) \<Rightarrow>
                 if truthy (field kvs ''message'') then field kvs ''message'' else Str ''Failed to cancel interview''
             | _ \<Rightarrow> Str ''Failed to cancel interview'')
         | _ \<Rightarrow> Str ''Failed to cancel interview'') Undef]"
proof -
  have "response_message e d = (case e of
      AxiosErr a \<Rightarrow> (case err_response a of
          Some (st, Obj kvs) \<Rightarrow> if truthy (field kvs ''message'') then field kvs ''message'' else Str d
        | _ \<Rightarrow> Str d)
    | _ \<Rightarrow> Str d)" for d
    by (auto simp: response_message_def js_or_def split: exn.splits option.splits jsval.splits)
  then show ?thesis by (simp add: effects_of_def useCancelInterview_def)
qed

end
