(* ===== verification/Toast_Store.thy ===== *)
theory Toast_Store
  imports Transition
begin

text \<open>
  \<^verbatim>\<open>hooks/use-toast.ts\<close>: a store outside React with one list of toasts, the timers that remove
  dismissed toasts, and the listeners that copy the store into components. The module's
  variables are one record. A toast is its id, whether it is open, and its other properties;
  its \<open>onOpenChange\<close> is always the function that dismisses its id and is not stored.

  A component is a number. Its \<open>useState\<close> holds a copy of the store, taken when it first renders;
  its effect registers the component as a listener after rendering, and its cleanup removes it.
\<close>

definition TOAST_LIMIT :: nat where "TOAST_LIMIT = 1"
definition TOAST_REMOVE_DELAY :: nat where "TOAST_REMOVE_DELAY = 1000000"
definition MAX_SAFE_INTEGER :: nat where "MAX_SAFE_INTEGER = 2 ^ 53 - 1"

record toast =
  toast_id :: string
  toast_open :: bool
  toast_props :: obj

text \<open>\<open>Partial<ToasterToast>\<close> with its id.\<close>

record patch =
  patch_id :: string
  patch_open :: "bool option"
  patch_props :: obj

datatype toast_action =
    ADD_TOAST toast
  | UPDATE_TOAST patch
  | DISMISS_TOAST "string option"
  | REMOVE_TOAST "string option"

record store =
  count :: nat
  memoryState :: "toast list"
  toastTimeouts :: "(string \<times> nat) list"
  running :: "(nat \<times> string \<times> nat) list"
  next_handle :: nat
  subscribers :: "nat list"
  shown :: "nat \<Rightarrow> toast list"

definition init_store :: store where
  "init_store = \<lparr>count = 0, memoryState = [], toastTimeouts = [], running = [], next_handle = 1,
     subscribers = [], shown = (\<lambda>_. [])\<rparr>"

section \<open>The module's functions\<close>

definition genId :: "store \<Rightarrow> string \<times> store" where
  "genId s = (let c = (count s + 1) mod MAX_SAFE_INTEGER in (show_nat c, s\<lparr>count := c\<rparr>))"

text \<open>
  A timer that runs has a handle, the toast it will remove and its delay; \<open>toastTimeouts\<close> maps
  the id of a toast to the handle of its timer.
\<close>

definition addToRemoveQueue :: "string \<Rightarrow> store \<Rightarrow> store" where
  "addToRemoveQueue toastId s =
     (if toastId \<in> fst ` set (toastTimeouts s) then s
      else s\<lparr>running := running s @ [(next_handle s, toastId, TOAST_REMOVE_DELAY)],
             toastTimeouts := toastTimeouts s @ [(toastId, next_handle s)],
             next_handle := next_handle s + 1\<rparr>)"

definition merge :: "toast \<Rightarrow> patch \<Rightarrow> toast" where
  "merge t p = t\<lparr>toast_open := (case patch_open p of None \<Rightarrow> toast_open t | Some b \<Rightarrow> b),
     toast_props := spread (toast_props t) (patch_props p)\<rparr>"

text \<open>\<open>if (toastId)\<close>: neither \<open>undefined\<close> nor the empty string.\<close>

definition given :: "string option \<Rightarrow> bool" where
  "given i \<longleftrightarrow> (case i of None \<Rightarrow> False | Some s \<Rightarrow> s \<noteq> [])"

fun reducer :: "toast list \<Rightarrow> toast_action \<Rightarrow> store \<Rightarrow> toast list \<times> store" where
  "reducer toasts (ADD_TOAST t) s = (take TOAST_LIMIT (t # toasts), s)"
| "reducer toasts (UPDATE_TOAST p) s =
     (map (\<lambda>t. if toast_id t = patch_id p then merge t p else t) toasts, s)"
| "reducer toasts (DISMISS_TOAST i) s =
     (map (\<lambda>t. if Some (toast_id t) = i \<or> i = None then t\<lparr>toast_open := False\<rparr> else t) toasts,
      if given i then addToRemoveQueue (the i) s
      else fold (\<lambda>t. addToRemoveQueue (toast_id t)) toasts s)"
| "reducer toasts (REMOVE_TOAST i) s =
     ((case i of None \<Rightarrow> [] | Some j \<Rightarrow> filter (\<lambda>t. toast_id t \<noteq> j) toasts), s)"

text \<open>\<open>dispatch\<close> sets the store and calls every listener, a component's \<open>setState\<close>.\<close>

definition notify :: "store \<Rightarrow> store" where
  "notify s = s\<lparr>shown := (\<lambda>c. if c \<in> set (subscribers s) then memoryState s else shown s c)\<rparr>"

definition dispatch :: "toast_action \<Rightarrow> store \<Rightarrow> store" where
  "dispatch a s =
     (case reducer (memoryState s) a s of (ts, s') \<Rightarrow> notify (s'\<lparr>memoryState := ts\<rparr>))"

definition toast_update :: "string \<Rightarrow> patch \<Rightarrow> store \<Rightarrow> store" where
  "toast_update i p = dispatch (UPDATE_TOAST (p\<lparr>patch_id := i\<rparr>))"

definition toast_dismiss :: "string \<Rightarrow> store \<Rightarrow> store" where
  "toast_dismiss i = dispatch (DISMISS_TOAST (Some i))"

definition toast :: "obj \<Rightarrow> store \<Rightarrow> string \<times> store" where
  "toast props s =
     (case genId s of (i, s') \<Rightarrow>
        (i, dispatch (ADD_TOAST \<lparr>toast_id = i, toast_open = True, toast_props = props\<rparr>) s'))"

definition onOpenChange :: "string \<Rightarrow> bool \<Rightarrow> store \<Rightarrow> store" where
  "onOpenChange i is_open s = (if \<not> is_open then toast_dismiss i s else s)"

text \<open>The callback of a timer.\<close>

definition remove_timer_fires :: "nat \<Rightarrow> string \<Rightarrow> store \<Rightarrow> store" where
  "remove_timer_fires h i s =
     dispatch (REMOVE_TOAST (Some i))
       (s\<lparr>running := filter (\<lambda>(g, _). g \<noteq> h) (running s),
          toastTimeouts := filter (\<lambda>(j, _). j \<noteq> i) (toastTimeouts s)\<rparr>)"

text \<open>\<open>useToast\<close>: first render, effect, cleanup, and its \<open>dismiss\<close>.\<close>

definition useToast_render :: "nat \<Rightarrow> store \<Rightarrow> store" where
  "useToast_render c s = s\<lparr>shown := (shown s)(c := memoryState s)\<rparr>"

definition useToast_effect :: "nat \<Rightarrow> store \<Rightarrow> store" where
  "useToast_effect c s = s\<lparr>subscribers := subscribers s @ [c]\<rparr>"

definition useToast_cleanup :: "nat \<Rightarrow> store \<Rightarrow> store" where
  "useToast_cleanup c s = s\<lparr>subscribers := remove1 c (subscribers s)\<rparr>"

definition useToast_dismiss :: "string option \<Rightarrow> store \<Rightarrow> store" where
  "useToast_dismiss i = dispatch (DISMISS_TOAST i)"

section \<open>Steps\<close>

datatype store_label =
    ShowToast obj
  | UpdateToast string patch
  | DismissToast string
  | OpenChange string bool
  | DismissFrom "string option"
  | RemoveTimer nat
  | Render nat
  | Effect nat
  | Cleanup nat

inductive store_step :: "store \<Rightarrow> store_label \<Rightarrow> store \<Rightarrow> bool" where
  step_show: "store_step s (ShowToast props) (snd (toast props s))"
| step_update: "store_step s (UpdateToast i p) (toast_update i p s)"
| step_dismiss: "store_step s (DismissToast i) (toast_dismiss i s)"
| step_open_change: "store_step s (OpenChange i b) (onOpenChange i b s)"
| step_dismiss_from: "store_step s (DismissFrom i) (useToast_dismiss i s)"
| step_remove: "(h, i, d) \<in> set (running s) \<Longrightarrow> store_step s (RemoveTimer h) (remove_timer_fires h i s)"
| step_render: "store_step s (Render c) (useToast_render c s)"
| step_effect: "store_step s (Effect c) (useToast_effect c s)"
| step_cleanup: "c \<in> set (subscribers s) \<Longrightarrow> store_step s (Cleanup c) (useToast_cleanup c s)"

inductive_simps store_step_simps:
  "store_step s (ShowToast props) t" "store_step s (UpdateToast i p) t"
  "store_step s (DismissToast i) t" "store_step s (OpenChange i b) t"
  "store_step s (DismissFrom j) t" "store_step s (RemoveTimer h) t"

section \<open>The shape of the store\<close>

lemma notify_fields [simp]:
  "count (notify s) = count s" "memoryState (notify s) = memoryState s"
  "toastTimeouts (notify s) = toastTimeouts s" "running (notify s) = running s"
  "next_handle (notify s) = next_handle s" "subscribers (notify s) = subscribers s"
  by (simp_all add: notify_def)

lemma add_queue_fields [simp]:
  "count (addToRemoveQueue i s) = count s" "memoryState (addToRemoveQueue i s) = memoryState s"
  "subscribers (addToRemoveQueue i s) = subscribers s" "shown (addToRemoveQueue i s) = shown s"
  by (simp_all add: addToRemoveQueue_def)

lemma fold_queue_fields [simp]:
  "count (fold (\<lambda>t. addToRemoveQueue (f t)) ts s) = count s"
  "memoryState (fold (\<lambda>t. addToRemoveQueue (f t)) ts s) = memoryState s"
  "subscribers (fold (\<lambda>t. addToRemoveQueue (f t)) ts s) = subscribers s"
  by (induction ts arbitrary: s) simp_all

lemma dispatch_fields:
  "memoryState (dispatch a s) = fst (reducer (memoryState s) a s)"
  "count (dispatch a s) = count s" "subscribers (dispatch a s) = subscribers s"
  "toastTimeouts (dispatch a s) = toastTimeouts (snd (reducer (memoryState s) a s))"
  "running (dispatch a s) = running (snd (reducer (memoryState s) a s))"
  "next_handle (dispatch a s) = next_handle (snd (reducer (memoryState s) a s))"
  by (cases a; simp add: dispatch_def)+

text \<open>Whatever was dispatched, every subscriber shows the store afterwards.\<close>

lemma dispatch_shown:
  "c \<in> set (subscribers s) \<Longrightarrow> shown (dispatch a s) c = memoryState (dispatch a s)"
  by (cases a) (simp_all add: dispatch_def notify_def)

text \<open>
  The queue: one timer per queued id, and every running timer is queued under its handle.
\<close>

definition queue_ok :: "store \<Rightarrow> bool" where
  "queue_ok s \<longleftrightarrow>
     toastTimeouts s = map (\<lambda>r. (fst (snd r), fst r)) (running s)
     \<and> distinct (map (\<lambda>r. fst (snd r)) (running s)) \<and> distinct (map fst (running s))
     \<and> (\<forall>r \<in> set (running s). fst r < next_handle s)"

definition queued :: "string \<Rightarrow> store \<Rightarrow> bool" where
  "queued i s \<longleftrightarrow> i \<in> fst ` set (toastTimeouts s)"

lemma queue_ok_frame:
  "queue_ok s \<Longrightarrow> toastTimeouts s' = toastTimeouts s \<Longrightarrow> running s' = running s \<Longrightarrow>
     next_handle s' = next_handle s \<Longrightarrow> queue_ok s'"
  by (simp add: queue_ok_def)

lemma queue_ok_add:
  assumes "queue_ok s"
  shows "queue_ok (addToRemoveQueue i s)"
proof (cases "i \<in> fst ` set (toastTimeouts s)")
  case True
  then show ?thesis using assms by (simp add: addToRemoveQueue_def)
next
  case False
  have "next_handle s \<notin> fst ` set (running s)"
    using assms by (auto simp: queue_ok_def)
  then show ?thesis
    using assms False by (force simp: addToRemoveQueue_def queue_ok_def less_Suc_eq image_image)
qed

lemma queued_add: "queued j (addToRemoveQueue i s) \<longleftrightarrow> j = i \<or> queued j s"
  by (auto simp: queued_def addToRemoveQueue_def)

lemma queue_fold:
  "queue_ok s \<Longrightarrow> queue_ok (fold (\<lambda>t. addToRemoveQueue (f t)) ts s)"
  by (induction ts arbitrary: s) (simp_all add: queue_ok_add)

lemma queued_fold:
  "queued j (fold (\<lambda>t. addToRemoveQueue (f t)) ts s) \<longleftrightarrow> j \<in> f ` set ts \<or> queued j s"
  by (induction ts arbitrary: s) (auto simp: queued_add)

lemma queue_ok_dispatch:
  assumes "queue_ok s"
  shows "queue_ok (dispatch a s)"
proof -
  have "queue_ok (snd (reducer (memoryState s) a s))"
    using assms by (cases a) (simp_all add: queue_ok_add queue_fold)
  then show ?thesis
    by (rule queue_ok_frame) (simp_all add: dispatch_fields)
qed

lemma queue_ok_fire:
  assumes "queue_ok s" "(h, i, d) \<in> set (running s)"
  shows "queue_ok (remove_timer_fires h i s)"
proof -
  let ?s = "s\<lparr>running := filter (\<lambda>(g, _). g \<noteq> h) (running s),
      toastTimeouts := filter (\<lambda>(j, _). j \<noteq> i) (toastTimeouts s)\<rparr>"
  have tt: "toastTimeouts s = map (\<lambda>r. (fst (snd r), fst r)) (running s)"
    and di: "distinct (map (\<lambda>r. fst (snd r)) (running s))" and dh: "distinct (map fst (running s))"
    using assms(1) by (simp_all add: queue_ok_def)
  have same: "fst (snd r) = i \<longleftrightarrow> fst r = h" if r: "r \<in> set (running s)" for r
    using inj_onD [OF di [unfolded distinct_map, THEN conjunct2] _ r assms(2)]
      inj_onD [OF dh [unfolded distinct_map, THEN conjunct2] _ r assms(2)] by (cases r) auto
  have "filter (\<lambda>r. fst (snd r) \<noteq> i) (running s) = filter (\<lambda>r. fst r \<noteq> h) (running s)"
    by (intro filter_cong refl) (simp add: same)
  then have "toastTimeouts ?s = map (\<lambda>r. (fst (snd r), fst r)) (running ?s)"
    by (simp add: tt filter_map o_def case_prod_unfold)
  then have "queue_ok ?s"
    using assms(1) by (auto simp: queue_ok_def distinct_map_filter case_prod_unfold)
  then show ?thesis
    by (simp add: remove_timer_fires_def queue_ok_dispatch)
qed

end
