(* ===== verification/Toast_Lifecycle.thy ===== *)
theory Toast_Lifecycle
  imports Toast_Store
begin

text \<open>
  The invariants of the toast store: one toast at most, the last one shown; one timer per
  dismissed toast; and, unless an update closes a toast behind the store's back, a timer for
  every closed toast.
\<close>

section \<open>Invariants\<close>

definition store_inv :: "store \<Rightarrow> bool" where
  "store_inv s \<longleftrightarrow>
     queue_ok s \<and> length (memoryState s) \<le> 1 \<and> count s < MAX_SAFE_INTEGER
     \<and> (\<forall>t \<in> set (memoryState s). toast_id t = show_nat (count s))"

definition closing_queued :: "store \<Rightarrow> bool" where
  "closing_queued s \<longleftrightarrow> (\<forall>t \<in> set (memoryState s). toast_open t \<or> queued (toast_id t) s)"

definition keeps_open :: "store_label \<Rightarrow> bool" where
  "keeps_open l \<longleftrightarrow> (case l of UpdateToast i p \<Rightarrow> patch_open p \<noteq> Some False | _ \<Rightarrow> True)"

lemma store_inv_init: "store_inv init_store"
  by (simp add: store_inv_def queue_ok_def init_store_def MAX_SAFE_INTEGER_def)

lemma reducer_ids:
  assumes "\<And>t. a \<noteq> ADD_TOAST t"
  shows "toast_id ` set (fst (reducer ts a s)) \<subseteq> toast_id ` set ts
       \<and> length (fst (reducer ts a s)) \<le> length ts"
proof (cases a)
  case (ADD_TOAST t)
  with assms [of t] show ?thesis by simp
next
  case (UPDATE_TOAST p)
  then show ?thesis by (auto simp: merge_def intro: rev_image_eqI)
next
  case (DISMISS_TOAST i)
  then show ?thesis by auto
next
  case (REMOVE_TOAST i)
  then show ?thesis by (auto split: option.splits)
qed

lemma store_inv_dispatch:
  assumes "store_inv s" and "\<And>t. a \<noteq> ADD_TOAST t"
  shows "store_inv (dispatch a s)"
proof -
  have "toast_id ` set (memoryState (dispatch a s)) \<subseteq> toast_id ` set (memoryState s)"
    "length (memoryState (dispatch a s)) \<le> length (memoryState s)"
    using reducer_ids [of a "memoryState s" s, OF assms(2)] by (simp_all add: dispatch_fields)
  with assms(1) show ?thesis
    by (auto simp: store_inv_def dispatch_fields queue_ok_dispatch)
qed

lemma toast_run:
  "toast props s =
     (let c = (count s + 1) mod MAX_SAFE_INTEGER
      in (show_nat c, notify (s\<lparr>count := c,
            memoryState := [\<lparr>toast_id = show_nat c, toast_open = True, toast_props = props\<rparr>]\<rparr>)))"
  by (simp add: toast_def genId_def dispatch_def Let_def TOAST_LIMIT_def)

lemma store_inv_toast:
  assumes "store_inv s"
  shows "store_inv (snd (toast props s))"
proof -
  have "queue_ok (snd (toast props s))"
    by (rule queue_ok_frame [of s]) (use assms in \<open>simp_all add: toast_run Let_def store_inv_def\<close>)
  then show ?thesis
    by (simp add: store_inv_def toast_run Let_def MAX_SAFE_INTEGER_def)
qed

lemma store_inv_frame:
  "store_inv s \<Longrightarrow> queue_ok s' \<Longrightarrow> count s' = count s \<Longrightarrow> memoryState s' = memoryState s \<Longrightarrow> store_inv s'"
  by (simp add: store_inv_def)

lemma remove_fires_dispatch:
  assumes "queue_ok s" "(h, i, d) \<in> set (running s)"
  shows "memoryState (remove_timer_fires h i s) = filter (\<lambda>t. toast_id t \<noteq> i) (memoryState s)"
    and "count (remove_timer_fires h i s) = count s"
    and "toastTimeouts (remove_timer_fires h i s) = filter (\<lambda>(j, _). j \<noteq> i) (toastTimeouts s)"
  by (simp_all add: remove_timer_fires_def dispatch_fields)

lemma store_inv_step: "store_step s l t \<Longrightarrow> store_inv s \<Longrightarrow> store_inv t"
proof (induction rule: store_step.induct)
  case (step_show s props)
  then show ?case by (rule store_inv_toast)
next
  case (step_update s i p)
  then show ?case unfolding toast_update_def by (intro store_inv_dispatch) simp_all
next
  case (step_dismiss s i)
  then show ?case unfolding toast_dismiss_def by (intro store_inv_dispatch) simp_all
next
  case (step_open_change s i b)
  then show ?case
    using store_inv_dispatch [of s "DISMISS_TOAST (Some i)"] by (simp add: onOpenChange_def toast_dismiss_def)
next
  case (step_dismiss_from s i)
  then show ?case unfolding useToast_dismiss_def by (intro store_inv_dispatch) simp_all
next
  case (step_remove h i d s)
  then have ok: "queue_ok s" by (simp add: store_inv_def)
  note fields = remove_fires_dispatch [OF ok step_remove.hyps]
  have ok': "queue_ok (remove_timer_fires h i s)"
    by (rule queue_ok_fire [OF ok step_remove.hyps])
  have "length (memoryState (remove_timer_fires h i s)) \<le> length (memoryState s)"
    by (simp add: fields)
  moreover have "length (memoryState s) \<le> 1"
    using step_remove.prems by (simp add: store_inv_def)
  ultimately have "length (memoryState (remove_timer_fires h i s)) \<le> 1" by linarith
  with ok' show ?case
    using step_remove.prems by (simp add: store_inv_def fields)
next
  case (step_render s c)
  show ?case
    by (rule store_inv_frame [OF step_render])
       (use step_render in \<open>simp_all add: useToast_render_def store_inv_def queue_ok_def\<close>)
next
  case (step_effect s c)
  show ?case
    by (rule store_inv_frame [OF step_effect])
       (use step_effect in \<open>simp_all add: useToast_effect_def store_inv_def queue_ok_def\<close>)
next
  case (step_cleanup c s)
  show ?case
    by (rule store_inv_frame [OF step_cleanup(2)])
       (use step_cleanup in \<open>simp_all add: useToast_cleanup_def store_inv_def queue_ok_def\<close>)
qed

lemma queued_dispatch:
  "queued j (dispatch a s) \<longleftrightarrow> queued j (snd (reducer (memoryState s) a s))"
  by (simp add: queued_def dispatch_fields)

lemma closing_dismiss:
  assumes "closing_queued s"
  shows "closing_queued (dispatch (DISMISS_TOAST i) s)"
  using assms
  by (auto simp: closing_queued_def dispatch_fields queued_dispatch queued_add queued_fold given_def
      intro: rev_image_eqI split: if_splits option.splits)

lemma closing_frame:
  "closing_queued s \<Longrightarrow> toastTimeouts s' = toastTimeouts s \<Longrightarrow> memoryState s' = memoryState s \<Longrightarrow>
     closing_queued s'"
  by (simp add: closing_queued_def queued_def)

lemma closing_toast: "closing_queued (snd (toast props s))"
  by (simp add: closing_queued_def toast_run Let_def)

lemma closing_update:
  "closing_queued s \<Longrightarrow> patch_open p \<noteq> Some False \<Longrightarrow> closing_queued (toast_update i p s)"
  by (auto simp: closing_queued_def toast_update_def dispatch_fields queued_dispatch merge_def
      queued_def split: option.splits)

lemma closing_fires:
  assumes "closing_queued s" "queue_ok s" "(h, i, d) \<in> set (running s)"
  shows "closing_queued (remove_timer_fires h i s)"
  using assms(1)
  by (force simp: closing_queued_def queued_def remove_fires_dispatch [OF assms(2,3)])

lemma closing_step:
  "store_step s l t \<Longrightarrow> keeps_open l \<Longrightarrow> store_inv s \<Longrightarrow> closing_queued s \<Longrightarrow> closing_queued t"
proof (induction rule: store_step.induct)
  case (step_update s i p)
  then show ?case by (simp add: keeps_open_def closing_update)
next
  case (step_remove h i d s)
  then show ?case by (simp add: closing_fires store_inv_def)
next
  case (step_render s c)
  show ?case by (rule closing_frame [OF step_render(3)]) (simp_all add: useToast_render_def)
next
  case (step_effect s c)
  show ?case by (rule closing_frame [OF step_effect(3)]) (simp_all add: useToast_effect_def)
next
  case (step_cleanup c s)
  show ?case by (rule closing_frame [OF step_cleanup(4)]) (simp_all add: useToast_cleanup_def)
qed (simp_all add: closing_toast closing_dismiss toast_dismiss_def useToast_dismiss_def onOpenChange_def)

interpretation toasts: invariant_system "\<lambda>s. s = init_store" store_step store_inv
  by unfold_locales (auto simp: store_inv_init intro: store_inv_step)

interpretation toasts_closing: guarded_system "\<lambda>s. s = init_store" store_step store_inv
    keeps_open closing_queued
proof unfold_locales
  show "closing_queued s" if "s = init_store" for s
    using that by (simp add: closing_queued_def init_store_def)
qed (rule closing_step)

section \<open>Properties\<close>

text \<open>
  C4. Whatever the program, the user and the timers do: the store never holds more than one
  toast, it is the one shown last, and no toast has two removal timers.
\<close>

theorem one_toast:
  assumes "execution store_step init_store ls s"
  shows "length (memoryState s) \<le> 1 \<and> (\<forall>t \<in> set (memoryState s). toast_id t = show_nat (count s))
       \<and> distinct (map (\<lambda>r. fst (snd r)) (running s))"
  using toasts.reachable_inv [OF assms refl] by (simp add: store_inv_def queue_ok_def)

definition one_shown :: store where
  "one_shown = snd (toast [(''title'', Str ''Error'')] init_store)"

lemma exec_shown: "execution store_step init_store [ShowToast [(''title'', Str ''Error'')]] one_shown"
  by (rule execution_single) (simp add: one_shown_def step_show)

theorem one_toast_witness:
  "length (memoryState one_shown) \<le> 1 \<and> distinct (map (\<lambda>r. fst (snd r)) (running one_shown))"
  using one_toast [OF exec_shown] by blast

text \<open>
  C35. Showing a toast replaces whatever is there: afterwards the store holds exactly that toast,
  open, under an id that no toast of the store had, and every subscribed component shows it.
\<close>

theorem toast_shows:
  assumes "execution store_step init_store ls s" and "toast props s = (i, s')"
  shows "memoryState s' = [\<lparr>toast_id = i, toast_open = True, toast_props = props\<rparr>]
       \<and> i \<notin> toast_id ` set (memoryState s)
       \<and> (\<forall>c \<in> set (subscribers s'). shown s' c = memoryState s')"
proof -
  have inv: "store_inv s"
    using toasts.reachable_inv [OF assms(1) refl] .
  have "(c + 1) mod MAX_SAFE_INTEGER \<noteq> c" if "c < MAX_SAFE_INTEGER" for c
    using that by (cases "c + 1 = MAX_SAFE_INTEGER") (auto simp: MAX_SAFE_INTEGER_def)
  with inv have "(count s + 1) mod MAX_SAFE_INTEGER \<noteq> count s"
    by (simp add: store_inv_def)
  with inv assms(2) show ?thesis
    by (auto simp: toast_run Let_def store_inv_def notify_def show_nat_inj)
qed

theorem toast_shows_witness:
  "memoryState one_shown = [\<lparr>toast_id = show_nat 1, toast_open = True, toast_props = [(''title'', Str ''Error'')]\<rparr>]"
proof -
  have "toast [(''title'', Str ''Error'')] init_store = (show_nat 1, one_shown)"
    by (simp add: one_shown_def toast_run Let_def init_store_def MAX_SAFE_INTEGER_def)
  from toast_shows [OF exec_nil this] show ?thesis by simp
qed

text \<open>
  C18. A dismissed toast goes away: as long as no update closes a toast, every closed toast has a
  removal timer, and once that timer fires no toast has its id.
\<close>

theorem closed_toasts_are_removed:
  assumes "execution store_step init_store ls s" and "list_all keeps_open ls"
    and "t \<in> set (memoryState s)" and "\<not> toast_open t"
  shows "\<exists>h d. (h, toast_id t, d) \<in> set (running s)
           \<and> (\<forall>s'. store_step s (RemoveTimer h) s' \<longrightarrow> toast_id t \<notin> toast_id ` set (memoryState s'))"
proof -
  have ok: "queue_ok s"
    using toasts.reachable_inv [OF assms(1) refl] by (simp add: store_inv_def)
  have "closing_queued s"
    using toasts_closing.reachable_ginv [OF assms(1) refl assms(2)] .
  with assms(3,4) have "toast_id t \<in> fst ` set (toastTimeouts s)"
    by (auto simp: closing_queued_def queued_def)
  with ok obtain h d where h: "(h, toast_id t, d) \<in> set (running s)"
    by (auto simp: queue_ok_def)
  have "j = toast_id t" if "(h, j, e) \<in> set (running s)" for j e
  proof -
    have "distinct (map fst (running s))" using ok by (simp add: queue_ok_def)
    with that h have "(j, e) = (toast_id t, d)" by (blast dest: eq_key_imp_eq_value)
    then show ?thesis by simp
  qed
  then have "toast_id t \<notin> toast_id ` set (memoryState s')" if "store_step s (RemoveTimer h) s'" for s'
    using that remove_fires_dispatch(1) [OF ok] by (auto simp: store_step_simps)
  with h show ?thesis by blast
qed

definition one_dismissed :: store where
  "one_dismissed = toast_dismiss (show_nat 1) one_shown"

theorem closed_toasts_are_removed_witness:
  "\<exists>h d. (h, show_nat 1, d) \<in> set (running one_dismissed)"
proof -
  have m: "memoryState one_dismissed = [\<lparr>toast_id = show_nat 1, toast_open = False, toast_props = [(''title'', Str ''Error'')]\<rparr>]"
    by (simp add: one_dismissed_def toast_dismiss_def dispatch_fields one_shown_def toast_run Let_def
        init_store_def MAX_SAFE_INTEGER_def)
  have e: "execution store_step init_store ([ShowToast [(''title'', Str ''Error'')]] @ [DismissToast (show_nat 1)]) one_dismissed"
    unfolding one_dismissed_def by (rule exec_snoc [OF exec_shown step_dismiss])
  have l: "list_all keeps_open ([ShowToast [(''title'', Str ''Error'')]] @ [DismissToast (show_nat 1)])"
    by (simp add: keeps_open_def)
  let ?t = "\<lparr>toast_id = show_nat 1, toast_open = False, toast_props = [(''title'', Str ''Error'')]\<rparr>"
  have "?t \<in> set (memoryState one_dismissed)" "\<not> toast_open ?t"
    by (simp_all add: m)
  from closed_toasts_are_removed [OF e l this] show ?thesis by auto
qed

text \<open>
  Dismissing twice through \<open>useToast\<close> is the same as once, for one id, for none and for the
  empty one: no timer is started or restarted. The empty id starts the removal of every toast
  but closes none, unlike no id.
\<close>

theorem dismiss_idempotent:
  "useToast_dismiss i (useToast_dismiss i s) = useToast_dismiss i s
   \<and> memoryState (useToast_dismiss (Some []) s) = map (\<lambda>t. if toast_id t = [] then t\<lparr>toast_open := False\<rparr> else t) (memoryState s)
   \<and> (\<forall>t \<in> set (memoryState s). queued (toast_id t) (useToast_dismiss (Some []) s))"
proof -
  have again: "addToRemoveQueue j u = u" if "queued j u" for j u
    using that by (simp add: addToRemoveQueue_def queued_def)
  have all: "fold (\<lambda>t. addToRemoveQueue (toast_id t)) ts u = u"
    if "\<forall>t \<in> set ts. queued (toast_id t) u" for ts u
    using that by (induction ts) (simp_all add: again)
  define ms where "ms = fst (reducer (memoryState s) (DISMISS_TOAST i) s)"
  define s1 where "s1 = notify ((snd (reducer (memoryState s) (DISMISS_TOAST i) s))\<lparr>memoryState := ms\<rparr>)"
  have s1: "useToast_dismiss i s = s1"
    by (simp add: useToast_dismiss_def dispatch_def s1_def ms_def)
  have "map toast_id ms = map toast_id (memoryState s)"
    by (simp add: ms_def)
  then have "toast_id ` set ms = toast_id ` set (memoryState s)"
    by (metis list.set_map)
  then have ids: "toast_id u \<in> toast_id ` set (memoryState s)" if "u \<in> set ms" for u
    using that by blast
  have "queued j s1 \<longleftrightarrow> queued j (snd (reducer (memoryState s) (DISMISS_TOAST i) s))" for j
    by (simp add: s1_def queued_def)
  then have q: "\<forall>u \<in> set ms. queued (toast_id u) s1" if "\<not> given i"
    using that ids by (simp add: queued_fold)
  have "queued (the i) s1" if "given i"
    using that by (simp add: s1_def queued_def addToRemoveQueue_def)
  with q have "snd (reducer ms (DISMISS_TOAST i) s1) = s1"
    by (simp add: again all)
  moreover have "fst (reducer ms (DISMISS_TOAST i) s1) = ms"
    by (auto simp: ms_def)
  moreover have "memoryState s1 = ms" by (simp add: s1_def)
  ultimately have "useToast_dismiss i s1 = notify (s1\<lparr>memoryState := ms\<rparr>)"
    by (simp add: useToast_dismiss_def dispatch_def case_prod_beta del: reducer.simps)
  also have "\<dots> = s1"
    by (simp add: s1_def notify_def fun_eq_iff)
  finally have "useToast_dismiss i (useToast_dismiss i s) = useToast_dismiss i s"
    by (simp only: s1)
  then show ?thesis
    by (simp add: useToast_dismiss_def dispatch_fields queued_dispatch given_def queued_fold)
qed

end
