(* ===== verification/View.thy ===== *)
theory View
  imports Ui_Action
begin

text \<open>
  What a component renders: a list of nodes, or the exception its render function throws. A node
  is a text or an element with its tag (an HTML tag or a component that is not expanded), its
  data attributes, its event handlers and its children. A handler is a value of the page's own
  event type. Class names and icons are not modelled, except where the code computes a class.

  Two kinds of question are asked of a view: whether every element satisfies a condition (and
  rendering does not throw), and what can be collected from it, such as its links, its enabled
  handlers and its texts.
\<close>

datatype 'h node =
    Text string
  | El string obj "(string \<times> 'h) list" "'h node list"

type_synonym 'h view = "exn + 'h node list"

section \<open>Building views\<close>

fun views :: "'h view list \<Rightarrow> 'h view" where
  "views [] = Inr []"
| "views (v # vs) = bind_res v (\<lambda>x. bind_res (views vs) (\<lambda>y. Inr (x @ y)))"

definition el :: "string \<Rightarrow> obj \<Rightarrow> (string \<times> 'h) list \<Rightarrow> 'h view list \<Rightarrow> 'h view" where
  "el tag as hs vs = bind_res (views vs) (\<lambda>ns. Inr [El tag as hs ns])"

definition lbl :: "string \<Rightarrow> 'h view" where
  "lbl s = Inr [Text s]"

abbreviation box :: "string \<Rightarrow> 'h view list \<Rightarrow> 'h view" where
  "box tag \<equiv> el tag [] []"

abbreviation nothing :: "'h view" where
  "nothing \<equiv> Inr []"

text \<open>\<open>{v}\<close> as a child: nothing for \<open>null\<close>, \<open>undefined\<close> and booleans; an object cannot be rendered.\<close>

fun child :: "jsval \<Rightarrow> 'h view" where
  "child Undef = nothing"
| "child Null = nothing"
| "child (Bool b) = nothing"
| "child (Num n) = lbl (js_to_string (Num n))"
| "child (Str s) = lbl s"
| "child (Arr vs) = views (map child vs)"
| "child (Obj kvs) = Inl (Error ''Objects are not valid as a React child'')"

text \<open>\<open>{b && view}\<close> for a boolean \<open>b\<close>; for any other value the falsy value itself is the child.\<close>

definition when_shown :: "bool \<Rightarrow> 'h view \<Rightarrow> 'h view" where
  "when_shown b v = (if b then v else nothing)"

definition and_then :: "jsval \<Rightarrow> 'h view \<Rightarrow> 'h view" where
  "and_then c v = (if truthy c then v else child c)"

text \<open>\<open>{xs.map(f)}\<close>, and code that reads properties of one value throughout.\<close>

definition each :: "jsval \<Rightarrow> (jsval \<Rightarrow> 'h view) \<Rightarrow> 'h view" where
  "each v f =
     (case v of Arr vs \<Rightarrow> views (map f vs)
      | _ \<Rightarrow> Inl (TypeError (if nullish v then ''Cannot read properties of undefined (reading map)''
                            else ''map is not a function'')))"

definition with_props :: "jsval \<Rightarrow> 'h view \<Rightarrow> 'h view" where
  "with_props v w = (if nullish v then Inl (TypeError ''Cannot read properties'') else w)"

text \<open>A call \<open>v.m()\<close> of a string method; \<open>v?.m()\<close> gives \<open>undefined\<close> when \<open>v\<close> is nullish.\<close>

definition str_call :: "(string \<Rightarrow> 'b) \<Rightarrow> jsval \<Rightarrow> exn + 'b" where
  "str_call f v =
     (case v of Str s \<Rightarrow> Inr (f s)
      | _ \<Rightarrow> Inl (TypeError (if nullish v then ''Cannot read properties of undefined'' else ''not a function'')))"

definition num_call :: "(number \<Rightarrow> 'b) \<Rightarrow> jsval \<Rightarrow> exn + 'b" where
  "num_call f v =
     (case v of Num n \<Rightarrow> Inr (f n)
      | _ \<Rightarrow> Inl (TypeError (if nullish v then ''Cannot read properties of undefined'' else ''not a function'')))"

text \<open>\<open>n.toFixed(1)\<close>\<close>

definition number_fixed1 :: "number \<Rightarrow> string" where
  "number_fixed1 n = (case n of Fin x \<Rightarrow> to_fixed1 x | NaN \<Rightarrow> ''NaN'')"

lemma str_call_simps [simp]: "str_call f (Str s) = Inr (f s)"
  by (simp add: str_call_def)

lemma num_call_simps [simp]: "num_call f (Num n) = Inr (f n)"
  by (simp add: num_call_def)

section \<open>A condition on every element\<close>

fun node_all :: "(string \<Rightarrow> obj \<Rightarrow> (string \<times> 'h) list \<Rightarrow> bool) \<Rightarrow> 'h node \<Rightarrow> bool" where
  "node_all Q (Text s) = True"
| "node_all Q (El tag as hs ns) = (Q tag as hs \<and> list_all (node_all Q) ns)"

definition everywhere :: "(string \<Rightarrow> obj \<Rightarrow> (string \<times> 'h) list \<Rightarrow> bool) \<Rightarrow> 'h view \<Rightarrow> bool" where
  "everywhere Q v \<longleftrightarrow> (\<exists>ns. v = Inr ns \<and> list_all (node_all Q) ns)"

abbreviation renders :: "'h view \<Rightarrow> bool" where
  "renders v \<equiv> everywhere (\<lambda>_ _ _. True) v"

lemma everywhere_Inr [simp]: "everywhere Q (Inr ns) \<longleftrightarrow> list_all (node_all Q) ns"
  by (simp add: everywhere_def)

lemma everywhere_Inl [simp]: "\<not> everywhere Q (Inl e)"
  by (simp add: everywhere_def)

lemma everywhere_views [simp]: "everywhere Q (views vs) \<longleftrightarrow> list_all (everywhere Q) vs"
proof (induction vs)
  case (Cons v vs)
  then show ?case
    by (cases v; cases "views vs") (auto simp: everywhere_def)
qed simp

lemma everywhere_el [simp]: "everywhere Q (el tag as hs vs) \<longleftrightarrow> Q tag as hs \<and> list_all (everywhere Q) vs"
proof -
  have "everywhere Q (el tag as hs vs) \<longleftrightarrow> Q tag as hs \<and> everywhere Q (views vs)"
    by (cases "views vs") (auto simp: el_def)
  then show ?thesis by simp
qed

lemma everywhere_lbl [simp]: "everywhere Q (lbl s)"
  by (simp add: lbl_def)

lemma everywhere_when [simp]: "everywhere Q (when_shown b v) \<longleftrightarrow> (b \<longrightarrow> everywhere Q v)"
  by (simp add: when_shown_def)

lemma everywhere_and_then [simp]:
  "everywhere Q (and_then c v) \<longleftrightarrow> (if truthy c then everywhere Q v else everywhere Q (child c))"
  by (simp add: and_then_def)

lemma everywhere_each [simp]:
  "everywhere Q (each (Arr vs) f) \<longleftrightarrow> (\<forall>x \<in> set vs. everywhere Q (f x))"
  by (simp add: each_def list_all_iff)

lemma everywhere_with_props [simp]: "everywhere Q (with_props v w) \<longleftrightarrow> \<not> nullish v \<and> everywhere Q w"
  by (simp add: with_props_def)

lemma everywhere_if [simp]: "everywhere Q (if b then v else w) \<longleftrightarrow> (if b then everywhere Q v else everywhere Q w)"
  by simp

lemma everywhere_falsy_child [simp]: "\<not> truthy v \<Longrightarrow> everywhere Q (child v)"
  by (cases v) auto

lemma everywhere_child_str: "has_type TString v \<Longrightarrow> everywhere Q (child v)"
  by (cases v) auto

lemma everywhere_child_num: "has_type TNumber v \<Longrightarrow> everywhere Q (child v)"
  by (cases v) auto

section \<open>Collecting from a view\<close>

fun collect_node :: "(string \<Rightarrow> 'b list) \<Rightarrow> (string \<Rightarrow> obj \<Rightarrow> (string \<times> 'h) list \<Rightarrow> 'b list) \<Rightarrow> 'h node \<Rightarrow> 'b list" where
  "collect_node f g (Text s) = f s"
| "collect_node f g (El tag as hs ns) = g tag as hs @ concat (map (collect_node f g) ns)"

definition collect :: "(string \<Rightarrow> 'b list) \<Rightarrow> (string \<Rightarrow> obj \<Rightarrow> (string \<times> 'h) list \<Rightarrow> 'b list) \<Rightarrow> 'h view \<Rightarrow> 'b list" where
  "collect f g v = (case v of Inl e \<Rightarrow> [] | Inr ns \<Rightarrow> concat (map (collect_node f g) ns))"

text \<open>The targets of the links, the handlers the user can trigger by a click, and the texts.\<close>

definition links :: "'h view \<Rightarrow> jsval list" where
  "links = collect (\<lambda>_. []) (\<lambda>tag as hs. if tag = ''Link'' then [field as ''href''] else [])"

definition offers :: "'h view \<Rightarrow> 'h list" where
  "offers = collect (\<lambda>_. []) (\<lambda>tag as hs.
     if truthy (field as ''disabled'') then [] else map snd (filter (\<lambda>(k, _). k = ''onClick'') hs))"

definition texts :: "'h view \<Rightarrow> string list" where
  "texts = collect (\<lambda>s. [s]) (\<lambda>_ _ _. [])"

lemma collect_Inr [simp]: "collect f g (Inr ns) = concat (map (collect_node f g) ns)"
  by (simp add: collect_def)

lemma collect_views [simp]:
  "list_all renders vs \<Longrightarrow> collect f g (views vs) = concat (map (collect f g) vs)"
proof (induction vs)
  case (Cons v vs)
  then obtain ns where "v = Inr ns" by (auto simp: everywhere_def)
  moreover obtain ms where "views vs = Inr ms"
    using Cons.prems everywhere_views [of "\<lambda>_ _ _. True" vs] unfolding everywhere_def by auto
  ultimately show ?case using Cons by simp
qed simp

lemma collect_el [simp]:
  "list_all renders vs \<Longrightarrow> collect f g (el tag as hs vs) = g tag as hs @ concat (map (collect f g) vs)"
proof -
  assume a: "list_all renders vs"
  then obtain ns where ns: "views vs = Inr ns"
    using everywhere_views [of "\<lambda>_ _ _. True" vs] unfolding everywhere_def by auto
  have "concat (map (collect_node f g) ns) = concat (map (collect f g) vs)"
    using collect_views [OF a, of f g] by (simp add: ns)
  then show ?thesis by (simp add: el_def ns)
qed

lemma collect_lbl [simp]: "collect f g (lbl s) = f s"
  by (simp add: lbl_def)

lemma collect_when [simp]: "collect f g (when_shown b v) = (if b then collect f g v else [])"
  by (simp add: when_shown_def)

lemma collect_each [simp]:
  "\<forall>x \<in> set vs. renders (h x) \<Longrightarrow> collect f g (each (Arr vs) h) = concat (map (\<lambda>x. collect f g (h x)) vs)"
  by (simp add: each_def list_all_iff o_def)

lemma collect_with_props [simp]: "\<not> nullish v \<Longrightarrow> collect f g (with_props v w) = collect f g w"
  by (simp add: with_props_def)

lemma collect_and_then [simp]:
  "collect f g (and_then c v) = (if truthy c then collect f g v else collect f g (child c))"
  by (simp add: and_then_def)

lemma collect_if [simp]:
  "collect f g (if b then v else w) = (if b then collect f g v else collect f g w)"
  by simp

lemma collect_child [simp]:
  "(\<And>s. f s = []) \<Longrightarrow> \<not> (\<exists>vs. v = Arr vs) \<Longrightarrow> collect f g (child v) = []"
  by (cases v) (simp_all add: collect_def lbl_def)

declare views.simps [simp del]

section \<open>Links\<close>

text \<open>Every link of the view leads to one of the targets.\<close>

definition links_to :: "jsval set \<Rightarrow> string \<Rightarrow> obj \<Rightarrow> (string \<times> 'h) list \<Rightarrow> bool" where
  "links_to S tag as hs \<longleftrightarrow> (tag = ''Link'' \<longrightarrow> field as ''href'' \<in> S)"

lemma node_all_mono:
  "node_all Q n \<Longrightarrow> (\<And>tag as hs. Q tag as hs \<Longrightarrow> R tag as hs) \<Longrightarrow> node_all R n"
  by (induction n) (auto simp: list_all_iff)

lemma everywhere_mono:
  "everywhere Q v \<Longrightarrow> (\<And>tag as hs. Q tag as hs \<Longrightarrow> R tag as hs) \<Longrightarrow> everywhere R v"
  unfolding everywhere_def list_all_iff using node_all_mono by blast

lemma everywhere_renders: "everywhere Q v \<Longrightarrow> renders v"
  by (rule everywhere_mono) simp_all

lemma node_links:
  "node_all (links_to S) n \<Longrightarrow>
     set (collect_node (\<lambda>_. []) (\<lambda>tag as hs. if tag = ''Link'' then [field as ''href''] else []) n) \<subseteq> S"
  by (induction n) (auto simp: links_to_def list_all_iff)

lemma everywhere_links: "everywhere (links_to S) v \<Longrightarrow> set (links v) \<subseteq> S"
  unfolding everywhere_def links_def using node_links by (fastforce simp: list_all_iff)

lemma links_to_simps [simp]:
  "links_to S ''Link'' as hs \<longleftrightarrow> field as ''href'' \<in> S"
  "tag \<noteq> ''Link'' \<Longrightarrow> links_to S tag as hs"
  by (simp_all add: links_to_def)

end
