(* ===== verification/Ui_Kit.thy ===== *)
theory Ui_Kit
  imports View Api_Types
begin

text \<open>
  Shared components of the pages: the link, the empty, error and loading states of
  \<^verbatim>\<open>components/ui\<close>, tables, and the date formats of the pages as parameters. A component used in a
  page is expanded to what it renders.
\<close>

definition link :: "jsval \<Rightarrow> 'h view list \<Rightarrow> 'h view" where
  "link href vs = el ''Link'' [(''href'', href)] [] vs"

abbreviation str :: "string \<Rightarrow> jsval" where
  "str \<equiv> Str"

definition button :: "obj \<Rightarrow> 'h \<Rightarrow> string \<Rightarrow> 'h view" where
  "button as h label = el ''Button'' as [(''onClick'', h)] [lbl label]"

text \<open>\<open><Button asChild><Link href={...}>label</Link></Button>\<close>\<close>

definition link_button :: "jsval \<Rightarrow> string \<Rightarrow> 'h view" where
  "link_button href label = box ''Button'' [link href [lbl label]]"

text \<open>Looking up a run-time value in an object of constants.\<close>

definition lookup :: "(string \<times> string) list \<Rightarrow> jsval \<Rightarrow> jsval" where
  "lookup table v = (case map_of table (js_to_string v) of None \<Rightarrow> Undef | Some s \<Rightarrow> Str s)"

section \<open>States of a list\<close>

definition EmptyState :: "bool \<Rightarrow> string \<Rightarrow> string option \<Rightarrow> (string \<times> 'h) option \<Rightarrow> 'h view" where
  "EmptyState icon title description action =
     box ''div'' [
       when_shown icon (box ''div'' [box ''Icon'' []]),
       box ''h3'' [lbl title],
       (case description of None \<Rightarrow> nothing | Some d \<Rightarrow> when_shown (d \<noteq> []) (box ''p'' [lbl d])),
       (case action of None \<Rightarrow> nothing | Some (label, onClick) \<Rightarrow> button [] onClick label)]"

definition ErrorState :: "string option \<Rightarrow> string \<Rightarrow> 'h option \<Rightarrow> 'h view" where
  "ErrorState title message retry =
     box ''div'' [
       box ''div'' [box ''AlertCircle'' []],
       box ''h3'' [lbl (case title of None \<Rightarrow> ''Something went wrong'' | Some t \<Rightarrow> t)],
       box ''p'' [lbl message],
       (case retry of None \<Rightarrow> nothing | Some h \<Rightarrow> button [] h ''Try Again'')]"

definition LoadingState :: "nat option \<Rightarrow> string option \<Rightarrow> 'h view" where
  "LoadingState rows_given type_given =
     (let rows = (case rows_given of None \<Rightarrow> 3 | Some n \<Rightarrow> n);
          ty = (case type_given of None \<Rightarrow> ''list'' | Some s \<Rightarrow> s)
      in if ty = ''table'' then
           box ''div'' (replicate rows
             (box ''div'' [box ''Skeleton'' [], box ''div'' [box ''Skeleton'' [], box ''Skeleton'' []]]))
         else if ty = ''card'' then
           box ''div'' (replicate rows
             (box ''div'' [box ''Skeleton'' [], box ''Skeleton'' [], box ''Skeleton'' []]))
         else box ''div'' (replicate rows (box ''Skeleton'' [])))"

definition spinner :: "'h view" where
  "spinner = box ''div'' [box ''Loader2'' []]"

section \<open>Tables and cards\<close>

definition heads :: "string list \<Rightarrow> 'h view" where
  "heads hs = box ''TableHeader'' [box ''TableRow'' (map (\<lambda>h. box ''TableHead'' [lbl h]) hs)]"

definition cell :: "'h view list \<Rightarrow> 'h view" where
  "cell vs = box ''TableCell'' vs"

definition titled_card :: "string \<Rightarrow> string \<Rightarrow> 'h view list \<Rightarrow> 'h view" where
  "titled_card title description vs =
     box ''Card'' [
       box ''CardHeader'' [box ''CardTitle'' [lbl title], box ''CardDescription'' [lbl description]],
       box ''CardContent'' vs]"

definition stat_card :: "string \<Rightarrow> 'h view \<Rightarrow> string \<Rightarrow> 'h view" where
  "stat_card title value note =
     box ''Card'' [
       box ''CardHeader'' [box ''CardTitle'' [lbl title]],
       box ''CardContent'' [box ''div'' [value], box ''p'' [lbl note]]]"

definition page_header :: "string \<Rightarrow> string \<Rightarrow> 'h view" where
  "page_header title note = box ''div'' [box ''h1'' [lbl title], box ''p'' [lbl note]]"

section \<open>Dates\<close>

text \<open>
  \<open>format(parseISO(x), pattern)\<close> and \<open>format(new Date(x), pattern)\<close> of \<open>date-fns\<close>, on the
  pattern and the value; \<open>None\<close> where they throw.
\<close>

record formats =
  iso_format :: "string \<Rightarrow> jsval \<Rightarrow> string option"
  date_format :: "string \<Rightarrow> jsval \<Rightarrow> string option"

definition formatted :: "formats \<Rightarrow> string \<Rightarrow> jsval \<Rightarrow> exn + string" where
  "formatted fmt pattern v =
     (case date_format fmt pattern v of
        None \<Rightarrow> Inl (RangeError ''Invalid time value'')
      | Some s \<Rightarrow> Inr s)"

text \<open>Text that may throw, as a child.\<close>

definition say :: "exn + string \<Rightarrow> 'h view" where
  "say r = bind_res r lbl"

lemma everywhere_say [simp]: "everywhere Q (say r) \<longleftrightarrow> (\<exists>s. r = Inr s)"
  by (cases r) (simp_all add: say_def)

lemma kit_everywhere [simp]:
  "everywhere Q (link href vs) \<longleftrightarrow> Q ''Link'' [(''href'', href)] [] \<and> list_all (everywhere Q) vs"
  "everywhere Q (button as h label) \<longleftrightarrow> Q ''Button'' as [(''onClick'', h)]"
  "everywhere Q (cell vs) \<longleftrightarrow> Q ''TableCell'' [] [] \<and> list_all (everywhere Q) vs"
  by (simp_all add: link_def button_def cell_def)

lemma kit_links [simp]:
  "everywhere (links_to S) (link_button href label) \<longleftrightarrow> href \<in> S"
  "everywhere (links_to S) (EmptyState icon title d act)"
  "everywhere (links_to S) (ErrorState t m retry)"
  "everywhere (links_to S) (LoadingState n ty)"
  "everywhere (links_to S) spinner"
  "everywhere (links_to S) (heads hs)"
  "everywhere (links_to S) (titled_card title d2 vs) \<longleftrightarrow> list_all (everywhere (links_to S)) vs"
  "everywhere (links_to S) (stat_card title v note) \<longleftrightarrow> everywhere (links_to S) v"
  "everywhere (links_to S) (page_header title note)"
  by (auto simp: link_button_def EmptyState_def ErrorState_def LoadingState_def spinner_def heads_def
      titled_card_def stat_card_def page_header_def Let_def list_all_iff split: option.splits)

lemma lookup_child [simp]: "everywhere Q (child (lookup table v))"
  by (simp add: lookup_def split: option.split)

lemma js_or_child [simp]:
  "everywhere Q (child (js_or (Str s) (Str d)))" "everywhere Q (child (js_or (Num n) (Num m)))"
  by (simp_all add: js_or_def)

lemma js_or_lookup_str [simp]: "everywhere Q (child (js_or (lookup table v) (Str d)))"
  by (simp add: js_or_def)

text \<open>A value that the date format accepts.\<close>

definition shows_date :: "formats \<Rightarrow> string \<Rightarrow> jsval \<Rightarrow> bool" where
  "shows_date fmt pattern v \<longleftrightarrow> date_format fmt pattern v \<noteq> None"

lemma formatted_iff: "(\<exists>s. formatted fmt pattern v = Inr s) \<longleftrightarrow> shows_date fmt pattern v"
  by (auto simp: formatted_def shows_date_def split: option.split)

section \<open>Reading typed data\<close>

lemma typed_array:
  assumes "has_type (TArray t) v"
  obtains vs where "v = Arr vs" "\<forall>x \<in> set vs. has_type t x"
  using has_type_array_obj [OF assms] by (auto simp: list_all_iff)

lemma typed_strings:
  assumes "has_type (TArray TString) v"
  obtains ss where "v = Arr (map Str ss)"
proof -
  obtain vs where vs: "v = Arr vs" "list_all (has_type TString) vs"
    using has_type_array_obj [OF assms] by blast
  have "vs = map Str (map (\<lambda>v. case v of Str s \<Rightarrow> s | _ \<Rightarrow> []) vs)"
    using vs(2) by (induction vs) (auto split: jsval.splits)
  with vs(1) that show thesis by blast
qed

lemma typed_str: "has_type TString v \<Longrightarrow> \<exists>s. v = Str s"
  by (cases v) auto

lemma typed_num: "has_type TNumber v \<Longrightarrow> \<exists>n. v = Num n"
  by (cases v) auto

end
