(* ===== verification/Ui_Primitives.thy ===== *)
theory Ui_Primitives
  imports Ui_Kit
begin

text \<open>
  The components of \<^verbatim>\<open>components/ui\<close> that dress elements and the components of other packages:
  each renders one of them with a \<open>data-slot\<close>, its own classes followed by the caller's, and the
  caller's remaining properties, which override its own. \<open>cn\<close> of \<^verbatim>\<open>lib/utils.ts\<close> joins classes and
  leaves conflicts to \<open>twMerge\<close>; \<open>twMerge\<close> and \<open>cva\<close> are third-party code and parameters, as are the
  default class names of the calendar. Refs and icons given as properties are left out.
\<close>

section \<open>Classes\<close>

record cva_config =
  cva_variants :: "(string \<times> (string \<times> string) list) list"
  cva_defaults :: "(string \<times> string) list"

record styling =
  twMerge :: "string \<Rightarrow> string"
  cva :: "string \<Rightarrow> cva_config \<Rightarrow> obj \<Rightarrow> string"

text \<open>\<open>clsx\<close> drops what is falsy and joins the rest.\<close>

definition cn :: "styling \<Rightarrow> jsval list \<Rightarrow> jsval" where
  "cn st inputs = Str (twMerge st (js_join '' '' (map js_to_string (filter truthy inputs))))"

text \<open>The properties left over by a destructuring, and a property with a default.\<close>

definition without :: "string list \<Rightarrow> obj \<Rightarrow> obj" where
  "without ks props = filter (\<lambda>(k, _). k \<notin> set ks) props"

definition with_default :: "obj \<Rightarrow> string \<Rightarrow> jsval \<Rightarrow> jsval" where
  "with_default props k d = (if field props k = Undef then d else field props k)"

definition js_and :: "jsval \<Rightarrow> jsval \<Rightarrow> jsval" where
  "js_and a b = (if truthy a then b else a)"

definition dressed :: "styling \<Rightarrow> obj \<Rightarrow> jsval list \<Rightarrow> string list \<Rightarrow> obj \<Rightarrow> obj" where
  "dressed st own base used props =
     spread (own @ [(''className'', cn st (base @ [field props ''className'']))]) (without (''className'' # used) props)"

definition slotted_attrs :: "styling \<Rightarrow> string \<Rightarrow> obj \<Rightarrow> jsval list \<Rightarrow> string list \<Rightarrow> obj \<Rightarrow> obj" where
  "slotted_attrs st slot own = dressed st ((''data-slot'', Str slot) # own)"

type_synonym 'h primitive = "styling \<Rightarrow> obj \<Rightarrow> (string \<times> 'h) list \<Rightarrow> 'h view list \<Rightarrow> 'h view"

text \<open>The two common shapes.\<close>

definition slotted :: "styling \<Rightarrow> string \<Rightarrow> string \<Rightarrow> string list \<Rightarrow> obj \<Rightarrow> (string \<times> 'h) list \<Rightarrow> 'h view list \<Rightarrow> 'h view" where
  "slotted st tag slot base props hs kids = el tag (slotted_attrs st slot [] (map Str base) [] props) hs kids"

definition slot_only :: "string \<Rightarrow> string \<Rightarrow> obj \<Rightarrow> (string \<times> 'h) list \<Rightarrow> 'h view list \<Rightarrow> 'h view" where
  "slot_only tag slot props hs kids = el tag (spread [(''data-slot'', Str slot)] props) hs kids"

definition icon :: "string \<Rightarrow> string \<Rightarrow> 'h view" where
  "icon tag cls = el tag [(''className'', Str cls)] [] []"

section \<open>The components\<close>

text \<open>\<^verbatim>\<open>card.tsx\<close>\<close>

definition Card :: "'h primitive" where
  "Card st = slotted st ''div'' ''card'' [
     ''bg-card text-card-foreground flex flex-col gap-6 rounded-xl border py-6 shadow-sm'']"

definition CardHeader :: "'h primitive" where
  "CardHeader st = slotted st ''div'' ''card-header'' [
     ''@container/card-header grid auto-rows-min grid-rows-[auto_auto] items-start gap-2 px-6 has-data-[slot=card-action]:grid-cols-[1fr_auto] [.border-b]:pb-6'']"

definition CardTitle :: "'h primitive" where
  "CardTitle st = slotted st ''div'' ''card-title'' [
     ''leading-none font-semibold'']"

definition CardDescription :: "'h primitive" where
  "CardDescription st = slotted st ''div'' ''card-description'' [
     ''text-muted-foreground text-sm'']"

definition CardAction :: "'h primitive" where
  "CardAction st = slotted st ''div'' ''card-action'' [
     ''col-start-2 row-span-2 row-start-1 self-start justify-self-end'']"

definition CardContent :: "'h primitive" where
  "CardContent st = slotted st ''div'' ''card-content'' [
     ''px-6'']"

definition CardFooter :: "'h primitive" where
  "CardFooter st = slotted st ''div'' ''card-footer'' [
     ''flex items-center px-6 [.border-t]:pt-6'']"

text \<open>\<^verbatim>\<open>dialog.tsx\<close>\<close>

definition Dialog :: "'h primitive" where
  "Dialog st = slot_only ''DialogPrimitive.Root'' ''dialog''"

definition DialogTrigger :: "'h primitive" where
  "DialogTrigger st = slot_only ''DialogPrimitive.Trigger'' ''dialog-trigger''"

definition DialogPortal :: "'h primitive" where
  "DialogPortal st = slot_only ''DialogPrimitive.Portal'' ''dialog-portal''"

definition DialogClose :: "'h primitive" where
  "DialogClose st = slot_only ''DialogPrimitive.Close'' ''dialog-close''"

definition DialogOverlay :: "'h primitive" where
  "DialogOverlay st = slotted st ''DialogPrimitive.Overlay'' ''dialog-overlay'' [
     ''data-[state=open]:animate-in data-[state=closed]:animate-out data-[state=closed]:fade-out-0 data-[state=open]:fade-in-0 fixed inset-0 z-50 bg-black/50'']"

definition DialogHeader :: "'h primitive" where
  "DialogHeader st = slotted st ''div'' ''dialog-header'' [
     ''flex flex-col gap-2 text-center sm:text-left'']"

definition DialogFooter :: "'h primitive" where
  "DialogFooter st = slotted st ''div'' ''dialog-footer'' [
     ''flex flex-col-reverse gap-2 sm:flex-row sm:justify-end'']"

definition DialogTitle :: "'h primitive" where
  "DialogTitle st = slotted st ''DialogPrimitive.Title'' ''dialog-title'' [
     ''text-lg leading-none font-semibold'']"

definition DialogDescription :: "'h primitive" where
  "DialogDescription st = slotted st ''DialogPrimitive.Description'' ''dialog-description'' [
     ''text-muted-foreground text-sm'']"

text \<open>\<^verbatim>\<open>textarea.tsx\<close>\<close>

definition Textarea :: "'h primitive" where
  "Textarea st = slotted st ''textarea'' ''textarea'' [
     ''border-input placeholder:text-muted-foreground focus-visible:border-ring focus-visible:ring-ring/50 aria-invalid:ring-destructive/20 dark:aria-invalid:ring-destructive/40 aria-invalid:border-destructive dark:bg-input/30 flex field-sizing-content min-h-16 w-full rounded-md border bg-transparent px-3 py-2 text-base shadow-xs transition-[color,box-shadow] outline-none focus-visible:ring-[3px] disabled:cursor-not-allowed disabled:opacity-50 md:text-sm'']"

text \<open>\<^verbatim>\<open>label.tsx\<close>\<close>

definition Label :: "'h primitive" where
  "Label st = slotted st ''LabelPrimitive.Root'' ''label'' [
     ''flex items-center gap-2 text-sm leading-none font-medium select-none group-data-[disabled=true]:pointer-events-none group-data-[disabled=true]:opacity-50 peer-disabled:cursor-not-allowed peer-disabled:opacity-50'']"

text \<open>\<^verbatim>\<open>skeleton.tsx\<close>\<close>

definition Skeleton :: "'h primitive" where
  "Skeleton st = slotted st ''div'' ''skeleton'' [
     ''bg-accent animate-pulse rounded-md'']"

text \<open>\<^verbatim>\<open>avatar.tsx\<close>\<close>

definition Avatar :: "'h primitive" where
  "Avatar st = slotted st ''AvatarPrimitive.Root'' ''avatar'' [
     ''relative flex size-8 shrink-0 overflow-hidden rounded-full'']"

definition AvatarImage :: "'h primitive" where
  "AvatarImage st = slotted st ''AvatarPrimitive.Image'' ''avatar-image'' [
     ''aspect-square size-full'']"

definition AvatarFallback :: "'h primitive" where
  "AvatarFallback st = slotted st ''AvatarPrimitive.Fallback'' ''avatar-fallback'' [
     ''bg-muted flex size-full items-center justify-center rounded-full'']"

text \<open>\<^verbatim>\<open>popover.tsx\<close>\<close>

definition Popover :: "'h primitive" where
  "Popover st = slot_only ''PopoverPrimitive.Root'' ''popover''"

definition PopoverTrigger :: "'h primitive" where
  "PopoverTrigger st = slot_only ''PopoverPrimitive.Trigger'' ''popover-trigger''"

definition PopoverAnchor :: "'h primitive" where
  "PopoverAnchor st = slot_only ''PopoverPrimitive.Anchor'' ''popover-anchor''"

text \<open>\<^verbatim>\<open>tabs.tsx\<close>\<close>

definition Tabs :: "'h primitive" where
  "Tabs st = slotted st ''TabsPrimitive.Root'' ''tabs'' [
     ''flex flex-col gap-2'']"

definition TabsList :: "'h primitive" where
  "TabsList st = slotted st ''TabsPrimitive.List'' ''tabs-list'' [
     ''bg-muted text-muted-foreground inline-flex h-9 w-fit items-center justify-center rounded-lg p-[3px]'']"

definition TabsTrigger :: "'h primitive" where
  "TabsTrigger st = slotted st ''TabsPrimitive.Trigger'' ''tabs-trigger'' [
     ''data-[state=active]:bg-background dark:data-[state=active]:text-foreground focus-visible:border-ring focus-visible:ring-ring/50 focus-visible:outline-ring dark:data-[state=active]:border-input dark:data-[state=active]:bg-input/30 text-foreground dark:text-muted-foreground inline-flex h-[calc(100%-1px)] flex-1 items-center justify-center gap-1.5 rounded-md border border-transparent px-2 py-1 text-sm font-medium whitespace-nowrap transition-[color,box-shadow] focus-visible:ring-[3px] focus-visible:outline-1 disabled:pointer-events-none disabled:opacity-50 data-[state=active]:shadow-sm [&_svg]:pointer-events-none [&_svg]:shrink-0 [&_svg:not([class*='size-'])]:size-4'']"

definition TabsContent :: "'h primitive" where
  "TabsContent st = slotted st ''TabsPrimitive.Content'' ''tabs-content'' [
     ''flex-1 outline-none'']"

text \<open>\<^verbatim>\<open>table.tsx\<close>\<close>

definition TableHeader :: "'h primitive" where
  "TableHeader st = slotted st ''thead'' ''table-header'' [
     ''[&_tr]:border-b'']"

definition TableBody :: "'h primitive" where
  "TableBody st = slotted st ''tbody'' ''table-body'' [
     ''[&_tr:last-child]:border-0'']"

definition TableFooter :: "'h primitive" where
  "TableFooter st = slotted st ''tfoot'' ''table-footer'' [
     ''bg-muted/50 border-t font-medium [&>tr]:last:border-b-0'']"

definition TableRow :: "'h primitive" where
  "TableRow st = slotted st ''tr'' ''table-row'' [
     ''hover:bg-muted/50 data-[state=selected]:bg-muted border-b transition-colors'']"

definition TableHead :: "'h primitive" where
  "TableHead st = slotted st ''th'' ''table-head'' [
     ''text-foreground h-10 px-2 text-left align-middle font-medium whitespace-nowrap [&:has([role=checkbox])]:pr-0 [&>[role=checkbox]]:translate-y-[2px]'']"

definition TableCell :: "'h primitive" where
  "TableCell st = slotted st ''td'' ''table-cell'' [
     ''p-2 align-middle whitespace-nowrap [&:has([role=checkbox])]:pr-0 [&>[role=checkbox]]:translate-y-[2px]'']"

definition TableCaption :: "'h primitive" where
  "TableCaption st = slotted st ''caption'' ''table-caption'' [
     ''text-muted-foreground mt-4 text-sm'']"

text \<open>\<^verbatim>\<open>select.tsx\<close>\<close>

definition Select :: "'h primitive" where
  "Select st = slot_only ''SelectPrimitive.Root'' ''select''"

definition SelectGroup :: "'h primitive" where
  "SelectGroup st = slot_only ''SelectPrimitive.Group'' ''select-group''"

definition SelectValue :: "'h primitive" where
  "SelectValue st = slot_only ''SelectPrimitive.Value'' ''select-value''"

definition SelectLabel :: "'h primitive" where
  "SelectLabel st = slotted st ''SelectPrimitive.Label'' ''select-label'' [
     ''text-muted-foreground px-2 py-1.5 text-xs'']"

definition SelectSeparator :: "'h primitive" where
  "SelectSeparator st = slotted st ''SelectPrimitive.Separator'' ''select-separator'' [
     ''bg-border pointer-events-none -mx-1 my-1 h-px'']"

text \<open>\<^verbatim>\<open>dropdown-menu.tsx\<close>\<close>

definition DropdownMenu :: "'h primitive" where
  "DropdownMenu st = slot_only ''DropdownMenuPrimitive.Root'' ''dropdown-menu''"

definition DropdownMenuPortal :: "'h primitive" where
  "DropdownMenuPortal st = slot_only ''DropdownMenuPrimitive.Portal'' ''dropdown-menu-portal''"

definition DropdownMenuTrigger :: "'h primitive" where
  "DropdownMenuTrigger st = slot_only ''DropdownMenuPrimitive.Trigger'' ''dropdown-menu-trigger''"

definition DropdownMenuGroup :: "'h primitive" where
  "DropdownMenuGroup st = slot_only ''DropdownMenuPrimitive.Group'' ''dropdown-menu-group''"

definition DropdownMenuRadioGroup :: "'h primitive" where
  "DropdownMenuRadioGroup st = slot_only ''DropdownMenuPrimitive.RadioGroup'' ''dropdown-menu-radio-group''"

definition DropdownMenuSeparator :: "'h primitive" where
  "DropdownMenuSeparator st = slotted st ''DropdownMenuPrimitive.Separator'' ''dropdown-menu-separator'' [
     ''bg-border -mx-1 my-1 h-px'']"

definition DropdownMenuShortcut :: "'h primitive" where
  "DropdownMenuShortcut st = slotted st ''span'' ''dropdown-menu-shortcut'' [
     ''text-muted-foreground ml-auto text-xs tracking-widest'']"

definition DropdownMenuSub :: "'h primitive" where
  "DropdownMenuSub st = slot_only ''DropdownMenuPrimitive.Sub'' ''dropdown-menu-sub''"

definition DropdownMenuSubContent :: "'h primitive" where
  "DropdownMenuSubContent st = slotted st ''DropdownMenuPrimitive.SubContent'' ''dropdown-menu-sub-content'' [
     ''bg-popover text-popover-foreground data-[state=open]:animate-in data-[state=closed]:animate-out data-[state=closed]:fade-out-0 data-[state=open]:fade-in-0 data-[state=closed]:zoom-out-95 data-[state=open]:zoom-in-95 data-[side=bottom]:slide-in-from-top-2 data-[side=left]:slide-in-from-right-2 data-[side=right]:slide-in-from-left-2 data-[side=top]:slide-in-from-bottom-2 z-50 min-w-[8rem] origin-(--radix-dropdown-menu-content-transform-origin) overflow-hidden rounded-md border p-1 shadow-lg'']"

text \<open>
  The ones with more of their own, of \<^verbatim>\<open>select.tsx\<close>, \<^verbatim>\<open>dialog.tsx\<close>, \<^verbatim>\<open>popover.tsx\<close>, \<^verbatim>\<open>table.tsx\<close>,
  \<^verbatim>\<open>dropdown-menu.tsx\<close>, \<^verbatim>\<open>input.tsx\<close> and \<^verbatim>\<open>separator.tsx\<close>.
\<close>

definition SelectScrollUpButton :: "'h primitive" where
  "SelectScrollUpButton st props hs kids =
     slotted st ''SelectPrimitive.ScrollUpButton'' ''select-scroll-up-button'' [''flex cursor-default items-center justify-center py-1''] props hs [icon ''ChevronUpIcon'' ''size-4'']"

definition SelectScrollDownButton :: "'h primitive" where
  "SelectScrollDownButton st props hs kids =
     slotted st ''SelectPrimitive.ScrollDownButton'' ''select-scroll-down-button'' [''flex cursor-default items-center justify-center py-1''] props hs [icon ''ChevronDownIcon'' ''size-4'']"

definition DialogContent :: "'h primitive" where
  "DialogContent st props hs kids =
     DialogPortal st [(''data-slot'', str ''dialog-portal'')] [] [
       DialogOverlay st [] [] [],
       el ''DialogPrimitive.Content''
         (slotted_attrs st ''dialog-content'' [] [Str ''bg-background data-[state=open]:animate-in data-[state=closed]:animate-out data-[state=closed]:fade-out-0 data-[state=open]:fade-in-0 data-[state=closed]:zoom-out-95 data-[state=open]:zoom-in-95 fixed top-[50%] left-[50%] z-50 grid w-full max-w-[calc(100%-2rem)] translate-x-[-50%] translate-y-[-50%] gap-4 rounded-lg border p-6 shadow-lg duration-200 sm:max-w-lg''] [''showCloseButton''] props) hs
         (kids @ [and_then (with_default props ''showCloseButton'' (Bool True))
           (el ''DialogPrimitive.Close'' [
              (''data-slot'', str ''dialog-close''),
              (''className'', Str ''ring-offset-background focus:ring-ring data-[state=open]:bg-accent data-[state=open]:text-muted-foreground absolute top-4 right-4 rounded-xs opacity-70 transition-opacity hover:opacity-100 focus:ring-2 focus:ring-offset-2 focus:outline-hidden disabled:pointer-events-none [&_svg]:pointer-events-none [&_svg]:shrink-0 [&_svg:not([class*='size-'])]:size-4'')] [] [
              box ''XIcon'' [],
              el ''span'' [(''className'', str ''sr-only'')] [] [lbl ''Close'']])])]"

definition PopoverContent :: "'h primitive" where
  "PopoverContent st props hs kids =
     box ''PopoverPrimitive.Portal'' [
       el ''PopoverPrimitive.Content''
         (slotted_attrs st ''popover-content''
           [(''align'', with_default props ''align'' (Str ''center'')), (''sideOffset'', with_default props ''sideOffset'' (js_int 4))]
           [Str ''bg-popover text-popover-foreground data-[state=open]:animate-in data-[state=closed]:animate-out data-[state=closed]:fade-out-0 data-[state=open]:fade-in-0 data-[state=closed]:zoom-out-95 data-[state=open]:zoom-in-95 data-[side=bottom]:slide-in-from-top-2 data-[side=left]:slide-in-from-right-2 data-[side=right]:slide-in-from-left-2 data-[side=top]:slide-in-from-bottom-2 z-50 w-72 origin-(--radix-popover-content-transform-origin) rounded-md border p-4 shadow-md outline-hidden''] [''align'', ''sideOffset''] props) hs kids]"

definition Table :: "'h primitive" where
  "Table st props hs kids =
     el ''div'' [(''data-slot'', str ''table-container''), (''className'', Str ''relative w-full overflow-x-auto'')] [] [
       slotted st ''table'' ''table'' [''w-full caption-bottom text-sm''] props hs kids]"

definition SelectTrigger :: "'h primitive" where
  "SelectTrigger st props hs kids =
     el ''SelectPrimitive.Trigger''
       (slotted_attrs st ''select-trigger'' [(''data-size'', with_default props ''size'' (Str ''default''))]
         [Str ''border-input data-[placeholder]:text-muted-foreground [&_svg:not([class*='text-'])]:text-muted-foreground focus-visible:border-ring focus-visible:ring-ring/50 aria-invalid:ring-destructive/20 dark:aria-invalid:ring-destructive/40 aria-invalid:border-destructive dark:bg-input/30 dark:hover:bg-input/50 flex w-fit items-center justify-between gap-2 rounded-md border bg-transparent px-3 py-2 text-sm whitespace-nowrap shadow-xs transition-[color,box-shadow] outline-none focus-visible:ring-[3px] disabled:cursor-not-allowed disabled:opacity-50 data-[size=default]:h-9 data-[size=sm]:h-8 *:data-[slot=select-value]:line-clamp-1 *:data-[slot=select-value]:flex *:data-[slot=select-value]:items-center *:data-[slot=select-value]:gap-2 [&_svg]:pointer-events-none [&_svg]:shrink-0 [&_svg:not([class*='size-'])]:size-4''] [''size''] props) hs
       (kids @ [el ''SelectPrimitive.Icon'' [(''asChild'', Bool True)] [] [icon ''ChevronDownIcon'' ''size-4 opacity-50'']])"

definition SelectContent :: "'h primitive" where
  "SelectContent st props hs kids =
     (let position = with_default props ''position'' (Str ''popper''); popper = (position = Str ''popper'')
      in box ''SelectPrimitive.Portal'' [
        el ''SelectPrimitive.Content''
          (slotted_attrs st ''select-content''
            [(''position'', position), (''align'', with_default props ''align'' (Str ''center''))]
            [Str ''bg-popover text-popover-foreground data-[state=open]:animate-in data-[state=closed]:animate-out data-[state=closed]:fade-out-0 data-[state=open]:fade-in-0 data-[state=closed]:zoom-out-95 data-[state=open]:zoom-in-95 data-[side=bottom]:slide-in-from-top-2 data-[side=left]:slide-in-from-right-2 data-[side=right]:slide-in-from-left-2 data-[side=top]:slide-in-from-bottom-2 relative z-50 max-h-(--radix-select-content-available-height) min-w-[8rem] origin-(--radix-select-content-transform-origin) overflow-x-hidden overflow-y-auto rounded-md border shadow-md'',
             if popper then Str ''data-[side=bottom]:translate-y-1 data-[side=left]:-translate-x-1 data-[side=right]:translate-x-1 data-[side=top]:-translate-y-1'' else Bool False]
            [''position'', ''align''] props) hs [
          SelectScrollUpButton st [] [] [],
          el ''SelectPrimitive.Viewport'' [(''className'', cn st [Str ''p-1'',
             if popper then Str ''h-[var(--radix-select-trigger-height)] w-full min-w-[var(--radix-select-trigger-width)] scroll-my-1'' else Bool False])] [] kids,
          SelectScrollDownButton st [] [] []]])"

definition SelectItem :: "'h primitive" where
  "SelectItem st props hs kids =
     slotted st ''SelectPrimitive.Item'' ''select-item'' [''focus:bg-accent focus:text-accent-foreground [&_svg:not([class*='text-'])]:text-muted-foreground relative flex w-full cursor-default items-center gap-2 rounded-sm py-1.5 pr-8 pl-2 text-sm outline-hidden select-none data-[disabled]:pointer-events-none data-[disabled]:opacity-50 [&_svg]:pointer-events-none [&_svg]:shrink-0 [&_svg:not([class*='size-'])]:size-4 *:[span]:last:flex *:[span]:last:items-center *:[span]:last:gap-2''] props hs [
       el ''span'' [(''className'', Str ''absolute right-2 flex size-3.5 items-center justify-center'')] [] [
         box ''SelectPrimitive.ItemIndicator'' [icon ''CheckIcon'' ''size-4'']],
       box ''SelectPrimitive.ItemText'' kids]"

definition DropdownMenuContent :: "'h primitive" where
  "DropdownMenuContent st props hs kids =
     box ''DropdownMenuPrimitive.Portal'' [
       el ''DropdownMenuPrimitive.Content''
         (slotted_attrs st ''dropdown-menu-content'' [(''sideOffset'', with_default props ''sideOffset'' (js_int 4))]
           [Str ''bg-popover text-popover-foreground data-[state=open]:animate-in data-[state=closed]:animate-out data-[state=closed]:fade-out-0 data-[state=open]:fade-in-0 data-[state=closed]:zoom-out-95 data-[state=open]:zoom-in-95 data-[side=bottom]:slide-in-from-top-2 data-[side=left]:slide-in-from-right-2 data-[side=right]:slide-in-from-left-2 data-[side=top]:slide-in-from-bottom-2 z-50 max-h-(--radix-dropdown-menu-content-available-height) min-w-[8rem] origin-(--radix-dropdown-menu-content-transform-origin) overflow-x-hidden overflow-y-auto rounded-md border p-1 shadow-md''] [''sideOffset''] props) hs kids]"

definition DropdownMenuItem :: "'h primitive" where
  "DropdownMenuItem st props hs kids =
     el ''DropdownMenuPrimitive.Item''
       (slotted_attrs st ''dropdown-menu-item''
         [(''data-inset'', field props ''inset''), (''data-variant'', with_default props ''variant'' (Str ''default''))]
         [Str ''focus:bg-accent focus:text-accent-foreground data-[variant=destructive]:text-destructive data-[variant=destructive]:focus:bg-destructive/10 dark:data-[variant=destructive]:focus:bg-destructive/20 data-[variant=destructive]:focus:text-destructive data-[variant=destructive]:*:[svg]:!text-destructive [&_svg:not([class*='text-'])]:text-muted-foreground relative flex cursor-default items-center gap-2 rounded-sm px-2 py-1.5 text-sm outline-hidden select-none data-[disabled]:pointer-events-none data-[disabled]:opacity-50 data-[inset]:pl-8 [&_svg]:pointer-events-none [&_svg]:shrink-0 [&_svg:not([class*='size-'])]:size-4''] [''inset'', ''variant''] props) hs kids"

definition DropdownMenuCheckboxItem :: "'h primitive" where
  "DropdownMenuCheckboxItem st props hs kids =
     el ''DropdownMenuPrimitive.CheckboxItem''
       (slotted_attrs st ''dropdown-menu-checkbox-item'' [(''checked'', field props ''checked'')]
         [Str ''focus:bg-accent focus:text-accent-foreground relative flex cursor-default items-center gap-2 rounded-sm py-1.5 pr-2 pl-8 text-sm outline-hidden select-none data-[disabled]:pointer-events-none data-[disabled]:opacity-50 [&_svg]:pointer-events-none [&_svg]:shrink-0 [&_svg:not([class*='size-'])]:size-4''] [''checked''] props) hs
       (el ''span'' [(''className'', Str ''pointer-events-none absolute left-2 flex size-3.5 items-center justify-center'')] [] [
          box ''DropdownMenuPrimitive.ItemIndicator'' [icon ''CheckIcon'' ''size-4'']] # kids)"

definition DropdownMenuRadioItem :: "'h primitive" where
  "DropdownMenuRadioItem st props hs kids =
     el ''DropdownMenuPrimitive.RadioItem''
       (slotted_attrs st ''dropdown-menu-radio-item'' []
         [Str ''focus:bg-accent focus:text-accent-foreground relative flex cursor-default items-center gap-2 rounded-sm py-1.5 pr-2 pl-8 text-sm outline-hidden select-none data-[disabled]:pointer-events-none data-[disabled]:opacity-50 [&_svg]:pointer-events-none [&_svg]:shrink-0 [&_svg:not([class*='size-'])]:size-4''] [] props) hs
       (el ''span'' [(''className'', Str ''pointer-events-none absolute left-2 flex size-3.5 items-center justify-center'')] [] [
          box ''DropdownMenuPrimitive.ItemIndicator'' [icon ''CircleIcon'' ''size-2 fill-current'']] # kids)"

definition DropdownMenuLabel :: "'h primitive" where
  "DropdownMenuLabel st props hs kids =
     el ''DropdownMenuPrimitive.Label''
       (slotted_attrs st ''dropdown-menu-label'' [(''data-inset'', field props ''inset'')]
         [Str ''px-2 py-1.5 text-sm font-medium data-[inset]:pl-8''] [''inset''] props) hs kids"

definition DropdownMenuSubTrigger :: "'h primitive" where
  "DropdownMenuSubTrigger st props hs kids =
     el ''DropdownMenuPrimitive.SubTrigger''
       (slotted_attrs st ''dropdown-menu-sub-trigger'' [(''data-inset'', field props ''inset'')]
         [Str ''focus:bg-accent focus:text-accent-foreground data-[state=open]:bg-accent data-[state=open]:text-accent-foreground [&_svg:not([class*='text-'])]:text-muted-foreground flex cursor-default items-center gap-2 rounded-sm px-2 py-1.5 text-sm outline-hidden select-none data-[inset]:pl-8 [&_svg]:pointer-events-none [&_svg]:shrink-0 [&_svg:not([class*='size-'])]:size-4''] [''inset''] props) hs
       (kids @ [icon ''ChevronRightIcon'' ''ml-auto size-4''])"

definition Input :: "'h primitive" where
  "Input st props hs kids =
     el ''input''
       (slotted_attrs st ''input'' [(''type'', field props ''type'')]
         [Str ''file:text-foreground placeholder:text-muted-foreground selection:bg-primary selection:text-primary-foreground dark:bg-input/30 border-input h-9 w-full min-w-0 rounded-md border bg-transparent px-3 py-1 text-base shadow-xs transition-[color,box-shadow] outline-none file:inline-flex file:h-7 file:border-0 file:bg-transparent file:text-sm file:font-medium disabled:pointer-events-none disabled:cursor-not-allowed disabled:opacity-50 md:text-sm'',
          Str ''focus-visible:border-ring focus-visible:ring-ring/50 focus-visible:ring-[3px]'',
          Str ''aria-invalid:ring-destructive/20 dark:aria-invalid:ring-destructive/40 aria-invalid:border-destructive''] [''type''] props) hs kids"

definition Separator :: "'h primitive" where
  "Separator st props hs kids =
     el ''SeparatorPrimitive.Root''
       (slotted_attrs st ''separator''
         [(''decorative'', with_default props ''decorative'' (Bool True)), (''orientation'', with_default props ''orientation'' (Str ''horizontal''))]
         [Str ''bg-border shrink-0 data-[orientation=horizontal]:h-px data-[orientation=horizontal]:w-full data-[orientation=vertical]:h-full data-[orientation=vertical]:w-px''] [''orientation'', ''decorative''] props) hs kids"

text \<open>\<^verbatim>\<open>button.tsx\<close>\<close>

definition button_base :: string where
  "button_base = ''inline-flex items-center justify-center gap-2 whitespace-nowrap rounded-md text-sm font-medium transition-all disabled:pointer-events-none disabled:opacity-50 [&_svg]:pointer-events-none [&_svg:not([class*='size-'])]:size-4 shrink-0 [&_svg]:shrink-0 outline-none focus-visible:border-ring focus-visible:ring-ring/50 focus-visible:ring-[3px] aria-invalid:ring-destructive/20 dark:aria-invalid:ring-destructive/40 aria-invalid:border-destructive''"

definition button_config :: cva_config where
  "button_config = \<lparr>
     cva_variants = [
       (''variant'', [
         (''default'', ''bg-primary text-primary-foreground hover:bg-primary/90''),
         (''destructive'', ''bg-destructive text-white hover:bg-destructive/90 focus-visible:ring-destructive/20 dark:focus-visible:ring-destructive/40 dark:bg-destructive/60''),
         (''outline'', ''border bg-background shadow-xs hover:bg-accent hover:text-accent-foreground dark:bg-input/30 dark:border-input dark:hover:bg-input/50''),
         (''secondary'', ''bg-secondary text-secondary-foreground hover:bg-secondary/80''),
         (''ghost'', ''hover:bg-accent hover:text-accent-foreground dark:hover:bg-accent/50''),
         (''link'', ''text-primary underline-offset-4 hover:underline'')]),
       (''size'', [
         (''default'', ''h-9 px-4 py-2 has-[>svg]:px-3''),
         (''sm'', ''h-8 rounded-md gap-1.5 px-3 has-[>svg]:px-2.5''),
         (''lg'', ''h-10 rounded-md px-6 has-[>svg]:px-4''),
         (''icon'', ''size-9''),
         (''icon-sm'', ''size-8''),
         (''icon-lg'', ''size-10'')])],
     cva_defaults = [(''variant'', ''default''), (''size'', ''default'')]\<rparr>"

definition buttonVariants :: "styling \<Rightarrow> obj \<Rightarrow> string" where
  "buttonVariants st = cva st button_base button_config"

definition Button :: "'h primitive" where
  "Button st props hs kids =
     el (if truthy (with_default props ''asChild'' (Bool False)) then ''Slot'' else ''button'')
       (spread
         [(''data-slot'', str ''button''),
          (''className'', cn st [Str (buttonVariants st
             [(''variant'', field props ''variant''), (''size'', field props ''size''), (''className'', field props ''className'')])])]
         (without [''className'', ''variant'', ''size'', ''asChild''] props)) hs kids"

text \<open>\<^verbatim>\<open>badge.tsx\<close>\<close>

definition badge_base :: string where
  "badge_base = ''inline-flex items-center justify-center rounded-full border px-2 py-0.5 text-xs font-medium w-fit whitespace-nowrap shrink-0 [&>svg]:size-3 gap-1 [&>svg]:pointer-events-none focus-visible:border-ring focus-visible:ring-ring/50 focus-visible:ring-[3px] aria-invalid:ring-destructive/20 dark:aria-invalid:ring-destructive/40 aria-invalid:border-destructive transition-[color,box-shadow] overflow-hidden''"

definition badge_config :: cva_config where
  "badge_config = \<lparr>
     cva_variants = [
       (''variant'', [
         (''default'', ''border-transparent bg-primary text-primary-foreground [a&]:hover:bg-primary/90''),
         (''secondary'', ''border-transparent bg-secondary text-secondary-foreground [a&]:hover:bg-secondary/90''),
         (''destructive'', ''border-transparent bg-destructive text-white [a&]:hover:bg-destructive/90 focus-visible:ring-destructive/20 dark:focus-visible:ring-destructive/40 dark:bg-destructive/60''),
         (''outline'', ''text-foreground [a&]:hover:bg-accent [a&]:hover:text-accent-foreground'')])],
     cva_defaults = [(''variant'', ''default'')]\<rparr>"

definition badgeVariants :: "styling \<Rightarrow> obj \<Rightarrow> string" where
  "badgeVariants st = cva st badge_base badge_config"

definition Badge :: "'h primitive" where
  "Badge st props hs kids =
     el (if truthy (with_default props ''asChild'' (Bool False)) then ''Slot'' else ''span'')
       (slotted_attrs st ''badge'' [] [Str (badgeVariants st [(''variant'', field props ''variant'')])]
         [''variant'', ''asChild''] props) hs kids"

text \<open>\<^verbatim>\<open>toast.tsx\<close>, whose components have no slot\<close>

definition toast_base :: string where
  "toast_base = ''group pointer-events-auto relative flex w-full items-center justify-between space-x-4 overflow-hidden rounded-md border p-6 pr-8 shadow-lg transition-all data-[swipe=cancel]:translate-x-0 data-[swipe=end]:translate-x-[var(--radix-toast-swipe-end-x)] data-[swipe=move]:translate-x-[var(--radix-toast-swipe-move-x)] data-[swipe=move]:transition-none data-[state=open]:animate-in data-[state=closed]:animate-out data-[swipe=end]:animate-out data-[state=closed]:fade-out-80 data-[state=closed]:slide-out-to-right-full data-[state=open]:slide-in-from-top-full data-[state=open]:sm:slide-in-from-bottom-full''"

definition toast_config :: cva_config where
  "toast_config = \<lparr>
     cva_variants = [
       (''variant'', [
         (''default'', ''border bg-background text-foreground''),
         (''destructive'', ''destructive group border-destructive bg-destructive text-destructive-foreground'')])],
     cva_defaults = [(''variant'', ''default'')]\<rparr>"

definition toastVariants :: "styling \<Rightarrow> obj \<Rightarrow> string" where
  "toastVariants st = cva st toast_base toast_config"

definition ToastViewport :: "'h primitive" where
  "ToastViewport st props = el ''ToastPrimitives.Viewport'' (dressed st [] [Str ''fixed top-0 z-[100] flex max-h-screen w-full flex-col-reverse p-4 sm:bottom-0 sm:right-0 sm:top-auto sm:flex-col md:max-w-[420px]''] [] props)"

definition ToastAction :: "'h primitive" where
  "ToastAction st props = el ''ToastPrimitives.Action'' (dressed st [] [Str ''inline-flex h-8 shrink-0 items-center justify-center rounded-md border bg-transparent px-3 text-sm font-medium ring-offset-background transition-colors hover:bg-secondary focus:outline-none focus:ring-2 focus:ring-ring focus:ring-offset-2 disabled:pointer-events-none disabled:opacity-50 group-[.destructive]:border-muted/40 group-[.destructive]:hover:border-destructive/30 group-[.destructive]:hover:bg-destructive group-[.destructive]:hover:text-destructive-foreground group-[.destructive]:focus:ring-destructive''] [] props)"

definition ToastTitle :: "'h primitive" where
  "ToastTitle st props = el ''ToastPrimitives.Title'' (dressed st [] [Str ''text-sm font-semibold''] [] props)"

definition ToastDescription :: "'h primitive" where
  "ToastDescription st props = el ''ToastPrimitives.Description'' (dressed st [] [Str ''text-sm opacity-90''] [] props)"

definition Toast :: "'h primitive" where
  "Toast st props =
     el ''ToastPrimitives.Root'' (dressed st [] [Str (toastVariants st [(''variant'', field props ''variant'')])] [''variant''] props)"

definition ToastClose :: "'h primitive" where
  "ToastClose st props hs kids =
     el ''ToastPrimitives.Close'' (dressed st [(''toast-close'', Str [])] [Str ''absolute right-2 top-2 rounded-md p-1 text-foreground/50 opacity-0 transition-opacity hover:text-foreground focus:opacity-100 focus:outline-none focus:ring-2 group-hover:opacity-100 group-[.destructive]:text-red-300 group-[.destructive]:hover:text-red-50 group-[.destructive]:focus:ring-red-400 group-[.destructive]:focus:ring-offset-red-600''] [] props) hs [icon ''X'' ''h-4 w-4'']"

text \<open>\<^verbatim>\<open>sonner.tsx\<close>; the theme comes from \<open>next-themes\<close>\<close>

definition SonnerToaster :: "jsval \<Rightarrow> obj \<Rightarrow> 'h view" where
  "SonnerToaster theme props =
     el ''Sonner'' (spread [
       (''theme'', if theme = Undef then Str ''system'' else theme),
       (''className'', str ''toaster group''),
       (''style'', Obj [
         (''--normal-bg'', Str ''var(--popover)''),
         (''--normal-text'', Str ''var(--popover-foreground)''),
         (''--normal-border'', Str ''var(--border)''),
         (''--border-radius'', Str ''var(--radius)'')])] props) [] []"

text \<open>
  \<^verbatim>\<open>calendar.tsx\<close>: the class names it passes to the day picker, over the picker's defaults \<open>dcn\<close>, and the
  parts it puts in place of the picker's. \<open>formatters\<close> and \<open>components\<close> are functions and left out of
  the attributes. \<open>day\<close> is the printed date of a day.
\<close>

definition calendar_classNames :: "styling \<Rightarrow> (string \<Rightarrow> string) \<Rightarrow> jsval \<Rightarrow> jsval \<Rightarrow> obj \<Rightarrow> obj" where
  "calendar_classNames st dcn captionLayout buttonVariant classNames = spread [
     (''root'', cn st [Str ''w-fit'', Str (dcn ''root'')]),
     (''months'', cn st [Str ''flex gap-4 flex-col md:flex-row relative'', Str (dcn ''months'')]),
     (''month'', cn st [Str ''flex flex-col w-full gap-4'', Str (dcn ''month'')]),
     (''nav'', cn st [Str ''flex items-center gap-1 w-full absolute top-0 inset-x-0 justify-between'', Str (dcn ''nav'')]),
     (''button_previous'', cn st [Str (buttonVariants st [(''variant'', buttonVariant)]), Str ''size-(--cell-size) aria-disabled:opacity-50 p-0 select-none'', Str (dcn ''button_previous'')]),
     (''button_next'', cn st [Str (buttonVariants st [(''variant'', buttonVariant)]), Str ''size-(--cell-size) aria-disabled:opacity-50 p-0 select-none'', Str (dcn ''button_next'')]),
     (''month_caption'', cn st [Str ''flex items-center justify-center h-(--cell-size) w-full px-(--cell-size)'', Str (dcn ''month_caption'')]),
     (''dropdowns'', cn st [Str ''w-full flex items-center text-sm font-medium justify-center h-(--cell-size) gap-1.5'', Str (dcn ''dropdowns'')]),
     (''dropdown_root'', cn st [Str ''relative has-focus:border-ring border border-input shadow-xs has-focus:ring-ring/50 has-focus:ring-[3px] rounded-md'', Str (dcn ''dropdown_root'')]),
     (''dropdown'', cn st [Str ''absolute bg-popover inset-0 opacity-0'', Str (dcn ''dropdown'')]),
     (''caption_label'', cn st [Str ''select-none font-medium'', if captionLayout = Str ''label'' then Str ''text-sm'' else Str ''rounded-md pl-2 pr-1 flex items-center gap-1 text-sm h-8 [&>svg]:text-muted-foreground [&>svg]:size-3.5'', Str (dcn ''caption_label'')]),
     (''table'', Str ''w-full border-collapse''),
     (''weekdays'', cn st [Str ''flex'', Str (dcn ''weekdays'')]),
     (''weekday'', cn st [Str ''text-muted-foreground rounded-md flex-1 font-normal text-[0.8rem] select-none'', Str (dcn ''weekday'')]),
     (''week'', cn st [Str ''flex w-full mt-2'', Str (dcn ''week'')]),
     (''week_number_header'', cn st [Str ''select-none w-(--cell-size)'', Str (dcn ''week_number_header'')]),
     (''week_number'', cn st [Str ''text-[0.8rem] select-none text-muted-foreground'', Str (dcn ''week_number'')]),
     (''day'', cn st [Str ''relative w-full h-full p-0 text-center [&:first-child[data-selected=true]_button]:rounded-l-md [&:last-child[data-selected=true]_button]:rounded-r-md group/day aspect-square select-none'', Str (dcn ''day'')]),
     (''range_start'', cn st [Str ''rounded-l-md bg-accent'', Str (dcn ''range_start'')]),
     (''range_middle'', cn st [Str ''rounded-none'', Str (dcn ''range_middle'')]),
     (''range_end'', cn st [Str ''rounded-r-md bg-accent'', Str (dcn ''range_end'')]),
     (''today'', cn st [Str ''bg-accent text-accent-foreground rounded-md data-[selected=true]:rounded-none'', Str (dcn ''today'')]),
     (''outside'', cn st [Str ''text-muted-foreground aria-selected:text-muted-foreground'', Str (dcn ''outside'')]),
     (''disabled'', cn st [Str ''text-muted-foreground opacity-50'', Str (dcn ''disabled'')]),
     (''hidden'', cn st [Str ''invisible'', Str (dcn ''hidden'')])] classNames"

definition Calendar :: "styling \<Rightarrow> (string \<Rightarrow> string) \<Rightarrow> obj \<Rightarrow> (string \<times> 'h) list \<Rightarrow> 'h view" where
  "Calendar st dcn props hs =
     (let captionLayout = with_default props ''captionLayout'' (Str ''label'');
          classNames = (case field props ''classNames'' of Obj kvs \<Rightarrow> kvs | _ \<Rightarrow> [])
      in el ''DayPicker''
        (dressed st
          [(''showOutsideDays'', with_default props ''showOutsideDays'' (Bool True)),
           (''captionLayout'', captionLayout),
           (''classNames'', Obj (calendar_classNames st dcn captionLayout (with_default props ''buttonVariant'' (Str ''ghost'')) classNames))]
          [Str ''bg-background group/calendar p-3 [--cell-size:--spacing(8)] [[data-slot=card-content]_&]:bg-transparent [[data-slot=popover-content]_&]:bg-transparent'',
           Str (''rtl:**:[.rdp-button'' @ [CHR 0x5C] @ ''_next>svg]:rotate-180''),
           Str (''rtl:**:[.rdp-button'' @ [CHR 0x5C] @ ''_previous>svg]:rotate-180'')]
          [''classNames'', ''showOutsideDays'', ''captionLayout'', ''buttonVariant'', ''formatters'', ''components''] props) hs [])"

definition CalendarRoot :: "'h primitive" where
  "CalendarRoot st = slotted st ''div'' ''calendar'' []"

definition CalendarChevron :: "styling \<Rightarrow> obj \<Rightarrow> 'h view" where
  "CalendarChevron st props =
     (let orientation = field props ''orientation''
      in el (if orientation = Str ''left'' then ''ChevronLeftIcon''
             else if orientation = Str ''right'' then ''ChevronRightIcon'' else ''ChevronDownIcon'')
           (dressed st [] [Str ''size-4''] [''orientation''] props) [] [])"

definition CalendarWeekNumber :: "obj \<Rightarrow> (string \<times> 'h) list \<Rightarrow> 'h view list \<Rightarrow> 'h view" where
  "CalendarWeekNumber props hs kids =
     el ''td'' props hs [el ''div'' [(''className'', str ''flex size-(--cell-size) items-center justify-center text-center'')] [] kids]"

definition CalendarDayButton :: "styling \<Rightarrow> (string \<Rightarrow> string) \<Rightarrow> string \<Rightarrow> obj \<Rightarrow> obj \<Rightarrow> (string \<times> 'h) list \<Rightarrow> 'h view list \<Rightarrow> 'h view" where
  "CalendarDayButton st dcn day modifiers props =
     (let m = field modifiers; neg = (\<lambda>v. Bool (\<not> truthy v))
      in Button st
        (dressed st
          [(''variant'', str ''ghost''), (''size'', str ''icon''), (''data-day'', Str day),
           (''data-selected-single'',
              js_and (js_and (js_and (m ''selected'') (neg (m ''range_start''))) (neg (m ''range_end''))) (neg (m ''range_middle''))),
           (''data-range-start'', m ''range_start''), (''data-range-end'', m ''range_end''), (''data-range-middle'', m ''range_middle'')]
          [Str ''data-[selected-single=true]:bg-primary data-[selected-single=true]:text-primary-foreground data-[range-middle=true]:bg-accent data-[range-middle=true]:text-accent-foreground data-[range-start=true]:bg-primary data-[range-start=true]:text-primary-foreground data-[range-end=true]:bg-primary data-[range-end=true]:text-primary-foreground group-data-[focused=true]/day:border-ring group-data-[focused=true]/day:ring-ring/50 dark:hover:text-accent-foreground flex aspect-square size-auto w-full min-w-(--cell-size) flex-col gap-1 leading-none font-normal group-data-[focused=true]/day:relative group-data-[focused=true]/day:z-10 group-data-[focused=true]/day:ring-[3px] data-[range-end=true]:rounded-md data-[range-end=true]:rounded-r-md data-[range-middle=true]:rounded-none data-[range-start=true]:rounded-md data-[range-start=true]:rounded-l-md [&>span]:text-xs [&>span]:opacity-70'', Str (dcn ''day'')] [''day'', ''modifiers''] props))"

text \<open>
  The effect of the day button, run after its first render and after every render in which \<open>focused\<close>
  changed from \<open>old\<close>: whether it moves the focus to the button.
\<close>

definition day_button_focuses :: "jsval option \<Rightarrow> obj \<Rightarrow> bool" where
  "day_button_focuses old modifiers =
     (let focused = field modifiers ''focused'' in old \<noteq> Some focused \<and> truthy focused)"

section \<open>What reaches the element\<close>

text \<open>
  The components that render one element. Some consume a property for their own use or give it a
  default; the form kit and the pages rely on all others arriving, such as \<open>id\<close>, \<open>disabled\<close> and
  \<open>aria-invalid\<close>.
\<close>

type_synonym 'h component = "obj \<Rightarrow> (string \<times> 'h) list \<Rightarrow> 'h view list \<Rightarrow> 'h view"

definition primitives :: "styling \<Rightarrow> (string \<times> 'h component) list" where
  "primitives st = [
     (''card'', Card st),
     (''card-header'', CardHeader st),
     (''card-title'', CardTitle st),
     (''card-description'', CardDescription st),
     (''card-action'', CardAction st),
     (''card-content'', CardContent st),
     (''card-footer'', CardFooter st),
     (''dialog'', Dialog st),
     (''dialog-trigger'', DialogTrigger st),
     (''dialog-portal'', DialogPortal st),
     (''dialog-close'', DialogClose st),
     (''dialog-overlay'', DialogOverlay st),
     (''dialog-header'', DialogHeader st),
     (''dialog-footer'', DialogFooter st),
     (''dialog-title'', DialogTitle st),
     (''dialog-description'', DialogDescription st),
     (''textarea'', Textarea st),
     (''label'', Label st),
     (''skeleton'', Skeleton st),
     (''avatar'', Avatar st),
     (''avatar-image'', AvatarImage st),
     (''avatar-fallback'', AvatarFallback st),
     (''popover'', Popover st),
     (''popover-trigger'', PopoverTrigger st),
     (''popover-anchor'', PopoverAnchor st),
     (''tabs'', Tabs st),
     (''tabs-list'', TabsList st),
     (''tabs-trigger'', TabsTrigger st),
     (''tabs-content'', TabsContent st),
     (''table-header'', TableHeader st),
     (''table-body'', TableBody st),
     (''table-footer'', TableFooter st),
     (''table-row'', TableRow st),
     (''table-head'', TableHead st),
     (''table-cell'', TableCell st),
     (''table-caption'', TableCaption st),
     (''select'', Select st),
     (''select-group'', SelectGroup st),
     (''select-value'', SelectValue st),
     (''select-label'', SelectLabel st),
     (''select-separator'', SelectSeparator st),
     (''dropdown-menu'', DropdownMenu st),
     (''dropdown-menu-portal'', DropdownMenuPortal st),
     (''dropdown-menu-trigger'', DropdownMenuTrigger st),
     (''dropdown-menu-group'', DropdownMenuGroup st),
     (''dropdown-menu-radio-group'', DropdownMenuRadioGroup st),
     (''dropdown-menu-separator'', DropdownMenuSeparator st),
     (''dropdown-menu-shortcut'', DropdownMenuShortcut st),
     (''dropdown-menu-sub'', DropdownMenuSub st),
     (''dropdown-menu-sub-content'', DropdownMenuSubContent st),
     (''button'', Button st),
     (''badge'', Badge st),
     (''input'', Input st),
     (''separator'', Separator st),
     (''select-trigger'', SelectTrigger st),
     (''select-item'', SelectItem st),
     (''select-scroll-up-button'', SelectScrollUpButton st),
     (''select-scroll-down-button'', SelectScrollDownButton st),
     (''dropdown-menu-item'', DropdownMenuItem st),
     (''dropdown-menu-checkbox-item'', DropdownMenuCheckboxItem st),
     (''dropdown-menu-radio-item'', DropdownMenuRadioItem st),
     (''dropdown-menu-label'', DropdownMenuLabel st),
     (''dropdown-menu-sub-trigger'', DropdownMenuSubTrigger st)]"

definition consumed :: "string list" where
  "consumed = [''className'', ''data-slot'', ''asChild'', ''variant'', ''size'', ''inset'', ''checked'', ''type'',
     ''orientation'', ''decorative'', ''data-size'', ''data-inset'', ''data-variant'']"

definition arrives :: "string \<Rightarrow> obj \<Rightarrow> obj \<Rightarrow> bool" where
  "arrives slot props as \<longleftrightarrow>
     field as ''data-slot'' = (if ''data-slot'' \<in> fst ` set props then field props ''data-slot'' else Str slot)
     \<and> (\<forall>k. k \<notin> set consumed \<longrightarrow> field as k = field props k)"

definition passes_on :: "string \<times> 'h component \<Rightarrow> bool" where
  "passes_on sp \<longleftrightarrow>
     (\<forall>props hs kids ns. snd sp props hs kids = Inr ns
        \<longrightarrow> (\<exists>tag as ks. ns = [El tag as hs ks] \<and> arrives (fst sp) props as))"

lemmas primitive_defs =
  Card_def CardHeader_def CardTitle_def CardDescription_def CardAction_def CardContent_def
  CardFooter_def Dialog_def DialogTrigger_def DialogPortal_def DialogClose_def DialogOverlay_def
  DialogHeader_def DialogFooter_def DialogTitle_def DialogDescription_def Textarea_def Label_def
  Skeleton_def Avatar_def AvatarImage_def AvatarFallback_def Popover_def PopoverTrigger_def
  PopoverAnchor_def Tabs_def TabsList_def TabsTrigger_def TabsContent_def TableHeader_def
  TableBody_def TableFooter_def TableRow_def TableHead_def TableCell_def TableCaption_def
  Select_def SelectGroup_def SelectValue_def SelectLabel_def SelectSeparator_def DropdownMenu_def
  DropdownMenuPortal_def DropdownMenuTrigger_def DropdownMenuGroup_def DropdownMenuRadioGroup_def DropdownMenuSeparator_def DropdownMenuShortcut_def
  DropdownMenuSub_def DropdownMenuSubContent_def Button_def Badge_def Input_def Separator_def
  SelectTrigger_def SelectItem_def SelectScrollUpButton_def SelectScrollDownButton_def DropdownMenuItem_def DropdownMenuCheckboxItem_def
  DropdownMenuRadioItem_def DropdownMenuLabel_def DropdownMenuSubTrigger_def

lemma field_without: "k \<notin> set ks \<Longrightarrow> field (without ks props) k = field props k"
  by (induction props) (auto simp: without_def field_def)

lemma field_no_key: "k \<notin> fst ` set kvs \<Longrightarrow> field kvs k = Undef"
  by (induction kvs) (auto simp: field_def)

lemma spread_passes:
  "k \<notin> fst ` set own \<Longrightarrow> k \<notin> set used \<Longrightarrow> field (spread own (without used props)) k = field props k"
  using field_without [of k used props] field_no_key [of k own] field_no_key [of k "without used props"]
  by (simp add: field_spread)

lemma arrives_spread:
  assumes "fst ` set own \<subseteq> set consumed" "set used \<subseteq> set consumed" "field own ''data-slot'' = Str slot"
    and "''data-slot'' \<notin> set used"
  shows "arrives slot props (spread own (without used props))"
proof -
  have "field (spread own (without used props)) k = field props k" if "k \<notin> set consumed" for k
    using that assms(1,2) by (blast intro: spread_passes)
  moreover have "''data-slot'' \<in> fst ` set (without used props) \<longleftrightarrow> ''data-slot'' \<in> fst ` set props"
    using assms(4) by (force simp: without_def)
  ultimately show ?thesis
    using assms(3) field_without [OF assms(4)] by (simp add: arrives_def field_spread)
qed

lemma el_result: "el tag as hs kids = Inr ns \<Longrightarrow> \<exists>ks. ns = [El tag as hs ks]"
  by (auto simp: el_def bind_res_def split: sum.splits)

lemma passes_onI:
  assumes "\<And>props hs kids. \<exists>tag own used kids'. P props hs kids = el tag (spread own (without used props)) hs kids'
     \<and> fst ` set own \<subseteq> set consumed \<and> set used \<subseteq> set consumed \<and> ''data-slot'' \<notin> set used \<and> field own ''data-slot'' = Str slot"
  shows "passes_on (slot, P)"
proof -
  have "\<exists>tag as ks. ns = [El tag as hs ks] \<and> arrives slot props as"
    if r: "P props hs kids = Inr ns" for props hs kids ns
  proof -
    obtain tag own used kids' where o: "P props hs kids = el tag (spread own (without used props)) hs kids'"
        "fst ` set own \<subseteq> set consumed" "set used \<subseteq> set consumed" "''data-slot'' \<notin> set used" "field own ''data-slot'' = Str slot"
      using assms [of props hs kids] by blast
    have "arrives slot props (spread own (without used props))" using o(2,3,5,4) by (rule arrives_spread)
    moreover have "\<exists>ks. ns = [El tag (spread own (without used props)) hs ks]"
      using r o(1) el_result [of tag _ hs kids' ns] by simp
    ultimately show ?thesis by blast
  qed
  then show ?thesis unfolding passes_on_def fst_conv snd_conv by blast
qed

lemma without_nothing: "without [] props = props"
  by (simp add: without_def)

lemma slotted_passes: "passes_on (slot, slotted st tag slot base)"
  by (rule passes_onI, unfold slotted_def slotted_attrs_def dressed_def, intro exI, rule conjI, rule refl)
    (simp add: consumed_def field_def)

lemma slot_only_passes: "passes_on (slot, slot_only tag slot)"
proof (rule passes_onI)
  fix props :: obj and hs :: "(string \<times> 'h) list" and kids :: "'h view list"
  have "slot_only tag slot props hs kids = el tag (spread [(''data-slot'', Str slot)] (without [] props)) hs kids"
    by (simp add: slot_only_def without_nothing)
  then show "\<exists>tag' own used kids'. slot_only tag slot props hs kids = el tag' (spread own (without used props)) hs kids'
      \<and> fst ` set own \<subseteq> set consumed \<and> set used \<subseteq> set consumed \<and> ''data-slot'' \<notin> set used \<and> field own ''data-slot'' = Str slot"
    by (intro exI conjI) (assumption, simp_all add: consumed_def field_def)
qed

lemma own_parts_pass:
  "passes_on (''button'', Button st)" "passes_on (''badge'', Badge st)" "passes_on (''input'', Input st)"
  "passes_on (''separator'', Separator st)" "passes_on (''select-trigger'', SelectTrigger st)"
  "passes_on (''select-item'', SelectItem st)"
  "passes_on (''select-scroll-up-button'', SelectScrollUpButton st)"
  "passes_on (''select-scroll-down-button'', SelectScrollDownButton st)"
  "passes_on (''dropdown-menu-item'', DropdownMenuItem st)"
  "passes_on (''dropdown-menu-checkbox-item'', DropdownMenuCheckboxItem st)"
  "passes_on (''dropdown-menu-radio-item'', DropdownMenuRadioItem st)"
  "passes_on (''dropdown-menu-label'', DropdownMenuLabel st)"
  "passes_on (''dropdown-menu-sub-trigger'', DropdownMenuSubTrigger st)"
  by (rule passes_onI;
      (unfold Button_def Badge_def Input_def Separator_def SelectTrigger_def SelectItem_def SelectScrollUpButton_def
        SelectScrollDownButton_def DropdownMenuItem_def DropdownMenuCheckboxItem_def DropdownMenuRadioItem_def
        DropdownMenuLabel_def DropdownMenuSubTrigger_def slotted_def slotted_attrs_def dressed_def,
      intro exI, rule conjI, rule refl, simp add: consumed_def field_def))+

lemma all_pass: "list_all passes_on (primitives st)"
  unfolding primitives_def list.pred_inject
  by (intro conjI own_parts_pass TrueI; simp add: primitive_defs slotted_passes slot_only_passes)


definition plain_styling :: styling where
  "plain_styling = \<lparr>twMerge = id, cva = (\<lambda>base _ _. base)\<rparr>"


end
