(* ===== verification/Chip_List.thy ===== *)
theory Chip_List
  imports Transition
begin

text \<open>
  The lists of chips in the two forms (interviewers and tags, strengths and weaknesses): an input
  line, the chips entered, and the form field that holds them joined by commas. The four lists
  share one contract, stated as an interface over the form's whole state; the invariant of a list
  is proved once from it.
\<close>

text \<open>
  The body of \<open>addInterviewer\<close>, \<open>addTag\<close>, \<open>addStrength\<close> and \<open>addWeakness\<close>, on the input and the
  chips: the new chips, or nothing when the input is blank or already there.
\<close>

definition chip_added :: "string \<Rightarrow> string list \<Rightarrow> string list option" where
  "chip_added inp cs =
     (if js_trim inp \<noteq> [] \<and> js_trim inp \<notin> set cs then Some (cs @ [js_trim inp]) else None)"

definition chip_removed :: "string \<Rightarrow> string list \<Rightarrow> string list" where
  "chip_removed c cs = filter (\<lambda>x. x \<noteq> c) cs"

definition joined :: "string list \<Rightarrow> string" where
  "joined cs = js_join '','' cs"

definition clean_chips :: "string list \<Rightarrow> bool" where
  "clean_chips cs \<longleftrightarrow> distinct cs \<and> list_all (\<lambda>c. c \<noteq> [] \<and> js_trim c = c) cs"

lemma clean_chips_Nil [simp]: "clean_chips []"
  by (simp add: clean_chips_def)

lemma clean_chip_added: "clean_chips cs \<Longrightarrow> chip_added inp cs = Some ds \<Longrightarrow> clean_chips ds"
  by (auto simp: clean_chips_def chip_added_def split: if_splits)

lemma clean_chip_removed: "clean_chips cs \<Longrightarrow> clean_chips (chip_removed c cs)"
  by (auto simp: clean_chips_def chip_removed_def list_all_iff)

lemma joined_Nil_iff: "clean_chips cs \<Longrightarrow> joined cs = [] \<longleftrightarrow> cs = []"
  by (simp add: joined_def clean_chips_def list_all_iff js_join_eq_Nil)

lemma split_joined: "cs \<noteq> [] \<Longrightarrow> \<forall>c \<in> set cs. CHR '','' \<notin> set c \<Longrightarrow> js_split CHR '','' (joined cs) = cs"
  by (simp add: joined_def js_split_join)

section \<open>The interface\<close>

locale chip_list =
  fixes chips :: "'s \<Rightarrow> string list" and entry :: "'s \<Rightarrow> string" and form_value :: "'s \<Rightarrow> string"
    and type_in :: "string \<Rightarrow> 's \<Rightarrow> 's" and add :: "'s \<Rightarrow> 's" and remove :: "string \<Rightarrow> 's \<Rightarrow> 's"
  assumes type_in_keeps: "chips (type_in x s) = chips s" "form_value (type_in x s) = form_value s"
    and type_in_entry: "entry (type_in x s) = x"
    and add_none: "chip_added (entry s) (chips s) = None \<Longrightarrow> add s = s"
    and add_some: "chip_added (entry s) (chips s) = Some cs \<Longrightarrow>
      chips (add s) = cs \<and> form_value (add s) = joined cs \<and> entry (add s) = []"
    and remove_chips: "chips (remove c s) = chip_removed c (chips s)"
    and remove_value: "form_value (remove c s) = joined (chip_removed c (chips s))"
begin

definition chips_ok :: "'s \<Rightarrow> bool" where
  "chips_ok s \<longleftrightarrow> clean_chips (chips s) \<and> form_value s = joined (chips s)"

lemma chips_ok_type_in: "chips_ok s \<Longrightarrow> chips_ok (type_in x s)"
  by (simp add: chips_ok_def type_in_keeps)

lemma chips_ok_add:
  assumes "chips_ok s"
  shows "chips_ok (add s)"
proof (cases "chip_added (entry s) (chips s)")
  case None
  with assms show ?thesis by (simp add: add_none)
next
  case (Some cs)
  with assms clean_chip_added show ?thesis by (auto simp: chips_ok_def dest: add_some)
qed

lemma chips_ok_remove: "chips_ok s \<Longrightarrow> chips_ok (remove c s)"
  by (simp add: chips_ok_def remove_chips remove_value clean_chip_removed)

lemma chips_ok_frame:
  "chips_ok s \<Longrightarrow> chips s' = chips s \<Longrightarrow> form_value s' = form_value s \<Longrightarrow> chips_ok s'"
  by (simp add: chips_ok_def)

lemma value_empty: "chips_ok s \<Longrightarrow> form_value s = [] \<longleftrightarrow> chips s = []"
  by (simp add: chips_ok_def joined_Nil_iff)

text \<open>Entering a word puts it at the end, once, without the spaces around it.\<close>

lemma enter_word:
  "js_trim w \<noteq> [] \<Longrightarrow> chips (add (type_in w s)) =
     (if js_trim w \<in> set (chips s) then chips s else chips s @ [js_trim w])"
  using add_none [of "type_in w s"] add_some [of "type_in w s"]
  by (auto simp: chip_added_def type_in_entry type_in_keeps)

text \<open>Removing the word just entered gives the chips back.\<close>

lemma enter_then_remove:
  "js_trim w \<noteq> [] \<Longrightarrow> js_trim w \<notin> set (chips s) \<Longrightarrow>
     chips (remove (js_trim w) (add (type_in w s))) = chips s"
  by (auto simp: remove_chips enter_word chip_removed_def filter_id_conv)

end

end
