(* ===== verification/Schedule_Form.thy ===== *)
theory Schedule_Form
  imports Chip_List Ui_Action
begin

text \<open>
  \<^verbatim>\<open>components/forms/schedule-interview-form.tsx\<close>: the state of the form, the handlers of its
  lists and inputs, its schema, and what it submits. \<open>react-hook-form\<close> keeps the registered
  values and lets a submit through only if the resolver accepts them; the resolver is a parameter.
  A \<open>Date\<close> is the number of its milliseconds. The date picker's pop-over is not modelled.
\<close>

record schedule_values =
  candidateName :: string
  candidateEmail :: string
  position :: string
  scheduledDate :: "number option"
  duration :: number
  interviewers_value :: string
  form_notes :: string
  tags_value :: string

record schedule_form =
  form_submitting :: bool
  interviewers :: "string list"
  tags :: "string list"
  interviewerInput :: string
  tagInput :: string
  form_values :: schedule_values

definition default_schedule :: schedule_values where
  "default_schedule =
     \<lparr>candidateName = [], candidateEmail = [], position = [], scheduledDate = None,
      duration = Fin 60, interviewers_value = [], form_notes = [], tags_value = []\<rparr>"

definition init_schedule :: schedule_form where
  "init_schedule =
     \<lparr>form_submitting = False, interviewers = [], tags = [], interviewerInput = [], tagInput = [],
      form_values = default_schedule\<rparr>"

section \<open>The schema\<close>

text \<open>
  What \<open>formSchema\<close> demands; \<open>is_email\<close> is the library's test for e-mail addresses. A date that
  is not valid is no date for the schema.
\<close>

definition is_int_between :: "int \<Rightarrow> int \<Rightarrow> number \<Rightarrow> bool" where
  "is_int_between lo hi n =
     (case n of Fin x \<Rightarrow> x = of_int \<lfloor>x\<rfloor> \<and> of_int lo \<le> x \<and> x \<le> of_int hi | NaN \<Rightarrow> False)"

definition schedule_schema :: "(string \<Rightarrow> bool) \<Rightarrow> schedule_values \<Rightarrow> bool" where
  "schedule_schema is_email v \<longleftrightarrow>
     2 \<le> length (candidateName v)
     \<and> is_email (candidateEmail v)
     \<and> 2 \<le> length (position v)
     \<and> (case scheduledDate v of Some (Fin t) \<Rightarrow> True | _ \<Rightarrow> False)
     \<and> is_int_between 15 480 (duration v)
     \<and> 1 \<le> length (interviewers_value v)"

section \<open>Handlers\<close>

definition setInterviewerInput :: "string \<Rightarrow> 'z schedule_form_scheme \<Rightarrow> 'z schedule_form_scheme" where
  "setInterviewerInput x s = s\<lparr>interviewerInput := x\<rparr>"

definition setTagInput :: "string \<Rightarrow> 'z schedule_form_scheme \<Rightarrow> 'z schedule_form_scheme" where
  "setTagInput x s = s\<lparr>tagInput := x\<rparr>"

definition addInterviewer :: "'z schedule_form_scheme \<Rightarrow> 'z schedule_form_scheme" where
  "addInterviewer s =
     (case chip_added (interviewerInput s) (interviewers s) of
        None \<Rightarrow> s
      | Some newInterviewers \<Rightarrow>
          s\<lparr>interviewers := newInterviewers,
            form_values := (form_values s)\<lparr>interviewers_value := joined newInterviewers\<rparr>,
            interviewerInput := []\<rparr>)"

definition removeInterviewer :: "string \<Rightarrow> 'z schedule_form_scheme \<Rightarrow> 'z schedule_form_scheme" where
  "removeInterviewer interviewer s =
     (let newInterviewers = chip_removed interviewer (interviewers s)
      in s\<lparr>interviewers := newInterviewers,
           form_values := (form_values s)\<lparr>interviewers_value := joined newInterviewers\<rparr>\<rparr>)"

definition addTag :: "'z schedule_form_scheme \<Rightarrow> 'z schedule_form_scheme" where
  "addTag s =
     (case chip_added (tagInput s) (tags s) of
        None \<Rightarrow> s
      | Some newTags \<Rightarrow>
          s\<lparr>tags := newTags, form_values := (form_values s)\<lparr>tags_value := joined newTags\<rparr>,
            tagInput := []\<rparr>)"

definition removeTag :: "string \<Rightarrow> 'z schedule_form_scheme \<Rightarrow> 'z schedule_form_scheme" where
  "removeTag tag s =
     (let newTags = chip_removed tag (tags s)
      in s\<lparr>tags := newTags, form_values := (form_values s)\<lparr>tags_value := joined newTags\<rparr>\<rparr>)"

text \<open>The Enter key in an input line adds instead of submitting; other keys do nothing.\<close>

definition on_key :: "string \<Rightarrow> ('s \<Rightarrow> 's) \<Rightarrow> 's \<Rightarrow> 's" where
  "on_key k add s = (if k = ''Enter'' then add s else s)"

text \<open>The inputs registered with the form that the user edits directly.\<close>

datatype schedule_field =
    CandidateName string
  | CandidateEmail string
  | Position string
  | ScheduledDate "number option"
  | Duration number
  | Notes string

fun set_field :: "schedule_field \<Rightarrow> schedule_values \<Rightarrow> schedule_values" where
  "set_field (CandidateName x) v = v\<lparr>candidateName := x\<rparr>"
| "set_field (CandidateEmail x) v = v\<lparr>candidateEmail := x\<rparr>"
| "set_field (Position x) v = v\<lparr>position := x\<rparr>"
| "set_field (ScheduledDate d) v = v\<lparr>scheduledDate := d\<rparr>"
| "set_field (Duration n) v = v\<lparr>duration := n\<rparr>"
| "set_field (Notes x) v = v\<lparr>form_notes := x\<rparr>"

text \<open>
  \<open>handleSubmit\<close>: the values with the two lists in place of the joined strings go to \<open>onSubmit\<close>;
  the flag is cleared whatever \<open>onSubmit\<close> does. \<open>submit\<close> is the form's submit event.
\<close>

record schedule_data =
  data_values :: schedule_values
  data_interviewers :: "string list + string"
  data_tags :: "string list + string option"

definition handleSubmit ::
  "(schedule_data \<Rightarrow> ('w, 'z schedule_form_scheme, unit) handler) \<Rightarrow> schedule_values \<Rightarrow>
     ('w, 'z schedule_form_scheme, unit) handler" where
  "handleSubmit onSubmit values =
     await (set_page (\<lambda>s. s\<lparr>form_submitting := True\<rparr>)) (\<lambda>_.
       finally_do
         (\<lambda>u. onSubmit \<lparr>data_values = values, data_interviewers = Inl (interviewers (page u)),
                        data_tags = Inl (tags (page u))\<rparr> u)
         (set_page (\<lambda>s. s\<lparr>form_submitting := False\<rparr>)))"

definition submit ::
  "(schedule_values \<Rightarrow> schedule_values option) \<Rightarrow> (schedule_data \<Rightarrow> ('w, 'z schedule_form_scheme, unit) handler) \<Rightarrow>
     ('w, 'z schedule_form_scheme, unit) handler" where
  "submit resolver onSubmit u =
     (case resolver (form_values (page u)) of
        None \<Rightarrow> (Inr (), u)
      | Some values \<Rightarrow> handleSubmit onSubmit values u)"

lemmas schedule_code_defs = setInterviewerInput_def setTagInput_def addInterviewer_def
  removeInterviewer_def addTag_def removeTag_def on_key_def Let_def

section \<open>The lists\<close>

interpretation interviewer_list: chip_list interviewers interviewerInput
    "\<lambda>s. interviewers_value (form_values s)" setInterviewerInput addInterviewer removeInterviewer
  by unfold_locales (auto simp: schedule_code_defs)

interpretation tag_list: chip_list tags tagInput
    "\<lambda>s. tags_value (form_values s)" setTagInput addTag removeTag
  by unfold_locales (auto simp: schedule_code_defs)

section \<open>What the user does between submits\<close>

datatype form_label =
    TypeInterviewer string
  | AddInterviewer
  | InterviewerKey string
  | RemoveInterviewer string
  | TypeTag string
  | AddTag
  | TagKey string
  | RemoveTag string
  | Edit schedule_field

fun form_event :: "form_label \<Rightarrow> schedule_form \<Rightarrow> schedule_form" where
  "form_event (TypeInterviewer x) s = setInterviewerInput x s"
| "form_event AddInterviewer s = addInterviewer s"
| "form_event (InterviewerKey k) s = on_key k addInterviewer s"
| "form_event (RemoveInterviewer x) s = removeInterviewer x s"
| "form_event (TypeTag x) s = setTagInput x s"
| "form_event AddTag s = addTag s"
| "form_event (TagKey k) s = on_key k addTag s"
| "form_event (RemoveTag x) s = removeTag x s"
| "form_event (Edit f) s = s\<lparr>form_values := set_field f (form_values s)\<rparr>"

definition form_step :: "schedule_form \<Rightarrow> form_label \<Rightarrow> schedule_form \<Rightarrow> bool" where
  "form_step s l t \<longleftrightarrow> t = form_event l s"

definition form_ok :: "schedule_form \<Rightarrow> bool" where
  "form_ok s \<longleftrightarrow> interviewer_list.chips_ok s \<and> tag_list.chips_ok s"

lemma set_field_lists:
  "interviewers_value (set_field f v) = interviewers_value v" "tags_value (set_field f v) = tags_value v"
  by (cases f; simp)+

lemma interviewer_frame:
  "interviewers (addTag s) = interviewers s" "interviewers (removeTag x s) = interviewers s"
  "interviewers_value (form_values (addTag s)) = interviewers_value (form_values s)"
  "interviewers_value (form_values (removeTag x s)) = interviewers_value (form_values s)"
  by (simp_all add: schedule_code_defs split: option.splits)

lemma tag_frame:
  "tags (addInterviewer s) = tags s" "tags (removeInterviewer x s) = tags s"
  "tags_value (form_values (addInterviewer s)) = tags_value (form_values s)"
  "tags_value (form_values (removeInterviewer x s)) = tags_value (form_values s)"
  by (simp_all add: schedule_code_defs split: option.splits)

lemma input_frame:
  "interviewers (setTagInput x s) = interviewers s" "tags (setInterviewerInput x s) = tags s"
  "form_values (setTagInput x s) = form_values s" "form_values (setInterviewerInput x s) = form_values s"
  by (simp_all add: schedule_code_defs)

lemma form_ok_step: "form_step s l t \<Longrightarrow> form_ok s \<Longrightarrow> form_ok t"
  using interviewer_list.chips_ok_type_in [of s] interviewer_list.chips_ok_add [of s]
    interviewer_list.chips_ok_remove [of s] tag_list.chips_ok_type_in [of s]
    tag_list.chips_ok_add [of s] tag_list.chips_ok_remove [of s]
  by (cases l)
     (auto simp: form_step_def form_ok_def on_key_def interviewer_frame tag_frame input_frame set_field_lists
       intro: interviewer_list.chips_ok_frame [of s] tag_list.chips_ok_frame [of s])

lemma form_ok_init: "form_ok init_schedule"
  by (simp add: form_ok_def interviewer_list.chips_ok_def tag_list.chips_ok_def init_schedule_def
      default_schedule_def joined_def)

interpretation schedule: invariant_system "\<lambda>s. s = init_schedule" form_step form_ok
  by unfold_locales (auto simp: form_ok_init intro: form_ok_step)

end
