(* ===== verification/Schedule_Page.thy ===== *)
theory Schedule_Page
  imports Schedule_Form Eval_Stats
begin

text \<open>
  \<^verbatim>\<open>app/dashboard/interviews/new/page.tsx\<close>: the page around the schedule form. It turns what the
  form submits into a request of the API, and the properties follow a submit from the chips the
  user entered to the request the server sees. \<open>to_iso\<close> is \<open>Date.prototype.toISOString\<close> on valid
  dates.
\<close>

text \<open>\<open>s.split(',').map((s) => s.trim()).filter(Boolean)\<close>\<close>

definition split_list :: "string \<Rightarrow> string list" where
  "split_list s = filter (\<lambda>x. x \<noteq> []) (map js_trim (js_split CHR '','' s))"

definition string_array :: "string list \<Rightarrow> jsval" where
  "string_array xs = Arr (map Str xs)"

definition interviewer_ids :: "string list + string \<Rightarrow> string list" where
  "interviewer_ids d = (case d of Inl xs \<Rightarrow> xs | Inr s \<Rightarrow> split_list s)"

definition tag_list_of :: "string list + string option \<Rightarrow> string list" where
  "tag_list_of d =
     (case d of
        Inl xs \<Rightarrow> xs
      | Inr None \<Rightarrow> []
      | Inr (Some s) \<Rightarrow> if s \<noteq> [] then split_list s else [])"

definition to_iso_string :: "(rat \<Rightarrow> string) \<Rightarrow> number option \<Rightarrow> exn + string" where
  "to_iso_string to_iso d =
     (case d of
        None \<Rightarrow> Inl (TypeError ''Cannot read properties of undefined (reading 'toISOString')'')
      | Some NaN \<Rightarrow> Inl (RangeError ''Invalid time value'')
      | Some (Fin t) \<Rightarrow> Inr (to_iso t))"

definition interview_data :: "(rat \<Rightarrow> string) \<Rightarrow> schedule_data \<Rightarrow> exn + jsval" where
  "interview_data to_iso d =
     (let v = data_values d
      in bind_res (to_iso_string to_iso (scheduledDate v)) (\<lambda>when_at.
           Inr (Obj [
             (''candidateName'', Str (candidateName v)),
             (''candidateEmail'', Str (candidateEmail v)),
             (''position'', Str (position v)),
             (''scheduledAt'', Str when_at),
             (''duration'', Num (duration v)),
             (''interviewerIds'', string_array (interviewer_ids (data_interviewers d))),
             (''tags'', string_array (tag_list_of (data_tags d)))])))"

record new_interview_page = schedule_form +
  page_submitting :: bool

definition new_interview_submit ::
  "(rat \<Rightarrow> string) \<Rightarrow> 'w server \<Rightarrow> schedule_data \<Rightarrow> ('w, new_interview_page, unit) handler" where
  "new_interview_submit to_iso srv d =
     await (set_page (\<lambda>s. s\<lparr>page_submitting := True\<rparr>)) (\<lambda>_.
       finally_do
         (try_catch
            (await (lift_res (interview_data to_iso d)) (\<lambda>interviewData.
             await (call (console_log ''[New Interview] Submitting interview data:'')) (\<lambda>_.
             await (call (createInterview srv interviewData)) (\<lambda>interview.
             await (call (console_log ''[New Interview] Interview created successfully:'')) (\<lambda>_.
             await (lift_res (get_field interview ''candidateName'')) (\<lambda>name.
             await (effect (AppToast ''Interview Scheduled''
                (''Interview with '' @ js_to_string name @ '' has been scheduled successfully.'') False)) (\<lambda>_.
               effect (Push ''/dashboard/interviews'')))))))) 
            (\<lambda>error.
             await (call (console_error ''[New Interview] Failed to schedule:'' error)) (\<lambda>_.
               effect (AppToast ''Error'' (error_message error) True))))
         (set_page (\<lambda>s. s\<lparr>page_submitting := False\<rparr>)))"

section \<open>One submit\<close>

definition submitting :: "'w io \<Rightarrow> 'w io" where
  "submitting io = io\<lparr>console := console io @ [ConsoleLog ''[New Interview] Submitting interview data:'']\<rparr>"

text \<open>The effects of a submit, by the outcome of \<open>createInterview\<close>.\<close>

definition schedule_outcome :: "exn + jsval \<Rightarrow> effect list" where
  "schedule_outcome r =
     (case bind_res r (\<lambda>v. get_field v ''candidateName'') of
        Inl e \<Rightarrow> [AppToast ''Error'' (error_message e) True]
      | Inr n \<Rightarrow> [AppToast ''Interview Scheduled''
          (''Interview with '' @ js_to_string n @ '' has been scheduled successfully.'') False,
          Push ''/dashboard/interviews''])"

lemma schedule_outcome_cases:
  "\<exists>msg. if \<exists>v. r = Inr v \<and> \<not> nullish v
     then schedule_outcome r = [AppToast ''Interview Scheduled'' msg False, Push ''/dashboard/interviews'']
     else schedule_outcome r = [AppToast ''Error'' msg True]"
proof (cases r)
  case (Inr v)
  then show ?thesis
    by (cases "nullish v") (simp_all add: schedule_outcome_def get_field_def)
qed (simp add: schedule_outcome_def)

lemma page_submit_run:
  assumes "interview_data to_iso d = Inr body"
  shows "fst (new_interview_submit to_iso srv d u) = Inr ()"
    and "page (snd (new_interview_submit to_iso srv d u)) = (page u)\<lparr>page_submitting := False\<rparr>"
    and "effects (snd (new_interview_submit to_iso srv d u))
       = effects u @ schedule_outcome (fst (createInterview srv body (submitting (outside u))))"
    and "sent (outside (snd (new_interview_submit to_iso srv d u)))
       = sent (snd (createInterview srv body (submitting (outside u))))"
proof -
  obtain r io where c: "createInterview srv body (submitting (outside u)) = (r, io)"
    by (cases "createInterview srv body (submitting (outside u))")
  note defs = new_interview_submit_def assms action_defs call_def finally_do_def schedule_outcome_def
    bind_res_def c [unfolded submitting_def] submitting_def
  show "fst (new_interview_submit to_iso srv d u) = Inr ()"
    and "page (snd (new_interview_submit to_iso srv d u)) = (page u)\<lparr>page_submitting := False\<rparr>"
    and "effects (snd (new_interview_submit to_iso srv d u))
       = effects u @ schedule_outcome (fst (createInterview srv body (submitting (outside u))))"
    and "sent (outside (snd (new_interview_submit to_iso srv d u)))
       = sent (snd (createInterview srv body (submitting (outside u))))"
    by (cases r; simp add: defs split: sum.splits)+
qed

lemma create_sent: "sent (snd (createInterview srv body io)) = sent io @ [post_req ''/api/interviews'' body]"
  using perform_spec [of srv "CreateInterview body" io] by (simp add: call_spec_sent)

text \<open>
  The resolver hands on the values as they are, and only values the schema accepts: what
  \<open>zodResolver\<close> documents for a schema without transforms.
\<close>

definition resolver_ok ::
  "(string \<Rightarrow> bool) \<Rightarrow> (schedule_values \<Rightarrow> schedule_values option) \<Rightarrow> bool" where
  "resolver_ok is_email resolver \<longleftrightarrow>
     (\<forall>v w. resolver v = Some w \<longrightarrow> w = v \<and> schedule_schema is_email v)"

definition schedule_body :: "(rat \<Rightarrow> string) \<Rightarrow> schedule_form \<Rightarrow> rat \<Rightarrow> jsval" where
  "schedule_body to_iso f t = Obj [
     (''candidateName'', Str (candidateName (form_values f))),
     (''candidateEmail'', Str (candidateEmail (form_values f))),
     (''position'', Str (position (form_values f))),
     (''scheduledAt'', Str (to_iso t)),
     (''duration'', Num (duration (form_values f))),
     (''interviewerIds'', string_array (interviewers f)),
     (''tags'', string_array (tags f))]"

lemma schedule_body_typed: "has_type api_CreateInterviewRequest (schedule_body to_iso f t)"
  by (simp add: schedule_body_def api_types_defs string_array_def list_all_iff)

abbreviation new_page :: "schedule_form \<Rightarrow> new_interview_page" where
  "new_page f \<equiv> schedule_form.extend f \<lparr>page_submitting = False\<rparr>"

abbreviation on_new_page :: "'w io \<Rightarrow> schedule_form \<Rightarrow> ('w, new_interview_page) ui" where
  "on_new_page io f \<equiv> \<lparr>outside = io, effects = [], page = new_page f\<rparr>"

lemma new_page_fields:
  "interviewers (new_page f) = interviewers f" "tags (new_page f) = tags f"
  "form_values (new_page f) = form_values f" "form_submitting (new_page f) = form_submitting f"
  by (simp_all add: schedule_form.defs)

text \<open>A submit the resolver lets through, on values whose date is valid.\<close>

lemma submit_unfold:
  assumes "resolver_ok is_email resolver" "resolver (form_values f) = Some w"
  obtains t u1 where "scheduledDate (form_values f) = Some (Fin t)"
    "schedule_schema is_email (form_values f)"
    "outside u1 = io" "effects u1 = []" "page u1 = (new_page f)\<lparr>form_submitting := True\<rparr>"
    "submit resolver (new_interview_submit to_iso srv) (on_new_page io f) =
      finally_do (new_interview_submit to_iso srv \<lparr>data_values = form_values f,
          data_interviewers = Inl (interviewers f), data_tags = Inl (tags f)\<rparr>)
        (set_page (\<lambda>s. s\<lparr>form_submitting := False\<rparr>)) u1"
    "interview_data to_iso \<lparr>data_values = form_values f,
          data_interviewers = Inl (interviewers f), data_tags = Inl (tags f)\<rparr> = Inr (schedule_body to_iso f t)"
proof -
  from assms have w: "w = form_values f" and sch: "schedule_schema is_email (form_values f)"
    by (auto simp: resolver_ok_def)
  from sch obtain t where t: "scheduledDate (form_values f) = Some (Fin t)"
    by (auto simp: schedule_schema_def split: option.splits number.splits)
  let ?u = "(on_new_page io f)\<lparr>page := (new_page f)\<lparr>form_submitting := True\<rparr>\<rparr>"
  show ?thesis
  proof (rule that [OF t sch, of ?u])
    show "submit resolver (new_interview_submit to_iso srv) (on_new_page io f) =
      finally_do (new_interview_submit to_iso srv \<lparr>data_values = form_values f,
          data_interviewers = Inl (interviewers f), data_tags = Inl (tags f)\<rparr>)
        (set_page (\<lambda>s. s\<lparr>form_submitting := False\<rparr>)) ?u"
      using assms(2) by (simp add: submit_def handleSubmit_def w await_def new_page_fields finally_do_def)
  qed (simp_all add: interview_data_def t to_iso_string_def interviewer_ids_def tag_list_of_def
      schedule_body_def Let_def)
qed


text \<open>A form filled in by hand: one interviewer and no tag.\<close>

definition filled :: schedule_form where
  "filled = fold form_event [Edit (CandidateName ''Ada''), Edit (CandidateEmail ''a@b''),
     Edit (Position ''designer''), Edit (ScheduledDate (Some (Fin 0))),
     TypeInterviewer '' i1 '', AddInterviewer] init_schedule"

lemma fold_execution: "execution form_step s ls (fold form_event ls s)"
proof (induction ls rule: rev_induct)
  case Nil
  show ?case by (simp add: exec_nil)
next
  case (snoc l ls)
  then show ?case by (auto intro: exec_snoc simp: form_step_def)
qed

definition sample_resolver :: "schedule_values \<Rightarrow> schedule_values option" where
  "sample_resolver v = (if schedule_schema (\<lambda>s. s \<noteq> []) v then Some v else None)"

lemma sample_resolver_ok: "resolver_ok (\<lambda>s. s \<noteq> []) sample_resolver"
  by (simp add: resolver_ok_def sample_resolver_def)

lemma sample_resolver_accepts: "sample_resolver (form_values filled) = Some (form_values filled)"
  by code_simp


text \<open>
  C30. A submit that reaches the page always ends: both submitting flags are cleared, the user
  sees exactly one toast, and is taken to the list of interviews exactly when the server
  confirmed the interview with an object.
\<close>

theorem schedule_submit_finishes:
  assumes "resolver_ok is_email resolver" and "resolver (form_values f) \<noteq> None"
    and "u' = snd (submit resolver (new_interview_submit to_iso srv) (on_new_page io f))"
  shows "\<not> form_submitting (page u') \<and> \<not> page_submitting (page u')
       \<and> (\<exists>t msg. scheduledDate (form_values f) = Some (Fin t) \<and>
            (if \<exists>v. fst (createInterview srv (schedule_body to_iso f t) (submitting io)) = Inr v \<and> \<not> nullish v
             then effects u' = [AppToast ''Interview Scheduled'' msg False, Push ''/dashboard/interviews'']
             else effects u' = [AppToast ''Error'' msg True]))"
proof -
  from assms(2) obtain w where w: "resolver (form_values f) = Some w" by blast
  obtain t u1 where d: "scheduledDate (form_values f) = Some (Fin t)" and u1: "outside u1 = io" "effects u1 = []" "page u1 = (new_page f)\<lparr>form_submitting := True\<rparr>"
      "submit resolver (new_interview_submit to_iso srv) (on_new_page io f) =
        finally_do (new_interview_submit to_iso srv \<lparr>data_values = form_values f,
            data_interviewers = Inl (interviewers f), data_tags = Inl (tags f)\<rparr>)
          (set_page (\<lambda>s. s\<lparr>form_submitting := False\<rparr>)) u1"
      "interview_data to_iso \<lparr>data_values = form_values f,
            data_interviewers = Inl (interviewers f), data_tags = Inl (tags f)\<rparr> = Inr (schedule_body to_iso f t)"
    by (rule submit_unfold [OF assms(1) w, of io to_iso srv])
  let ?r = "fst (createInterview srv (schedule_body to_iso f t) (submitting io))"
  have a: "effects u' = schedule_outcome ?r"
    by (simp add: assms(3) u1 page_submit_run(3) [OF u1(5)])
  note schedule_outcome_cases [of ?r]
  note outcome = this [folded a]
  have "\<not> form_submitting (page u')" "\<not> page_submitting (page u')"
    by (simp_all add: assms(3) u1 page_submit_run(2) [OF u1(5)])
  then show ?thesis using outcome d by blast
qed

theorem schedule_submit_finishes_witness:
  "\<not> page_submitting (page (snd (submit sample_resolver (new_interview_submit (\<lambda>_. []) sample_srv)
      (on_new_page \<lparr>net = (), sent = [], console = []\<rparr> filled))))"
proof -
  have "sample_resolver (form_values filled) \<noteq> None"
    by (simp add: sample_resolver_accepts)
  from schedule_submit_finishes [OF sample_resolver_ok this refl] show ?thesis by blast
qed

end
