(* ===== verification/Evaluation_Form.thy ===== *)
theory Evaluation_Form
  imports Chip_List Ui_Action
begin

text \<open>
  \<^verbatim>\<open>components/forms/submit-evaluation-form.tsx\<close>: state, handlers, schema and submit of the
  evaluation form, in the same terms as the schedule form. The four sliders give whole numbers
  from 0 to 10.
\<close>

record evaluation_values =
  ev_interviewId :: string
  evaluatorName :: string
  evaluatorEmail :: string
  technicalScore :: number
  communicationScore :: number
  problemSolvingScore :: number
  cultureFitScore :: number
  strengths_value :: string
  weaknesses_value :: string
  recommendation :: string
  comments :: string

record evaluation_form =
  ef_submitting :: bool
  strengths :: "string list"
  weaknesses :: "string list"
  strengthInput :: string
  weaknessInput :: string
  ef_values :: evaluation_values

definition default_evaluation :: "string \<Rightarrow> evaluation_values" where
  "default_evaluation interviewId =
     \<lparr>ev_interviewId = interviewId, evaluatorName = [], evaluatorEmail = [],
      technicalScore = Fin 5, communicationScore = Fin 5, problemSolvingScore = Fin 5,
      cultureFitScore = Fin 5, strengths_value = [], weaknesses_value = [],
      recommendation = ''maybe'', comments = []\<rparr>"

definition init_evaluation :: "string \<Rightarrow> evaluation_form" where
  "init_evaluation interviewId =
     \<lparr>ef_submitting = False, strengths = [], weaknesses = [], strengthInput = [],
      weaknessInput = [], ef_values = default_evaluation interviewId\<rparr>"

definition score_ok :: "number \<Rightarrow> bool" where
  "score_ok n = (case n of Fin x \<Rightarrow> 0 \<le> x \<and> x \<le> 10 | NaN \<Rightarrow> False)"

definition recommendations :: "string list" where
  "recommendations = [''strong_yes'', ''yes'', ''maybe'', ''no'', ''strong_no'']"

definition evaluation_schema :: "(string \<Rightarrow> bool) \<Rightarrow> evaluation_values \<Rightarrow> bool" where
  "evaluation_schema is_email v \<longleftrightarrow>
     1 \<le> length (ev_interviewId v)
     \<and> 2 \<le> length (evaluatorName v)
     \<and> is_email (evaluatorEmail v)
     \<and> score_ok (technicalScore v) \<and> score_ok (communicationScore v)
     \<and> score_ok (problemSolvingScore v) \<and> score_ok (cultureFitScore v)
     \<and> recommendation v \<in> set recommendations"

section \<open>Handlers\<close>

definition setStrengthInput :: "string \<Rightarrow> 'z evaluation_form_scheme \<Rightarrow> 'z evaluation_form_scheme" where
  "setStrengthInput x s = s\<lparr>strengthInput := x\<rparr>"

definition setWeaknessInput :: "string \<Rightarrow> 'z evaluation_form_scheme \<Rightarrow> 'z evaluation_form_scheme" where
  "setWeaknessInput x s = s\<lparr>weaknessInput := x\<rparr>"

definition addStrength :: "'z evaluation_form_scheme \<Rightarrow> 'z evaluation_form_scheme" where
  "addStrength s =
     (case chip_added (strengthInput s) (strengths s) of
        None \<Rightarrow> s
      | Some newStrengths \<Rightarrow>
          s\<lparr>strengths := newStrengths,
            ef_values := (ef_values s)\<lparr>strengths_value := joined newStrengths\<rparr>,
            strengthInput := []\<rparr>)"

definition removeStrength :: "string \<Rightarrow> 'z evaluation_form_scheme \<Rightarrow> 'z evaluation_form_scheme" where
  "removeStrength strength s =
     (let newStrengths = chip_removed strength (strengths s)
      in s\<lparr>strengths := newStrengths,
           ef_values := (ef_values s)\<lparr>strengths_value := joined newStrengths\<rparr>\<rparr>)"

definition addWeakness :: "'z evaluation_form_scheme \<Rightarrow> 'z evaluation_form_scheme" where
  "addWeakness s =
     (case chip_added (weaknessInput s) (weaknesses s) of
        None \<Rightarrow> s
      | Some newWeaknesses \<Rightarrow>
          s\<lparr>weaknesses := newWeaknesses,
            ef_values := (ef_values s)\<lparr>weaknesses_value := joined newWeaknesses\<rparr>,
            weaknessInput := []\<rparr>)"

definition removeWeakness :: "string \<Rightarrow> 'z evaluation_form_scheme \<Rightarrow> 'z evaluation_form_scheme" where
  "removeWeakness weakness s =
     (let newWeaknesses = chip_removed weakness (weaknesses s)
      in s\<lparr>weaknesses := newWeaknesses,
           ef_values := (ef_values s)\<lparr>weaknesses_value := joined newWeaknesses\<rparr>\<rparr>)"

datatype evaluation_field =
    EvaluatorName string
  | EvaluatorEmail string
  | TechnicalScore number
  | CommunicationScore number
  | ProblemSolvingScore number
  | CultureFitScore number
  | Recommendation string
  | Comments string

text \<open>A slider has one thumb and reports the list of its value.\<close>

fun set_evaluation_field :: "evaluation_field \<Rightarrow> evaluation_values \<Rightarrow> evaluation_values" where
  "set_evaluation_field (EvaluatorName x) v = v\<lparr>evaluatorName := x\<rparr>"
| "set_evaluation_field (EvaluatorEmail x) v = v\<lparr>evaluatorEmail := x\<rparr>"
| "set_evaluation_field (TechnicalScore x) v = v\<lparr>technicalScore := x\<rparr>"
| "set_evaluation_field (CommunicationScore x) v = v\<lparr>communicationScore := x\<rparr>"
| "set_evaluation_field (ProblemSolvingScore x) v = v\<lparr>problemSolvingScore := x\<rparr>"
| "set_evaluation_field (CultureFitScore x) v = v\<lparr>cultureFitScore := x\<rparr>"
| "set_evaluation_field (Recommendation x) v = v\<lparr>recommendation := x\<rparr>"
| "set_evaluation_field (Comments x) v = v\<lparr>comments := x\<rparr>"

record evaluation_data =
  ed_values :: evaluation_values
  ed_strengths :: "string list + string option"
  ed_weaknesses :: "string list + string option"

definition evaluation_handleSubmit ::
  "(evaluation_data \<Rightarrow> ('w, 'z evaluation_form_scheme, unit) handler) \<Rightarrow> evaluation_values \<Rightarrow>
     ('w, 'z evaluation_form_scheme, unit) handler" where
  "evaluation_handleSubmit onSubmit values =
     await (set_page (\<lambda>s. s\<lparr>ef_submitting := True\<rparr>)) (\<lambda>_.
       finally_do
         (\<lambda>u. onSubmit \<lparr>ed_values = values, ed_strengths = Inl (strengths (page u)),
                        ed_weaknesses = Inl (weaknesses (page u))\<rparr> u)
         (set_page (\<lambda>s. s\<lparr>ef_submitting := False\<rparr>)))"

definition evaluation_submit ::
  "(evaluation_values \<Rightarrow> evaluation_values option) \<Rightarrow>
     (evaluation_data \<Rightarrow> ('w, 'z evaluation_form_scheme, unit) handler) \<Rightarrow>
     ('w, 'z evaluation_form_scheme, unit) handler" where
  "evaluation_submit resolver onSubmit u =
     (case resolver (ef_values (page u)) of
        None \<Rightarrow> (Inr (), u)
      | Some values \<Rightarrow> evaluation_handleSubmit onSubmit values u)"

lemmas evaluation_code_defs = setStrengthInput_def setWeaknessInput_def addStrength_def
  removeStrength_def addWeakness_def removeWeakness_def Let_def

section \<open>The lists\<close>

interpretation strength_list: chip_list strengths strengthInput
    "\<lambda>s. strengths_value (ef_values s)" setStrengthInput addStrength removeStrength
  by unfold_locales (auto simp: evaluation_code_defs)

interpretation weakness_list: chip_list weaknesses weaknessInput
    "\<lambda>s. weaknesses_value (ef_values s)" setWeaknessInput addWeakness removeWeakness
  by unfold_locales (auto simp: evaluation_code_defs)

section \<open>What the user does between submits\<close>

datatype evaluation_label =
    TypeStrength string
  | AddStrength
  | RemoveStrength string
  | TypeWeakness string
  | AddWeakness
  | RemoveWeakness string
  | EditEvaluation evaluation_field

fun evaluation_event :: "evaluation_label \<Rightarrow> evaluation_form \<Rightarrow> evaluation_form" where
  "evaluation_event (TypeStrength x) s = setStrengthInput x s"
| "evaluation_event AddStrength s = addStrength s"
| "evaluation_event (RemoveStrength x) s = removeStrength x s"
| "evaluation_event (TypeWeakness x) s = setWeaknessInput x s"
| "evaluation_event AddWeakness s = addWeakness s"
| "evaluation_event (RemoveWeakness x) s = removeWeakness x s"
| "evaluation_event (EditEvaluation f) s = s\<lparr>ef_values := set_evaluation_field f (ef_values s)\<rparr>"

definition evaluation_step :: "evaluation_form \<Rightarrow> evaluation_label \<Rightarrow> evaluation_form \<Rightarrow> bool" where
  "evaluation_step s l t \<longleftrightarrow> t = evaluation_event l s"

definition evaluation_ok :: "string \<Rightarrow> evaluation_form \<Rightarrow> bool" where
  "evaluation_ok interviewId s \<longleftrightarrow>
     strength_list.chips_ok s \<and> weakness_list.chips_ok s \<and> ev_interviewId (ef_values s) = interviewId"

lemma set_evaluation_field_keeps:
  "strengths_value (set_evaluation_field f v) = strengths_value v"
  "weaknesses_value (set_evaluation_field f v) = weaknesses_value v"
  "ev_interviewId (set_evaluation_field f v) = ev_interviewId v"
  by (cases f; simp)+

lemma evaluation_frame:
  "strengths (addWeakness s) = strengths s" "strengths (removeWeakness x s) = strengths s"
  "strengths_value (ef_values (addWeakness s)) = strengths_value (ef_values s)"
  "strengths_value (ef_values (removeWeakness x s)) = strengths_value (ef_values s)"
  "weaknesses (addStrength s) = weaknesses s" "weaknesses (removeStrength x s) = weaknesses s"
  "weaknesses_value (ef_values (addStrength s)) = weaknesses_value (ef_values s)"
  "weaknesses_value (ef_values (removeStrength x s)) = weaknesses_value (ef_values s)"
  "strengths (setWeaknessInput x s) = strengths s" "weaknesses (setStrengthInput x s) = weaknesses s"
  "ef_values (setWeaknessInput x s) = ef_values s" "ef_values (setStrengthInput x s) = ef_values s"
  "ev_interviewId (ef_values (addStrength s)) = ev_interviewId (ef_values s)"
  "ev_interviewId (ef_values (removeStrength x s)) = ev_interviewId (ef_values s)"
  "ev_interviewId (ef_values (addWeakness s)) = ev_interviewId (ef_values s)"
  "ev_interviewId (ef_values (removeWeakness x s)) = ev_interviewId (ef_values s)"
  by (simp_all add: evaluation_code_defs split: option.splits)

lemma evaluation_ok_step: "evaluation_step s l t \<Longrightarrow> evaluation_ok i s \<Longrightarrow> evaluation_ok i t"
  using strength_list.chips_ok_type_in [of s] strength_list.chips_ok_add [of s]
    strength_list.chips_ok_remove [of s] weakness_list.chips_ok_type_in [of s]
    weakness_list.chips_ok_add [of s] weakness_list.chips_ok_remove [of s]
  by (cases l)
     (auto simp: evaluation_step_def evaluation_ok_def evaluation_frame set_evaluation_field_keeps
       intro: strength_list.chips_ok_frame [of s] weakness_list.chips_ok_frame [of s])

lemma evaluation_ok_init: "evaluation_ok i (init_evaluation i)"
  by (simp add: evaluation_ok_def strength_list.chips_ok_def weakness_list.chips_ok_def
      init_evaluation_def default_evaluation_def joined_def)

interpretation evaluation: invariant_system "\<lambda>s. s = init_evaluation i" evaluation_step "evaluation_ok i"
  for i
  by unfold_locales (auto simp: evaluation_ok_init intro: evaluation_ok_step)

end
