(* ===== verification/Evaluation_Page.thy ===== *)
theory Evaluation_Page
  imports Evaluation_Form Schedule_Page
begin

text \<open>
  \<^verbatim>\<open>app/dashboard/interviews/[id]/evaluate/page.tsx\<close>: from the evaluation form to the API. The
  page renames the culture fit score and translates the recommendation.
\<close>

definition recommendation_map :: "(string \<times> string) list" where
  "recommendation_map = [
     (''strong_yes'', ''strong_hire''),
     (''yes'', ''hire''),
     (''maybe'', ''maybe''),
     (''no'', ''no_hire''),
     (''strong_no'', ''no_hire'')]"

definition api_recommendation :: "string \<Rightarrow> jsval" where
  "api_recommendation r = (case map_of recommendation_map r of None \<Rightarrow> Undef | Some x \<Rightarrow> Str x)"

definition remarks :: "string list + string option \<Rightarrow> string list" where
  "remarks d = (case d of Inl xs \<Rightarrow> xs | Inr None \<Rightarrow> split_list [] | Inr (Some s) \<Rightarrow> split_list s)"

definition evaluation_body :: "string \<Rightarrow> evaluation_data \<Rightarrow> jsval" where
  "evaluation_body interviewId d =
     (let v = ed_values d
      in Obj [
        (''interviewId'', Str interviewId),
        (''evaluatorName'', Str (evaluatorName v)),
        (''evaluatorEmail'', Str (evaluatorEmail v)),
        (''technicalScore'', Num (technicalScore v)),
        (''communicationScore'', Num (communicationScore v)),
        (''problemSolvingScore'', Num (problemSolvingScore v)),
        (''culturalFitScore'', Num (cultureFitScore v)),
        (''strengths'', string_array (remarks (ed_strengths d))),
        (''weaknesses'', string_array (remarks (ed_weaknesses d))),
        (''recommendation'', api_recommendation (recommendation v)),
        (''comments'', Str (comments v))])"

record evaluate_page = evaluation_form +
  evaluate_submitting :: bool

text \<open>\<open>evaluation.overallScore.toFixed(1)\<close>, where the answer may lack the score.\<close>

definition score_text :: "jsval \<Rightarrow> exn + string" where
  "score_text evaluation =
     bind_res (get_field evaluation ''overallScore'') (\<lambda>x.
       case x of
         Num (Fin n) \<Rightarrow> Inr (to_fixed1 n)
       | Num NaN \<Rightarrow> Inr ''NaN''
       | _ \<Rightarrow> Inl (TypeError (if nullish x then ''Cannot read properties of undefined (reading toFixed)''
                              else ''toFixed is not a function'')))"

definition evaluate_submit ::
  "'w server \<Rightarrow> string \<Rightarrow> evaluation_data \<Rightarrow> ('w, evaluate_page, unit) handler" where
  "evaluate_submit srv interviewId d =
     await (set_page (\<lambda>s. s\<lparr>evaluate_submitting := True\<rparr>)) (\<lambda>_.
       finally_do
         (try_catch
            (await (call (createEvaluation srv (evaluation_body interviewId d))) (\<lambda>evaluation.
             await (lift_res (score_text evaluation)) (\<lambda>score.
             await (effect (AppToast ''Evaluation Submitted''
                (''Your evaluation has been submitted successfully with an overall score of '' @ score @ ''.'') False)) (\<lambda>_.
               effect (Push (''/dashboard/interviews/'' @ interviewId))))))
            (\<lambda>error.
             await (call (console_error ''Failed to submit evaluation:'' error)) (\<lambda>_.
               effect (AppToast ''Error'' (error_message error) True))))
         (set_page (\<lambda>s. s\<lparr>evaluate_submitting := False\<rparr>)))"

section \<open>One submit\<close>

definition evaluate_outcome :: "string \<Rightarrow> exn + jsval \<Rightarrow> effect list" where
  "evaluate_outcome i r =
     (case bind_res r score_text of
        Inl e \<Rightarrow> [AppToast ''Error'' (error_message e) True]
      | Inr score \<Rightarrow> [AppToast ''Evaluation Submitted''
          (''Your evaluation has been submitted successfully with an overall score of '' @ score @ ''.'') False,
          Push (''/dashboard/interviews/'' @ i)])"

lemma evaluate_run:
  "fst (evaluate_submit srv i d u) = Inr ()"
  "page (snd (evaluate_submit srv i d u)) = (page u)\<lparr>evaluate_submitting := False\<rparr>"
  "effects (snd (evaluate_submit srv i d u))
     = effects u @ evaluate_outcome i (fst (createEvaluation srv (evaluation_body i d) (outside u)))"
  "sent (outside (snd (evaluate_submit srv i d u)))
     = sent (snd (createEvaluation srv (evaluation_body i d) (outside u)))"
proof -
  obtain r io where c: "createEvaluation srv (evaluation_body i d) (outside u) = (r, io)"
    by (cases "createEvaluation srv (evaluation_body i d) (outside u)")
  note defs = evaluate_submit_def action_defs call_def finally_do_def evaluate_outcome_def
    bind_res_def c
  show "fst (evaluate_submit srv i d u) = Inr ()"
    "page (snd (evaluate_submit srv i d u)) = (page u)\<lparr>evaluate_submitting := False\<rparr>"
    "effects (snd (evaluate_submit srv i d u))
       = effects u @ evaluate_outcome i (fst (createEvaluation srv (evaluation_body i d) (outside u)))"
    "sent (outside (snd (evaluate_submit srv i d u)))
       = sent (snd (createEvaluation srv (evaluation_body i d) (outside u)))"
    by (cases r; simp add: defs split: sum.splits)+
qed

lemma create_evaluation_sent:
  "sent (snd (createEvaluation srv body io)) = sent io @ [post_req ''/api/evaluations'' body]"
  using perform_spec [of srv "CreateEvaluation body" io] by (simp add: call_spec_sent)

definition evaluation_resolver_ok ::
  "(string \<Rightarrow> bool) \<Rightarrow> (evaluation_values \<Rightarrow> evaluation_values option) \<Rightarrow> bool" where
  "evaluation_resolver_ok is_email resolver \<longleftrightarrow>
     (\<forall>v w. resolver v = Some w \<longrightarrow> w = v \<and> evaluation_schema is_email v)"

definition form_data :: "evaluation_form \<Rightarrow> evaluation_data" where
  "form_data f = \<lparr>ed_values = ef_values f, ed_strengths = Inl (strengths f), ed_weaknesses = Inl (weaknesses f)\<rparr>"

abbreviation on_evaluate_page :: "'w io \<Rightarrow> evaluation_form \<Rightarrow> ('w, evaluate_page) ui" where
  "on_evaluate_page io f \<equiv>
     \<lparr>outside = io, effects = [], page = evaluation_form.extend f \<lparr>evaluate_submitting = False\<rparr>\<rparr>"

lemma evaluate_page_fields:
  "strengths (evaluation_form.extend f x) = strengths f" "weaknesses (evaluation_form.extend f x) = weaknesses f"
  "ef_values (evaluation_form.extend f x) = ef_values f"
  by (simp_all add: evaluation_form.defs)

lemma evaluation_submit_unfold:
  assumes "evaluation_resolver_ok is_email resolver" "resolver (ef_values f) = Some w"
  obtains u1 where "evaluation_schema is_email (ef_values f)"
    "outside u1 = io" "effects u1 = []"
    "evaluation_submit resolver (evaluate_submit srv i) (on_evaluate_page io f) =
      finally_do (evaluate_submit srv i (form_data f)) (set_page (\<lambda>s. s\<lparr>ef_submitting := False\<rparr>)) u1"
proof -
  from assms have w: "w = ef_values f" and sch: "evaluation_schema is_email (ef_values f)"
    by (auto simp: evaluation_resolver_ok_def)
  let ?u = "(on_evaluate_page io f)\<lparr>page := (page (on_evaluate_page io f))\<lparr>ef_submitting := True\<rparr>\<rparr>"
  show ?thesis
  proof (rule that [OF sch, of ?u])
    show "evaluation_submit resolver (evaluate_submit srv i) (on_evaluate_page io f) =
      finally_do (evaluate_submit srv i (form_data f)) (set_page (\<lambda>s. s\<lparr>ef_submitting := False\<rparr>)) ?u"
      using assms(2)
      by (simp add: evaluation_submit_def evaluation_handleSubmit_def w await_def evaluate_page_fields
          finally_do_def form_data_def)
  qed simp_all
qed

lemma evaluation_body_typed:
  "recommendation (ef_values f) \<in> set recommendations \<Longrightarrow>
     has_type api_CreateEvaluationRequest (evaluation_body i (form_data f))"
  by (auto simp: evaluation_body_def form_data_def Let_def api_types_defs string_array_def list_all_iff
      recommendations_def api_recommendation_def recommendation_map_def remarks_def)


definition filled_evaluation :: evaluation_form where
  "filled_evaluation = fold evaluation_event [EditEvaluation (EvaluatorName ''Eva''),
     EditEvaluation (EvaluatorEmail ''e@f''), TypeStrength '' calm'', AddStrength] (init_evaluation ''i1'')"

definition sample_evaluation_resolver :: "evaluation_values \<Rightarrow> evaluation_values option" where
  "sample_evaluation_resolver v = (if evaluation_schema (\<lambda>s. s \<noteq> []) v then Some v else None)"

lemma sample_evaluation_resolver_ok: "evaluation_resolver_ok (\<lambda>s. s \<noteq> []) sample_evaluation_resolver"
  by (simp add: evaluation_resolver_ok_def sample_evaluation_resolver_def)

lemma sample_evaluation_accepts:
  "sample_evaluation_resolver (ef_values filled_evaluation) = Some (ef_values filled_evaluation)"
  by code_simp

lemma evaluation_fold_execution: "execution evaluation_step s ls (fold evaluation_event ls s)"
proof (induction ls rule: rev_induct)
  case Nil
  show ?case by (simp add: exec_nil)
next
  case (snoc l ls)
  then show ?case by (auto intro: exec_snoc simp: evaluation_step_def)
qed


text \<open>
  After an accepted submit the user sees one toast; the page goes back to the interview
  exactly when the server confirmed the evaluation with a number as its overall score, and
  otherwise stays and shows an error, even where the evaluation was created.
\<close>

theorem evaluation_submit_finishes:
  assumes "evaluation_resolver_ok is_email resolver" and "resolver (ef_values f) \<noteq> None"
    and "u' = snd (evaluation_submit resolver (evaluate_submit srv i) (on_evaluate_page io f))"
  shows "\<not> ef_submitting (page u') \<and> \<not> evaluate_submitting (page u')
       \<and> (\<exists>msg. if \<exists>v n. fst (createEvaluation srv (evaluation_body i (form_data f)) io) = Inr v
                          \<and> opt_get v ''overallScore'' = Num n
             then effects u' = [AppToast ''Evaluation Submitted'' msg False, Push (''/dashboard/interviews/'' @ i)]
             else effects u' = [AppToast ''Error'' msg True])"
proof -
  from assms(2) obtain w where w: "resolver (ef_values f) = Some w" by blast
  obtain u1 where u1: "outside u1 = io" "effects u1 = []"
      "evaluation_submit resolver (evaluate_submit srv i) (on_evaluate_page io f) =
        finally_do (evaluate_submit srv i (form_data f)) (set_page (\<lambda>s. s\<lparr>ef_submitting := False\<rparr>)) u1"
    by (rule evaluation_submit_unfold [OF assms(1) w, of io srv i])
  let ?r = "fst (createEvaluation srv (evaluation_body i (form_data f)) io)"
  have outcome: "\<exists>msg. if \<exists>v n. r = Inr v \<and> opt_get v ''overallScore'' = Num n
      then evaluate_outcome i r = [AppToast ''Evaluation Submitted'' msg False, Push (''/dashboard/interviews/'' @ i)]
      else evaluate_outcome i r = [AppToast ''Error'' msg True]" for r
  proof (cases r)
    case (Inr v)
    show ?thesis
    proof (cases "nullish v")
      case True
      then have "opt_get v ''overallScore'' = Undef" by (cases v) auto
      with True Inr show ?thesis by (simp add: evaluate_outcome_def score_text_def get_field_def)
    next
      case False
      with Inr show ?thesis
        by (cases "opt_get v ''overallScore''")
           (auto simp: evaluate_outcome_def score_text_def split: number.splits)
    qed
  qed (simp add: evaluate_outcome_def)
  have "effects u' = evaluate_outcome i ?r"
    by (simp add: assms(3) u1 evaluate_run(3))
  moreover have "\<not> ef_submitting (page u')" "\<not> evaluate_submitting (page u')"
    by (simp_all add: assms(3) u1 evaluate_run(2))
  ultimately show ?thesis using outcome [of ?r] by metis
qed

theorem evaluation_submit_finishes_witness:
  "\<not> evaluate_submitting (page (snd (evaluation_submit sample_evaluation_resolver
      (evaluate_submit sample_srv ''i1'') (on_evaluate_page \<lparr>net = (), sent = [], console = []\<rparr> filled_evaluation))))"
proof -
  have "sample_evaluation_resolver (ef_values filled_evaluation) \<noteq> None"
    by (simp add: sample_evaluation_accepts)
  from evaluation_submit_finishes [OF sample_evaluation_resolver_ok this refl] show ?thesis by blast
qed

end
