(* ===== verification/Interview_Detail.thy ===== *)
theory Interview_Detail
  imports Ui_Kit Schedule_Page Query_Hooks
begin

text \<open>
  \<^verbatim>\<open>app/dashboard/interviews/[id]/page.tsx\<close>: the page of one interview, its handlers and what
  it renders. How dates print and whether a date is still to come are parameters, and so is the
  interview the page's query holds.
\<close>

record detail_page =
  showCancelDialog :: bool
  showStartDialog :: bool
  showCompleteDialog :: bool
  isActionLoading :: bool

definition init_detail :: detail_page where
  "init_detail = \<lparr>showCancelDialog = False, showStartDialog = False, showCompleteDialog = False,
     isActionLoading = False\<rparr>"

definition detail_query :: "'w server \<Rightarrow> string \<Rightarrow> 'w query" where
  "detail_query srv interviewId = query [key ''interview'', Str interviewId] (getInterview srv interviewId)"

section \<open>Handlers\<close>

definition refresh_interview :: "string \<Rightarrow> ('w, 'p, unit) handler" where
  "refresh_interview interviewId =
     await (effect (Invalidate [key ''interview'', Str interviewId])) (\<lambda>_.
       effect (Invalidate [key ''interviews'']))"

definition handleCancel :: "'w server \<Rightarrow> string \<Rightarrow> jsval \<Rightarrow> ('w, detail_page, unit) handler" where
  "handleCancel srv interviewId interview =
     (if \<not> truthy interview then return_a ()
      else await (set_page (\<lambda>s. s\<lparr>isActionLoading := True\<rparr>)) (\<lambda>_.
        finally_do
          (try_catch
             (await (call (cancelInterview srv (js_to_string (opt_get interview ''id'')))) (\<lambda>_.
              await (refresh_interview interviewId) (\<lambda>_.
              await (set_page (\<lambda>s. s\<lparr>showCancelDialog := False\<rparr>)) (\<lambda>_.
                effect (AppToast ''Interview Cancelled'' ''The interview has been successfully cancelled.'' False)))))
             (\<lambda>error.
              await (call (console_error ''Failed to cancel interview:'' error)) (\<lambda>_.
                effect (AppToast ''Error'' (error_message error) True))))
          (set_page (\<lambda>s. s\<lparr>isActionLoading := False\<rparr>))))"

definition handleStartInterview :: "'w server \<Rightarrow> string \<Rightarrow> jsval \<Rightarrow> ('w, detail_page, unit) handler" where
  "handleStartInterview srv interviewId interview =
     (if \<not> truthy interview then return_a ()
      else await (set_page (\<lambda>s. s\<lparr>isActionLoading := True\<rparr>)) (\<lambda>_.
        finally_do
          (try_catch
             (await (call (startInterview srv (js_to_string (opt_get interview ''id'')))) (\<lambda>_.
              await (effect (AppToast ''Interview Started''
                (''Interview with '' @ js_to_string (opt_get interview ''candidateName'') @ '' is now in progress.'') False)) (\<lambda>_.
              await (refresh_interview interviewId) (\<lambda>_.
                set_page (\<lambda>s. s\<lparr>showStartDialog := False\<rparr>)))))
             (\<lambda>error.
              await (call (console_error ''Failed to start interview:'' error)) (\<lambda>_.
                effect (AppToast ''Error'' (error_message error) True))))
          (set_page (\<lambda>s. s\<lparr>isActionLoading := False\<rparr>))))"

definition handleCompleteInterview :: "'w server \<Rightarrow> string \<Rightarrow> jsval \<Rightarrow> ('w, detail_page, unit) handler" where
  "handleCompleteInterview srv interviewId interview =
     (if \<not> truthy interview then return_a ()
      else await (set_page (\<lambda>s. s\<lparr>isActionLoading := True\<rparr>)) (\<lambda>_.
        finally_do
          (try_catch
             (await (call (completeInterview srv (js_to_string (opt_get interview ''id'')))) (\<lambda>_.
              await (effect (AppToast ''Interview Completed''
                (''Interview with '' @ js_to_string (opt_get interview ''candidateName'') @ '' has been marked as completed.'') False)) (\<lambda>_.
              await (refresh_interview interviewId) (\<lambda>_.
                set_page (\<lambda>s. s\<lparr>showCompleteDialog := False\<rparr>)))))
             (\<lambda>error.
              await (call (console_error ''Failed to complete interview:'' error)) (\<lambda>_.
                effect (AppToast ''Error'' (error_message error) True))))
          (set_page (\<lambda>s. s\<lparr>isActionLoading := False\<rparr>))))"

definition handleUpdateInterview :: "('w, detail_page, unit) handler" where
  "handleUpdateInterview =
     effect (AppToast ''Feature Coming Soon'' ''Interview editing functionality will be available soon.'' False)"

definition handleAddEvaluation :: "string \<Rightarrow> ('w, detail_page, unit) handler" where
  "handleAddEvaluation interviewId = effect (Push (''/dashboard/interviews/'' @ interviewId @ ''/evaluate''))"

section \<open>The view\<close>

record dates =
  date_text :: "jsval \<Rightarrow> string"
  time_text :: "jsval \<Rightarrow> string"
  datetime_text :: "jsval \<Rightarrow> string"
  in_future :: "jsval \<Rightarrow> bool"

datatype detail_event =
    UpdateClicked
  | OpenStart
  | AddEvaluation
  | OpenComplete
  | OpenCancel
  | SetCancel
  | SetStart
  | SetComplete
  | KeepInterview
  | NotYetStart
  | NotYetComplete
  | ConfirmCancel
  | ConfirmStart
  | ConfirmComplete

definition detail_statusColors :: "(string \<times> string) list" where
  "detail_statusColors = [
     (''pending'', ''bg-yellow-500''),
     (''scheduled'', ''bg-blue-500''),
     (''in_progress'', ''bg-purple-500''),
     (''completed'', ''bg-green-500''),
     (''cancelled'', ''bg-red-500'')]"

definition detail_loading :: "detail_event view" where
  "detail_loading = box ''div'' [box ''Skeleton'' [], box ''div'' [box ''Skeleton'' [], box ''Skeleton'' []]]"

definition detail_not_found :: "detail_event view" where
  "detail_not_found = box ''div'' [box ''div'' [
     box ''h1'' [lbl ''Interview not found''],
     box ''p'' [lbl ''The interview you're looking for doesn't exist.''],
     box ''Button'' [link (str ''/dashboard/interviews'') [lbl ''Back to Interviews'']]]]"

definition detail_header :: "dates \<Rightarrow> jsval \<Rightarrow> detail_event view" where
  "detail_header fmt interview =
     box ''Card'' [
       box ''CardHeader'' [box ''div'' [
         box ''div'' [
           box ''CardTitle'' [child (opt_get interview ''candidateName'')],
           box ''CardDescription'' [child (opt_get interview ''position'')]],
         bind_res (str_call (\<lambda>s. js_upper (js_replace_first CHR ''_'' '' '' s)) (opt_get interview ''status'')) (\<lambda>label.
           el ''Badge'' [(''className'', str (js_to_string
               (lookup detail_statusColors (opt_get interview ''status'')) @ '' text-white''))] [] [lbl label])]],
       box ''CardContent'' [
         box ''div'' [
           box ''div'' [box ''span'' [child (opt_get interview ''candidateEmail'')]],
           box ''div'' [box ''span'' [lbl (date_text fmt (opt_get interview ''scheduledAt''))]],
           box ''div'' [box ''span'' [
             lbl (time_text fmt (opt_get interview ''scheduledAt'')), lbl '' ('',
             child (opt_get interview ''duration''), lbl '' min)'']]],
         (let tags = opt_get interview ''tags''
          in and_then tags
               (when_shown (case opt_get tags ''length'' of Num (Fin n) \<Rightarrow> n > 0 | _ \<Rightarrow> False)
                  (views [box ''Separator'' [],
                    box ''div'' [each tags (\<lambda>tag. el ''Badge'' [(''key'', tag)] [] [child tag])]])))]]"

definition detail_interviewers :: "jsval \<Rightarrow> detail_event view" where
  "detail_interviewers interview =
     box ''Card'' [
       box ''CardHeader'' [box ''CardTitle'' [lbl ''Interviewers'']],
       box ''CardContent'' [box ''div'' [
         each (opt_get interview ''interviewerIds'') (\<lambda>interviewer.
           el ''div'' [(''key'', interviewer)] [] [box ''span'' [child interviewer]])]]]"

definition detail_actions :: "dates \<Rightarrow> jsval \<Rightarrow> detail_event view" where
  "detail_actions fmt interview =
     (let status = opt_get interview ''status''; later = in_future fmt (opt_get interview ''scheduledAt'')
      in box ''Card'' [
        box ''CardHeader'' [
          box ''CardTitle'' [lbl ''Actions''],
          box ''CardDescription'' [lbl ''Manage interview status and add evaluations'']],
        box ''CardContent'' [
          when_shown (status = str ''cancelled'')
            (box ''div'' [box ''p'' [lbl ''This interview has been cancelled. No further actions are available.'']]),
          when_shown (status \<noteq> str ''cancelled'' \<and> status \<noteq> str ''completed'')
            (button [] UpdateClicked ''Update Interview''),
          when_shown (status = str ''scheduled'')
            (button [(''variant'', str ''default''), (''disabled'', Bool later)] OpenStart
               (if later then ''Start Interview (Not Time Yet)'' else ''Start Interview'')),
          when_shown (status = str ''completed'' \<or> status = str ''in_progress'')
            (button [(''variant'', str ''outline'')] AddEvaluation ''Add Evaluation''),
          when_shown (status = str ''in_progress'')
            (button [(''variant'', str ''default'')] OpenComplete ''End Interview''),
          when_shown (status = str ''scheduled'')
            (button [(''variant'', str ''destructive'')] OpenCancel ''Cancel Interview'')]])"

definition detail_metadata :: "dates \<Rightarrow> jsval \<Rightarrow> detail_event view" where
  "detail_metadata fmt interview =
     box ''Card'' [
       box ''CardHeader'' [box ''CardTitle'' [lbl ''Metadata'']],
       box ''CardContent'' [box ''dl'' [
         box ''div'' [box ''dt'' [lbl ''Interview ID''], box ''dd'' [child (opt_get interview ''id'')]],
         box ''div'' [box ''dt'' [lbl ''Created At''],
           box ''dd'' [lbl (datetime_text fmt (opt_get interview ''createdAt''))]],
         box ''div'' [box ''dt'' [lbl ''Last Updated''],
           box ''dd'' [lbl (datetime_text fmt (opt_get interview ''updatedAt''))]]]]]"

text \<open>The three dialogs differ in their texts and handlers. A closed dialog shows nothing.\<close>

definition dialog ::
  "bool \<Rightarrow> detail_event \<Rightarrow> string \<Rightarrow> 'h view list \<Rightarrow> bool \<Rightarrow> (detail_event \<Rightarrow> 'h) \<Rightarrow>
     detail_event \<times> string \<Rightarrow> detail_event \<times> string \<Rightarrow> 'h view" where
  "dialog is_open change title description busy ev no yes =
     el ''Dialog'' [(''open'', Bool is_open)] [(''onOpenChange'', ev change)] [
       when_shown is_open (box ''DialogContent'' [
         box ''DialogHeader'' [
           box ''DialogTitle'' [lbl title],
           box ''DialogDescription'' description],
         box ''DialogFooter'' [
           button [(''disabled'', Bool busy)] (ev (fst no)) (snd no),
           button [(''disabled'', Bool busy)] (ev (fst yes)) (snd yes)]])]"

definition cancel_dialog :: "jsval \<Rightarrow> detail_page \<Rightarrow> detail_event view" where
  "cancel_dialog interview pg = dialog (showCancelDialog pg) SetCancel ''Cancel Interview''
     [lbl ''Are you sure you want to cancel this interview with '', child (opt_get interview ''candidateName''),
      lbl ''? This action cannot be undone.'']
     (isActionLoading pg) id
     (KeepInterview, ''No, Keep Interview'')
     (ConfirmCancel, if isActionLoading pg then ''Cancelling...'' else ''Yes, Cancel Interview'')"

definition start_dialog :: "jsval \<Rightarrow> detail_page \<Rightarrow> detail_event view" where
  "start_dialog interview pg = dialog (showStartDialog pg) SetStart ''Start Interview''
     [lbl ''Are you ready to start the interview with '', child (opt_get interview ''candidateName''),
      lbl ''? The interview status will be marked as \"In Progress\".'']
     (isActionLoading pg) id
     (NotYetStart, ''Not Yet'')
     (ConfirmStart, if isActionLoading pg then ''Starting...'' else ''Yes, Start Interview'')"

definition complete_dialog :: "jsval \<Rightarrow> detail_page \<Rightarrow> detail_event view" where
  "complete_dialog interview pg = dialog (showCompleteDialog pg) SetComplete ''End Interview''
     [lbl ''Are you ready to end this interview with '', child (opt_get interview ''candidateName''),
      lbl ''? The interview will be marked as completed and you can then add evaluations.'']
     (isActionLoading pg) id
     (NotYetComplete, ''Not Yet'')
     (ConfirmComplete, if isActionLoading pg then ''Ending...'' else ''Yes, End Interview'')"

definition detail_body :: "dates \<Rightarrow> jsval \<Rightarrow> detail_event view" where
  "detail_body fmt interview = views [
     box ''div'' [box ''Button'' [link (str ''/dashboard/interviews'') [lbl ''Back to Interviews'']]],
     box ''div'' [detail_header fmt interview, detail_interviewers interview,
       detail_actions fmt interview, detail_metadata fmt interview]]"

definition detail_view :: "dates \<Rightarrow> bool \<Rightarrow> jsval \<Rightarrow> detail_page \<Rightarrow> detail_event view" where
  "detail_view fmt isLoading interview pg =
     (if isLoading then detail_loading
      else if \<not> truthy interview then detail_not_found
      else box ''div'' [detail_body fmt interview, cancel_dialog interview pg,
             start_dialog interview pg, complete_dialog interview pg])"

end
