(* ===== verification/Interview_Lifecycle.thy ===== *)
theory Interview_Lifecycle
  imports Interview_Detail Transition
begin

text \<open>
  What the interview page promises: it renders every interview of the declared type, offers the
  actions its status allows, ends every action with one toast and the loading flag cleared, and
  moves interviews only along the life cycle, as long as no dialog is dismissed while an action
  is under way and nobody else changes the interview.
\<close>

section \<open>Rendering\<close>

lemma typed_fields:
  assumes "has_type api_Interview v"
  shows "\<not> nullish v" "truthy v"
    "has_type TString (opt_get v ''id'')" "has_type TString (opt_get v ''candidateName'')"
    "has_type TString (opt_get v ''candidateEmail'')" "has_type TString (opt_get v ''position'')"
    "has_type TString (opt_get v ''scheduledAt'')" "has_type TNumber (opt_get v ''duration'')"
    "has_type api_InterviewStatus (opt_get v ''status'')"
    "has_type (TArray TString) (opt_get v ''interviewerIds'')"
    "has_type (TArray TString) (opt_get v ''tags'')"
  using assms by (cases v; simp add: api_Interview_def)+

lemma typed_status:
  assumes "has_type api_Interview v"
  obtains s where "opt_get v ''status'' = Str s"
    "s \<in> {''pending'', ''scheduled'', ''in_progress'', ''completed'', ''cancelled''}"
  using typed_fields(9) [OF assms]
  by (cases "opt_get v ''status''") (auto simp: api_InterviewStatus_def)

lemma body_renders:
  assumes "has_type api_Interview v"
  shows "everywhere (links_to S) (detail_header fmt v)" "everywhere (links_to S) (detail_interviewers v)"
    "everywhere (links_to S) (detail_actions fmt v)" "everywhere (links_to S) (detail_metadata fmt v)"
    "everywhere (links_to S) (cancel_dialog v pg)" "everywhere (links_to S) (start_dialog v pg)"
    "everywhere (links_to S) (complete_dialog v pg)"
proof -
  note f = typed_fields [OF assms]
  obtain st where st: "opt_get v ''status'' = Str st" by (rule typed_status [OF assms])
  obtain ts where ts: "opt_get v ''tags'' = Arr (map Str ts)" by (rule typed_strings [OF f(11)])
  obtain ids where ids: "opt_get v ''interviewerIds'' = Arr (map Str ids)" by (rule typed_strings [OF f(10)])
  note strs = f(3-6) [THEN everywhere_child_str]
  note num = f(8) [THEN everywhere_child_num]
  show "everywhere (links_to S) (detail_header fmt v)"
    by (simp add: strs num detail_header_def Let_def st ts)
  show "everywhere (links_to S) (detail_interviewers v)"
    by (simp add: detail_interviewers_def ids)
  show "everywhere (links_to S) (detail_actions fmt v)"
    by (simp add: detail_actions_def Let_def button_def)
  show "everywhere (links_to S) (detail_metadata fmt v)"
    by (simp add: strs detail_metadata_def)
  show "everywhere (links_to S) (cancel_dialog v pg)" "everywhere (links_to S) (start_dialog v pg)"
    "everywhere (links_to S) (complete_dialog v pg)"
    by (simp_all add: strs cancel_dialog_def start_dialog_def complete_dialog_def dialog_def button_def)
qed

lemma detail_view_everywhere:
  assumes "isLoading \<or> \<not> truthy interview \<or> has_type api_Interview interview"
  shows "everywhere (links_to {Str ''/dashboard/interviews''}) (detail_view fmt isLoading interview pg)"
proof (cases "isLoading \<or> \<not> truthy interview")
  case True
  then show ?thesis
    by (auto simp: detail_view_def detail_loading_def detail_not_found_def link_def)
next
  case False
  with assms have "has_type api_Interview interview" by simp
  note body = body_renders [OF this, of "{Str ''/dashboard/interviews''}"]
  with False show ?thesis
    by (simp add: detail_view_def detail_body_def link_def)
qed

text \<open>
  The page renders for every interview of the type the API declares, whatever its dialogs,
  and it links nowhere but back to the list.
\<close>

theorem detail_page_renders:
  assumes "isLoading \<or> \<not> truthy interview \<or> has_type api_Interview interview"
  shows "renders (detail_view fmt isLoading interview pg)
       \<and> set (links (detail_view fmt isLoading interview pg)) \<subseteq> {Str ''/dashboard/interviews''}"
  using detail_view_everywhere [OF assms] everywhere_renders everywhere_links by blast

definition sample_interview :: "string \<Rightarrow> jsval" where
  "sample_interview st = Obj [
     (''id'', Str ''i1''), (''candidateName'', Str ''Ada''), (''candidateEmail'', Str ''a@b''),
     (''position'', Str ''designer''), (''scheduledAt'', Str ''2025''), (''duration'', js_int 60),
     (''status'', Str st), (''interviewerIds'', Arr [Str ''x'']), (''tags'', Arr []),
     (''createdAt'', Str ''2025''), (''updatedAt'', Str ''2025'')]"

definition sample_dates :: dates where
  "sample_dates = \<lparr>date_text = js_to_string, time_text = js_to_string, datetime_text = js_to_string,
     in_future = (\<lambda>_. False)\<rparr>"

lemma sample_interview_typed:
  "st \<in> {''pending'', ''scheduled'', ''in_progress'', ''completed'', ''cancelled''} \<Longrightarrow>
     has_type api_Interview (sample_interview st)"
  by (auto simp: sample_interview_def api_Interview_def api_InterviewStatus_def)

theorem detail_page_renders_witness:
  "renders (detail_view sample_dates False (sample_interview ''scheduled'') init_detail)"
proof -
  have "False \<or> \<not> truthy (sample_interview ''scheduled'') \<or> has_type api_Interview (sample_interview ''scheduled'')"
    using sample_interview_typed [of "''scheduled''"] by simp
  from detail_page_renders [OF this] show ?thesis by blast
qed

section \<open>The actions offered\<close>

definition statuses :: "string list" where
  "statuses = [''pending'', ''scheduled'', ''in_progress'', ''completed'', ''cancelled'']"

definition status_actions :: "bool \<Rightarrow> string \<Rightarrow> detail_event list" where
  "status_actions later st =
     (if st = ''pending'' then [UpdateClicked]
      else if st = ''scheduled'' then [UpdateClicked] @ (if later then [] else [OpenStart]) @ [OpenCancel]
      else if st = ''in_progress'' then [UpdateClicked, AddEvaluation, OpenComplete]
      else if st = ''completed'' then [AddEvaluation]
      else [])"

lemma offers_actions:
  assumes "opt_get v ''status'' = Str st" "st \<in> {''pending'', ''scheduled'', ''in_progress'', ''completed'', ''cancelled''}"
  shows "offers (detail_actions fmt v) = status_actions (in_future fmt (opt_get v ''scheduledAt'')) st"
  using assms by (auto simp: detail_actions_def Let_def offers_def button_def status_actions_def)

lemma offers_child: "has_type TString v \<Longrightarrow> offers (child v) = []"
  by (cases v) (simp_all add: offers_def)

lemma offers_static:
  assumes "has_type api_Interview v"
  shows "offers (detail_header fmt v) = []" "offers (detail_interviewers v) = []"
    "offers (detail_metadata fmt v) = []"
proof -
  note f = typed_fields [OF assms]
  obtain st where st: "opt_get v ''status'' = Str st" by (rule typed_status [OF assms])
  obtain ts where ts: "opt_get v ''tags'' = Arr (map Str ts)" by (rule typed_strings [OF f(11)])
  obtain ids where ids: "opt_get v ''interviewerIds'' = Arr (map Str ids)" by (rule typed_strings [OF f(10)])
  obtain n where n: "opt_get v ''duration'' = Num n"
    using f(8) by (cases "opt_get v ''duration''") auto
  note strs = f(3-6) [THEN everywhere_child_str] f(3-6) [THEN offers_child, unfolded offers_def]
  show "offers (detail_header fmt v) = []"
    by (simp add: offers_def detail_header_def Let_def strs st ts n comp_def)
  show "offers (detail_interviewers v) = []"
    by (simp add: offers_def detail_interviewers_def ids comp_def)
  show "offers (detail_metadata fmt v) = []"
    by (simp add: offers_def detail_metadata_def strs)
qed

lemma detail_offers:
  assumes "has_type api_Interview interview" and "opt_get interview ''status'' = Str st"
  shows "offers (detail_body fmt interview) =
     status_actions (in_future fmt (opt_get interview ''scheduledAt'')) st"
proof -
  have st: "st \<in> {''pending'', ''scheduled'', ''in_progress'', ''completed'', ''cancelled''}"
    using typed_status [OF assms(1)] assms(2) by (metis jsval.inject(3))
  note r = body_renders [OF assms(1), THEN everywhere_renders]
  show ?thesis
    using offers_static [OF assms(1)] offers_actions [OF assms(2) st, of fmt] r
    by (simp add: offers_def detail_body_def link_def)
qed

text \<open>
  The page offers exactly the actions of the interview's status: starting and cancelling a
  scheduled interview, starting only once its time has come, ending one in progress, adding an
  evaluation to one in progress or completed, and nothing for a cancelled one.
\<close>

theorem detail_offers_status_actions:
  assumes "has_type api_Interview interview" and "opt_get interview ''status'' = Str st"
  shows "offers (detail_body fmt interview) =
     status_actions (in_future fmt (opt_get interview ''scheduledAt'')) st"
  by (rule detail_offers [OF assms])

theorem detail_offers_status_actions_witness:
  "offers (detail_body sample_dates (sample_interview ''scheduled'')) = [UpdateClicked, OpenStart, OpenCancel]"
proof -
  have "has_type api_Interview (sample_interview ''scheduled'')"
    by (rule sample_interview_typed) simp
  moreover have "opt_get (sample_interview ''scheduled'') ''status'' = Str ''scheduled''"
    by (simp add: sample_interview_def)
  ultimately have "offers (detail_body sample_dates (sample_interview ''scheduled'')) =
      status_actions (in_future sample_dates (opt_get (sample_interview ''scheduled'') ''scheduledAt'')) ''scheduled''"
    by (rule detail_offers_status_actions)
  then show ?thesis by (simp add: status_actions_def sample_dates_def)
qed

section \<open>The three actions\<close>

datatype interview_action = Cancel | Start | Complete

fun action_handler :: "interview_action \<Rightarrow> 'w server \<Rightarrow> string \<Rightarrow> jsval \<Rightarrow> ('w, detail_page, unit) handler" where
  "action_handler Cancel = handleCancel"
| "action_handler Start = handleStartInterview"
| "action_handler Complete = handleCompleteInterview"

fun action_call :: "interview_action \<Rightarrow> string \<Rightarrow> api_call" where
  "action_call Cancel = CancelInterview"
| "action_call Start = StartInterview"
| "action_call Complete = CompleteInterview"

fun dialog_open :: "interview_action \<Rightarrow> detail_page \<Rightarrow> bool" where
  "dialog_open Cancel = showCancelDialog"
| "dialog_open Start = showStartDialog"
| "dialog_open Complete = showCompleteDialog"

fun close_dialog :: "interview_action \<Rightarrow> detail_page \<Rightarrow> detail_page" where
  "close_dialog Cancel pg = pg\<lparr>showCancelDialog := False\<rparr>"
| "close_dialog Start pg = pg\<lparr>showStartDialog := False\<rparr>"
| "close_dialog Complete pg = pg\<lparr>showCompleteDialog := False\<rparr>"

definition is_toast :: "effect \<Rightarrow> bool" where
  "is_toast e \<longleftrightarrow> (case e of AppToast t d b \<Rightarrow> True | Sonner k t d \<Rightarrow> True | _ \<Rightarrow> False)"

lemmas detail_handler_defs = handleCancel_def handleStartInterview_def handleCompleteInterview_def
  refresh_interview_def

text \<open>
  C19. Confirming an action on an interview sends its one request and ends with the loading flag
  cleared and exactly one toast. If the server confirms, the dialog closes and both the page's
  query and the lists of interviews are refreshed; if not, the dialog stays open and nothing is
  refreshed.
\<close>

theorem action_completes:
  assumes "truthy interview" and "c = action_call a (js_to_string (opt_get interview ''id''))"
    and "fst (perform srv c (outside u)) = r" and "action_handler a srv i interview u = (res, u')"
  shows "sent (outside u') = sent (outside u) @ [request_of c] \<and> res = Inr ()
       \<and> (\<exists>new. effects u' = effects u @ new \<and> length (filter is_toast new) = 1
            \<and> (case r of
                 Inr v \<Rightarrow> page u' = (close_dialog a (page u))\<lparr>isActionLoading := False\<rparr>
                   \<and> filter (\<lambda>e. \<not> is_toast e) new = [Invalidate [key ''interview'', Str i], Invalidate [key ''interviews'']]
               | Inl e \<Rightarrow> page u' = (page u)\<lparr>isActionLoading := False\<rparr>
                   \<and> new = [AppToast ''Error'' (exn_message e) True]))"
proof -
  obtain io where p: "perform srv c (outside u) = (r, io)"
    using assms(3) by (metis prod.exhaust_sel)
  have sent: "sent io = sent (outside u) @ [request_of c]"
    using call_spec_sent [of srv "request_of c" "kind_of c" "outside u"] p by (simp add: perform_spec)
  note run = assms(4) [symmetric] assms(1) p [unfolded assms(2)] sent [unfolded assms(2)] assms(2)
  show ?thesis
    by (cases a; cases r)
       (use run in \<open>simp_all add: detail_handler_defs action_defs call_def finally_do_def is_toast_def\<close>)
qed

theorem action_completes_witness:
  "sent (outside (snd (handleStartInterview sample_srv ''i1'' (sample_interview ''scheduled'')
     \<lparr>outside = \<lparr>net = (), sent = [], console = []\<rparr>, effects = [], page = init_detail\<rparr>)))
   = [request_of (StartInterview ''i1'')]"
proof -
  let ?u = "\<lparr>outside = \<lparr>net = (), sent = [], console = []\<rparr>, effects = [], page = init_detail\<rparr>"
  let ?h = "handleStartInterview sample_srv ''i1'' (sample_interview ''scheduled'') ?u"
  have "truthy (sample_interview ''scheduled'')"
    by (simp add: sample_interview_def)
  moreover have "StartInterview ''i1'' = action_call Start (js_to_string (opt_get (sample_interview ''scheduled'') ''id''))"
    by (simp add: sample_interview_def)
  moreover have "action_handler Start sample_srv ''i1'' (sample_interview ''scheduled'') ?u = (fst ?h, snd ?h)"
    by simp
  ultimately have "sent (outside (snd ?h)) = sent (outside ?u) @ [request_of (StartInterview ''i1'')]"
    using action_completes by blast
  then show ?thesis by simp
qed

section \<open>The life cycle\<close>

text \<open>
  The page as a state machine: the interview's status, the page, and the action under way. What
  the user can click is what the page offers, or, while a dialog is open, what the dialog offers:
  dialogs are modal. A dialog can always be dismissed (\<open>onOpenChange\<close>), which the labels tell
  apart by whether an action is under way. An action ends with the server's confirmation, after
  which the interview has its new status, or without. Another user may change the status.
\<close>

record machine =
  status :: string
  screen :: detail_page
  under_way :: "interview_action option"

datatype machine_label =
    Click detail_event
  | Dismiss
  | DismissBusy
  | Confirmed
  | Refused
  | Elsewhere string

fun target :: "interview_action \<Rightarrow> string" where
  "target Cancel = ''cancelled''"
| "target Start = ''in_progress''"
| "target Complete = ''completed''"

fun source :: "interview_action \<Rightarrow> string" where
  "source Cancel = ''scheduled''"
| "source Start = ''scheduled''"
| "source Complete = ''in_progress''"

definition any_dialog :: "detail_page \<Rightarrow> bool" where
  "any_dialog pg \<longleftrightarrow> showCancelDialog pg \<or> showStartDialog pg \<or> showCompleteDialog pg"

definition clickable :: "dates \<Rightarrow> jsval \<Rightarrow> detail_page \<Rightarrow> detail_event list" where
  "clickable fmt interview pg =
     (if any_dialog pg
      then offers (cancel_dialog interview pg) @ offers (start_dialog interview pg) @ offers (complete_dialog interview pg)
      else offers (detail_body fmt interview))"

text \<open>What a click does to the page, and the action it starts.\<close>

fun on_click :: "detail_event \<Rightarrow> detail_page \<Rightarrow> detail_page \<times> interview_action option" where
  "on_click OpenCancel pg = (pg\<lparr>showCancelDialog := True\<rparr>, None)"
| "on_click OpenStart pg = (pg\<lparr>showStartDialog := True\<rparr>, None)"
| "on_click OpenComplete pg = (pg\<lparr>showCompleteDialog := True\<rparr>, None)"
| "on_click KeepInterview pg = (pg\<lparr>showCancelDialog := False\<rparr>, None)"
| "on_click NotYetStart pg = (pg\<lparr>showStartDialog := False\<rparr>, None)"
| "on_click NotYetComplete pg = (pg\<lparr>showCompleteDialog := False\<rparr>, None)"
| "on_click ConfirmCancel pg = (pg\<lparr>isActionLoading := True\<rparr>, Some Cancel)"
| "on_click ConfirmStart pg = (pg\<lparr>isActionLoading := True\<rparr>, Some Start)"
| "on_click ConfirmComplete pg = (pg\<lparr>isActionLoading := True\<rparr>, Some Complete)"
| "on_click e pg = (pg, None)"

definition closed :: "detail_page \<Rightarrow> detail_page" where
  "closed pg = pg\<lparr>showCancelDialog := False, showStartDialog := False, showCompleteDialog := False\<rparr>"

inductive machine_step :: "dates \<Rightarrow> (string \<Rightarrow> jsval) \<Rightarrow> machine \<Rightarrow> machine_label \<Rightarrow> machine \<Rightarrow> bool"
  for fmt :: dates and interview :: "string \<Rightarrow> jsval" where
  step_click: "e \<in> set (clickable fmt (interview (status s)) (screen s)) \<Longrightarrow> on_click e (screen s) = (pg, started) \<Longrightarrow>
    machine_step fmt interview s (Click e)
      (s\<lparr>screen := pg, under_way := (case started of None \<Rightarrow> under_way s | Some a \<Rightarrow> Some a)\<rparr>)"
| step_dismiss: "\<not> isActionLoading (screen s) \<Longrightarrow>
    machine_step fmt interview s Dismiss (s\<lparr>screen := closed (screen s)\<rparr>)"
| step_dismiss_busy: "isActionLoading (screen s) \<Longrightarrow>
    machine_step fmt interview s DismissBusy (s\<lparr>screen := closed (screen s)\<rparr>)"
| step_confirmed: "under_way s = Some a \<Longrightarrow>
    machine_step fmt interview s Confirmed
      (s\<lparr>status := target a, screen := (close_dialog a (screen s))\<lparr>isActionLoading := False\<rparr>, under_way := None\<rparr>)"
| step_refused: "under_way s = Some a \<Longrightarrow>
    machine_step fmt interview s Refused
      (s\<lparr>screen := (screen s)\<lparr>isActionLoading := False\<rparr>, under_way := None\<rparr>)"
| step_elsewhere: "machine_step fmt interview s (Elsewhere st) (s\<lparr>status := st\<rparr>)"

text \<open>
  The interview the page shows in each status; the page is of one that every status types.
\<close>

definition shows_status :: "(string \<Rightarrow> jsval) \<Rightarrow> bool" where
  "shows_status interview \<longleftrightarrow>
     (\<forall>st \<in> set statuses.
        has_type api_Interview (interview st) \<and> opt_get (interview st) ''status'' = Str st)"

definition start_machine :: "string \<Rightarrow> machine" where
  "start_machine st = \<lparr>status = st, screen = init_detail, under_way = None\<rparr>"

text \<open>At most one dialog is open, in the status its action needs, and the loading flag is honest.\<close>

definition machine_inv :: "machine \<Rightarrow> bool" where
  "machine_inv s \<longleftrightarrow>
     status s \<in> set statuses
     \<and> (isActionLoading (screen s) \<longleftrightarrow> under_way s \<noteq> None)
     \<and> (\<forall>a. under_way s = Some a \<longrightarrow> dialog_open a (screen s))
     \<and> (\<forall>a. dialog_open a (screen s) \<longrightarrow> status s = source a \<and> (\<forall>b. dialog_open b (screen s) \<longrightarrow> b = a))"

definition undisturbed :: "machine_label \<Rightarrow> bool" where
  "undisturbed l \<longleftrightarrow> (case l of DismissBusy \<Rightarrow> False | Elsewhere st \<Rightarrow> False | _ \<Rightarrow> True)"

lemma all_actions: "(\<forall>a. P a) \<longleftrightarrow> P Cancel \<and> P Start \<and> P Complete"
  by (metis interview_action.exhaust)

lemma dialog_offers:
  assumes "has_type api_Interview v"
  shows "offers (cancel_dialog v pg) =
      (if showCancelDialog pg \<and> \<not> isActionLoading pg then [KeepInterview, ConfirmCancel] else [])"
    "offers (start_dialog v pg) =
      (if showStartDialog pg \<and> \<not> isActionLoading pg then [NotYetStart, ConfirmStart] else [])"
    "offers (complete_dialog v pg) =
      (if showCompleteDialog pg \<and> \<not> isActionLoading pg then [NotYetComplete, ConfirmComplete] else [])"
proof -
  note f = typed_fields [OF assms]
  note strs = f(4) [THEN everywhere_child_str] f(4) [THEN offers_child, unfolded offers_def]
  show "offers (cancel_dialog v pg) =
      (if showCancelDialog pg \<and> \<not> isActionLoading pg then [KeepInterview, ConfirmCancel] else [])"
    "offers (start_dialog v pg) =
      (if showStartDialog pg \<and> \<not> isActionLoading pg then [NotYetStart, ConfirmStart] else [])"
    "offers (complete_dialog v pg) =
      (if showCompleteDialog pg \<and> \<not> isActionLoading pg then [NotYetComplete, ConfirmComplete] else [])"
    by (simp_all add: offers_def cancel_dialog_def start_dialog_def complete_dialog_def dialog_def button_def strs)
qed

text \<open>A click of the page proper, and one in the open dialog.\<close>

lemma clickable_cases:
  assumes "shows_status interview"
    and "status s \<in> set statuses"
    and "e \<in> set (clickable fmt (interview (status s)) (screen s))"
  obtains (on_page) later where "\<not> any_dialog (screen s)" "e \<in> set (status_actions later (status s))"
    | (in_dialog) a where "dialog_open a (screen s)" "\<not> isActionLoading (screen s)"
        "on_click e (screen s) \<in> {(close_dialog a (screen s), None), ((screen s)\<lparr>isActionLoading := True\<rparr>, Some a)}"
proof -
  have typed: "has_type api_Interview (interview (status s))"
    and st: "opt_get (interview (status s)) ''status'' = Str (status s)"
    using assms(1,2) by (simp_all add: shows_status_def)
  show thesis
  proof (cases "any_dialog (screen s)")
    case False
    with assms(3) have "e \<in> set (offers (detail_body fmt (interview (status s))))"
      by (simp add: clickable_def)
    then show thesis
      using False detail_offers typed st on_page by metis
  next
    case True
    with assms(3) show thesis
      by (auto simp: clickable_def dialog_offers [OF typed] split: if_splits
          intro: in_dialog [of Cancel] in_dialog [of Start] in_dialog [of Complete])
  qed
qed

fun open_dialog :: "interview_action \<Rightarrow> detail_page \<Rightarrow> detail_page" where
  "open_dialog Cancel pg = pg\<lparr>showCancelDialog := True\<rparr>"
| "open_dialog Start pg = pg\<lparr>showStartDialog := True\<rparr>"
| "open_dialog Complete pg = pg\<lparr>showCompleteDialog := True\<rparr>"

lemma page_click:
  assumes "e \<in> set (status_actions later st)"
  shows "on_click e pg = (pg, None) \<or> (\<exists>a. on_click e pg = (open_dialog a pg, None) \<and> st = source a)"
proof -
  from assms have "e \<in> {UpdateClicked, AddEvaluation} \<or> e \<in> {OpenStart, OpenCancel} \<and> st = ''scheduled''
      \<or> e = OpenComplete \<and> st = ''in_progress''"
    by (auto simp: status_actions_def split: if_splits)
  then show ?thesis
    by (elim disjE conjE) (auto intro: exI [of _ Start] exI [of _ Cancel] exI [of _ Complete])
qed

lemma target_statuses: "target a \<in> set statuses"
  by (cases a) (simp_all add: statuses_def)

lemma source_statuses: "source a \<in> set statuses"
  by (cases a) (simp_all add: statuses_def)

lemma dialog_simps:
  "dialog_open b (open_dialog a pg) \<longleftrightarrow> b = a \<or> dialog_open b pg"
  "dialog_open b (close_dialog a pg) \<longleftrightarrow> b \<noteq> a \<and> dialog_open b pg"
  "isActionLoading (open_dialog a pg) = isActionLoading pg"
  "isActionLoading (close_dialog a pg) = isActionLoading pg"
  "dialog_open b (pg\<lparr>isActionLoading := l\<rparr>) = dialog_open b pg"
  "\<not> dialog_open b (closed pg)" "isActionLoading (closed pg) = isActionLoading pg"
  by (cases a; cases b; simp add: closed_def)+

lemma no_dialog: "\<not> any_dialog pg \<Longrightarrow> \<not> dialog_open a pg"
  by (cases a) (simp_all add: any_dialog_def)

lemma inv_close:
  assumes "machine_inv s" "\<not> isActionLoading (screen s)"
  shows "machine_inv (s\<lparr>screen := close_dialog a (screen s), under_way := under_way s\<rparr>)"
proof -
  have "under_way s = None"
    using assms by (simp add: machine_inv_def)
  then show ?thesis
    using assms unfolding machine_inv_def by (simp add: dialog_simps)
qed

lemma inv_begin:
  assumes "machine_inv s" "\<not> isActionLoading (screen s)" "dialog_open a (screen s)"
  shows "machine_inv (s\<lparr>screen := (screen s)\<lparr>isActionLoading := True\<rparr>, under_way := Some a\<rparr>)"
  using assms unfolding machine_inv_def by (simp add: dialog_simps source_statuses)

lemma machine_inv_step:
  assumes "shows_status interview"
  shows "machine_step fmt interview s l t \<Longrightarrow> undisturbed l \<Longrightarrow> machine_inv s \<Longrightarrow> machine_inv t"
proof (induction rule: machine_step.induct)
  case (step_click e s pg started)
  have st: "status s \<in> set statuses"
    using step_click.prems by (simp add: machine_inv_def)
  show ?case
  proof (rule clickable_cases [OF assms st step_click.hyps(1)])
    fix later
    assume none: "\<not> any_dialog (screen s)" and e: "e \<in> set (status_actions later (status s))"
    have idle: "under_way s = None"
      using no_dialog [OF none] step_click.prems(2) by (cases "under_way s") (auto simp: machine_inv_def)
    from page_click [OF e, of "screen s"] show ?thesis
    proof
      assume "on_click e (screen s) = (screen s, None)"
      then show ?thesis using step_click.hyps(2) step_click.prems(2) by simp
    next
      assume "\<exists>a. on_click e (screen s) = (open_dialog a (screen s), None) \<and> status s = source a"
      then show ?thesis
        using step_click.hyps(2) step_click.prems(2) idle no_dialog [OF none]
        by (auto simp: machine_inv_def dialog_simps)
    qed
  next
    fix a
    assume a: "dialog_open a (screen s)" "\<not> isActionLoading (screen s)"
      "on_click e (screen s) \<in> {(close_dialog a (screen s), None), ((screen s)\<lparr>isActionLoading := True\<rparr>, Some a)}"
    have "pg = close_dialog a (screen s) \<and> started = None
        \<or> pg = (screen s)\<lparr>isActionLoading := True\<rparr> \<and> started = Some a"
      using a(3) step_click.hyps(2) by simp
    then show ?thesis
      using inv_close [OF step_click.prems(2) a(2), of a] inv_begin [OF step_click.prems(2) a(2,1)]
      by (elim disjE conjE) simp_all
  qed
next
  case (step_dismiss s)
  then show ?case by (auto simp: machine_inv_def dialog_simps)
next
  case (step_confirmed s a)
  then have "\<not> dialog_open b (screen s) \<or> b = a" for b
    unfolding machine_inv_def by blast
  then show ?case by (simp add: machine_inv_def dialog_simps target_statuses) blast
next
  case (step_refused s a)
  then show ?case by (auto simp: machine_inv_def dialog_simps)
qed (simp_all add: undisturbed_def)

lemma machine_inv_start:
  "st \<in> set statuses \<Longrightarrow> machine_inv (start_machine st)"
  by (simp add: machine_inv_def all_actions start_machine_def init_detail_def)

definition legal :: "(string \<times> string) list" where
  "legal = [(''scheduled'', ''cancelled''), (''scheduled'', ''in_progress''), (''in_progress'', ''completed'')]"

text \<open>The interface for guarded invariants, with nothing promised of disturbed executions.\<close>

interpretation life_cycle: guarded_system
    "\<lambda>s. \<exists>st \<in> set statuses. s = start_machine st"
    "\<lambda>s l t. shows_status interview \<and> machine_step fmt interview s l t" "\<lambda>_. True"
    undisturbed machine_inv
  for fmt interview
proof unfold_locales
  show "machine_inv s" if "\<exists>st \<in> set statuses. s = start_machine st" for s
    using that machine_inv_start by blast
  show "machine_inv t" if "shows_status interview \<and> machine_step fmt interview s l t" "undisturbed l"
      "True" "machine_inv s" for s l t
    using that machine_inv_step by blast
qed simp_all


text \<open>An interview as the page shows it, and a run of clicks.\<close>

lemma sample_shows_status: "shows_status sample_interview"
proof -
  have "opt_get (sample_interview st) ''status'' = Str st" for st
    by (simp add: sample_interview_def)
  moreover have "has_type api_Interview (sample_interview st)" if "st \<in> set statuses" for st
    using that by (intro sample_interview_typed) (simp add: statuses_def)
  ultimately show ?thesis by (simp add: shows_status_def)
qed

text \<open>The moves that need no look at the page's offers, as a function, and clicks that are offered.\<close>

definition click_to :: "detail_event \<Rightarrow> machine \<Rightarrow> machine" where
  "click_to e s = (case on_click e (screen s) of (pg, started) \<Rightarrow>
     s\<lparr>screen := pg, under_way := (case started of None \<Rightarrow> under_way s | Some a \<Rightarrow> Some a)\<rparr>)"

lemma click_step:
  "e \<in> set (clickable fmt (interview (status s)) (screen s)) \<Longrightarrow>
     machine_step fmt interview s (Click e) (click_to e s)"
  using step_click [of e fmt interview s] by (auto simp: click_to_def split: prod.splits)

lemma sample_offers:
  "st \<in> set statuses \<Longrightarrow> \<not> any_dialog pg \<Longrightarrow>
     clickable sample_dates (sample_interview st) pg = status_actions False st"
  "st \<in> set statuses \<Longrightarrow> any_dialog pg \<Longrightarrow> clickable sample_dates (sample_interview st) pg =
     (if isActionLoading pg then []
      else (if showCancelDialog pg then [KeepInterview, ConfirmCancel] else [])
        @ (if showStartDialog pg then [NotYetStart, ConfirmStart] else [])
        @ (if showCompleteDialog pg then [NotYetComplete, ConfirmComplete] else []))"
proof -
  assume st: "st \<in> set statuses"
  then have typed: "has_type api_Interview (sample_interview st)"
    using sample_shows_status by (simp add: shows_status_def)
  have "opt_get (sample_interview st) ''status'' = Str st"
    by (simp add: sample_interview_def)
  from detail_offers [OF typed this]
  show "\<not> any_dialog pg \<Longrightarrow> clickable sample_dates (sample_interview st) pg = status_actions False st"
    by (simp add: clickable_def sample_dates_def)
  show "any_dialog pg \<Longrightarrow> clickable sample_dates (sample_interview st) pg =
     (if isActionLoading pg then []
      else (if showCancelDialog pg then [KeepInterview, ConfirmCancel] else [])
        @ (if showStartDialog pg then [NotYetStart, ConfirmStart] else [])
        @ (if showCompleteDialog pg then [NotYetComplete, ConfirmComplete] else []))"
    by (simp add: clickable_def dialog_offers [OF typed])
qed

definition starting :: machine where
  "starting = click_to ConfirmStart (click_to OpenStart (start_machine ''scheduled''))"


text \<open>
  Without that care it can be broken by one user alone: confirm a cancellation, dismiss the
  dialog before the server answers, open the start dialog, and confirm it once the interview is
  cancelled. The cancelled interview is in progress again.
\<close>

theorem cancelled_interview_restarted:
  "\<exists>s. execution (machine_step sample_dates sample_interview) (start_machine ''scheduled'')
       [Click OpenCancel, Click ConfirmCancel, DismissBusy, Click OpenStart, Confirmed, Click ConfirmStart, Confirmed] s
     \<and> status s = ''in_progress''"
proof -
  let ?step = "machine_step sample_dates sample_interview"
  define s1 where "s1 = click_to OpenCancel (start_machine ''scheduled'')"
  define s2 where "s2 = click_to ConfirmCancel s1"
  define s3 where "s3 = s2\<lparr>screen := closed (screen s2)\<rparr>"
  define s4 where "s4 = click_to OpenStart s3"
  define s5 where "s5 = s4\<lparr>status := target Cancel, screen := (close_dialog Cancel (screen s4))\<lparr>isActionLoading := False\<rparr>, under_way := None\<rparr>"
  define s6 where "s6 = click_to ConfirmStart s5"
  define s7 where "s7 = s6\<lparr>status := target Start, screen := (close_dialog Start (screen s6))\<lparr>isActionLoading := False\<rparr>, under_way := None\<rparr>"
  note defs = sample_offers statuses_def start_machine_def init_detail_def any_dialog_def status_actions_def
    click_to_def closed_def
  have "?step (start_machine ''scheduled'') (Click OpenCancel) s1"
    unfolding s1_def by (rule click_step) (simp add: defs)
  moreover have "?step s1 (Click ConfirmCancel) s2"
    unfolding s2_def by (rule click_step) (simp add: defs s1_def)
  moreover have "?step s2 DismissBusy s3"
    unfolding s3_def by (rule step_dismiss_busy) (simp add: defs s1_def s2_def)
  moreover have "?step s3 (Click OpenStart) s4"
    unfolding s4_def by (rule click_step) (simp add: defs s1_def s2_def s3_def)
  moreover have "?step s4 Confirmed s5"
    unfolding s5_def by (rule step_confirmed) (simp add: defs s1_def s2_def s3_def s4_def)
  moreover have "?step s5 (Click ConfirmStart) s6"
    unfolding s6_def by (rule click_step) (simp add: defs s1_def s2_def s3_def s4_def s5_def)
  moreover have "?step s6 Confirmed s7"
    unfolding s7_def by (rule step_confirmed) (simp add: defs s1_def s2_def s3_def s4_def s5_def s6_def)
  ultimately have "execution ?step (start_machine ''scheduled'')
       [Click OpenCancel, Click ConfirmCancel, DismissBusy, Click OpenStart, Confirmed, Click ConfirmStart, Confirmed] s7"
    by (intro execution_cons [of ?step] execution_single)
  moreover have "status s7 = ''in_progress''"
    by (simp add: s7_def)
  ultimately show ?thesis by blast
qed

end
