(* ===== verification/Interviews_Page.thy ===== *)
theory Interviews_Page
  imports Interview_Lifecycle
begin

text \<open>
  \<^verbatim>\<open>app/dashboard/interviews/page.tsx\<close>: the list of interviews with its status filter, which the
  server applies, and its search, which the page applies.
\<close>

record interviews_page =
  statusFilter :: string
  searchQuery :: string

definition init_interviews :: interviews_page where
  "init_interviews = \<lparr>statusFilter = ''all'', searchQuery = []\<rparr>"

datatype interviews_event =
    SetSearch
  | SetStatusFilter
  | RefetchInterviews
  | GoToNew

definition interviews_params :: "interviews_page \<Rightarrow> jsval" where
  "interviews_params pg = Obj [
     (''status'', if statusFilter pg = ''all'' then Undef else Str (statusFilter pg)),
     (''page'', js_int 1),
     (''pageSize'', js_int 100)]"

definition interviews_query :: "'w server \<Rightarrow> interviews_page \<Rightarrow> 'w query" where
  "interviews_query srv pg = polled 30000
     (query [key ''interviews'', Str (statusFilter pg)] (listInterviews srv (interviews_params pg)))"

text \<open>\<open>response?.data || []\<close>\<close>

definition rows_of :: "jsval \<Rightarrow> jsval" where
  "rows_of response = js_or (opt_get response ''data'') (Arr [])"

text \<open>\<open>v?.toLowerCase().includes(q)\<close> and the disjunction of the three fields.\<close>

definition field_matches :: "string \<Rightarrow> jsval \<Rightarrow> exn + jsval" where
  "field_matches q v =
     (if nullish v then Inr Undef
      else bind_res (str_call js_lower v) (\<lambda>s. Inr (Bool (js_includes s (js_lower q)))))"

definition matchesSearch :: "string \<Rightarrow> jsval \<Rightarrow> exn + jsval" where
  "matchesSearch q interview =
     bind_res (get_field interview ''candidateName'') (\<lambda>n.
     bind_res (field_matches q n) (\<lambda>a.
       if truthy a then Inr a
       else bind_res (field_matches q (opt_get interview ''position'')) (\<lambda>b.
         if truthy b then Inr b
         else field_matches q (opt_get interview ''candidateEmail''))))"

fun filter_rows :: "(jsval \<Rightarrow> exn + jsval) \<Rightarrow> jsval list \<Rightarrow> exn + jsval list" where
  "filter_rows f [] = Inr []"
| "filter_rows f (v # vs) =
     bind_res (f v) (\<lambda>b. bind_res (filter_rows f vs) (\<lambda>ws. Inr (if truthy b then v # ws else ws)))"

definition filteredInterviews :: "string \<Rightarrow> jsval \<Rightarrow> exn + jsval list" where
  "filteredInterviews q interviews =
     (case interviews of
        Arr vs \<Rightarrow> filter_rows (matchesSearch q) vs
      | _ \<Rightarrow> Inl (TypeError ''interviews.filter is not a function''))"

definition formatDate :: "formats \<Rightarrow> jsval \<Rightarrow> string" where
  "formatDate fmt d = (case iso_format fmt ''MMM dd, yyyy'' d of None \<Rightarrow> ''Invalid date'' | Some s \<Rightarrow> s)"

definition formatTime :: "formats \<Rightarrow> jsval \<Rightarrow> string" where
  "formatTime fmt d = (case iso_format fmt ''HH:mm'' d of None \<Rightarrow> [] | Some s \<Rightarrow> s)"

section \<open>The view\<close>

definition interviews_statusColors :: "(string \<times> string) list" where
  "interviews_statusColors = [
     (''pending'', ''bg-yellow-100 text-yellow-800''),
     (''scheduled'', ''bg-blue-100 text-blue-800''),
     (''in_progress'', ''bg-purple-100 text-purple-800''),
     (''completed'', ''bg-green-100 text-green-800''),
     (''cancelled'', ''bg-red-100 text-red-800'')]"

definition status_items :: "(string \<times> string) list" where
  "status_items = [
     (''all'', ''All Statuses''), (''pending'', ''Pending''), (''scheduled'', ''Scheduled''),
     (''in_progress'', ''In Progress''), (''completed'', ''Completed''), (''cancelled'', ''Cancelled'')]"

definition interviews_filters :: "interviews_page \<Rightarrow> interviews_event view" where
  "interviews_filters pg =
     box ''Card'' [
       box ''CardHeader'' [box ''CardTitle'' [lbl ''Filters'']],
       box ''CardContent'' [box ''div'' [
         box ''div'' [el ''Input'' [
           (''type'', str ''search''),
           (''placeholder'', str ''Search by candidate, position, or email...''),
           (''value'', Str (searchQuery pg))] [(''onChange'', SetSearch)] []],
         el ''Select'' [(''value'', Str (statusFilter pg))] [(''onValueChange'', SetStatusFilter)] [
           box ''SelectTrigger'' [el ''SelectValue'' [(''placeholder'', str ''Filter by status'')] [] []],
           box ''SelectContent'' (map (\<lambda>(v, l). el ''SelectItem'' [(''value'', Str v)] [] [lbl l]) status_items)]]]]"

text \<open>\<open>interview.status?.replace("_", " ") || "unknown"\<close>\<close>

definition status_label :: "jsval \<Rightarrow> exn + jsval" where
  "status_label st =
     bind_res (if nullish st then Inr Undef
               else bind_res (str_call (js_replace_first CHR ''_'' '' '') st) (\<lambda>s. Inr (Str s)))
       (\<lambda>v. Inr (js_or v (Str ''unknown'')))"

definition interview_href :: "jsval \<Rightarrow> jsval" where
  "interview_href interview = Str (''/dashboard/interviews/'' @ js_to_string (opt_get interview ''id''))"

definition interview_row :: "formats \<Rightarrow> jsval \<Rightarrow> interviews_event view" where
  "interview_row fmt interview =
     with_props interview (el ''TableRow'' [(''key'', opt_get interview ''id'')] [] [
       cell [box ''div'' [
         box ''p'' [child (js_or (opt_get interview ''candidateName'') (Str ''Unknown''))],
         box ''p'' [child (js_or (opt_get interview ''candidateEmail'') (Str ''No email''))]]],
       cell [child (js_or (opt_get interview ''position'') (Str ''N/A''))],
       cell [box ''div'' [
         box ''p'' [lbl (formatDate fmt (opt_get interview ''scheduledAt''))],
         box ''p'' [lbl (formatTime fmt (opt_get interview ''scheduledAt''))]]],
       cell [child (js_or (opt_get interview ''duration'') (js_int 0)), lbl '' min''],
       cell [bind_res (status_label (opt_get interview ''status'')) (\<lambda>label.
         el ''Badge'' [(''className'', js_or (lookup interviews_statusColors (opt_get interview ''status'')) (Str []))] []
           [child label])],
       cell [box ''Badge'' [
         child (js_or (opt_get (opt_get interview ''interviewerIds'') ''length'') (js_int 0)), lbl '' assigned'']],
       cell [link_button (interview_href interview) ''View'']])"

definition interviews_table :: "formats \<Rightarrow> jsval list \<Rightarrow> interviews_event view" where
  "interviews_table fmt rows =
     box ''div'' [box ''Table'' [
       heads [''Candidate'', ''Position'', ''Scheduled'', ''Duration'', ''Status'', ''Interviewers'', ''Actions''],
       box ''TableBody'' (map (interview_row fmt) rows)]]"

definition interviews_content ::
  "formats \<Rightarrow> bool \<Rightarrow> bool \<Rightarrow> jsval \<Rightarrow> jsval list \<Rightarrow> interviews_event view" where
  "interviews_content fmt error isLoading interviews rows =
     (if error then ErrorState None ''Failed to load interviews. Please try again.'' (Some RefetchInterviews)
      else if isLoading then LoadingState (Some 5) (Some ''table'')
      else if opt_get interviews ''length'' = js_int 0
        then EmptyState True ''No interviews yet'' (Some ''Get started by scheduling your first interview'')
               (Some (''Schedule Interview'', GoToNew))
      else if rows = []
        then EmptyState True ''No matching interviews'' (Some ''Try adjusting your search or filter criteria'') None
      else interviews_table fmt rows)"

definition interviews_view ::
  "formats \<Rightarrow> bool \<Rightarrow> bool \<Rightarrow> jsval \<Rightarrow> interviews_page \<Rightarrow> interviews_event view" where
  "interviews_view fmt error isLoading response pg =
     (let interviews = rows_of response
      in bind_res (filteredInterviews (searchQuery pg) interviews) (\<lambda>rows.
        box ''div'' [
          box ''div'' [
            page_header ''Interviews'' ''Manage and schedule candidate interviews'',
            link_button (str ''/dashboard/interviews/new'') ''Schedule Interview''],
          interviews_filters pg,
          box ''Card'' [
            box ''CardHeader'' [
              box ''CardTitle'' [lbl ''All Interviews ('', child (js_int (int (length rows))), lbl '')''],
              box ''CardDescription'' [lbl (if statusFilter pg = ''all'' then ''Showing all interviews''
                else ''Showing '' @ statusFilter pg @ '' interviews'')]],
            box ''CardContent'' [interviews_content fmt error isLoading interviews rows]]]))"

section \<open>The search\<close>

text \<open>An interview matches if one of its three texts contains the query, ignoring case.\<close>

definition mentions :: "string \<Rightarrow> jsval \<Rightarrow> bool" where
  "mentions q interview \<longleftrightarrow>
     list_ex (\<lambda>k. case opt_get interview k of Str s \<Rightarrow> sublist (js_lower q) (js_lower s) | _ \<Rightarrow> False)
       [''candidateName'', ''position'', ''candidateEmail'']"

lemma field_matches_str: "field_matches q (Str s) = Inr (Bool (sublist (js_lower q) (js_lower s)))"
  by (simp add: field_matches_def js_includes_sublist)

lemma matchesSearch_typed:
  assumes "has_type api_Interview v"
  shows "\<exists>b. matchesSearch q v = Inr b \<and> (truthy b \<longleftrightarrow> mentions q v)"
proof -
  note f = typed_fields [OF assms]
  obtain n p e where s: "opt_get v ''candidateName'' = Str n" "opt_get v ''position'' = Str p"
      "opt_get v ''candidateEmail'' = Str e"
    using typed_str [OF f(4)] typed_str [OF f(5)] typed_str [OF f(6)] by blast
  then show ?thesis
    using f(1) by (simp add: matchesSearch_def mentions_def field_matches_str)
qed

lemma filter_rows_spec:
  assumes "\<forall>v \<in> set vs. \<exists>b. f v = Inr b \<and> (truthy b \<longleftrightarrow> P v)"
  shows "filter_rows f vs = Inr (filter P vs)"
  using assms by (induction vs) auto

lemma filtered_typed:
  "\<forall>v \<in> set vs. has_type api_Interview v \<Longrightarrow> filteredInterviews q (Arr vs) = Inr (filter (mentions q) vs)"
  using filter_rows_spec [of vs "matchesSearch q" "mentions q"] matchesSearch_typed
  by (simp add: filteredInterviews_def)

lemma rows_of_page:
  assumes "has_type (api_PaginatedResponse api_Interview) response"
  obtains vs where "rows_of response = Arr vs" "\<forall>v \<in> set vs. has_type api_Interview v"
proof -
  have "has_type (TArray api_Interview) (opt_get response ''data'')"
    using assms by (cases response) (simp_all add: api_PaginatedResponse_def)
  then obtain vs where "opt_get response ''data'' = Arr vs" "\<forall>v \<in> set vs. has_type api_Interview v"
    by (rule typed_array)
  then show thesis by (intro that) (simp_all add: rows_of_def)
qed

text \<open>
  C25. The search shows, in the server's order, exactly the interviews whose candidate, position or
  e-mail contains the query, ignoring case; with no query it shows all.
\<close>

theorem search_is_exact:
  assumes "has_type (api_PaginatedResponse api_Interview) response"
  shows "\<exists>vs. rows_of response = Arr vs
       \<and> filteredInterviews q (rows_of response) = Inr (filter (mentions q) vs)
       \<and> filteredInterviews [] (rows_of response) = Inr vs"
proof -
  obtain vs where vs: "rows_of response = Arr vs" "\<forall>v \<in> set vs. has_type api_Interview v"
    by (rule rows_of_page [OF assms])
  have "mentions [] v" if "v \<in> set vs" for v
    using vs(2) that typed_str [OF typed_fields(4), of v] by (auto simp: mentions_def js_lower_def)
  then have "filter (mentions []) vs = vs" by simp
  with vs filtered_typed [OF vs(2)] show ?thesis by simp
qed

definition sample_page :: jsval where
  "sample_page = Obj [(''success'', Bool True), (''data'', Arr [sample_interview ''scheduled'']),
     (''pagination'', Obj [(''page'', js_int 1), (''pageSize'', js_int 100),
        (''totalItems'', js_int 1), (''totalPages'', js_int 1)])]"

lemma sample_page_typed: "has_type (api_PaginatedResponse api_Interview) sample_page"
  using sample_interview_typed [of "''scheduled''"]
  by (simp add: sample_page_def api_PaginatedResponse_def api_Pagination_def)

theorem search_is_exact_witness:
  "filteredInterviews ''ADA'' (rows_of sample_page) = Inr [sample_interview ''scheduled'']"
proof -
  have "mentions ''ADA'' (sample_interview ''scheduled'')"
  proof -
    have "js_lower ''ADA'' = ''ada''" "js_lower ''Ada'' = ''ada''" by code_simp+
    moreover have "opt_get (sample_interview ''scheduled'') ''candidateName'' = Str ''Ada''"
      by (simp add: sample_interview_def)
    ultimately show ?thesis by (auto simp: mentions_def)
  qed
  moreover have "rows_of sample_page = Arr [sample_interview ''scheduled'']"
    by (simp add: rows_of_def sample_page_def)
  ultimately show ?thesis
    using search_is_exact [OF sample_page_typed, of "''ADA''"] by simp
qed

section \<open>Rendering\<close>

definition interview_links :: "jsval list \<Rightarrow> jsval set" where
  "interview_links vs = insert (Str ''/dashboard/interviews/new'') (interview_href ` set vs)"

lemma row_everywhere:
  assumes "has_type api_Interview v" "v \<in> set vs"
  shows "everywhere (links_to (interview_links vs)) (interview_row fmt v)"
proof -
  note f = typed_fields [OF assms(1)]
  obtain st where st: "opt_get v ''status'' = Str st" by (rule typed_status [OF assms(1)])
  obtain ids where ids: "opt_get v ''interviewerIds'' = Arr (map Str ids)" by (rule typed_strings [OF f(10)])
  have href: "interview_href v \<in> interview_links vs"
    using assms(2) by (simp add: interview_links_def)
  obtain n p e d where s: "opt_get v ''candidateName'' = Str n" "opt_get v ''position'' = Str p"
      "opt_get v ''candidateEmail'' = Str e" "opt_get v ''duration'' = Num d"
    using typed_str [OF f(4)] typed_str [OF f(5)] typed_str [OF f(6)] typed_num [OF f(8)] by blast
  show ?thesis
    using f(1) href by (simp add: interview_row_def st ids s status_label_def)
qed

lemma interviews_view_everywhere:
  assumes "rows_of response = Arr vs" "\<forall>v \<in> set vs. has_type api_Interview v"
  shows "everywhere (links_to (interview_links vs)) (interviews_view fmt error isLoading response pg)"
proof -
  let ?rows = "filter (mentions (searchQuery pg)) vs"
  have "everywhere (links_to (interview_links vs)) (interviews_table fmt ?rows)"
    using assms(2) by (simp add: interviews_table_def list_all_iff row_everywhere)
  then have "everywhere (links_to (interview_links vs)) (interviews_content fmt error isLoading (Arr vs) ?rows)"
    by (simp add: interviews_content_def)
  moreover have "Str ''/dashboard/interviews/new'' \<in> interview_links vs"
    by (simp add: interview_links_def)
  moreover have "everywhere (links_to (interview_links vs)) (interviews_filters pg)"
    by (auto simp: interviews_filters_def list_all_iff)
  ultimately show ?thesis
    using filtered_typed [OF assms(2)] by (simp add: interviews_view_def assms(1))
qed

text \<open>
  The page renders for every page of interviews the client can return, also before one has
  arrived, and links only to the new-interview page and to the pages of the interviews listed.
\<close>

theorem interviews_page_renders:
  assumes "response = Undef \<or> has_type (api_PaginatedResponse api_Interview) response"
  shows "\<exists>vs. rows_of response = Arr vs \<and> renders (interviews_view fmt error isLoading response pg)
       \<and> set (links (interviews_view fmt error isLoading response pg)) \<subseteq> interview_links vs"
proof -
  obtain vs where vs: "rows_of response = Arr vs" "\<forall>v \<in> set vs. has_type api_Interview v"
  proof (cases "response = Undef")
    case True
    then have "rows_of response = Arr []" by (simp add: rows_of_def)
    then show ?thesis using that by simp
  next
    case False
    with assms have "has_type (api_PaginatedResponse api_Interview) response" by simp
    then show ?thesis using rows_of_page that by blast
  qed
  show ?thesis
    using vs(1) interviews_view_everywhere [OF vs] everywhere_renders everywhere_links by blast
qed

definition sample_formats :: formats where
  "sample_formats = \<lparr>iso_format = (\<lambda>_ _. None), date_format = (\<lambda>_ v. Some (js_to_string v))\<rparr>"

theorem interviews_page_renders_witness:
  "renders (interviews_view sample_formats False False sample_page init_interviews)"
  using interviews_page_renders [of sample_page] sample_page_typed by blast

end
