(* ===== verification/Reports_Page.thy ===== *)
theory Reports_Page
  imports Ui_Kit Query_Hooks
begin

text \<open>
  \<^verbatim>\<open>app/dashboard/reports/page.tsx\<close> and the statistics it shows, \<open>useReportsStats\<close> of
  \<^verbatim>\<open>lib/hooks/useReports.ts\<close>: the groups of reports, the actions of each row, and the two
  handlers, which leave errors to the mutation's own toast. \<open>format\<close> throws on a value that is no
  date, and so does the page.
\<close>

datatype reports_event = DownloadPdf jsval | SendEmail jsval

definition reports_statusColors :: "(string \<times> string) list" where
  "reports_statusColors = [
     (''pending'', ''bg-yellow-100 text-yellow-800 dark:bg-yellow-900 dark:text-yellow-200''),
     (''ready'', ''bg-green-100 text-green-800 dark:bg-green-900 dark:text-green-200''),
     (''sent'', ''bg-blue-100 text-blue-800 dark:bg-blue-900 dark:text-blue-200'')]"

definition recommendationColors :: "(string \<times> string) list" where
  "recommendationColors = [
     (''strong_hire'', ''bg-green-100 text-green-800 dark:bg-green-900 dark:text-green-200''),
     (''hire'', ''bg-blue-100 text-blue-800 dark:bg-blue-900 dark:text-blue-200''),
     (''maybe'', ''bg-yellow-100 text-yellow-800 dark:bg-yellow-900 dark:text-yellow-200''),
     (''no_hire'', ''bg-red-100 text-red-800 dark:bg-red-900 dark:text-red-200'')]"

definition report_recommendationLabels :: "(string \<times> string) list" where
  "report_recommendationLabels = [
     (''strong_hire'', ''strong hire''), (''hire'', ''hire''), (''maybe'', ''maybe''), (''no_hire'', ''no hire'')]"

section \<open>Handlers\<close>

text \<open>
  \<open>mutateAsync\<close> of a mutation: the result, or the exception after the mutation's callbacks have
  run, is a parameter; the page ignores the exception.
\<close>

definition handleSendReport :: "(jsval \<Rightarrow> ('w, 'p, jsval) handler) \<Rightarrow> jsval \<Rightarrow> ('w, 'p, unit) handler" where
  "handleSendReport mutateAsync reportId =
     try_catch (await (mutateAsync reportId) (\<lambda>_. return_a ())) (\<lambda>error. return_a ())"

definition handleDownloadReport :: "(jsval \<Rightarrow> ('w, 'p, jsval) handler) \<Rightarrow> jsval \<Rightarrow> ('w, 'p, unit) handler" where
  "handleDownloadReport mutateAsync reportId =
     try_catch (await (mutateAsync reportId) (\<lambda>_. return_a ())) (\<lambda>error. return_a ())"

section \<open>The view\<close>

text \<open>\<open>x > 0\<close> and \<open>Math.round(x)\<close> of a number.\<close>

definition positive :: "jsval \<Rightarrow> bool" where
  "positive v = (case v of Num (Fin x) \<Rightarrow> x > 0 | _ \<Rightarrow> False)"

definition rounded :: "jsval \<Rightarrow> jsval" where
  "rounded v = (case v of Num n \<Rightarrow> Num (math_round n) | _ \<Rightarrow> Num NaN)"

definition pdf_button :: "bool \<Rightarrow> jsval \<Rightarrow> reports_event view" where
  "pdf_button downloading report =
     button [(''variant'', str ''ghost''), (''disabled'', Bool downloading)] (DownloadPdf (opt_get report ''id'')) ''PDF''"

definition report_actions :: "bool \<Rightarrow> bool \<Rightarrow> jsval \<Rightarrow> reports_event view" where
  "report_actions downloading sending report =
     (let status = opt_get report ''status''
      in box ''div'' [
        when_shown (status = str ''ready'') (views [
          pdf_button downloading report,
          button [(''variant'', str ''ghost''), (''disabled'', Bool sending)] (SendEmail (opt_get report ''id'')) ''Send'']),
        when_shown (status = str ''sent'') (pdf_button downloading report),
        when_shown (status = str ''pending'')
          (el ''Button'' [(''variant'', str ''ghost''), (''disabled'', Bool True)] [] [lbl ''Waiting...'']),
        link_button (Str (''/dashboard/reports/'' @ js_to_string (opt_get report ''id''))) ''View''])"

definition report_row :: "formats \<Rightarrow> bool \<Rightarrow> bool \<Rightarrow> bool \<Rightarrow> jsval \<Rightarrow> reports_event view" where
  "report_row fmt isMounted downloading sending report =
     with_props report (el ''TableRow'' [(''key'', opt_get report ''id'')] [] [
       cell [child (opt_get report ''candidateName'')],
       cell [child (opt_get report ''position'')],
       cell [if isMounted then say (formatted fmt ''MMM dd, yyyy'' (opt_get report ''interviewDate''))
             else lbl ''Loading...''],
       cell [box ''Badge'' [child (opt_get report ''evaluationCount''), lbl '' evaluators'']],
       cell [if positive (opt_get report ''averageOverall'')
             then box ''span'' [child (rounded (opt_get report ''averageOverall'')), lbl ''/100'']
             else box ''span'' [lbl ''-'']],
       cell [if truthy (opt_get report ''finalRecommendation'')
             then el ''Badge'' [(''className'', js_or (lookup recommendationColors (opt_get report ''finalRecommendation''))
                    (Str ''bg-gray-100 text-gray-800''))] []
                    [child (js_or (lookup report_recommendationLabels (opt_get report ''finalRecommendation''))
                       (opt_get report ''finalRecommendation''))]
             else box ''span'' [lbl ''-'']],
       cell [el ''Badge'' [(''className'', lookup reports_statusColors (opt_get report ''status''))] []
         [child (opt_get report ''status'')]],
       cell [report_actions downloading sending report]])"

definition counted :: "jsval \<Rightarrow> string \<Rightarrow> exn + jsval" where
  "counted data k =
     (if nullish data then Inr (js_int 0)
      else bind_res (get_field (opt_get data k) ''length'') (\<lambda>n. Inr (js_or n (js_int 0))))"

definition reports_content ::
  "formats \<Rightarrow> bool \<Rightarrow> bool \<Rightarrow> bool \<Rightarrow> jsval \<Rightarrow> jsval \<Rightarrow> jsval \<Rightarrow> reports_event view" where
  "reports_content fmt isMounted downloading sending reports readyCount pendingCount =
     box ''div'' [
       page_header ''Reports'' ''View and manage interview evaluation reports'',
       box ''div'' [
         stat_card ''Total Reports'' (child (opt_get reports ''length'')) ''All time'',
         stat_card ''Ready to Send'' (child readyCount) ''Available for distribution'',
         stat_card ''Pending'' (child pendingCount) ''Waiting for evaluations''],
       titled_card ''All Reports'' ''Comprehensive evaluation reports for all interviews'' [
         box ''Table'' [
           heads [''Candidate'', ''Position'', ''Interview Date'', ''Evaluations'', ''Avg Score'',
             ''Recommendation'', ''Status'', ''Actions''],
           box ''TableBody'' [
             each reports (report_row fmt isMounted downloading sending),
             when_shown (opt_get reports ''length'' = js_int 0) (box ''TableRow'' [
               el ''TableCell'' [(''colSpan'', js_int 8)] [] [box ''p'' [lbl ''No reports found'']]])]]]]"

definition reports_view ::
  "formats \<Rightarrow> bool \<Rightarrow> bool \<Rightarrow> bool \<Rightarrow> bool \<Rightarrow> bool \<Rightarrow> jsval \<Rightarrow> reports_event view" where
  "reports_view fmt isMounted isLoading error downloading sending data =
     (if isLoading then spinner
      else if error then box ''div'' [box ''p'' [lbl ''Error loading reports. Please try again.'']]
      else
        bind_res (counted data ''ready'') (\<lambda>readyCount.
        bind_res (counted data ''pending'') (\<lambda>pendingCount.
          reports_content fmt isMounted downloading sending (js_or (opt_get data ''all'') (Arr []))
            readyCount pendingCount)))"

section \<open>The groups\<close>

abbreviation status_is :: "string \<Rightarrow> jsval \<Rightarrow> bool" where
  "status_is st r \<equiv> opt_get r ''status'' = Str st"

lemma with_status_typed:
  "\<forall>r \<in> set rs. has_type api_Report r \<Longrightarrow> with_status st rs = Inr (filter (status_is st) rs)"
proof (induction rs)
  case (Cons r rs)
  then have "\<not> nullish r" by (cases r) (auto simp: api_Report_def)
  with Cons show ?case by simp
qed simp

lemma typed_report_status:
  assumes "has_type api_Report r"
  obtains st where "opt_get r ''status'' = Str st" "st \<in> set [''pending'', ''ready'', ''sent'']"
proof -
  have "has_type api_ReportStatus (opt_get r ''status'')"
    using assms by (cases r) (simp_all add: api_Report_def)
  then show thesis
    using that by (cases "opt_get r ''status''") (auto simp: api_ReportStatus_def)
qed

text \<open>Three statuses that exclude each other partition a list.\<close>

lemma length_partition3:
  "\<forall>x \<in> set xs. (P x \<and> \<not> Q x \<and> \<not> R x) \<or> (\<not> P x \<and> Q x \<and> \<not> R x) \<or> (\<not> P x \<and> \<not> Q x \<and> R x) \<Longrightarrow>
     length (filter P xs) + length (filter Q xs) + length (filter R xs) = length xs"
  by (induction xs) auto

definition stats_of :: "jsval list \<Rightarrow> jsval" where
  "stats_of rs = Obj [
     (''all'', Arr rs), (''total'', js_int (int (length rs))),
     (''ready'', Arr (filter (status_is ''ready'') rs)),
     (''pending'', Arr (filter (status_is ''pending'') rs)),
     (''sent'', Arr (filter (status_is ''sent'') rs))]"

lemma report_groups_typed:
  assumes "opt_get body ''data'' = Arr rs" "\<forall>r \<in> set rs. has_type api_Report r"
  shows "report_groups body = Inr (stats_of rs)"
proof -
  have "\<not> nullish body" using assms(1) by (cases body) auto
  then have "data_or body (Arr []) = Inr (Arr rs)" by (simp add: data_or_def assms(1))
  then show ?thesis
    by (simp add: report_groups_def filter_status_def with_status_typed [OF assms(2)] stats_of_def)
qed

text \<open>
  C38. The statistics of the reports are computed from one request; the three groups keep the
  server's order and together have as many reports as there are.
\<close>

theorem report_statistics:
  assumes "srv (get_params ''/api/reports'' all_reports_params) (net s) = (Inr body, w)"
    and "opt_get body ''data'' = Arr rs" and "\<forall>r \<in> set rs. has_type api_Report r"
  shows "queryFn (useReportsStats srv) s =
      (Inr (stats_of rs), s\<lparr>net := w, sent := sent s @ [get_params ''/api/reports'' all_reports_params]\<rparr>)
    \<and> length (filter (status_is ''ready'') rs) + length (filter (status_is ''pending'') rs)
        + length (filter (status_is ''sent'') rs) = length rs"
proof -
  have "\<forall>r \<in> set rs. (status_is ''ready'' r \<and> \<not> status_is ''pending'' r \<and> \<not> status_is ''sent'' r)
      \<or> (\<not> status_is ''ready'' r \<and> status_is ''pending'' r \<and> \<not> status_is ''sent'' r)
      \<or> (\<not> status_is ''ready'' r \<and> \<not> status_is ''pending'' r \<and> status_is ''sent'' r)"
  proof
    fix r assume "r \<in> set rs"
    with assms(3) have "has_type api_Report r" by blast
    then obtain st where "opt_get r ''status'' = Str st" "st \<in> set [''pending'', ''ready'', ''sent'']"
      by (rule typed_report_status)
    then show "(status_is ''ready'' r \<and> \<not> status_is ''pending'' r \<and> \<not> status_is ''sent'' r)
      \<or> (\<not> status_is ''ready'' r \<and> status_is ''pending'' r \<and> \<not> status_is ''sent'' r)
      \<or> (\<not> status_is ''ready'' r \<and> \<not> status_is ''pending'' r \<and> status_is ''sent'' r)"
      by auto
  qed
  from length_partition3 [OF this] show ?thesis
    by (simp add: useReportsStats_def query_defs reportsApi_getAll_def await_def http_def assms(1)
        report_groups_typed [OF assms(2,3)] lift_res_def return_a_def)
qed

definition sample_report :: "string \<Rightarrow> jsval" where
  "sample_report st = Obj [
     (''id'', Str ''r1''), (''interviewId'', Str ''i1''), (''candidateName'', Str ''Ada''),
     (''position'', Str ''designer''), (''interviewDate'', Str ''2025''), (''evaluationCount'', js_int 2),
     (''averageTechnical'', js_int 7), (''averageCommunication'', js_int 7),
     (''averageCultureFit'', js_int 7), (''averageOverall'', js_int 7),
     (''finalRecommendation'', Str ''hire''), (''status'', Str st),
     (''createdAt'', Str ''2025''), (''updatedAt'', Str ''2025'')]"

lemma sample_report_typed:
  "st \<in> set [''pending'', ''ready'', ''sent''] \<Longrightarrow> has_type api_Report (sample_report st)"
  by (auto simp: sample_report_def api_Report_def api_ReportStatus_def)

theorem report_statistics_witness:
  "fst (queryFn (useReportsStats (\<lambda>r w. (Inr (Obj [(''data'', Arr [sample_report ''ready''])]), ())))
     \<lparr>net = (), sent = [], console = []\<rparr>) = Inr (stats_of [sample_report ''ready''])"
proof -
  let ?srv = "\<lambda>r w. (Inr (Obj [(''data'', Arr [sample_report ''ready''])]), ()) :: (axios_error + jsval) \<times> unit"
  have "\<forall>r \<in> set [sample_report ''ready'']. has_type api_Report r"
    using sample_report_typed [of "''ready''"] by simp
  from report_statistics [OF _ _ this, of ?srv "\<lparr>net = (), sent = [], console = []\<rparr>"
      "Obj [(''data'', Arr [sample_report ''ready''])]" "()"]
  show ?thesis by simp
qed

section \<open>The rows\<close>

definition report_status_actions :: "bool \<Rightarrow> bool \<Rightarrow> jsval \<Rightarrow> string \<Rightarrow> reports_event list" where
  "report_status_actions downloading sending i st =
     (if st = ''ready'' then (if downloading then [] else [DownloadPdf i]) @ (if sending then [] else [SendEmail i])
      else if st = ''sent'' then (if downloading then [] else [DownloadPdf i])
      else [])"

lemma offers_report_actions:
  assumes "opt_get r ''status'' = Str st" "st \<in> set [''pending'', ''ready'', ''sent'']"
  shows "offers (report_actions downloading sending r) =
     report_status_actions downloading sending (opt_get r ''id'') st"
  using assms
  by (auto simp: report_actions_def Let_def offers_def pdf_button_def button_def link_button_def link_def
      report_status_actions_def)

text \<open>
  A report can be downloaded once it is ready, sent only while it is ready and so at most
  once, and neither while the same kind of action is under way.
\<close>

theorem report_row_actions:
  assumes "has_type api_Report r" and "opt_get r ''status'' = Str st"
  shows "offers (report_actions downloading sending r) =
     report_status_actions downloading sending (opt_get r ''id'') st"
proof -
  obtain st' where "opt_get r ''status'' = Str st'" "st' \<in> set [''pending'', ''ready'', ''sent'']"
    by (rule typed_report_status [OF assms(1)])
  with assms(2) show ?thesis using offers_report_actions [of r st downloading sending] by simp
qed

theorem report_row_actions_witness:
  "offers (report_actions False False (sample_report ''sent'')) = [DownloadPdf (Str ''r1'')]"
proof -
  have "has_type api_Report (sample_report ''sent'')"
    using sample_report_typed [of "''sent''"] by simp
  moreover have "opt_get (sample_report ''sent'') ''status'' = Str ''sent''"
    by (simp add: sample_report_def)
  ultimately have "offers (report_actions False False (sample_report ''sent'')) =
      report_status_actions False False (opt_get (sample_report ''sent'') ''id'') ''sent''"
    by (rule report_row_actions)
  then show ?thesis by (simp add: report_status_actions_def sample_report_def)
qed

section \<open>Rendering\<close>

definition report_href :: "jsval \<Rightarrow> jsval" where
  "report_href r = Str (''/dashboard/reports/'' @ js_to_string (opt_get r ''id''))"

definition report_links :: "jsval list \<Rightarrow> jsval set" where
  "report_links rs = report_href ` set rs"

lemma js_or_lookup_child: "has_type TString v \<Longrightarrow> everywhere Q (child (js_or (lookup table u) v))"
  using lookup_child [of Q table u] everywhere_child_str [of v Q] by (auto simp: js_or_def)

lemma actions_everywhere:
  "report_href r \<in> S \<Longrightarrow> everywhere (links_to S) (report_actions downloading sending r)"
  by (simp add: report_actions_def Let_def pdf_button_def report_href_def)

lemma report_row_everywhere:
  assumes "has_type api_Report r" "r \<in> set rs" "isMounted \<Longrightarrow> date_format fmt ''MMM dd, yyyy'' (opt_get r ''interviewDate'') \<noteq> None"
  shows "everywhere (links_to (report_links rs)) (report_row fmt isMounted downloading sending r)"
proof -
  have r: "\<not> nullish r" using assms(1) by (cases r) (auto simp: api_Report_def)
  have f: "has_type TString (opt_get r ''candidateName'')" "has_type TString (opt_get r ''position'')"
    "has_type TNumber (opt_get r ''evaluationCount'')" "has_type TString (opt_get r ''finalRecommendation'')"
    using assms(1) by (cases r; simp add: api_Report_def)+
  obtain st where st: "opt_get r ''status'' = Str st" by (rule typed_report_status [OF assms(1)])
  have "report_href r \<in> report_links rs"
    using assms(2) by (simp add: report_links_def)
  note act = actions_everywhere [OF this]
  have date: "isMounted \<Longrightarrow> \<exists>s. formatted fmt ''MMM dd, yyyy'' (opt_get r ''interviewDate'') = Inr s"
    using assms(3) by (auto simp: formatted_def)
  have avg: "everywhere Q (child (rounded v))" for Q v
    by (cases v) (simp_all add: rounded_def)
  note texts = f(1,2) [THEN everywhere_child_str] f(3) [THEN everywhere_child_num]
  show ?thesis
    using r date
    by (simp add: report_row_def act avg st texts js_or_lookup_child [OF f(4)])
qed

lemma counted_stats:
  "\<exists>n m. counted (stats_of rs) ''ready'' = Inr (Num n) \<and> counted (stats_of rs) ''pending'' = Inr (Num m)"
  by (simp add: counted_def stats_of_def js_or_def)

lemma reports_view_everywhere:
  assumes "\<forall>r \<in> set rs. has_type api_Report r"
    and "\<forall>r \<in> set rs. isMounted \<longrightarrow> date_format fmt ''MMM dd, yyyy'' (opt_get r ''interviewDate'') \<noteq> None"
  shows "everywhere (links_to (report_links rs))
     (reports_view fmt isMounted isLoading error downloading sending (stats_of rs))"
proof -
  have rows: "\<forall>r \<in> set rs. everywhere (links_to (report_links rs)) (report_row fmt isMounted downloading sending r)"
    using assms report_row_everywhere by blast
  have all: "js_or (opt_get (stats_of rs) ''all'') (Arr []) = Arr rs"
    by (simp add: stats_of_def)
  show ?thesis
  proof (cases "isLoading \<or> error")
    case True
    then show ?thesis by (cases isLoading) (simp_all add: reports_view_def)
  next
    case False
    obtain n m where nm: "counted (stats_of rs) ''ready'' = Inr (Num n)" "counted (stats_of rs) ''pending'' = Inr (Num m)"
      using counted_stats by blast
    from False have "reports_view fmt isMounted isLoading error downloading sending (stats_of rs) =
        reports_content fmt isMounted downloading sending (Arr rs) (Num n) (Num m)"
      by (simp add: reports_view_def nm all)
    also have "everywhere (links_to (report_links rs)) \<dots>"
      unfolding reports_content_def by (simp add: rows)
    finally show ?thesis .
  qed
qed

text \<open>
  The page renders for the statistics of any reports whose interview dates are dates, and one
  report whose date is not breaks the whole page: after mounting, rendering throws.
\<close>

theorem reports_page_renders:
  assumes "\<forall>r \<in> set rs. has_type api_Report r" and "isMounted"
  shows "renders (reports_view fmt isMounted False False downloading sending (stats_of rs)) \<longleftrightarrow>
     (\<forall>r \<in> set rs. date_format fmt ''MMM dd, yyyy'' (opt_get r ''interviewDate'') \<noteq> None)"
proof
  assume r: "renders (reports_view fmt isMounted False False downloading sending (stats_of rs))"
  have "js_or (opt_get (stats_of rs) ''all'') (Arr []) = Arr rs"
    by (simp add: stats_of_def)
  moreover obtain n m where "counted (stats_of rs) ''ready'' = Inr (Num n)" "counted (stats_of rs) ''pending'' = Inr (Num m)"
    using counted_stats by blast
  ultimately have "\<forall>r \<in> set rs. renders (report_row fmt isMounted downloading sending r)"
    using r by (simp add: reports_view_def reports_content_def titled_card_def)
  then show "\<forall>r \<in> set rs. date_format fmt ''MMM dd, yyyy'' (opt_get r ''interviewDate'') \<noteq> None"
    using assms(2) by (auto simp: report_row_def formatted_def split: option.splits)
next
  assume "\<forall>r \<in> set rs. date_format fmt ''MMM dd, yyyy'' (opt_get r ''interviewDate'') \<noteq> None"
  then show "renders (reports_view fmt isMounted False False downloading sending (stats_of rs))"
    using reports_view_everywhere [OF assms(1)] everywhere_renders by blast
qed

theorem reports_page_renders_witness:
  "renders (reports_view \<lparr>iso_format = (\<lambda>_ _. None), date_format = (\<lambda>_ v. Some (js_to_string v))\<rparr>
     True False False False False (stats_of [sample_report ''ready'']))"
proof -
  have "\<forall>r \<in> set [sample_report ''ready'']. has_type api_Report r"
    using sample_report_typed [of "''ready''"] by simp
  from reports_page_renders [OF this TrueI] show ?thesis by simp
qed

end
