(* ===== verification/Queues_Page.thy ===== *)
theory Queues_Page
  imports Ui_Kit Query_Hooks
begin

text \<open>
  \<^verbatim>\<open>app/dashboard/queues/page.tsx\<close>: the totals over all queues, the success rate of each, and the
  table of recent messages. Values in numeric position are read by \<open>as_number\<close>; a string there,
  which the interfaces rule out, counts as \<open>NaN\<close>.
\<close>

datatype queues_event = NoQueuesEvent

section \<open>The data the page was designed with\<close>

definition mock_queue ::
  "string \<Rightarrow> string \<Rightarrow> int \<Rightarrow> int \<Rightarrow> int \<Rightarrow> int \<Rightarrow> rat \<Rightarrow> string \<Rightarrow> string \<Rightarrow> jsval" where
  "mock_queue name description inQueue processing completed failures avg status last_processed = Obj [
     (''name'', Str name), (''description'', Str description), (''messagesInQueue'', js_int inQueue),
     (''messagesProcessing'', js_int processing), (''messagesCompleted'', js_int completed),
     (''messagesFailed'', js_int failures), (''averageProcessingTime'', Num (Fin avg)),
     (''status'', Str status), (''lastProcessed'', Str last_processed)]"

definition mockQueues :: jsval where
  "mockQueues = Arr [
     mock_queue ''interview-scheduler'' ''Handles interview scheduling and notifications''
       12 2 145 3 (12 / 10) ''active'' ''2025-10-21T12:30:00Z'',
     mock_queue ''evaluation-processor'' ''Processes evaluation submissions and calculations''
       8 1 89 1 (25 / 10) ''active'' ''2025-10-21T12:28:00Z'',
     mock_queue ''report-generator'' ''Generates consolidated interview reports''
       3 1 42 0 (58 / 10) ''active'' ''2025-10-21T12:25:00Z'',
     mock_queue ''notification-sender'' ''Sends email and SMS notifications''
       15 3 312 5 (8 / 10) ''active'' ''2025-10-21T12:31:00Z'']"

definition queues_statusColors :: "(string \<times> string) list" where
  "queues_statusColors = [
     (''pending'', ''bg-yellow-100 text-yellow-800 dark:bg-yellow-900 dark:text-yellow-200''),
     (''processing'', ''bg-blue-100 text-blue-800 dark:bg-blue-900 dark:text-blue-200''),
     (''completed'', ''bg-green-100 text-green-800 dark:bg-green-900 dark:text-green-200''),
     (''failed'', ''bg-red-100 text-red-800 dark:bg-red-900 dark:text-red-200'')]"

definition priorityLabels :: "(string \<times> string) list" where
  "priorityLabels = [(''1'', ''Low''), (''2'', ''Normal''), (''3'', ''High''), (''4'', ''Urgent'')]"

section \<open>Numbers\<close>

definition as_number :: "jsval \<Rightarrow> number" where
  "as_number v =
     (case v of Num n \<Rightarrow> n | Null \<Rightarrow> Fin 0 | Bool b \<Rightarrow> Fin (if b then 1 else 0) | _ \<Rightarrow> NaN)"

text \<open>\<open>queueList.reduce((sum, q) => sum + q.k, 0)\<close>\<close>

fun sum_from :: "number \<Rightarrow> string \<Rightarrow> jsval list \<Rightarrow> exn + number" where
  "sum_from acc k [] = Inr acc"
| "sum_from acc k (q # qs) =
     bind_res (get_field q k) (\<lambda>v. sum_from (num_add acc (as_number v)) k qs)"

definition total_of :: "string \<Rightarrow> jsval \<Rightarrow> exn + number" where
  "total_of k queueList =
     (case queueList of Arr qs \<Rightarrow> sum_from (Fin 0) k qs
      | _ \<Rightarrow> Inl (TypeError ''queueList.reduce is not a function''))"

text \<open>The number of messages the rate of a queue is taken of, and \<open>successRate\<close>.\<close>

definition queue_total :: "jsval \<Rightarrow> number" where
  "queue_total queue =
     num_add (num_add (as_number (opt_get queue ''messagesInQueue'')) (as_number (opt_get queue ''messagesProcessing'')))
       (as_number (opt_get queue ''messagesCompleted''))"

definition successRate :: "jsval \<Rightarrow> jsval" where
  "successRate queue =
     (case queue_total queue of
        Fin n \<Rightarrow>
          if n > 0
          then Str (number_fixed1 (num_mul (num_div (as_number (opt_get queue ''messagesCompleted'')) n) 100))
          else js_int 0
      | NaN \<Rightarrow> js_int 0)"

text \<open>\<open>Number(v)\<close> of a number or of what \<open>toFixed\<close> prints.\<close>

definition read_decimal :: "string \<Rightarrow> number" where
  "read_decimal s =
     (case js_split CHR ''.'' s of
        [i] \<Rightarrow> Fin (of_nat (read_nat i))
      | [i, d] \<Rightarrow> Fin (of_nat (read_nat i) + of_nat (read_nat d) / 10 ^ length d)
      | _ \<Rightarrow> NaN)"

definition Number_of :: "jsval \<Rightarrow> number" where
  "Number_of v =
     (case v of Num n \<Rightarrow> n
      | Str (c # s) \<Rightarrow> if c = CHR ''-'' then num_mul (read_decimal s) (- 1) else read_decimal (c # s)
      | _ \<Rightarrow> NaN)"

section \<open>The view\<close>

definition labelled_count :: "string \<Rightarrow> jsval \<Rightarrow> queues_event view" where
  "labelled_count label n = box ''div'' [box ''p'' [lbl label], box ''p'' [child n]]"

definition queue_card :: "formats \<Rightarrow> jsval \<Rightarrow> queues_event view" where
  "queue_card fmt queue =
     with_props queue (el ''Card'' [(''key'', opt_get queue ''name'')] [] [
       box ''CardHeader'' [
         box ''div'' [
           box ''div'' [box ''CardTitle'' [child (opt_get queue ''name'')]],
           el ''Badge'' [(''variant'', str ''default'')] [] [child (opt_get queue ''status'')]],
         box ''CardDescription'' [child (opt_get queue ''description'')]],
       box ''CardContent'' [
         box ''div'' [
           labelled_count ''In Queue'' (opt_get queue ''messagesInQueue''),
           labelled_count ''Processing'' (opt_get queue ''messagesProcessing''),
           labelled_count ''Completed'' (opt_get queue ''messagesCompleted''),
           labelled_count ''Failed'' (opt_get queue ''messagesFailed'')],
         box ''div'' [
           box ''div'' [box ''span'' [lbl ''Success Rate''], box ''span'' [child (successRate queue), lbl ''%'']],
           el ''Progress'' [(''value'', Num (Number_of (successRate queue)))] [] []],
         box ''div'' [
           box ''span'' [lbl ''Avg: '', child (opt_get queue ''averageProcessingTime''), lbl ''s''],
           box ''span'' [lbl ''Last: '', say (formatted fmt ''HH:mm:ss'' (opt_get queue ''lastProcessed''))]]]])"

definition message_row :: "formats \<Rightarrow> jsval \<Rightarrow> queues_event view" where
  "message_row fmt message =
     with_props message (el ''TableRow'' [(''key'', opt_get message ''id'')] [] [
       cell [child (opt_get message ''id'')],
       cell [child (opt_get message ''queueName'')],
       cell [say (bind_res (str_call (js_replace_all CHR ''_'' '' '') (opt_get message ''type'')) Inr)],
       cell [child (js_or (opt_get message ''subject'') (Str ''N/A''))],
       cell [el ''Badge''
         [(''variant'', str (case as_number (opt_get message ''priority'') of
             Fin p \<Rightarrow> if p \<ge> 3 then ''destructive'' else ''secondary''
           | NaN \<Rightarrow> ''secondary''))] []
         [child (js_or (lookup priorityLabels (opt_get message ''priority'')) (Str ''Normal''))]],
       cell [el ''Badge'' [(''className'', lookup queues_statusColors (opt_get message ''status''))] []
         [child (opt_get message ''status'')]],
       cell [say (formatted fmt ''HH:mm:ss'' (opt_get message ''createdAt''))],
       cell [if truthy (opt_get message ''processedAt'')
             then say (formatted fmt ''HH:mm:ss'' (opt_get message ''processedAt''))
             else lbl ''-'']])"

text \<open>\<open>recentMessages && recentMessages.length > 0\<close>\<close>

definition some_messages :: "jsval \<Rightarrow> bool" where
  "some_messages v \<longleftrightarrow>
     truthy v \<and> (case as_number (opt_get v ''length'') of Fin n \<Rightarrow> n > 0 | NaN \<Rightarrow> False)"

definition messages_card :: "formats \<Rightarrow> jsval \<Rightarrow> queues_event view" where
  "messages_card fmt recentMessages =
     titled_card ''Recent Messages'' ''Latest messages across all queues'' [
       box ''Table'' [
         heads [''Message ID'', ''Queue'', ''Type'', ''Subject'', ''Priority'', ''Status'', ''Created'', ''Processed''],
         box ''TableBody'' [
           if some_messages recentMessages
           then each recentMessages (message_row fmt)
           else box ''TableRow'' [
             el ''TableCell'' [(''colSpan'', js_int 8)] [] [lbl ''No recent messages'']]]]]"

definition feature :: "string \<Rightarrow> string \<Rightarrow> queues_event view" where
  "feature title description = box ''div'' [box ''h4'' [lbl title], box ''p'' [lbl description]]"

definition features_card :: "queues_event view" where
  "features_card =
     box ''Card'' [
       box ''CardHeader'' [box ''div'' [box ''CardTitle'' [lbl ''Nzovu Features in Action'']]],
       box ''CardContent'' [box ''div'' [
         feature ''Priority Processing'' ''Urgent messages (priority 4) are processed before normal priority messages, ensuring critical interviews are handled first.'',
         feature ''Scheduled Delivery'' ''Interview reminders and notifications are scheduled for specific times using Nzovu's time-based scheduling.'',
         feature ''Automatic Retries'' ''Failed messages are automatically retried up to 3 times before being moved to the Dead Letter Queue (DLQ).'',
         feature ''Message Persistence'' ''All messages are persisted in the configured PostgreSQL or SQLite backend, so worker restarts do not discard queued messages.'']]]"

definition totals_cards :: "number \<Rightarrow> number \<Rightarrow> number \<Rightarrow> number \<Rightarrow> queues_event view" where
  "totals_cards inQueue processing completed failures =
     box ''div'' [
       stat_card ''In Queue'' (child (Num inQueue)) ''Waiting to be processed'',
       stat_card ''Processing'' (child (Num processing)) ''Currently being processed'',
       stat_card ''Completed'' (child (Num completed)) ''Successfully processed'',
       stat_card ''Failed'' (child (Num failures)) ''Moved to DLQ'']"

definition queues_view :: "formats \<Rightarrow> bool \<Rightarrow> jsval \<Rightarrow> jsval \<Rightarrow> queues_event view" where
  "queues_view fmt queuesLoading queues recentMessages =
     (if queuesLoading then spinner
      else let queueList = js_or queues (Arr [])
        in bind_res (total_of ''messagesInQueue'' queueList) (\<lambda>totalMessagesInQueue.
           bind_res (total_of ''messagesProcessing'' queueList) (\<lambda>totalProcessing.
           bind_res (total_of ''messagesCompleted'' queueList) (\<lambda>totalCompleted.
           bind_res (total_of ''messagesFailed'' queueList) (\<lambda>totalFailed.
             box ''div'' [
               page_header ''Queue Monitor'' ''Real-time Nzovu status and message tracking'',
               totals_cards totalMessagesInQueue totalProcessing totalCompleted totalFailed,
               box ''div'' [each queueList (queue_card fmt)],
               messages_card fmt recentMessages,
               features_card])))))"

section \<open>The success rate\<close>

text \<open>The counts of a queue, where they are numbers.\<close>

definition counts :: "jsval \<Rightarrow> rat \<Rightarrow> rat \<Rightarrow> rat \<Rightarrow> bool" where
  "counts queue q p c \<longleftrightarrow>
     opt_get queue ''messagesInQueue'' = Num (Fin q) \<and> opt_get queue ''messagesProcessing'' = Num (Fin p) \<and>
     opt_get queue ''messagesCompleted'' = Num (Fin c)"

lemma show_nat_no_dot: "CHR ''.'' \<notin> set (show_nat n)"
proof (induction n rule: show_nat.induct)
  case (1 n)
  have digit: "digit d \<noteq> CHR ''.''" if "d < 10" for d
  proof
    assume "digit d = CHR ''.''"
    then have "of_char (digit d) = (of_char (CHR ''.'') :: nat)" by simp
    with that show False by (simp add: digit_def)
  qed
  show ?case
  proof (cases "n < 10")
    case True
    then show ?thesis using digit [of n] by (subst show_nat.simps) auto
  next
    case False
    then show ?thesis using 1 digit [of "n mod 10"] by (subst show_nat.simps) auto
  qed
qed

lemma show_nat_first_not_minus: "show_nat n \<noteq> CHR ''-'' # s"
proof (induction n arbitrary: s rule: show_nat.induct)
  case (1 n)
  have digit: "digit d \<noteq> CHR ''-''" if "d < 10" for d
  proof
    assume "digit d = CHR ''-''"
    then have "of_char (digit d) = (of_char (CHR ''-'') :: nat)" by simp
    with that show False by (simp add: digit_def)
  qed
  show ?case
  proof (cases "n < 10")
    case True
    then show ?thesis using digit [of n] by (subst show_nat.simps) auto
  next
    case False
    then obtain c t where ct: "show_nat (n div 10) = c # t"
      by (cases "show_nat (n div 10)") auto
    with 1 [OF False, of t] False show ?thesis by (subst show_nat.simps) auto
  qed
qed

lemma read_to_fixed1:
  assumes "0 \<le> x"
  shows "Number_of (Str (to_fixed1 x)) = Fin (of_int \<lfloor>x * 10 + 1 / 2\<rfloor> / 10)"
proof -
  define n where "n = nat \<lfloor>\<bar>x\<bar> * 10 + 1 / 2\<rfloor>"
  have n: "of_nat n = (of_int \<lfloor>x * 10 + 1 / 2\<rfloor> :: rat)"
    using assms by (simp add: n_def)
  obtain c t where ct: "show_nat (n div 10) = c # t" and c: "c \<noteq> CHR ''-''"
    using show_nat_first_not_minus by (cases "show_nat (n div 10)") auto
  have s: "to_fixed1 x = show_nat (n div 10) @ CHR ''.'' # show_nat (n mod 10)"
    using assms by (simp add: to_fixed1_def n_def Let_def)
  have split: "js_split CHR ''.'' (to_fixed1 x) = [show_nat (n div 10), show_nat (n mod 10)]"
    unfolding s by (simp add: js_split_append js_split_single show_nat_no_dot)
  have len: "length (show_nat (n mod 10)) = 1"
    by (subst show_nat.simps) simp
  have "Number_of (Str (to_fixed1 x)) = read_decimal (to_fixed1 x)"
    using c by (simp add: Number_of_def s ct)
  also have "\<dots> = Fin (of_nat (n div 10) + of_nat (n mod 10) / 10)"
    by (simp add: read_decimal_def split len)
  also have "of_nat (n div 10) + of_nat (n mod 10) / 10 = (of_nat (10 * (n div 10) + n mod 10) / 10 :: rat)"
    by (simp only: of_nat_add of_nat_mult) (simp add: field_simps)
  also have "\<dots> = of_int \<lfloor>x * 10 + 1 / 2\<rfloor> / 10"
    using n by simp
  finally show ?thesis .
qed

lemma success_rate_of:
  assumes "counts queue q p c" "0 < q + p + c"
  shows "successRate queue = Str (to_fixed1 (c / (q + p + c) * 100))"
  using assms by (simp add: successRate_def queue_total_def counts_def as_number_def number_fixed1_def)

text \<open>
  C26. The bar of a queue is within a twentieth of a percent of the share of its completed messages
  among the waiting, running and completed ones, between 0 and 100, and reads back exactly the
  text beside it; a queue with no messages shows 0.
\<close>

theorem success_rate_bounds:
  assumes "counts queue q p c" and "0 \<le> q" "0 \<le> p" "0 \<le> c"
  shows "\<exists>r. Number_of (successRate queue) = Fin r \<and> 0 \<le> r \<and> r \<le> 100
     \<and> (if q + p + c = 0 then r = 0 else \<bar>r - c / (q + p + c) * 100\<bar> \<le> 1 / 20)"
proof (cases "q + p + c = 0")
  case True
  then show ?thesis
    using assms(1) by (auto simp: successRate_def queue_total_def counts_def as_number_def Number_of_def)
next
  case False
  define x where "x = c / (q + p + c) * 100"
  have pos: "0 < q + p + c" using False assms(2-4) by linarith
  have x: "0 \<le> x" "x \<le> 100"
    using assms(2-4) pos by (simp_all add: x_def field_simps)
  have "Number_of (successRate queue) = Fin (of_int \<lfloor>x * 10 + 1 / 2\<rfloor> / 10)"
    using success_rate_of [OF assms(1) pos] read_to_fixed1 [OF x(1)] by (simp add: x_def)
  moreover have "0 \<le> \<lfloor>x * 10 + 1 / 2\<rfloor>" using x(1) by (simp add: le_floor_iff)
  moreover have "\<lfloor>x * 10 + 1 / 2\<rfloor> \<le> 1000" using x(2) by (simp add: floor_le_iff)
  moreover have "\<bar>of_int \<lfloor>x * 10 + 1 / 2\<rfloor> / 10 - x\<bar> \<le> 1 / 20"
    using round_near [of "x * 10"] unfolding abs_le_iff by linarith
  ultimately show ?thesis
    using False by (intro exI [of _ "of_int \<lfloor>x * 10 + 1 / 2\<rfloor> / 10"]) (simp add: x_def)
qed

theorem success_rate_bounds_witness:
  "\<exists>r. Number_of (successRate (mock_queue ''q'' ''d'' 12 2 145 3 1 ''active'' ''t'')) = Fin r \<and> 0 \<le> r \<and> r \<le> 100"
proof -
  have "counts (mock_queue ''q'' ''d'' 12 2 145 3 1 ''active'' ''t'') 12 2 145"
    by (simp add: counts_def mock_queue_def)
  from success_rate_bounds [OF this] show ?thesis by fastforce
qed

text \<open>
  Failures do not lower the success rate: a queue whose other messages are all completed shows
  100.0 whatever number failed.
\<close>

theorem failures_do_not_count:
  assumes "counts queue 0 0 c" and "0 < c"
  shows "successRate queue = Str ''100.0''"
proof -
  have "to_fixed1 100 = ''100.0''" by code_simp
  with success_rate_of [OF assms(1)] assms(2) show ?thesis by simp
qed

theorem failures_do_not_count_witness:
  "successRate (mock_queue ''q'' ''d'' 0 0 1 99 1 ''active'' ''t'') = Str ''100.0''"
  by (rule failures_do_not_count [of _ 1]) (simp_all add: counts_def mock_queue_def)

section \<open>Rendering\<close>

lemma sum_from_typed:
  "\<forall>q \<in> set qs. \<not> nullish q \<Longrightarrow> \<exists>n. sum_from acc k qs = Inr n"
  by (induction qs arbitrary: acc) auto

lemma total_typed:
  assumes "\<forall>q \<in> set qs. has_type api_QueueStats q"
  shows "\<exists>n. total_of k (Arr qs) = Inr n"
proof -
  have "\<not> nullish q" if "q \<in> set qs" for q
    using assms that by (cases q) (auto simp: api_QueueStats_def)
  then show ?thesis using sum_from_typed [of qs "Fin 0" k] by (simp add: total_of_def)
qed

lemma successRate_child [simp]: "everywhere Q (child (successRate queue))"
  by (simp add: successRate_def split: number.split)

lemma queue_fields:
  assumes "has_type api_QueueStats v"
  shows "\<not> nullish v" "has_type TString (opt_get v ''name'')" "has_type TString (opt_get v ''description'')"
    "has_type TNumber (opt_get v ''messagesInQueue'')" "has_type TNumber (opt_get v ''messagesProcessing'')"
    "has_type TNumber (opt_get v ''messagesCompleted'')" "has_type TNumber (opt_get v ''messagesFailed'')"
    "has_type TNumber (opt_get v ''averageProcessingTime'')" "has_type TString (opt_get v ''status'')"
  using assms by (cases v; simp add: api_QueueStats_def)+

lemma queue_card_renders:
  assumes "has_type api_QueueStats v"
  shows "renders (queue_card fmt v) \<longleftrightarrow> shows_date fmt ''HH:mm:ss'' (opt_get v ''lastProcessed'')"
proof -
  note f = queue_fields [OF assms]
  note texts = f(2,3,9) [THEN everywhere_child_str] f(4-8) [THEN everywhere_child_num]
  show ?thesis
    using f(1) by (simp add: queue_card_def labelled_count_def texts formatted_iff)
qed

lemma message_fields:
  assumes "has_type api_QueueMessage v"
  shows "\<not> nullish v" "has_type TString (opt_get v ''id'')" "has_type TString (opt_get v ''queueName'')"
    "\<exists>s. opt_get v ''type'' = Str s" "\<exists>s. opt_get v ''subject'' = Str s"
    "has_type TNumber (opt_get v ''priority'')" "has_type TString (opt_get v ''status'')"
  using assms by (cases v; force simp: api_QueueMessage_def dest: typed_str split: jsval.splits)+

definition message_dates :: "formats \<Rightarrow> jsval \<Rightarrow> bool" where
  "message_dates fmt v \<longleftrightarrow> shows_date fmt ''HH:mm:ss'' (opt_get v ''createdAt'') \<and>
     (truthy (opt_get v ''processedAt'') \<longrightarrow> shows_date fmt ''HH:mm:ss'' (opt_get v ''processedAt''))"

lemma message_row_renders:
  assumes "has_type api_QueueMessage v"
  shows "renders (message_row fmt v) \<longleftrightarrow> message_dates fmt v"
proof -
  note f = message_fields [OF assms]
  obtain t s where ts: "opt_get v ''type'' = Str t" "opt_get v ''subject'' = Str s"
    using f(4,5) by blast
  note texts = f(2,3,7) [THEN everywhere_child_str]
  show ?thesis
    using f(1) by (simp add: message_row_def texts ts formatted_iff message_dates_def js_or_def)
qed

text \<open>
  For any queues and messages of the declared types the page renders exactly when all their
  times are dates: one bad time of one message takes down the whole monitor.
\<close>

theorem queues_page_renders:
  assumes "\<forall>q \<in> set qs. has_type api_QueueStats q" and "\<forall>m \<in> set ms. has_type api_QueueMessage m"
  shows "renders (queues_view fmt False (Arr qs) (Arr ms)) \<longleftrightarrow>
     (\<forall>q \<in> set qs. shows_date fmt ''HH:mm:ss'' (opt_get q ''lastProcessed'')) \<and> (\<forall>m \<in> set ms. message_dates fmt m)"
proof -
  obtain a b c d where t: "total_of ''messagesInQueue'' (Arr qs) = Inr a"
      "total_of ''messagesProcessing'' (Arr qs) = Inr b" "total_of ''messagesCompleted'' (Arr qs) = Inr c"
      "total_of ''messagesFailed'' (Arr qs) = Inr d"
    using total_typed [OF assms(1)] by metis
  have cards: "(\<forall>q \<in> set qs. renders (queue_card fmt q)) \<longleftrightarrow>
      (\<forall>q \<in> set qs. shows_date fmt ''HH:mm:ss'' (opt_get q ''lastProcessed''))"
    using assms(1) queue_card_renders by (simp add: Ball_def)
  have "renders (each (Arr ms) (message_row fmt)) \<longleftrightarrow> (\<forall>m \<in> set ms. message_dates fmt m)"
    using assms(2) message_row_renders by (simp add: Ball_def)
  then have msgs: "renders (messages_card fmt (Arr ms)) \<longleftrightarrow> (\<forall>m \<in> set ms. message_dates fmt m)"
    by (cases ms) (simp_all add: messages_card_def titled_card_def heads_def list_all_iff some_messages_def as_number_def)
  have rest: "renders (page_header t1 t2 :: queues_event view)" "renders (totals_cards a b c d)" "renders features_card"
    for t1 t2 by (simp_all add: page_header_def totals_cards_def stat_card_def features_card_def feature_def everywhere_child_num)
  show ?thesis
    using rest cards by (simp add: queues_view_def Let_def t msgs)
qed

lemma mockQueues_typed: "has_type (TArray api_QueueStats) mockQueues"
  by (simp add: mockQueues_def mock_queue_def api_QueueStats_def)

theorem queues_page_renders_witness:
  "renders (queues_view \<lparr>iso_format = (\<lambda>_ _. None), date_format = (\<lambda>_ v. Some (js_to_string v))\<rparr>
     False mockQueues (Arr []))"
proof -
  obtain qs where qs: "mockQueues = Arr qs" "\<forall>q \<in> set qs. has_type api_QueueStats q"
    by (rule typed_array [OF mockQueues_typed])
  from queues_page_renders [OF qs(2), of "[]"] show ?thesis
    by (simp add: qs(1) shows_date_def)
qed

end
