(* ===== verification/Evaluations_Page.thy ===== *)
theory Evaluations_Page
  imports Reports_Page
begin

text \<open>
  \<^verbatim>\<open>app/dashboard/evaluations/page.tsx\<close>: the pending and the completed evaluations from
  \<open>useEvaluationStats\<close>, with links to their interviews.
\<close>

datatype evaluations_event = NoEvaluationsEvent

definition evaluations_recommendationLabels :: "(string \<times> string) list" where
  "evaluations_recommendationLabels = [
     (''strong_hire'', ''Strong Hire''), (''hire'', ''Hire''), (''maybe'', ''Maybe''), (''no_hire'', ''No Hire'')]"

definition evaluations_recommendationColors :: "(string \<times> string) list" where
  "evaluations_recommendationColors = [
     (''strong_hire'', ''bg-green-100 text-green-800 dark:bg-green-900 dark:text-green-200''),
     (''hire'', ''bg-blue-100 text-blue-800 dark:bg-blue-900 dark:text-blue-200''),
     (''maybe'', ''bg-yellow-100 text-yellow-800 dark:bg-yellow-900 dark:text-yellow-200''),
     (''no_hire'', ''bg-red-100 text-red-800 dark:bg-red-900 dark:text-red-200'')]"

definition evaluation_interview_href :: "jsval \<Rightarrow> string" where
  "evaluation_interview_href e = ''/dashboard/interviews/'' @ js_to_string (opt_get e ''interviewId'')"

definition evaluate_href :: "jsval \<Rightarrow> string" where
  "evaluate_href e = evaluation_interview_href e @ ''/evaluate''"

text \<open>A date once mounted; until then the server-rendered placeholder.\<close>

definition mounted_date :: "formats \<Rightarrow> bool \<Rightarrow> string \<Rightarrow> jsval \<Rightarrow> evaluations_event view" where
  "mounted_date fmt isMounted pattern v =
     (if isMounted then say (formatted fmt pattern v) else lbl ''Loading...'')"

definition pending_row :: "formats \<Rightarrow> bool \<Rightarrow> jsval \<Rightarrow> evaluations_event view" where
  "pending_row fmt isMounted evaluation =
     with_props evaluation (el ''div'' [(''key'', opt_get evaluation ''id'')] [] [
       box ''div'' [
         box ''div'' [
           box ''h3'' [child (js_or (opt_get evaluation ''candidateName'') (Str ''Unknown Candidate''))],
           el ''Badge'' [(''variant'', str ''secondary'')] [] [lbl ''Pending'']],
         box ''p'' [child (js_or (opt_get evaluation ''position'') (Str ''Unknown Position''))],
         box ''div'' [
           and_then (opt_get evaluation ''interviewDate'')
             (box ''span'' [lbl ''Interview: '',
                mounted_date fmt isMounted ''MMM dd, yyyy HH:mm'' (opt_get evaluation ''interviewDate'')]),
           box ''span'' [lbl ''Created: '',
             mounted_date fmt isMounted ''MMM dd, yyyy'' (opt_get evaluation ''createdAt'')]]],
       box ''div'' [
         link_button (Str (evaluation_interview_href evaluation)) ''View Interview'',
         link_button (Str (evaluate_href evaluation)) ''Submit Evaluation'']])"

text \<open>\<open>overallScore ? `${overallScore}/100` : "N/A"\<close> and \<open>{overallScore && <Progress ... />}\<close>\<close>

definition score_block :: "jsval \<Rightarrow> evaluations_event view" where
  "score_block overallScore =
     box ''div'' [
       box ''div'' [
         box ''span'' [lbl ''Overall Score''],
         box ''span'' [if truthy overallScore then lbl (js_to_string overallScore @ ''/100'') else lbl ''N/A'']],
       and_then overallScore (el ''Progress'' [(''value'', overallScore)] [] [])]"

definition completed_row :: "formats \<Rightarrow> bool \<Rightarrow> jsval \<Rightarrow> evaluations_event view" where
  "completed_row fmt isMounted evaluation =
     with_props evaluation (el ''div'' [(''key'', opt_get evaluation ''id'')] [] [
       box ''div'' [
         box ''div'' [
           box ''h3'' [child (js_or (opt_get evaluation ''candidateName'') (Str ''Unknown Candidate''))],
           and_then (opt_get evaluation ''recommendation'')
             (el ''Badge'' [(''className'', lookup evaluations_recommendationColors (opt_get evaluation ''recommendation''))] []
               [child (lookup evaluations_recommendationLabels (opt_get evaluation ''recommendation''))])],
         box ''p'' [child (js_or (opt_get evaluation ''position'') (Str ''Unknown Position''))],
         box ''div'' [score_block (opt_get evaluation ''overallScore'')],
         box ''p'' [lbl ''Submitted: '',
           mounted_date fmt isMounted ''MMM dd, yyyy HH:mm'' (opt_get evaluation ''updatedAt'')]],
       box ''div'' [link_button (Str (evaluation_interview_href evaluation)) ''View Details'']])"

definition evaluations_list ::
  "string \<Rightarrow> string \<Rightarrow> string \<Rightarrow> (jsval \<Rightarrow> evaluations_event view) \<Rightarrow> jsval \<Rightarrow> evaluations_event view" where
  "evaluations_list title description none row evaluations =
     box ''Card'' [
       box ''CardHeader'' [
         box ''CardTitle'' [lbl title, lbl '' ('', child (opt_get evaluations ''length''), lbl '')''],
         box ''CardDescription'' [lbl description]],
       box ''CardContent'' [box ''div'' [
         each evaluations row,
         when_shown (opt_get evaluations ''length'' = js_int 0) (box ''div'' [box ''p'' [lbl none]])]]]"

definition evaluations_stats_cards :: "jsval \<Rightarrow> jsval \<Rightarrow> evaluations_event view" where
  "evaluations_stats_cards pendingEvaluations completedEvaluations =
     box ''div'' [
       stat_card ''Pending'' (child (opt_get pendingEvaluations ''length'')) ''Awaiting your feedback'',
       stat_card ''Completed'' (child (opt_get completedEvaluations ''length'')) ''This week'',
       stat_card ''Avg. Time'' (lbl ''2.5h'') ''From interview to submission'']"

definition evaluations_view :: "formats \<Rightarrow> bool \<Rightarrow> bool \<Rightarrow> bool \<Rightarrow> jsval \<Rightarrow> evaluations_event view" where
  "evaluations_view fmt isMounted isLoading error stats =
     (if isLoading then spinner
      else if error then box ''div'' [box ''p'' [lbl ''Failed to load evaluations'']]
      else
        let pendingEvaluations = js_or (opt_get stats ''pending'') (Arr []);
            completedEvaluations = js_or (opt_get stats ''completed'') (Arr []);
            avgTimeHours = js_or (opt_get stats ''avgTimeHours'') (js_int 0)
        in box ''div'' [
          page_header ''Evaluations'' ''Review and submit interview evaluations'',
          evaluations_stats_cards pendingEvaluations completedEvaluations,
          evaluations_list ''Pending Evaluations'' ''Please complete these evaluations as soon as possible''
            ''No pending evaluations'' (pending_row fmt isMounted) pendingEvaluations,
          evaluations_list ''Recently Completed'' ''Your recently submitted evaluations''
            ''No completed evaluations'' (completed_row fmt isMounted) completedEvaluations])"

section \<open>Rendering\<close>

definition evaluation_links :: "jsval list \<Rightarrow> jsval list \<Rightarrow> jsval set" where
  "evaluation_links ps cs =
     (\<lambda>e. Str (evaluation_interview_href e)) ` (set ps \<union> set cs) \<union> (\<lambda>e. Str (evaluate_href e)) ` set ps"

text \<open>The dates a row shows.\<close>

definition pending_dates :: "formats \<Rightarrow> jsval \<Rightarrow> bool" where
  "pending_dates fmt e \<longleftrightarrow>
     (truthy (opt_get e ''interviewDate'') \<longrightarrow> shows_date fmt ''MMM dd, yyyy HH:mm'' (opt_get e ''interviewDate''))
     \<and> shows_date fmt ''MMM dd, yyyy'' (opt_get e ''createdAt'')"

definition completed_date :: "formats \<Rightarrow> jsval \<Rightarrow> bool" where
  "completed_date fmt e \<longleftrightarrow> shows_date fmt ''MMM dd, yyyy HH:mm'' (opt_get e ''updatedAt'')"

text \<open>What a row needs of an evaluation: texts where it shows texts, numbers where numbers.\<close>

definition row_type :: ts where
  "row_type = TIface [
     (''candidateName'', True, TString), (''position'', True, TString),
     (''overallScore'', False, TNumber), (''recommendation'', False, TLits [''strong_hire'', ''hire'', ''maybe'', ''no_hire''])]"

lemma EvaluationWithInterview_row: "has_type EvaluationWithInterview v \<Longrightarrow> has_type row_type v"
  by (rule subtype_sound [of EvaluationWithInterview])
     (simp_all add: EvaluationWithInterview_def row_type_def index_Evaluation_def)

lemma everywhere_mounted [simp]:
  "everywhere Q (mounted_date fmt isMounted p v) \<longleftrightarrow> (isMounted \<longrightarrow> shows_date fmt p v)"
  by (simp add: mounted_date_def formatted_iff)

lemma js_or_optional_str: "v = Undef \<or> has_type TString v \<Longrightarrow> everywhere Q (child (js_or v (Str d)))"
  by (cases v) (auto simp: js_or_def)

lemma row_fields:
  assumes "has_type row_type e"
  shows "\<not> nullish e" "everywhere Q (child (js_or (opt_get e ''candidateName'') (Str d)))"
    "everywhere Q (child (js_or (opt_get e ''position'') (Str d)))" "has_type TNumber (opt_get e ''overallScore'')"
    "truthy (opt_get e ''recommendation'') \<or> everywhere Q (child (opt_get e ''recommendation''))"
proof -
  obtain kvs where e: "e = Obj kvs" using has_type_iface_obj assms unfolding row_type_def by blast
  then have f: "field kvs ''candidateName'' = Undef \<or> has_type TString (field kvs ''candidateName'')"
    "field kvs ''position'' = Undef \<or> has_type TString (field kvs ''position'')"
    "has_type TNumber (field kvs ''overallScore'')"
    using assms by (simp_all add: row_type_def)
  show "\<not> nullish e" "has_type TNumber (opt_get e ''overallScore'')" using e f(3) by simp_all
  show "everywhere Q (child (js_or (opt_get e ''candidateName'') (Str d)))"
    "everywhere Q (child (js_or (opt_get e ''position'') (Str d)))"
    using js_or_optional_str f(1,2) e by simp_all
  show "truthy (opt_get e ''recommendation'') \<or> everywhere Q (child (opt_get e ''recommendation''))"
    by (cases "truthy (opt_get e ''recommendation'')") simp_all
qed

lemma pending_row_everywhere:
  assumes "has_type row_type e" "Q ''Link'' [(''href'', Str (evaluation_interview_href e))] []"
    "Q ''Link'' [(''href'', Str (evaluate_href e))] []" "\<And>tag as hs. tag \<noteq> ''Link'' \<Longrightarrow> Q tag as hs"
  shows "everywhere Q (pending_row fmt isMounted e) \<longleftrightarrow> (isMounted \<longrightarrow> pending_dates fmt e)"
  using row_fields [OF assms(1)] assms(2-4)
  by (auto simp: pending_row_def pending_dates_def link_button_def)

lemma score_block_everywhere:
  assumes "has_type TNumber v" "\<And>tag as hs. tag \<noteq> ''Link'' \<Longrightarrow> Q tag as hs"
  shows "everywhere Q (score_block v)"
  using assms by (cases v) (simp_all add: score_block_def)

lemma completed_row_everywhere:
  assumes "has_type row_type e" "Q ''Link'' [(''href'', Str (evaluation_interview_href e))] []"
    "\<And>tag as hs. tag \<noteq> ''Link'' \<Longrightarrow> Q tag as hs"
  shows "everywhere Q (completed_row fmt isMounted e) \<longleftrightarrow> (isMounted \<longrightarrow> completed_date fmt e)"
  using row_fields [OF assms(1)] assms(2,3) score_block_everywhere [of "opt_get e ''overallScore''" Q]
  by (auto simp: completed_row_def completed_date_def link_button_def)

lemma evaluations_list_everywhere:
  assumes "\<And>tag as hs. tag \<noteq> ''Link'' \<Longrightarrow> Q tag as hs"
  shows "everywhere Q (evaluations_list t d n row (Arr vs)) \<longleftrightarrow> (\<forall>v \<in> set vs. everywhere Q (row v))"
  using assms by (auto simp: evaluations_list_def)

definition stats_with :: "jsval list \<Rightarrow> jsval list \<Rightarrow> jsval \<Rightarrow> jsval" where
  "stats_with ps cs avg = Obj [(''pending'', Arr ps), (''completed'', Arr cs), (''avgTimeHours'', avg)]"

text \<open>
  For evaluations of the declared type the mounted page renders exactly when the dates it shows
  are dates; then every link leads to the interview of a listed evaluation or to the evaluation
  form of a pending one.
\<close>

theorem evaluations_page_renders:
  assumes "\<forall>e \<in> set ps \<union> set cs. has_type EvaluationWithInterview e"
  shows "everywhere (links_to (evaluation_links ps cs)) (evaluations_view fmt True False False (stats_with ps cs avg)) \<longleftrightarrow>
     (\<forall>e \<in> set ps. pending_dates fmt e) \<and> (\<forall>e \<in> set cs. completed_date fmt e)"
proof -
  let ?Q = "links_to (evaluation_links ps cs)"
  have p: "everywhere ?Q (pending_row fmt True e) \<longleftrightarrow> pending_dates fmt e" if "e \<in> set ps" for e
    using that assms EvaluationWithInterview_row [of e]
    by (subst pending_row_everywhere) (auto simp: evaluation_links_def)
  have c: "everywhere ?Q (completed_row fmt True e) \<longleftrightarrow> completed_date fmt e" if "e \<in> set cs" for e
    using that assms EvaluationWithInterview_row [of e]
    by (subst completed_row_everywhere) (auto simp: evaluation_links_def)
  show ?thesis
    using p c
    by (simp add: evaluations_view_def Let_def stats_with_def evaluations_stats_cards_def evaluations_list_everywhere)
qed

definition sample_evaluation :: jsval where
  "sample_evaluation = Obj [
     (''id'', Str ''e1''), (''interviewId'', Str ''i1''), (''evaluatorId'', Str ''u1''), (''evaluatorName'', Str ''Bob''),
     (''technicalScore'', js_int 7), (''communicationScore'', js_int 7), (''cultureFitScore'', js_int 7),
     (''overallScore'', js_int 0), (''strengths'', Arr []), (''weaknesses'', Arr []),
     (''recommendation'', Str ''hire''), (''notes'', Str []), (''status'', Str ''pending''),
     (''createdAt'', Str ''2025''), (''updatedAt'', Str ''2025'')]"

lemma sample_evaluation_typed: "has_type EvaluationWithInterview sample_evaluation"
  by (simp add: EvaluationWithInterview_def index_Evaluation_def index_EvaluationStatus_def sample_evaluation_def)

theorem evaluations_page_renders_witness:
  "everywhere (links_to (evaluation_links [sample_evaluation] []))
     (evaluations_view \<lparr>iso_format = (\<lambda>_ _. None), date_format = (\<lambda>_ v. Some (js_to_string v))\<rparr>
        True False False (stats_with [sample_evaluation] [] Undef))"
proof -
  have "\<forall>e \<in> set [sample_evaluation] \<union> set []. has_type EvaluationWithInterview e"
    using sample_evaluation_typed by simp
  from evaluations_page_renders [OF this] show ?thesis
    by (simp add: pending_dates_def shows_date_def)
qed

section \<open>What the page does not show\<close>

text \<open>
  The average time of the statistics never reaches the screen: the card always reads 2.5h, and
  pages that differ only in the average are equal.
\<close>

theorem average_time_not_shown:
  "evaluations_view fmt isMounted isLoading error (stats_with ps cs avg) =
     evaluations_view fmt isMounted isLoading error (stats_with ps cs avg')
   \<and> texts (evaluations_stats_cards (Arr ps) (Arr cs)) =
      [''Pending'', show_rat (of_nat (length ps)), ''Awaiting your feedback'',
       ''Completed'', show_rat (of_nat (length cs)), ''This week'',
       ''Avg. Time'', ''2.5h'', ''From interview to submission'']"
  by (simp add: evaluations_view_def stats_with_def Let_def evaluations_stats_cards_def texts_def stat_card_def lbl_def)

text \<open>An overall score of 0 reads as missing, and leaves a stray 0 where the bar would be.\<close>

lemma zero_score_stray: "texts (score_block (js_int 0)) = [''Overall Score'', ''N/A'', show_rat 0]"
  by (simp add: score_block_def texts_def lbl_def)

end
