(* ===== verification/Dashboard_Page.thy ===== *)
theory Dashboard_Page
  imports Interviews_Page Live_Updates
begin

text \<open>
  \<^verbatim>\<open>app/dashboard/page.tsx\<close>: the overview, with four queries of its own, four counters and three
  short lists. Dates that do not parse are shown as such; the other pages let them throw.
\<close>

datatype dashboard_event = ReloadPage | GoToNewInterview

section \<open>Queries\<close>

definition recent_params :: jsval where
  "recent_params = Obj [(''page'', js_int 1), (''pageSize'', js_int 5)]"

definition dashboard_stats_query :: "'w server \<Rightarrow> 'w query" where
  "dashboard_stats_query srv = polled 30000 (query [key ''dashboardStats''] (getDashboardStats srv))"

definition recent_interviews_query :: "'w server \<Rightarrow> 'w query" where
  "recent_interviews_query srv =
     polled 30000 (query [key ''recentInterviews''] (listInterviews srv recent_params))"

definition pending_evaluations_query :: "'w server \<Rightarrow> 'w query" where
  "pending_evaluations_query srv =
     polled 30000 (query [key ''pendingEvaluations''] (getPendingEvaluations srv))"

definition recent_reports_query :: "'w server \<Rightarrow> 'w query" where
  "recent_reports_query srv =
     polled 30000 (query [key ''recentReports''] (listReports srv recent_params))"

definition dashboard_queries :: "'w server \<Rightarrow> 'w query list" where
  "dashboard_queries srv =
     [dashboard_stats_query srv, recent_interviews_query srv, pending_evaluations_query srv,
      recent_reports_query srv]"

lemmas dashboard_query_defs = dashboard_stats_query_def recent_interviews_query_def
  pending_evaluations_query_def recent_reports_query_def

section \<open>The view\<close>

definition StatCard :: "string \<Rightarrow> jsval \<Rightarrow> string \<Rightarrow> bool \<Rightarrow> dashboard_event view" where
  "StatCard title value description isLoading =
     (if isLoading
      then box ''Card'' [
        box ''CardHeader'' [box ''CardTitle'' [lbl title]],
        box ''CardContent'' [LoadingState (Some 1) None]]
      else stat_card title (child value) description)"

definition dashboard_formatDate :: "formats \<Rightarrow> jsval \<Rightarrow> string" where
  "dashboard_formatDate fmt d =
     (case iso_format fmt ''MMM dd, yyyy 'at' HH:mm'' d of None \<Rightarrow> ''Invalid date'' | Some s \<Rightarrow> s)"

definition dashboard_colors :: "(string \<times> string) list" where
  "dashboard_colors = [
     (''pending'', ''bg-yellow-100 text-yellow-800''),
     (''scheduled'', ''bg-blue-100 text-blue-800''),
     (''in_progress'', ''bg-purple-100 text-purple-800''),
     (''completed'', ''bg-green-100 text-green-800''),
     (''cancelled'', ''bg-red-100 text-red-800'')]"

definition getStatusColor :: "jsval \<Rightarrow> jsval" where
  "getStatusColor st = js_or (lookup dashboard_colors st) (Str ''bg-gray-100 text-gray-800'')"

text \<open>\<open>xs.slice(0, n)\<close>, and the list of at most \<open>n\<close> rows with the link below it.\<close>

definition first_rows :: "nat \<Rightarrow> (jsval \<Rightarrow> dashboard_event view) \<Rightarrow> jsval \<Rightarrow> dashboard_event view" where
  "first_rows n row xs =
     (case xs of
        Arr vs \<Rightarrow> views (map row (take n vs))
      | Str s \<Rightarrow> Inl (TypeError ''map is not a function'')
      | _ \<Rightarrow> Inl (TypeError ''slice is not a function''))"

definition short_list ::
  "string \<Rightarrow> string \<Rightarrow> bool \<Rightarrow> jsval \<Rightarrow> dashboard_event view \<Rightarrow> dashboard_event view \<Rightarrow> dashboard_event view" where
  "short_list title description isLoading xs none rows =
     titled_card title description [
       if isLoading then LoadingState (Some 3) (Some ''list'')
       else if opt_get xs ''length'' = js_int 0 then none
       else rows]"

definition recent_interview :: "formats \<Rightarrow> jsval \<Rightarrow> dashboard_event view" where
  "recent_interview fmt interview =
     with_props interview (el ''div'' [(''key'', opt_get interview ''id'')] [] [
       box ''div'' [
         box ''p'' [child (opt_get interview ''candidateName'')],
         box ''p'' [child (opt_get interview ''position'')],
         box ''p'' [lbl (dashboard_formatDate fmt (opt_get interview ''scheduledAt''))]],
       el ''Badge'' [(''className'', getStatusColor (opt_get interview ''status''))] []
         [child (opt_get interview ''status'')]])"

definition pending_evaluation :: "formats \<Rightarrow> jsval \<Rightarrow> dashboard_event view" where
  "pending_evaluation fmt evaluation =
     with_props evaluation (el ''div'' [(''key'', opt_get evaluation ''id'')] [] [
       box ''div'' [
         box ''p'' [lbl ''Interview #'', say (str_call (take 8) (opt_get evaluation ''interviewId''))],
         box ''p'' [child (opt_get evaluation ''evaluatorName'')],
         box ''p'' [lbl (dashboard_formatDate fmt (opt_get evaluation ''createdAt''))]],
       el ''Badge'' [(''variant'', str ''outline'')] [] [child (opt_get evaluation ''status'')]])"

text \<open>\<open>v?.toFixed(1) || 0\<close>\<close>

definition fixed1_or_0 :: "jsval \<Rightarrow> exn + jsval" where
  "fixed1_or_0 v =
     (if nullish v then Inr (js_int 0)
      else bind_res (num_call number_fixed1 v) (\<lambda>s. Inr (js_or (Str s) (js_int 0))))"

text \<open>The bullet between the two texts of a report is not in Latin-1; it is written as a star.\<close>

definition recent_report :: "jsval \<Rightarrow> dashboard_event view" where
  "recent_report report =
     with_props report (el ''div'' [(''key'', opt_get report ''id'')] [] [
       box ''div'' [
         box ''p'' [child (opt_get report ''candidateName'')],
         box ''p'' [child (opt_get report ''position'')],
         box ''div'' [
           box ''span'' [child (opt_get report ''evaluationCount''), lbl '' evaluations''],
           box ''span'' [lbl ''*''],
           box ''span'' [lbl ''Overall: '',
             bind_res (fixed1_or_0 (opt_get report ''averageOverall'')) child, lbl ''/10'']]],
       el ''Badge'' [(''className'', getStatusColor (opt_get report ''status''))] []
         [child (opt_get report ''status'')]])"

text \<open>What the four queries hold: their data, and whether they are loading.\<close>

record dashboard_data =
  stats :: jsval
  interviewsResponse :: jsval
  pendingEvals :: jsval
  reportsResponse :: jsval
  statsLoading :: bool
  interviewsLoading :: bool
  evalsLoading :: bool
  reportsLoading :: bool

definition stats_cards :: "dashboard_data \<Rightarrow> dashboard_event view" where
  "stats_cards d =
     bind_res (fixed1_or_0 (opt_get (stats d) ''averageEvaluationTime'')) (\<lambda>time.
     box ''div'' [
       StatCard ''Total Interviews'' (js_or (opt_get (stats d) ''totalInterviews'') (js_int 0))
         ''All scheduled interviews'' (statsLoading d),
       StatCard ''Pending Evaluations'' (js_or (opt_get (stats d) ''pendingEvaluations'') (js_int 0))
         ''Awaiting review'' (statsLoading d),
       StatCard ''Completed Reports'' (js_or (opt_get (stats d) ''completedReports'') (js_int 0))
         ''Generated reports'' (statsLoading d),
       StatCard ''Avg Evaluation Time'' (Str (js_to_string time @ ''h''))
         ''Average processing time'' (statsLoading d)])"

definition recent_interviews_card :: "formats \<Rightarrow> dashboard_data \<Rightarrow> jsval \<Rightarrow> dashboard_event view" where
  "recent_interviews_card fmt d recentInterviews =
     short_list ''Recent Interviews'' ''Latest scheduled interviews'' (interviewsLoading d) recentInterviews
       (EmptyState False ''No interviews yet'' (Some ''Schedule your first interview to get started'')
          (Some (''Schedule Interview'', GoToNewInterview)))
       (box ''div'' [first_rows 3 (recent_interview fmt) recentInterviews,
          link_button (str ''/dashboard/interviews'') ''View All Interviews''])"

definition pending_evaluations_card :: "formats \<Rightarrow> dashboard_data \<Rightarrow> jsval \<Rightarrow> dashboard_event view" where
  "pending_evaluations_card fmt d pendingEvaluations =
     short_list ''Pending Evaluations'' ''Waiting for review'' (evalsLoading d) pendingEvaluations
       (EmptyState False ''No pending evaluations'' (Some ''All evaluations are up to date'') None)
       (box ''div'' [first_rows 3 (pending_evaluation fmt) pendingEvaluations,
          link_button (str ''/dashboard/evaluations'') ''View All Evaluations''])"

definition recent_reports_card :: "dashboard_data \<Rightarrow> jsval \<Rightarrow> dashboard_event view" where
  "recent_reports_card d recentReports =
     short_list ''Recent Reports'' ''Latest generated reports'' (reportsLoading d) recentReports
       (EmptyState False ''No reports yet'' (Some ''Reports will appear here once generated'') None)
       (box ''div'' [first_rows 5 recent_report recentReports,
          link_button (str ''/dashboard/reports'') ''View All Reports''])"

definition dashboard_view :: "formats \<Rightarrow> bool \<Rightarrow> dashboard_data \<Rightarrow> dashboard_event view" where
  "dashboard_view fmt statsError d =
     (let recentInterviews = js_or (opt_get (interviewsResponse d) ''data'') (Arr []);
          pendingEvaluations = js_or (pendingEvals d) (Arr []);
          recentReports = js_or (opt_get (reportsResponse d) ''data'') (Arr [])
      in if statsError
         then box ''div'' [ErrorState None ''Failed to load dashboard data. Please try again.'' (Some ReloadPage)]
         else box ''div'' [
           page_header ''Dashboard'' ''Overview of interview platform activity'',
           stats_cards d,
           box ''div'' [
             recent_interviews_card fmt d recentInterviews,
             pending_evaluations_card fmt d pendingEvaluations],
           recent_reports_card d recentReports])"

section \<open>Live updates do not reach the dashboard\<close>

lemma not_refreshed:
  "k \<notin> {''interviews'', ''interview'', ''evaluations'', ''reports''} \<Longrightarrow> \<not> refreshed_by ty d [Str k]"
  by (auto simp: refreshed_by_def interviewKeys_all_def evaluationKeys_all_def reportKeys_all_def)

lemma dashboard_keys:
  "q \<in> set (dashboard_queries srv) \<Longrightarrow> refetchInterval q = Some 30000 \<and> enabled q \<and>
     (\<exists>k. queryKey q = [Str k] \<and> k \<notin> {''interviews'', ''interview'', ''evaluations'', ''reports''})"
  by (auto simp: dashboard_queries_def dashboard_query_defs query_defs)



section \<open>Rendering\<close>

definition dashboard_links :: "jsval set" where
  "dashboard_links = Str ` {''/dashboard/interviews'', ''/dashboard/evaluations'', ''/dashboard/reports''}"

lemma first_rows_everywhere [simp]:
  "everywhere Q (first_rows n row (Arr vs)) \<longleftrightarrow> (\<forall>v \<in> set (take n vs). everywhere Q (row v))"
  by (simp add: first_rows_def list_all_iff)

lemma short_list_everywhere [simp]:
  "everywhere (links_to S) (short_list t d loading xs none rows) \<longleftrightarrow>
     loading \<or> (if opt_get xs ''length'' = js_int 0 then everywhere (links_to S) none
                else everywhere (links_to S) rows)"
  by (simp add: short_list_def)

lemma StatCard_everywhere [simp]:
  "everywhere (links_to S) (StatCard t v d loading) \<longleftrightarrow> loading \<or> everywhere (links_to S) (child v :: dashboard_event view)"
  by (simp add: StatCard_def)

lemma fixed1_or_0_num: "has_type TNumber v \<Longrightarrow> \<exists>s. fixed1_or_0 v = Inr (Str s) \<or> fixed1_or_0 v = Inr (js_int 0)"
  by (cases v) (auto simp: fixed1_or_0_def js_or_def)

lemma fixed1_child: "has_type TNumber v \<Longrightarrow> everywhere Q (bind_res (fixed1_or_0 v) child)"
  using fixed1_or_0_num [of v] by auto

lemma js_or_num_child: "has_type TNumber v \<Longrightarrow> everywhere Q (child (js_or v (Num (Fin 0))))"
  by (cases v) (auto simp: js_or_def)

lemma recent_interview_everywhere:
  "has_type api_Interview v \<Longrightarrow> everywhere (links_to S) (recent_interview fmt v)"
proof -
  assume t: "has_type api_Interview v"
  note f = typed_fields [OF t]
  obtain st where "opt_get v ''status'' = Str st" by (rule typed_status [OF t])
  with f(1) show ?thesis
    by (simp add: recent_interview_def f(4,6) [THEN everywhere_child_str])
qed

lemma pending_evaluation_everywhere:
  assumes "has_type api_Evaluation v"
  shows "everywhere (links_to S) (pending_evaluation fmt v)"
proof -
  have n: "\<not> nullish v" and f: "has_type TString (opt_get v ''evaluatorName'')" "has_type TString (opt_get v ''interviewId'')"
      and st: "has_type api_EvaluationStatus (opt_get v ''status'')"
    using assms by (cases v; simp add: api_Evaluation_def)+
  obtain i where i: "opt_get v ''interviewId'' = Str i" using typed_str [OF f(2)] by blast
  have "everywhere (links_to S) (child (opt_get v ''status'') :: dashboard_event view)"
    using st by (cases "opt_get v ''status''") (simp_all add: api_EvaluationStatus_def)
  with n show ?thesis
    by (simp add: pending_evaluation_def i everywhere_child_str [OF f(1)])
qed

lemma recent_report_everywhere:
  assumes "has_type api_Report v"
  shows "everywhere (links_to S) (recent_report v)"
proof -
  have n: "\<not> nullish v" and f: "has_type TString (opt_get v ''candidateName'')" "has_type TString (opt_get v ''position'')"
    "has_type TNumber (opt_get v ''evaluationCount'')" "has_type TNumber (opt_get v ''averageOverall'')"
      and st: "has_type api_ReportStatus (opt_get v ''status'')"
    using assms by (cases v; simp add: api_Report_def)+
  have "everywhere (links_to S) (child (opt_get v ''status'') :: dashboard_event view)"
    using st by (cases "opt_get v ''status''") (simp_all add: api_ReportStatus_def)
  with n show ?thesis
    by (simp add: recent_report_def f(1,2) [THEN everywhere_child_str] everywhere_child_num [OF f(3)] fixed1_child [OF f(4)])
qed

text \<open>The queries hold data of their types, or nothing yet.\<close>

definition held :: "ts \<Rightarrow> jsval \<Rightarrow> bool" where
  "held t v \<longleftrightarrow> v = Undef \<or> has_type t v"

definition dashboard_typed :: "dashboard_data \<Rightarrow> bool" where
  "dashboard_typed d \<longleftrightarrow> held api_DashboardStats (stats d)
     \<and> held (api_PaginatedResponse api_Interview) (interviewsResponse d)
     \<and> held (TArray api_Evaluation) (pendingEvals d)
     \<and> held (api_PaginatedResponse api_Report) (reportsResponse d)"

lemma held_page:
  assumes "held (api_PaginatedResponse t) v"
  obtains vs where "js_or (opt_get v ''data'') (Arr []) = Arr vs" "\<forall>x \<in> set vs. has_type t x"
proof (cases "v = Undef")
  case True
  with that [of "[]"] show thesis by simp
next
  case False
  then have "has_type (TArray t) (opt_get v ''data'')"
    using assms by (cases v) (simp_all add: held_def api_PaginatedResponse_def)
  then obtain vs where "opt_get v ''data'' = Arr vs" "\<forall>x \<in> set vs. has_type t x"
    by (rule typed_array)
  with that show thesis by simp
qed

lemma held_array:
  assumes "held (TArray t) v"
  obtains vs where "js_or v (Arr []) = Arr vs" "\<forall>x \<in> set vs. has_type t x"
proof (cases "v = Undef")
  case True
  with that [of "[]"] show thesis by simp
next
  case False
  with assms have "has_type (TArray t) v" by (simp add: held_def)
  then obtain vs where "v = Arr vs" "\<forall>x \<in> set vs. has_type t x" by (rule typed_array)
  with that show thesis by simp
qed

lemma stats_cards_everywhere:
  assumes "held api_DashboardStats (stats d)"
  shows "everywhere (links_to S) (stats_cards d)"
proof (cases "stats d = Undef")
  case True
  then show ?thesis by (simp add: stats_cards_def fixed1_or_0_def)
next
  case False
  then have f: "has_type TNumber (opt_get (stats d) ''totalInterviews'')" "has_type TNumber (opt_get (stats d) ''pendingEvaluations'')"
    "has_type TNumber (opt_get (stats d) ''completedReports'')" "has_type TNumber (opt_get (stats d) ''averageEvaluationTime'')"
    using assms by (cases "stats d"; simp add: held_def api_DashboardStats_def)+
  obtain t where "fixed1_or_0 (opt_get (stats d) ''averageEvaluationTime'') = Inr t"
    using fixed1_or_0_num [OF f(4)] by blast
  then show ?thesis by (simp add: stats_cards_def f(1-3) [THEN js_or_num_child])
qed

text \<open>
  The dashboard renders for all data of the declared types and while any query is still
  loading, with dates that do not parse too; its links lead to the three list pages.
\<close>

theorem dashboard_renders:
  assumes "dashboard_typed d"
  shows "renders (dashboard_view fmt statsError d) \<and> set (links (dashboard_view fmt statsError d)) \<subseteq> dashboard_links"
proof -
  obtain vs where i: "js_or (opt_get (interviewsResponse d) ''data'') (Arr []) = Arr vs" "\<forall>x \<in> set vs. has_type api_Interview x"
    using assms held_page unfolding dashboard_typed_def by blast
  obtain es where e: "js_or (pendingEvals d) (Arr []) = Arr es" "\<forall>x \<in> set es. has_type api_Evaluation x"
    using assms held_array unfolding dashboard_typed_def by blast
  obtain rs where r: "js_or (opt_get (reportsResponse d) ''data'') (Arr []) = Arr rs" "\<forall>x \<in> set rs. has_type api_Report x"
    using assms held_page unfolding dashboard_typed_def by blast
  let ?L = "links_to dashboard_links"
  have "everywhere ?L (recent_interviews_card fmt d (Arr vs))"
    using i(2) by (auto simp: recent_interviews_card_def dashboard_links_def recent_interview_everywhere dest: in_set_takeD)
  moreover have "everywhere ?L (pending_evaluations_card fmt d (Arr es))"
    using e(2) by (auto simp: pending_evaluations_card_def dashboard_links_def pending_evaluation_everywhere dest: in_set_takeD)
  moreover have "everywhere ?L (recent_reports_card d (Arr rs))"
    using r(2) by (auto simp: recent_reports_card_def dashboard_links_def recent_report_everywhere dest: in_set_takeD)
  moreover have "everywhere ?L (stats_cards d)"
    using assms stats_cards_everywhere by (simp add: dashboard_typed_def)
  ultimately have "everywhere ?L (dashboard_view fmt statsError d)"
    by (simp add: dashboard_view_def Let_def i(1) e(1) r(1))
  then show ?thesis using everywhere_renders everywhere_links by blast
qed

theorem dashboard_renders_witness:
  "renders (dashboard_view \<lparr>iso_format = (\<lambda>_ _. None), date_format = (\<lambda>_ _. None)\<rparr> False
     \<lparr>stats = Undef, interviewsResponse = sample_page, pendingEvals = Undef, reportsResponse = Undef,
      statsLoading = False, interviewsLoading = False, evalsLoading = True, reportsLoading = True\<rparr>)"
  by (rule dashboard_renders [THEN conjunct1]) (simp add: dashboard_typed_def held_def sample_page_typed)

text \<open>The same average is out of 10 here and out of 100 on the page of reports.\<close>

lemma average_out_of_10:
  assumes "has_type api_Report v" "opt_get v ''averageOverall'' = Num (Fin x)"
  shows "\<exists>a b. texts (recent_report v) = a @ [''Overall: '', to_fixed1 x, ''/10''] @ b"
proof -
  have n: "\<not> nullish v" and f: "has_type TString (opt_get v ''candidateName'')" "has_type TString (opt_get v ''position'')"
    "has_type TNumber (opt_get v ''evaluationCount'')" "has_type api_ReportStatus (opt_get v ''status'')"
    using assms(1) by (cases v; simp add: api_Report_def)+
  obtain c p k where s: "opt_get v ''candidateName'' = Str c" "opt_get v ''position'' = Str p" "opt_get v ''evaluationCount'' = Num k"
    using typed_str [OF f(1)] typed_str [OF f(2)] typed_num [OF f(3)] by blast
  obtain st where st: "opt_get v ''status'' = Str st"
    using f(4) by (cases "opt_get v ''status''") (simp_all add: api_ReportStatus_def)
  have "to_fixed1 x \<noteq> []" by (simp add: to_fixed1_def Let_def)
  then have "fixed1_or_0 (opt_get v ''averageOverall'') = Inr (Str (to_fixed1 x))"
    by (simp add: fixed1_or_0_def assms(2) number_fixed1_def)
  with n s st have "texts (recent_report v) = [c, p, js_to_string (Num k), '' evaluations'', ''*''] @ [''Overall: '', to_fixed1 x, ''/10''] @ [st]"
    by (simp add: recent_report_def texts_def)
  then show ?thesis by blast
qed

end
