(* ===== verification/Navigation.thy ===== *)
theory Navigation
  imports Dashboard_Page Evaluations_Page
begin

text \<open>
  The frame around the pages: the layouts, the side bar and the header of the dashboard, the
  start page, the sign-in pages, the route guard of \<^verbatim>\<open>middleware.ts\<close> and the options of the query
  client. The properties follow every link of the site to the page it names, and say which paths
  the guard protects. Whether someone is signed in is a parameter, as are Clerk's route matcher
  and its \<open>protect\<close>. Dashes and bullets outside Latin-1 are written in ASCII.
\<close>

datatype navigation_event = NoNavigationEvent

section \<open>Layouts and providers\<close>

record query_defaults =
  staleTime :: nat
  retry :: nat

definition queryClient_defaults :: query_defaults where
  "queryClient_defaults = \<lparr>staleTime = 60 * 1000, retry = 1\<rparr>"

definition QueryProvider :: "'h view \<Rightarrow> 'h view" where
  "QueryProvider children = box ''QueryClientProvider'' [children]"

definition metadata :: "string \<times> string" where
  "metadata = (''Interview Evaluation Platform'',
     ''Streamlined interview scheduling and evaluation system powered by Nzovu'')"

definition RootLayout :: "'h view \<Rightarrow> 'h view" where
  "RootLayout children =
     box ''ClerkProvider'' [
       el ''html'' [(''lang'', str ''en'')] [] [
         box ''body'' [QueryProvider (views [children, box ''Toaster'' []])]]]"

section \<open>The side bar\<close>

record nav_item =
  nav_name :: string
  nav_href :: string
  nav_badge :: "string option"

definition navigation :: "nav_item list" where
  "navigation = [
     \<lparr>nav_name = ''Dashboard'', nav_href = ''/dashboard'', nav_badge = None\<rparr>,
     \<lparr>nav_name = ''Interviews'', nav_href = ''/dashboard/interviews'', nav_badge = None\<rparr>,
     \<lparr>nav_name = ''Evaluations'', nav_href = ''/dashboard/evaluations'', nav_badge = Some ''3''\<rparr>,
     \<lparr>nav_name = ''Reports'', nav_href = ''/dashboard/reports'', nav_badge = None\<rparr>,
     \<lparr>nav_name = ''Queue Monitor'', nav_href = ''/dashboard/queues'', nav_badge = None\<rparr>]"

definition isActive :: "string option \<Rightarrow> nav_item \<Rightarrow> bool" where
  "isActive pathname item \<longleftrightarrow>
     pathname = Some (nav_href item)
     \<or> (case pathname of None \<Rightarrow> False | Some p \<Rightarrow> js_starts_with p (nav_href item @ ''/''))"

definition nav_link :: "string option \<Rightarrow> nav_item \<Rightarrow> 'h view" where
  "nav_link pathname item =
     el ''Link'' [
       (''key'', Str (nav_name item)),
       (''href'', Str (nav_href item)),
       (''className'', Str (if isActive pathname item
          then ''bg-blue-100 text-blue-900 dark:bg-blue-900 dark:text-blue-100''
          else ''text-gray-700 hover:bg-gray-100 dark:text-gray-300 dark:hover:bg-gray-800''))] [] [
       box ''div'' [box ''span'' [lbl (nav_name item)]],
       (case nav_badge item of
          None \<Rightarrow> nothing
        | Some b \<Rightarrow> when_shown (b \<noteq> []) (el ''Badge'' [(''variant'', str ''secondary'')] [] [lbl b]))]"

definition Sidebar :: "string option \<Rightarrow> 'h view" where
  "Sidebar pathname =
     box ''div'' [
       box ''div'' [link (str ''/dashboard'') [box ''span'' [lbl ''Interview Platform'']]],
       box ''nav'' (map (nav_link pathname) navigation),
       box ''div'' [box ''div'' [box ''div'' [
         el ''UserButton'' [(''afterSignOutUrl'', str ''/'')] [] [],
         box ''div'' [box ''span'' [lbl ''Your Account''], box ''span'' [lbl ''Manage profile'']]]]]]"

section \<open>The header\<close>

definition notification_item :: "string \<Rightarrow> string \<Rightarrow> string \<Rightarrow> 'h view" where
  "notification_item title time message =
     box ''DropdownMenuItem'' [
       box ''div'' [box ''span'' [lbl title], box ''span'' [lbl time]],
       box ''p'' [lbl message]]"

definition Header :: "'h view" where
  "Header =
     box ''header'' [
       box ''div'' [box ''div'' [
         el ''Input'' [(''type'', str ''search''), (''placeholder'', str ''Search interviews, candidates...'')] [] []]],
       box ''div'' [
         box ''DropdownMenu'' [
           box ''DropdownMenuTrigger'' [el ''Button'' [(''variant'', str ''ghost''), (''size'', str ''icon'')] [] [
             el ''Badge'' [(''variant'', str ''destructive'')] [] [lbl ''3'']]],
           el ''DropdownMenuContent'' [(''align'', str ''end'')] [] [
             box ''DropdownMenuLabel'' [lbl ''Notifications''],
             box ''DropdownMenuSeparator'' [],
             notification_item ''Interview Starting Soon'' ''5 min ago''
               ''Interview with John Doe for Senior Developer position starts in 30 minutes'',
             box ''DropdownMenuSeparator'' [],
             notification_item ''Evaluation Pending'' ''1 hour ago''
               ''Please submit your evaluation for Jane Smith's interview'',
             box ''DropdownMenuSeparator'' [],
             notification_item ''Report Ready'' ''2 hours ago''
               ''Consolidated report for Michael Johnson is ready for review'',
             box ''DropdownMenuSeparator'' [],
             box ''DropdownMenuItem'' [lbl ''View all notifications'']]]]]"

definition DashboardLayout :: "string option \<Rightarrow> 'h view \<Rightarrow> 'h view" where
  "DashboardLayout pathname children =
     box ''SSEProvider'' [
       box ''div'' [
         Sidebar pathname,
         box ''div'' [Header, box ''main'' [children]]],
       box ''Toaster'' []]"

section \<open>The start page and the sign-in pages\<close>

definition sign_in_button :: "string \<Rightarrow> 'h view" where
  "sign_in_button label = el ''SignInButton'' [(''mode'', str ''modal'')] [] [box ''Button'' [lbl label]]"

text \<open>\<open><SignedOut>...</SignedOut><SignedIn>...</SignedIn>\<close>\<close>

definition by_sign_in :: "bool \<Rightarrow> 'h view \<Rightarrow> 'h view \<Rightarrow> 'h view" where
  "by_sign_in signed_in out inn = views [when_shown (\<not> signed_in) out, when_shown signed_in inn]"

definition dashboard_link :: "string \<Rightarrow> 'h view" where
  "dashboard_link label = link (str ''/dashboard'') [box ''Button'' [lbl label]]"

definition home_feature :: "string \<Rightarrow> string \<Rightarrow> string \<Rightarrow> 'h view" where
  "home_feature title description content =
     box ''Card'' [
       box ''CardHeader'' [box ''CardTitle'' [lbl title], box ''CardDescription'' [lbl description]],
       box ''CardContent'' [box ''p'' [lbl content]]]"

definition home_header :: "bool \<Rightarrow> 'h view" where
  "home_header signed_in =
     box ''header'' [box ''div'' [
       box ''div'' [box ''span'' [lbl ''Interview Platform'']],
       box ''nav'' [by_sign_in signed_in
         (views [sign_in_button ''Sign In'', sign_in_button ''Get Started''])
         (dashboard_link ''Go to Dashboard'')]]]"

definition home_hero :: "bool \<Rightarrow> 'h view" where
  "home_hero signed_in =
     box ''div'' [
       box ''h1'' [lbl ''Streamline Your Interview Process''],
       box ''p'' [lbl ''A comprehensive platform for scheduling interviews, collecting evaluations, and generating reports--powered by Nzovu for reliable message processing.''],
       by_sign_in signed_in (sign_in_button ''Start Free Trial'') (dashboard_link ''Open Dashboard'')]"

definition home_features :: "'h view" where
  "home_features =
     box ''div'' [
       home_feature ''Smart Scheduling'' ''Schedule interviews with automatic notifications and reminders''
         ''Nzovu handles time-based scheduling ensuring interviews are never missed.'',
       home_feature ''Collaborative Evaluation'' ''Multiple evaluators can provide feedback independently''
         ''Async evaluation processing ensures no feedback is lost or delayed.'',
       home_feature ''Automated Reports'' ''Generate comprehensive reports automatically''
         ''Reports are generated in background and delivered when ready.'',
       home_feature ''Priority Processing'' ''Urgent interviews get processed first''
         ''Nzovu's priority system ensures VIP candidates are handled promptly.'',
       home_feature ''Reliable & Resilient'' ''Built-in retry logic and dead letter queues''
         ''Never lose data with automatic retries and failure recovery.'',
       home_feature ''Real-time Analytics'' ''Track interview metrics and performance''
         ''Dashboard shows live statistics on interviews and evaluations.'']"

definition home_cta :: "bool \<Rightarrow> 'h view" where
  "home_cta signed_in =
     box ''div'' [
       box ''h2'' [lbl ''Ready to Transform Your Interview Process?''],
       box ''p'' [lbl ''Join leading companies using Nzovu-powered solutions''],
       by_sign_in signed_in (sign_in_button ''Get Started Now'') (dashboard_link ''Go to Dashboard'')]"

definition Home :: "bool \<Rightarrow> 'h view" where
  "Home signed_in =
     box ''div'' [
       home_header signed_in,
       box ''main'' [home_hero signed_in, home_features, home_cta signed_in],
       box ''footer'' [box ''div'' [box ''p'' [
         lbl (CHR 0xA9 # '' 2024 Interview Evaluation Platform. Powered by Nzovu.'')]]]]"

definition SignInPage :: "'h view" where
  "SignInPage = box ''div'' [box ''SignIn'' []]"

definition SignUpPage :: "'h view" where
  "SignUpPage = box ''div'' [box ''SignUp'' []]"

section \<open>The route guard\<close>

definition protected_patterns :: "string list" where
  "protected_patterns = [''/dashboard(.*)'', ''/api(.*)'']"

definition middleware :: "(string list \<Rightarrow> string \<Rightarrow> bool) \<Rightarrow> ('s, unit) act \<Rightarrow> string \<Rightarrow> ('s, unit) act" where
  "middleware createRouteMatcher protect path =
     (if createRouteMatcher protected_patterns path then await protect (\<lambda>_. return_a ()) else return_a ())"

text \<open>
  What Clerk documents of \<open>createRouteMatcher\<close>: a pattern \<open>p(.*)\<close> matches the paths that start with
  \<open>p\<close>, and a list of patterns what one of them matches.
\<close>

definition route_matcher :: "(string list \<Rightarrow> string \<Rightarrow> bool) \<Rightarrow> bool" where
  "route_matcher m \<longleftrightarrow>
     (\<forall>ps path. m (map (\<lambda>p. p @ ''(.*)'') ps) path \<longleftrightarrow> list_ex (\<lambda>p. prefix p path) ps)"

section \<open>Pages\<close>

text \<open>
  The pages of the \<^verbatim>\<open>app\<close> directory by their path, as Next.js derives it: \<open>[id]\<close> stands for one
  segment, \<open>[[...x]]\<close> for any number, and the group \<open>(auth)\<close> for none.
\<close>

definition app_pages :: "segment list list" where
  "app_pages = [
     [],
     [Lit ''dashboard''],
     [Lit ''dashboard'', Lit ''interviews''],
     [Lit ''dashboard'', Lit ''interviews'', Lit ''new''],
     [Lit ''dashboard'', Lit ''interviews'', Param],
     [Lit ''dashboard'', Lit ''interviews'', Param, Lit ''evaluate''],
     [Lit ''dashboard'', Lit ''evaluations''],
     [Lit ''dashboard'', Lit ''reports''],
     [Lit ''dashboard'', Lit ''queues'']]"

definition catch_all_pages :: "string list" where
  "catch_all_pages = [''sign-in'', ''sign-up'']"

definition path_segments :: "string \<Rightarrow> string list" where
  "path_segments p = filter (\<lambda>s. s \<noteq> []) (js_split CHR ''/'' p)"

definition page_exists :: "string \<Rightarrow> bool" where
  "page_exists p \<longleftrightarrow>
     list_ex (\<lambda>ps. path_matches ps (path_segments p)) app_pages
     \<or> (case path_segments p of [] \<Rightarrow> False | s # ss \<Rightarrow> s \<in> set catch_all_pages)"

definition resolves :: "jsval \<Rightarrow> bool" where
  "resolves href \<longleftrightarrow> page_exists (js_to_string href)"

text \<open>An id as it appears in a path: a string that is not empty and has no slash.\<close>

definition path_id :: "jsval \<Rightarrow> bool" where
  "path_id v \<longleftrightarrow> (case v of Str s \<Rightarrow> s \<noteq> [] \<and> CHR ''/'' \<notin> set s | _ \<Rightarrow> False)"

lemmas layout_defs = Sidebar_def Header_def DashboardLayout_def nav_link_def notification_item_def
  navigation_def by_sign_in_def dashboard_link_def sign_in_button_def

lemmas home_defs = Home_def home_header_def home_hero_def home_features_def home_cta_def
  home_feature_def by_sign_in_def dashboard_link_def sign_in_button_def

section \<open>Every link but one leads to a page\<close>

lemma segments_lits [simp]:
  "CHR ''/'' \<notin> set s \<Longrightarrow> js_split CHR ''/'' (s @ CHR ''/'' # t) = s # js_split CHR ''/'' t"
  by (rule js_split_append)

lemma path_id_string: "path_id v \<Longrightarrow> \<exists>s. v = Str s \<and> s \<noteq> [] \<and> CHR ''/'' \<notin> set s"
  by (cases v) (auto simp: path_id_def)

text \<open>The path of a page below one of the lists.\<close>

lemma segments_of_item:
  assumes "CHR ''/'' \<notin> set s" "s \<noteq> []"
  shows "path_segments (''/dashboard/interviews/'' @ s) = [''dashboard'', ''interviews'', s]"
    "path_segments (''/dashboard/interviews/'' @ s @ ''/evaluate'') = [''dashboard'', ''interviews'', s, ''evaluate'']"
    "path_segments (''/dashboard/reports/'' @ s) = [''dashboard'', ''reports'', s]"
  using assms by (simp_all add: path_segments_def js_split_single js_split_append)

lemma item_page_exists:
  assumes "CHR ''/'' \<notin> set s" "s \<noteq> []"
  shows "page_exists (''/dashboard/interviews/'' @ s)"
    "page_exists (''/dashboard/interviews/'' @ s @ ''/evaluate'')"
    "\<not> page_exists (''/dashboard/reports/'' @ s)"
  using segments_of_item [OF assms] assms(2)
  by (simp_all add: page_exists_def app_pages_def catch_all_pages_def)

lemma static_pages:
  "page_exists ''/dashboard''" "page_exists ''/dashboard/interviews''" "page_exists ''/dashboard/evaluations''"
  "page_exists ''/dashboard/reports''" "page_exists ''/dashboard/queues''" "page_exists ''/dashboard/interviews/new''"
  by (simp_all add: page_exists_def path_segments_def app_pages_def)

lemma frame_links:
  "links (DashboardLayout pathname nothing) = map Str [''/dashboard'', ''/dashboard'', ''/dashboard/interviews'',
     ''/dashboard/evaluations'', ''/dashboard/reports'', ''/dashboard/queues'']"
  by (simp add: links_def layout_defs link_def)

lemma home_links: "links (Home signed_in) = (if signed_in then replicate 3 (Str ''/dashboard'') else [])"
  by (simp add: links_def home_defs link_def numeral_3_eq_3)



section \<open>What the guard protects\<close>

lemma guard_run:
  assumes "route_matcher m"
  shows "middleware m protect path s =
     (if prefix ''/dashboard'' path \<or> prefix ''/api'' path then protect s else (Inr (), s))"
proof -
  have "m (map (\<lambda>p. p @ ''(.*)'') [''/dashboard'', ''/api'']) path \<longleftrightarrow> list_ex (\<lambda>p. prefix p path) [''/dashboard'', ''/api'']"
    using assms unfolding route_matcher_def by blast
  then have "m protected_patterns path \<longleftrightarrow> prefix ''/dashboard'' path \<or> prefix ''/api'' path"
    by (simp add: protected_patterns_def)
  then show ?thesis
    by (cases "protect s") (auto simp: middleware_def await_def return_a_def split: sum.splits)
qed


definition plain_matcher :: "string list \<Rightarrow> string \<Rightarrow> bool" where
  "plain_matcher ps path = list_ex (\<lambda>p. prefix (take (length p - 4) p) path) ps"

lemma plain_matcher: "route_matcher plain_matcher"
  by (simp add: route_matcher_def plain_matcher_def list_ex_iff)


section \<open>The highlighted entry\<close>

definition active_names :: "string option \<Rightarrow> string list" where
  "active_names pathname = map nav_name (filter (isActive pathname) navigation)"

lemma other_items:
  "item \<in> set navigation \<Longrightarrow> nav_href item \<noteq> ''/dashboard'' \<Longrightarrow>
     item = navigation ! 1 \<or> item = navigation ! 2 \<or> item = navigation ! 3 \<or> item = navigation ! 4"
proof -
  assume item: "item \<in> set navigation" "nav_href item \<noteq> ''/dashboard''"
  have n: "length navigation = 5" "nav_href (navigation ! 0) = ''/dashboard''"
    by (simp_all add: navigation_def)
  from item(1) obtain i where i: "i < 5" "item = navigation ! i"
    by (auto simp: in_set_conv_nth n(1))
  have "i \<noteq> 0" using item(2) i(2) n(2) by metis
  with i(1) have "i \<in> {1, 2, 3, 4}" by auto
  with i(2) show ?thesis by blast
qed

lemma active_at_item:
  "active_names (Some (nav_href (navigation ! 1))) = [''Dashboard'', nav_name (navigation ! 1)]"
  "active_names (Some (nav_href (navigation ! 2))) = [''Dashboard'', nav_name (navigation ! 2)]"
  "active_names (Some (nav_href (navigation ! 3))) = [''Dashboard'', nav_name (navigation ! 3)]"
  "active_names (Some (nav_href (navigation ! 4))) = [''Dashboard'', nav_name (navigation ! 4)]"
  "active_names (Some (nav_href (navigation ! 1) @ ''/'' @ rest)) = [''Dashboard'', nav_name (navigation ! 1)]"
  "active_names (Some (nav_href (navigation ! 2) @ ''/'' @ rest)) = [''Dashboard'', nav_name (navigation ! 2)]"
  "active_names (Some (nav_href (navigation ! 3) @ ''/'' @ rest)) = [''Dashboard'', nav_name (navigation ! 3)]"
  "active_names (Some (nav_href (navigation ! 4) @ ''/'' @ rest)) = [''Dashboard'', nav_name (navigation ! 4)]"
  by (simp_all add: navigation_def active_names_def isActive_def js_starts_with_def)

text \<open>
  On the page of an entry of the side bar, and on every page below it, that entry is
  highlighted; on all but the dashboard itself the dashboard's entry is highlighted too.
\<close>

theorem highlighted_entries:
  assumes "item \<in> set navigation" and "nav_href item \<noteq> ''/dashboard''"
    and "p = nav_href item \<or> p = nav_href item @ ''/'' @ rest"
  shows "active_names (Some p) = [''Dashboard'', nav_name item]"
  using assms(3) other_items [OF assms(1,2)]
  by (elim disjE) (simp_all only: active_at_item)

theorem highlighted_entries_witness:
  "active_names (Some (''/dashboard/reports'' @ ''/'' @ ''r1'')) = [''Dashboard'', ''Reports'']"
proof -
  let ?item = "\<lparr>nav_name = ''Reports'', nav_href = ''/dashboard/reports'', nav_badge = None\<rparr>"
  have "?item \<in> set navigation" "nav_href ?item \<noteq> ''/dashboard''"
    by (simp_all add: navigation_def)
  from highlighted_entries [OF this disjI2, OF refl] show ?thesis by (simp only: nav_item.simps)
qed

end
