(* ===== verification/Date_Picker.thy ===== *)
theory Date_Picker
  imports Schedule_Form
begin

text \<open>
  The date and time picker of \<^verbatim>\<open>schedule-interview-form.tsx\<close>: the calendar and the three number
  inputs. A \<open>Date\<close> is its time value, a whole number of milliseconds, and local time is at a fixed
  offset \<open>tz\<close> from it: changes of the offset (daylight saving) are not modelled. The setters
  of \<open>Date\<close> accept any integer and carry over into the days, as the language prescribes.
\<close>

section \<open>Reading integers\<close>

text \<open>
  \<open>parseInt(s)\<close>: leading white space, a sign, and the digits up to the first other character. The
  hexadecimal form is left out: the value of a number input never has it.
\<close>

definition is_digit :: "char \<Rightarrow> bool" where
  "is_digit c \<longleftrightarrow> 48 \<le> (of_char c :: nat) \<and> (of_char c :: nat) \<le> 57"

definition js_parse_nat :: "string \<Rightarrow> nat option" where
  "js_parse_nat s = (let d = takeWhile is_digit s in if d = [] then None else Some (read_nat d))"

definition js_parse_int :: "string \<Rightarrow> int option" where
  "js_parse_int s =
     (case dropWhile js_space s of
        [] \<Rightarrow> None
      | c # t \<Rightarrow>
          if c = CHR ''-'' then map_option (\<lambda>n. - int n) (js_parse_nat t)
          else if c = CHR ''+'' then map_option int (js_parse_nat t)
          else map_option int (js_parse_nat (c # t)))"

text \<open>\<open>parseInt(s) || 0\<close>\<close>

definition parse_or_0 :: "string \<Rightarrow> int" where
  "parse_or_0 s = (case js_parse_int s of None \<Rightarrow> 0 | Some n \<Rightarrow> n)"

section \<open>Local time\<close>

abbreviation hour_ms :: int where "hour_ms \<equiv> 3600000"
abbreviation minute_ms :: int where "minute_ms \<equiv> 60000"
abbreviation day_ms :: int where "day_ms \<equiv> 86400000"

definition getHours :: "int \<Rightarrow> int \<Rightarrow> int" where
  "getHours tz t = (t + tz) mod day_ms div hour_ms"

definition getMinutes :: "int \<Rightarrow> int \<Rightarrow> int" where
  "getMinutes tz t = (t + tz) mod hour_ms div minute_ms"

definition getSeconds :: "int \<Rightarrow> int \<Rightarrow> int" where
  "getSeconds tz t = (t + tz) mod minute_ms div 1000"

definition local_day :: "int \<Rightarrow> int \<Rightarrow> int" where
  "local_day tz t = (t + tz) div day_ms"

text \<open>\<open>setHours(h)\<close> keeps the day and the rest of the time, \<open>h\<close> counted from the day's start.\<close>

definition setHours :: "int \<Rightarrow> int \<Rightarrow> int \<Rightarrow> int" where
  "setHours tz h t = t + (h - getHours tz t) * hour_ms"

definition setMinutes :: "int \<Rightarrow> int \<Rightarrow> int \<Rightarrow> int" where
  "setMinutes tz m t = t + (m - getMinutes tz t) * minute_ms"

definition setSeconds :: "int \<Rightarrow> int \<Rightarrow> int \<Rightarrow> int" where
  "setSeconds tz x t = t + (x - getSeconds tz t) * 1000"

section \<open>The handlers\<close>

text \<open>\<open>onSelect\<close> of the calendar: a day picked, or the picked day clicked again.\<close>

definition on_select :: "int \<Rightarrow> int \<Rightarrow> int option \<Rightarrow> int option \<Rightarrow> int option" where
  "on_select tz now current date =
     (case date of
        None \<Rightarrow> None
      | Some d \<Rightarrow>
          let currentTime = (case current of None \<Rightarrow> now | Some t \<Rightarrow> t)
          in Some (setSeconds tz (getSeconds tz currentTime)
                (setMinutes tz (getMinutes tz currentTime)
                  (setHours tz (getHours tz currentTime) d))))"

text \<open>\<open>onChange\<close> of one of the inputs, with the setter it uses.\<close>

definition on_time_input :: "(int \<Rightarrow> int \<Rightarrow> int) \<Rightarrow> int \<Rightarrow> int option \<Rightarrow> string \<Rightarrow> int option" where
  "on_time_input setter now current text =
     (let date = (case current of None \<Rightarrow> now | Some t \<Rightarrow> t) in Some (setter (parse_or_0 text) date))"

definition on_hour :: "int \<Rightarrow> int \<Rightarrow> int option \<Rightarrow> string \<Rightarrow> int option" where
  "on_hour tz = on_time_input (setHours tz)"

definition on_minute :: "int \<Rightarrow> int \<Rightarrow> int option \<Rightarrow> string \<Rightarrow> int option" where
  "on_minute tz = on_time_input (setMinutes tz)"

definition on_second :: "int \<Rightarrow> int \<Rightarrow> int option \<Rightarrow> string \<Rightarrow> int option" where
  "on_second tz = on_time_input (setSeconds tz)"

text \<open>What \<open>field.onChange\<close> of the picker does to the form.\<close>

definition date_change :: "int option \<Rightarrow> form_label" where
  "date_change d = Edit (ScheduledDate (map_option (\<lambda>t. Fin (of_int t)) d))"

lemmas picker_defs = getHours_def getMinutes_def getSeconds_def setHours_def setMinutes_def
  setSeconds_def local_day_def on_time_input_def on_hour_def on_minute_def on_second_def

section \<open>Reading what was printed\<close>

lemma digit_is_digit: "d < 10 \<Longrightarrow> is_digit (digit d)"
  by (simp add: is_digit_def digit_def)

lemma show_nat_digits: "list_all is_digit (show_nat n)"
proof (induction n rule: show_nat.induct)
  case (1 n)
  then show ?case
    by (cases "n < 10") (auto simp: show_nat.simps [of n] digit_is_digit)
qed

lemma parse_show_nat: "js_parse_int (show_nat n) = Some (int n)"
proof -
  have d: "list_all is_digit (show_nat n)" by (rule show_nat_digits)
  obtain c t where ct: "show_nat n = c # t" by (cases "show_nat n") auto
  have c: "is_digit c" using d ct by simp
  then have sp: "\<not> js_space c" "c \<noteq> CHR ''-''" "c \<noteq> CHR ''+''"
    by (auto simp: is_digit_def js_space_def)
  have "takeWhile is_digit (c # t) = c # t"
    using d ct by (simp add: list_all_iff takeWhile_eq_all_conv)
  then have "js_parse_nat (c # t) = Some n"
    using read_show_nat [of n] ct by (simp add: js_parse_nat_def Let_def)
  with ct sp show ?thesis by (simp add: js_parse_int_def)
qed

section \<open>Time arithmetic\<close>

text \<open>
  One unit of the clock: \<open>n\<close> units of size \<open>U\<close> make the next one. Setting the unit to \<open>h\<close> leaves
  what is below it alone, shows \<open>h\<close> modulo \<open>n\<close>, and carries the rest into what is above.
\<close>

lemma mod_mult_div: "0 < n \<Longrightarrow> 0 < U \<Longrightarrow> u mod (n * U) div U = u div U mod (n :: int)"
  using zmod_zmult2_eq [of n u U] by (simp add: mult.commute)

lemma set_unit:
  fixes u h n U :: int
  assumes "0 < U" "0 < n"
  defines "v \<equiv> u + (h - u div U mod n) * U"
  shows "v mod U = u mod U" "v div U mod n = h mod n" "v div U div n = u div U div n + h div n"
proof -
  show "v mod U = u mod U" by (simp add: v_def)
  have "v div U = u div U + (h - u div U mod n)"
    using assms(1) by (simp add: v_def)
  also have "\<dots> = h + n * (u div U div n)"
    by (simp add: minus_mod_eq_mult_div [symmetric] algebra_simps)
  finally have q: "v div U = h + n * (u div U div n)" .
  show "v div U mod n = h mod n" "v div U div n = u div U div n + h div n"
    using assms(2) by (simp_all add: q)
qed

lemma clock_parts:
  "getHours tz t = (t + tz) div 3600000 mod 24" "getMinutes tz t = (t + tz) div 60000 mod 60"
  "getSeconds tz t = (t + tz) div 1000 mod 60" "local_day tz t = (t + tz) div 3600000 div 24"
proof -
  have n: "24 * 3600000 = (86400000 :: int)" "60 * 60000 = (3600000 :: int)" "60 * 1000 = (60000 :: int)"
    "3600000 * 24 = (86400000 :: int)"
    by simp_all
  show "getHours tz t = (t + tz) div 3600000 mod 24"
    unfolding getHours_def n(1) [symmetric] by (rule mod_mult_div) simp_all
  show "getMinutes tz t = (t + tz) div 60000 mod 60"
    unfolding getMinutes_def n(2) [symmetric] by (rule mod_mult_div) simp_all
  show "getSeconds tz t = (t + tz) div 1000 mod 60"
    unfolding getSeconds_def n(3) [symmetric] by (rule mod_mult_div) simp_all
  show "local_day tz t = (t + tz) div 3600000 div 24"
    unfolding local_day_def n(4) [symmetric] by (rule zdiv_zmult2_eq) simp
qed

lemma higher_parts:
  "(u :: int) div 3600000 = u div 60000 div 60" "(u :: int) div 60000 = u div 1000 div 60"
  using zdiv_zmult2_eq [where a = u and b = 60000 and c = 60] zdiv_zmult2_eq [where a = u and b = 1000 and c = 60]
  by simp_all

lemma mod_minute: "(u :: int) mod 3600000 = v mod 3600000 \<Longrightarrow> u mod 60000 = v mod 60000"
  using mod_mod_cancel [of 60000 3600000 u] mod_mod_cancel [of 60000 3600000 v] by simp

lemma after_setHours:
  "getHours tz (setHours tz h t) = h mod 24" "local_day tz (setHours tz h t) = local_day tz t + h div 24"
  "getMinutes tz (setHours tz h t) = getMinutes tz t" "getSeconds tz (setHours tz h t) = getSeconds tz t"
proof -
  have v: "setHours tz h t + tz = (t + tz) + (h - (t + tz) div 3600000 mod 24) * 3600000"
    by (simp add: setHours_def clock_parts)
  note s = set_unit [of 3600000 24 "t + tz" h, folded v]
  show "getHours tz (setHours tz h t) = h mod 24" "local_day tz (setHours tz h t) = local_day tz t + h div 24"
    using s(2,3) by (simp_all add: clock_parts)
  show "getMinutes tz (setHours tz h t) = getMinutes tz t"
    using s(1) by (simp add: getMinutes_def)
  show "getSeconds tz (setHours tz h t) = getSeconds tz t"
    using mod_minute [OF s(1)] by (simp add: getSeconds_def)
qed

lemma after_setMinutes:
  assumes "0 \<le> m" "m < 60"
  shows "getMinutes tz (setMinutes tz m t) = m" "getSeconds tz (setMinutes tz m t) = getSeconds tz t"
    "getHours tz (setMinutes tz m t) = getHours tz t" "local_day tz (setMinutes tz m t) = local_day tz t"
proof -
  have v: "setMinutes tz m t + tz = (t + tz) + (m - (t + tz) div 60000 mod 60) * 60000"
    by (simp add: setMinutes_def clock_parts)
  note s = set_unit [of 60000 60 "t + tz" m, folded v]
  show "getMinutes tz (setMinutes tz m t) = m" using s(2) assms by (simp add: clock_parts)
  show "getSeconds tz (setMinutes tz m t) = getSeconds tz t" using s(1) by (simp add: getSeconds_def)
  show "getHours tz (setMinutes tz m t) = getHours tz t" "local_day tz (setMinutes tz m t) = local_day tz t"
    using s(3) assms by (simp_all add: clock_parts higher_parts(1) [of "x + y" for x y])
qed

lemma after_setSeconds:
  assumes "0 \<le> x" "x < 60"
  shows "getSeconds tz (setSeconds tz x t) = x" "getMinutes tz (setSeconds tz x t) = getMinutes tz t"
    "getHours tz (setSeconds tz x t) = getHours tz t" "local_day tz (setSeconds tz x t) = local_day tz t"
proof -
  have v: "setSeconds tz x t + tz = (t + tz) + (x - (t + tz) div 1000 mod 60) * 1000"
    by (simp add: setSeconds_def clock_parts)
  note s = set_unit [of 1000 60 "t + tz" x, folded v]
  show "getSeconds tz (setSeconds tz x t) = x" using s(2) assms by (simp add: clock_parts)
  show "getMinutes tz (setSeconds tz x t) = getMinutes tz t" "getHours tz (setSeconds tz x t) = getHours tz t"
    "local_day tz (setSeconds tz x t) = local_day tz t"
    using s(3) assms by (simp_all add: clock_parts higher_parts [of "x + y" for x y])
qed

lemma clock_bounds:
  "0 \<le> getHours tz t" "getHours tz t < 24" "0 \<le> getMinutes tz t" "getMinutes tz t < 60"
  "0 \<le> getSeconds tz t" "getSeconds tz t < 60"
  by (simp_all add: clock_parts)

section \<open>What the picker guarantees\<close>

text \<open>
  C27. Picking another day keeps the time of day that was set, or the present one if none was, and
  the day is the one picked; picking nothing clears the field.
\<close>

theorem picking_a_day_keeps_the_time:
  assumes "on_select tz now current (Some d) = Some t"
  shows "let cur = (case current of None \<Rightarrow> now | Some c \<Rightarrow> c)
     in local_day tz t = local_day tz d \<and> getHours tz t = getHours tz cur
        \<and> getMinutes tz t = getMinutes tz cur \<and> getSeconds tz t = getSeconds tz cur"
proof -
  let ?cur = "case current of None \<Rightarrow> now | Some c \<Rightarrow> c"
  have t: "t = setSeconds tz (getSeconds tz ?cur) (setMinutes tz (getMinutes tz ?cur) (setHours tz (getHours tz ?cur) d))"
    using assms by (simp add: on_select_def Let_def)
  note b = clock_bounds [of tz ?cur]
  show ?thesis
    using b unfolding Let_def t
    by (simp add: after_setSeconds after_setMinutes after_setHours)
qed

theorem picking_a_day_keeps_the_time_witness:
  "getHours 0 (the (on_select 0 0 (Some 45000000) (Some 86400000))) = 12"
proof -
  have "on_select 0 0 (Some 45000000) (Some 86400000) = Some (the (on_select 0 0 (Some 45000000) (Some 86400000)))"
    by (simp add: on_select_def Let_def)
  from picking_a_day_keeps_the_time [OF this] show ?thesis
    by (simp add: Let_def getHours_def)
qed



end
