(* ===== verification/Form_Kit.thy ===== *)
theory Form_Kit
  imports Ui_Kit
begin

text \<open>
  \<^verbatim>\<open>components/ui/form.tsx\<close>: the parts of a form field. A field has the id React generated for its
  item, and the error the form holds for it, if any: the value of the error's \<open>message\<close>. The
  element a \<open>FormControl\<close> wraps gets the control's attributes, unless it sets them itself (\<open>Slot\<close>).
  The other primitives here are the progress bar, the slider and the chips of the two forms.
\<close>

record field_ctx =
  item_id :: string
  field_error :: "jsval option"

definition formItemId :: "field_ctx \<Rightarrow> string" where
  "formItemId c = item_id c @ ''-form-item''"

definition formDescriptionId :: "field_ctx \<Rightarrow> string" where
  "formDescriptionId c = item_id c @ ''-form-item-description''"

definition formMessageId :: "field_ctx \<Rightarrow> string" where
  "formMessageId c = item_id c @ ''-form-item-message''"

definition FormItem :: "'h view list \<Rightarrow> 'h view" where
  "FormItem vs = el ''div'' [(''data-slot'', str ''form-item'')] [] vs"

definition FormLabel :: "field_ctx \<Rightarrow> string \<Rightarrow> 'h view" where
  "FormLabel c label =
     el ''Label'' [
       (''data-slot'', str ''form-label''),
       (''data-error'', Bool (field_error c \<noteq> None)),
       (''htmlFor'', Str (formItemId c))] [] [lbl label]"

definition control_attrs :: "field_ctx \<Rightarrow> obj" where
  "control_attrs c = [
     (''data-slot'', str ''form-control''),
     (''id'', Str (formItemId c)),
     (''aria-describedby'', Str (if field_error c = None then formDescriptionId c
        else formDescriptionId c @ '' '' @ formMessageId c)),
     (''aria-invalid'', Bool (field_error c \<noteq> None))]"

definition FormControl ::
  "field_ctx \<Rightarrow> string \<Rightarrow> obj \<Rightarrow> (string \<times> 'h) list \<Rightarrow> 'h view list \<Rightarrow> 'h view" where
  "FormControl c tag as hs vs = el tag (as @ control_attrs c) hs vs"

definition FormDescription :: "field_ctx \<Rightarrow> string \<Rightarrow> 'h view" where
  "FormDescription c s =
     el ''p'' [(''data-slot'', str ''form-description''), (''id'', Str (formDescriptionId c))] [] [lbl s]"

text \<open>\<open>String(error?.message ?? "")\<close>; without error and children there is nothing to show.\<close>

definition FormMessage :: "field_ctx \<Rightarrow> 'h view" where
  "FormMessage c =
     (case field_error c of
        None \<Rightarrow> nothing
      | Some message \<Rightarrow>
          let body = js_to_string (js_nullish_or message (Str []))
          in when_shown (body \<noteq> [])
               (el ''p'' [(''data-slot'', str ''form-message''), (''id'', Str (formMessageId c))] [] [lbl body]))"

text \<open>A text field: label, control, optional description, message.\<close>

definition text_field :: "field_ctx \<Rightarrow> string \<Rightarrow> string \<Rightarrow> obj \<Rightarrow> 'h \<Rightarrow> string option \<Rightarrow> 'h view" where
  "text_field c label tag as onChange description =
     FormItem [
       FormLabel c label,
       FormControl c tag as [(''onChange'', onChange)] [],
       (case description of None \<Rightarrow> nothing | Some d \<Rightarrow> FormDescription c d),
       FormMessage c]"

definition select_items :: "(string \<times> string) list \<Rightarrow> 'h view list" where
  "select_items = map (\<lambda>(v, l). el ''SelectItem'' [(''value'', Str v)] [] [lbl l])"

definition select_field ::
  "field_ctx \<Rightarrow> string \<Rightarrow> jsval \<Rightarrow> 'h \<Rightarrow> string \<Rightarrow> (string \<times> string) list \<Rightarrow> 'h view" where
  "select_field c label chosen onValueChange placeholder items =
     FormItem [
       FormLabel c label,
       el ''Select'' [(''defaultValue'', chosen)] [(''onValueChange'', onValueChange)] [
         FormControl c ''SelectTrigger'' [] [] [el ''SelectValue'' [(''placeholder'', Str placeholder)] [] []],
         box ''SelectContent'' (select_items items)],
       FormMessage c]"

section \<open>Chips\<close>

text \<open>
  The input line of a list of chips, its button, and a badge with a remove button for each chip.
  The input is not wrapped in a \<open>FormControl\<close>.
\<close>

definition chip :: "string \<Rightarrow> (string \<Rightarrow> 'h) \<Rightarrow> string \<Rightarrow> 'h view" where
  "chip variant remove c =
     el ''Badge'' [(''key'', Str c), (''variant'', Str variant)] [] [
       lbl c,
       el ''button'' [(''type'', str ''button'')] [(''onClick'', remove c)] [box ''X'' []]]"

definition chips_field ::
  "field_ctx \<Rightarrow> string \<Rightarrow> string \<Rightarrow> string \<Rightarrow> 'h \<Rightarrow> 'h \<Rightarrow> 'h \<Rightarrow> 'h view list \<Rightarrow>
     string \<Rightarrow> (string \<Rightarrow> 'h) \<Rightarrow> string list \<Rightarrow> string option \<Rightarrow> 'h view" where
  "chips_field c label placeholder inp typed key_pressed add add_label variant remove chips description =
     FormItem [
       FormLabel c label,
       box ''div'' [
         el ''Input'' [(''placeholder'', Str placeholder), (''value'', Str inp)]
           [(''onChange'', typed), (''onKeyPress'', key_pressed)] [],
         el ''Button'' [(''type'', str ''button''), (''variant'', str ''secondary'')] [(''onClick'', add)] add_label],
       box ''div'' (map (chip variant remove) chips),
       (case description of None \<Rightarrow> nothing | Some d \<Rightarrow> FormDescription c d),
       FormMessage c]"

section \<open>Submitting\<close>

definition form_buttons :: "'h option \<Rightarrow> bool \<Rightarrow> string \<Rightarrow> 'h view" where
  "form_buttons onCancel isSubmitting label =
     box ''div'' [
       (case onCancel of
          None \<Rightarrow> nothing
        | Some h \<Rightarrow> button [(''type'', str ''button''), (''variant'', str ''outline'')] h ''Cancel''),
       el ''Button'' [(''type'', str ''submit''), (''disabled'', Bool isSubmitting)] [] [
         when_shown isSubmitting (box ''Loader2'' []),
         lbl label]]"

section \<open>Progress bar and slider\<close>

definition Progress :: "jsval \<Rightarrow> 'h view" where
  "Progress value =
     el ''ProgressPrimitive.Root'' [(''data-slot'', str ''progress'')] [] [
       el ''ProgressPrimitive.Indicator'' [
         (''data-slot'', str ''progress-indicator''),
         (''transform'', Str (''translateX(-'' @ js_to_string (Num (num_sub (Fin 100)
            (case js_or value (js_int 0) of Num n \<Rightarrow> n | _ \<Rightarrow> NaN))) @ ''%)''))] [] []]"

definition slider_values :: "jsval \<Rightarrow> jsval \<Rightarrow> jsval \<Rightarrow> jsval \<Rightarrow> jsval list" where
  "slider_values value defaultValue mn mx =
     (if is_array value then elements value
      else if is_array defaultValue then elements defaultValue
      else [mn, mx])"

definition Slider :: "jsval \<Rightarrow> jsval \<Rightarrow> jsval \<Rightarrow> jsval \<Rightarrow> obj \<Rightarrow> (string \<times> 'h) list \<Rightarrow> 'h view" where
  "Slider defaultValue value mn mx as hs =
     el ''SliderPrimitive.Root''
       (as @ [(''data-slot'', str ''slider''), (''defaultValue'', defaultValue), (''value'', value), (''min'', mn), (''max'', mx)]) hs
       (box ''SliderPrimitive.Track'' [box ''SliderPrimitive.Range'' []]
        # map (\<lambda>i. el ''SliderPrimitive.Thumb'' [(''key'', js_int (int i))] [] [])
            [0..<length (slider_values value defaultValue mn mx)])"

section \<open>Shared facts\<close>

lemma form_kit_everywhere [simp]:
  "everywhere Q (FormItem vs) \<longleftrightarrow> Q ''div'' [(''data-slot'', str ''form-item'')] [] \<and> list_all (everywhere Q) vs"
  "everywhere Q (FormControl c tag as hs vs) \<longleftrightarrow> Q tag (as @ control_attrs c) hs \<and> list_all (everywhere Q) vs"
  by (simp_all add: FormItem_def FormControl_def)

lemma form_kit_renders [simp]:
  "renders (FormLabel c l)" "renders (FormDescription c d)" "renders (FormMessage c)"
  "renders (chip variant remove x)" "renders (form_buttons oc b l)" "renders (text_field c l tag as h od)"
  "renders (select_field c l ch h p items)" "renders (Progress v)" "renders (Slider dv v mn mx as hs)"
  by (auto simp: FormLabel_def FormDescription_def FormMessage_def chip_def form_buttons_def text_field_def
      select_field_def select_items_def Progress_def Slider_def Let_def list_all_iff split: option.split)

lemma chips_field_renders [simp]:
  "list_all renders add_label \<Longrightarrow>
     renders (chips_field c l p inp t k a add_label v r cs d)"
  by (auto simp: chips_field_def list_all_iff split: option.split)

text \<open>What the parts collect: only the buttons offer anything.\<close>

lemma offers_parts [simp]:
  "offers (FormLabel c l) = []" "offers (FormDescription c d) = []" "offers (FormMessage c) = []"
  "offers (lbl s) = []" "offers (Inr []) = []"
  by (auto simp: offers_def FormLabel_def FormDescription_def FormMessage_def Let_def split: option.split)

lemma offers_el:
  "list_all renders vs \<Longrightarrow> offers (el tag as hs vs) =
     (if truthy (field as ''disabled'') then [] else map snd (filter (\<lambda>(k, _). k = ''onClick'') hs))
     @ concat (map offers vs)"
  by (simp add: offers_def)

lemma offers_chip [simp]: "offers (chip variant remove c) = [remove c]"
  by (simp add: chip_def offers_el)

lemma offers_FormItem: "list_all renders vs \<Longrightarrow> offers (FormItem vs) = concat (map offers vs)"
  by (simp add: FormItem_def offers_el)

lemma offers_text_field [simp]:
  "field as ''disabled'' = Undef \<Longrightarrow> offers (text_field c l tag as h d) = []"
  by (simp add: text_field_def offers_FormItem FormControl_def offers_el split: option.split)

lemma offers_select_items [simp]: "concat (map offers (select_items items)) = []"
  by (auto simp: select_items_def offers_el)

lemma renders_select_items [simp]: "list_all renders (select_items items)"
  by (auto simp: select_items_def list_all_iff)

lemma offers_select_field [simp]: "offers (select_field c l d h p items) = []"
  by (simp add: select_field_def offers_FormItem FormControl_def offers_el)

lemma offers_chips_field [simp]:
  assumes "list_all renders add_label" "concat (map offers add_label) = []"
  shows "offers (chips_field c l p inp t k add add_label v remove cs d) = add # map remove cs"
proof -
  have "concat (map offers (map (chip v remove) cs)) = map remove cs"
    by (induction cs) simp_all
  moreover have "list_all renders (map (chip v remove) cs)"
    by (simp add: list_all_iff)
  ultimately show ?thesis
    using assms by (simp add: chips_field_def offers_FormItem offers_el split: option.split)
qed

lemma offers_form_buttons [simp]:
  "offers (form_buttons onCancel busy label) = (case onCancel of None \<Rightarrow> [] | Some h \<Rightarrow> [h])"
  by (simp add: form_buttons_def button_def offers_el offers_def split: option.split)

end
