(* ===== verification/Form_Views.thy ===== *)
theory Form_Views
  imports Form_Kit Ui_Primitives Date_Picker Evaluation_Page Navigation
begin

text \<open>
  What the two forms and the pages around them render, from the states of \<open>Schedule_Form\<close> and
  \<open>Evaluation_Form\<close>: \<^verbatim>\<open>schedule-interview-form.tsx\<close>, \<^verbatim>\<open>submit-evaluation-form.tsx\<close> and the pages
  \<^verbatim>\<open>interviews/new\<close> and \<^verbatim>\<open>interviews/[id]/evaluate\<close>. Each field's context (id and error) comes
  from the form library, by the field's name. How a date prints is a parameter.
\<close>

type_synonym fields = "string \<Rightarrow> field_ctx"

section \<open>The schedule form\<close>

datatype schedule_ui =
    SubmitForm
  | FieldChanged string
  | DaySelected
  | HourTyped
  | MinuteTyped
  | SecondTyped
  | InterviewerTyped
  | InterviewerKeyPressed
  | AddInterviewerClicked
  | RemoveInterviewerClicked string
  | TagTyped
  | TagKeyPressed
  | AddTagClicked
  | RemoveTagClicked string
  | CancelClicked

definition position_items :: "(string \<times> string) list" where
  "position_items = [
     (''software-engineer'', ''Software Engineer''),
     (''senior-software-engineer'', ''Senior Software Engineer''),
     (''staff-engineer'', ''Staff Engineer''),
     (''engineering-manager'', ''Engineering Manager''),
     (''product-manager'', ''Product Manager''),
     (''designer'', ''Designer''),
     (''data-scientist'', ''Data Scientist'')]"

definition duration_items :: "(string \<times> string) list" where
  "duration_items = [
     (''30'', ''30 minutes''), (''45'', ''45 minutes''), (''60'', ''1 hour''),
     (''90'', ''1.5 hours''), (''120'', ''2 hours'')]"

text \<open>\<open>field.value?.getHours() ?? 0\<close> and the like.\<close>

definition clock_value :: "(int \<Rightarrow> int) \<Rightarrow> number option \<Rightarrow> jsval" where
  "clock_value part d =
     (case d of
        None \<Rightarrow> js_int 0
      | Some (Fin t) \<Rightarrow> js_int (part \<lfloor>t\<rfloor>)
      | Some NaN \<Rightarrow> Num NaN)"

definition time_input :: "string \<Rightarrow> string \<Rightarrow> jsval \<Rightarrow> schedule_ui \<Rightarrow> schedule_ui view" where
  "time_input label mx value onChange =
     box ''div'' [
       box ''label'' [lbl label],
       el ''Input'' [(''type'', str ''number''), (''min'', str ''0''), (''max'', Str mx), (''value'', value)]
         [(''onChange'', onChange)] []]"

definition date_field :: "(number \<Rightarrow> string option) \<Rightarrow> int \<Rightarrow> field_ctx \<Rightarrow> number option \<Rightarrow> schedule_ui view" where
  "date_field show_date tz c d =
     FormItem [
       FormLabel c ''Interview Date & Time'',
       box ''Popover'' [
         box ''PopoverTrigger'' [FormControl c ''Button'' [(''variant'', str ''outline'')] [] [
           (case d of
              None \<Rightarrow> box ''span'' [lbl ''Pick a date and time'']
            | Some t \<Rightarrow> say (case show_date t of None \<Rightarrow> Inl (RangeError ''Invalid time value'') | Some s \<Rightarrow> Inr s))]],
         box ''PopoverContent'' [box ''div'' [
           el ''Calendar'' [(''mode'', str ''single'')] [(''onSelect'', DaySelected)] [],
           box ''div'' [
             box ''div'' [box ''span'' [lbl ''Time'']],
             box ''div'' [
               time_input ''Hour'' ''23'' (clock_value (getHours tz) d) HourTyped,
               time_input ''Min'' ''59'' (clock_value (getMinutes tz) d) MinuteTyped,
               time_input ''Sec'' ''59'' (clock_value (getSeconds tz) d) SecondTyped]]]]],
       FormDescription c ''Select date and specific time (including same-day scheduling)'',
       FormMessage c]"

definition notes_field :: "field_ctx \<Rightarrow> string \<Rightarrow> schedule_ui view" where
  "notes_field c v =
     text_field c ''Additional Notes (Optional)'' ''Textarea''
       [(''placeholder'', str ''Any special requirements or notes about the interview...''), (''rows'', js_int 4), (''value'', Str v)]
       (FieldChanged ''notes'') None"

definition ScheduleInterviewForm ::
  "(number \<Rightarrow> string option) \<Rightarrow> int \<Rightarrow> fields \<Rightarrow> bool \<Rightarrow> schedule_form \<Rightarrow> schedule_ui view" where
  "ScheduleInterviewForm show_date tz ctx hasCancel f =
     (let v = form_values f
      in box ''Form'' [el ''form'' [] [(''onSubmit'', SubmitForm)] [
        box ''div'' [
          text_field (ctx ''candidateName'') ''Candidate Name'' ''Input''
            [(''placeholder'', str ''John Doe''), (''value'', Str (candidateName v))] (FieldChanged ''candidateName'') None,
          text_field (ctx ''candidateEmail'') ''Email Address'' ''Input''
            [(''type'', str ''email''), (''placeholder'', str ''john.doe@example.com''), (''value'', Str (candidateEmail v))]
            (FieldChanged ''candidateEmail'') None],
        select_field (ctx ''position'') ''Position'' (Str (position v)) (FieldChanged ''position'')
          ''Select a position'' position_items,
        box ''div'' [
          date_field show_date tz (ctx ''scheduledDate'') (scheduledDate v),
          select_field (ctx ''duration'') ''Duration (minutes)'' (Str (js_to_string (Num (duration v))))
            (FieldChanged ''duration'') ''Select duration'' duration_items],
        chips_field (ctx ''interviewers'') ''Interviewers'' ''Enter interviewer email'' (interviewerInput f)
          InterviewerTyped InterviewerKeyPressed AddInterviewerClicked [lbl ''Add''] ''secondary''
          RemoveInterviewerClicked (interviewers f)
          (Some ''Add email addresses of interviewers (press Enter or click Add)''),
        chips_field (ctx ''tags'') ''Tags (Optional)'' ''e.g., technical, behavioral'' (tagInput f)
          TagTyped TagKeyPressed AddTagClicked [lbl ''Add''] ''outline'' RemoveTagClicked (tags f) None,
        notes_field (ctx ''notes'') (form_notes v),
        form_buttons (if hasCancel then Some CancelClicked else None) (form_submitting f) ''Schedule Interview'']])"

text \<open>
  What the handlers of the view do, as a step of the form. An event brings the text of its input,
  the key, the day picked, or the slider's values; \<open>now\<close> is the time and \<open>d\<close> the date picked
  before. Submitting and cancelling do not edit the form.
\<close>

datatype ui_value = Typed string | KeyPress string | Day "int option" | Slide "number list" | Click

fun schedule_field_change :: "string \<Rightarrow> string \<Rightarrow> schedule_field option" where
  "schedule_field_change n v =
     (if n = ''candidateName'' then Some (CandidateName v)
      else if n = ''candidateEmail'' then Some (CandidateEmail v)
      else if n = ''position'' then Some (Position v)
      else if n = ''duration'' then Some (Duration (case js_parse_int v of None \<Rightarrow> NaN | Some m \<Rightarrow> Fin (of_int m)))
      else if n = ''notes'' then Some (Notes v)
      else None)"

definition picked :: "(int option \<Rightarrow> int option) \<Rightarrow> number option \<Rightarrow> form_label" where
  "picked h d =
     (case d of
        None \<Rightarrow> date_change (h None)
      | Some (Fin t) \<Rightarrow> date_change (h (Some \<lfloor>t\<rfloor>))
      | Some NaN \<Rightarrow> Edit (ScheduledDate (map_option (\<lambda>_. NaN) (h (Some 0)))))"

fun schedule_action :: "int \<Rightarrow> int \<Rightarrow> number option \<Rightarrow> schedule_ui \<Rightarrow> ui_value \<Rightarrow> form_label option" where
  "schedule_action tz now d (FieldChanged n) (Typed v) = map_option Edit (schedule_field_change n v)"
| "schedule_action tz now d DaySelected (Day t) = Some (picked (\<lambda>c. on_select tz now c t) d)"
| "schedule_action tz now d HourTyped (Typed v) = Some (picked (\<lambda>c. on_hour tz now c v) d)"
| "schedule_action tz now d MinuteTyped (Typed v) = Some (picked (\<lambda>c. on_minute tz now c v) d)"
| "schedule_action tz now d SecondTyped (Typed v) = Some (picked (\<lambda>c. on_second tz now c v) d)"
| "schedule_action tz now d InterviewerTyped (Typed v) = Some (TypeInterviewer v)"
| "schedule_action tz now d InterviewerKeyPressed (KeyPress k) = Some (InterviewerKey k)"
| "schedule_action tz now d AddInterviewerClicked Click = Some AddInterviewer"
| "schedule_action tz now d (RemoveInterviewerClicked x) Click = Some (RemoveInterviewer x)"
| "schedule_action tz now d TagTyped (Typed v) = Some (TypeTag v)"
| "schedule_action tz now d TagKeyPressed (KeyPress k) = Some (TagKey k)"
| "schedule_action tz now d AddTagClicked Click = Some AddTag"
| "schedule_action tz now d (RemoveTagClicked x) Click = Some (RemoveTag x)"
| "schedule_action tz now d _ _ = None"

definition schedule_ui_step :: "int \<Rightarrow> int \<Rightarrow> schedule_form \<Rightarrow> schedule_ui \<Rightarrow> ui_value \<Rightarrow> schedule_form" where
  "schedule_ui_step tz now f e v =
     (case schedule_action tz now (scheduledDate (form_values f)) e v of
        None \<Rightarrow> f | Some l \<Rightarrow> form_event l f)"

section \<open>The evaluation form\<close>

datatype evaluation_ui =
    SubmitEvaluation
  | EvaluationFieldChanged string
  | StrengthTyped
  | StrengthKeyPressed
  | AddStrengthClicked
  | RemoveStrengthClicked string
  | WeaknessTyped
  | WeaknessKeyPressed
  | AddWeaknessClicked
  | RemoveWeaknessClicked string
  | CancelEvaluation

definition recommendation_items :: "(string \<times> string) list" where
  "recommendation_items = [
     (''strong_yes'', ''Strong Yes - Exceptional candidate''),
     (''yes'', ''Yes - Would hire''),
     (''maybe'', ''Maybe - On the fence''),
     (''no'', ''No - Would not hire''),
     (''strong_no'', ''Strong No - Not a fit'')]"

definition score_field :: "field_ctx \<Rightarrow> string \<Rightarrow> string \<Rightarrow> number \<Rightarrow> evaluation_ui view" where
  "score_field c name label value =
     FormItem [
       box ''div'' [FormLabel c label, box ''span'' [child (Num value), lbl ''/10'']],
       Slider Undef (Arr [Num value]) (js_int 0) (js_int 10) (control_attrs c @ [(''step'', js_int 1)])
         [(''onValueChange'', EvaluationFieldChanged name)],
       FormMessage c]"

definition scores_card :: "fields \<Rightarrow> evaluation_values \<Rightarrow> evaluation_ui view" where
  "scores_card ctx v =
     titled_card ''Evaluation Scores'' ''Rate the candidate on a scale of 0-10 for each category'' [
       score_field (ctx ''technicalScore'') ''technicalScore'' ''Technical Skills'' (technicalScore v),
       score_field (ctx ''communicationScore'') ''communicationScore'' ''Communication'' (communicationScore v),
       score_field (ctx ''problemSolvingScore'') ''problemSolvingScore'' ''Problem Solving'' (problemSolvingScore v),
       score_field (ctx ''cultureFitScore'') ''cultureFitScore'' ''Culture Fit'' (cultureFitScore v)]"

definition SubmitEvaluationForm :: "fields \<Rightarrow> bool \<Rightarrow> evaluation_form \<Rightarrow> evaluation_ui view" where
  "SubmitEvaluationForm ctx hasCancel f =
     (let v = ef_values f
      in box ''Form'' [el ''form'' [] [(''onSubmit'', SubmitEvaluation)] [
        box ''div'' [
          text_field (ctx ''evaluatorName'') ''Your Name'' ''Input''
            [(''placeholder'', str ''Jane Smith''), (''value'', Str (evaluatorName v))]
            (EvaluationFieldChanged ''evaluatorName'') None,
          text_field (ctx ''evaluatorEmail'') ''Your Email'' ''Input''
            [(''type'', str ''email''), (''placeholder'', str ''jane.smith@company.com''), (''value'', Str (evaluatorEmail v))]
            (EvaluationFieldChanged ''evaluatorEmail'') None],
        scores_card ctx v,
        chips_field (ctx ''strengths'') ''Key Strengths'' ''e.g., Strong problem-solving skills'' (strengthInput f)
          StrengthTyped StrengthKeyPressed AddStrengthClicked [box ''Plus'' []] ''default''
          RemoveStrengthClicked (strengths f) None,
        chips_field (ctx ''weaknesses'') ''Areas for Improvement'' ''e.g., Could improve time management'' (weaknessInput f)
          WeaknessTyped WeaknessKeyPressed AddWeaknessClicked [box ''Plus'' []] ''destructive''
          RemoveWeaknessClicked (weaknesses f) None,
        select_field (ctx ''recommendation'') ''Overall Recommendation'' (Str (recommendation v))
          (EvaluationFieldChanged ''recommendation'') ''Select your recommendation'' recommendation_items,
        text_field (ctx ''comments'') ''Additional Comments'' ''Textarea''
          [(''placeholder'', str ''Any additional feedback or observations about the candidate...''), (''rows'', js_int 6), (''value'', Str (comments v))]
          (EvaluationFieldChanged ''comments'')
          (Some ''Include any specific examples or notable moments from the interview''),
        form_buttons (if hasCancel then Some CancelEvaluation else None) (ef_submitting f) ''Submit Evaluation'']])"

fun evaluation_field_change :: "string \<Rightarrow> string \<Rightarrow> evaluation_field option" where
  "evaluation_field_change n v =
     (if n = ''evaluatorName'' then Some (EvaluatorName v)
      else if n = ''evaluatorEmail'' then Some (EvaluatorEmail v)
      else if n = ''recommendation'' then Some (Recommendation v)
      else if n = ''comments'' then Some (Comments v)
      else None)"

fun score_change :: "string \<Rightarrow> number \<Rightarrow> evaluation_field option" where
  "score_change n x =
     (if n = ''technicalScore'' then Some (TechnicalScore x)
      else if n = ''communicationScore'' then Some (CommunicationScore x)
      else if n = ''problemSolvingScore'' then Some (ProblemSolvingScore x)
      else if n = ''cultureFitScore'' then Some (CultureFitScore x)
      else None)"

fun evaluation_action :: "evaluation_ui \<Rightarrow> ui_value \<Rightarrow> evaluation_label option" where
  "evaluation_action (EvaluationFieldChanged n) (Typed v) = map_option EditEvaluation (evaluation_field_change n v)"
| "evaluation_action (EvaluationFieldChanged n) (Slide (x # _)) = map_option EditEvaluation (score_change n x)"
| "evaluation_action StrengthTyped (Typed v) = Some (TypeStrength v)"
| "evaluation_action StrengthKeyPressed (KeyPress k) = (if k = ''Enter'' then Some AddStrength else None)"
| "evaluation_action AddStrengthClicked Click = Some AddStrength"
| "evaluation_action (RemoveStrengthClicked x) Click = Some (RemoveStrength x)"
| "evaluation_action WeaknessTyped (Typed v) = Some (TypeWeakness v)"
| "evaluation_action WeaknessKeyPressed (KeyPress k) = (if k = ''Enter'' then Some AddWeakness else None)"
| "evaluation_action AddWeaknessClicked Click = Some AddWeakness"
| "evaluation_action (RemoveWeaknessClicked x) Click = Some (RemoveWeakness x)"
| "evaluation_action _ _ = None"

definition evaluation_ui_step :: "evaluation_form \<Rightarrow> evaluation_ui \<Rightarrow> ui_value \<Rightarrow> evaluation_form" where
  "evaluation_ui_step f e v = (case evaluation_action e v of None \<Rightarrow> f | Some l \<Rightarrow> evaluation_event l f)"

section \<open>The pages around the forms\<close>

definition form_page :: "string \<Rightarrow> string \<Rightarrow> string \<Rightarrow> string \<Rightarrow> 'h view \<Rightarrow> 'h view" where
  "form_page back back_label title description form =
     box ''div'' [
       box ''div'' [link_button (Str back) back_label],
       titled_card title description [form]]"

definition NewInterviewPage ::
  "(number \<Rightarrow> string option) \<Rightarrow> int \<Rightarrow> fields \<Rightarrow> schedule_form \<Rightarrow> schedule_ui view" where
  "NewInterviewPage show_date tz ctx f =
     form_page ''/dashboard/interviews'' ''Back to Interviews'' ''Schedule New Interview''
       ''Fill out the form below to schedule a new interview with a candidate.''
       (ScheduleInterviewForm show_date tz ctx True f)"

definition NewEvaluationPage :: "fields \<Rightarrow> string \<Rightarrow> evaluation_form \<Rightarrow> evaluation_ui view" where
  "NewEvaluationPage ctx interviewId f =
     form_page (''/dashboard/interviews/'' @ interviewId) ''Back to Interview'' ''Submit Evaluation''
       ''Provide your feedback and scores for this interview.''
       (SubmitEvaluationForm ctx True f)"

text \<open>\<open>onCancel\<close> of the two pages.\<close>

definition cancel_new_interview :: "('w, 'p, unit) handler" where
  "cancel_new_interview = effect (Push ''/dashboard/interviews'')"

definition cancel_evaluation :: "string \<Rightarrow> ('w, 'p, unit) handler" where
  "cancel_evaluation interviewId = effect (Push (''/dashboard/interviews/'' @ interviewId))"

section \<open>What the forms show\<close>

lemma date_field_renders [simp]:
  "renders (date_field show_date tz c d) \<longleftrightarrow> (case d of None \<Rightarrow> True | Some t \<Rightarrow> show_date t \<noteq> None)"
  by (auto simp: date_field_def time_input_def split: option.splits)

lemma date_field_offers [simp]:
  "renders (date_field show_date tz c d) \<Longrightarrow> offers (date_field show_date tz c d) = []"
  by (auto simp: date_field_def time_input_def offers_FormItem FormControl_def offers_el say_def split: option.splits)

lemma notes_field_shows [simp]: "renders (notes_field c v)" "offers (notes_field c v) = []"
  by (simp_all add: notes_field_def)

lemma schedule_view_renders:
  "renders (ScheduleInterviewForm show_date tz ctx b f) \<longleftrightarrow>
     (case scheduledDate (form_values f) of None \<Rightarrow> True | Some t \<Rightarrow> show_date t \<noteq> None)"
  by (simp add: ScheduleInterviewForm_def Let_def)

lemma schedule_view_offers:
  assumes "case scheduledDate (form_values f) of None \<Rightarrow> True | Some t \<Rightarrow> show_date t \<noteq> None"
  shows "offers (ScheduleInterviewForm show_date tz ctx b f) =
     AddInterviewerClicked # map RemoveInterviewerClicked (interviewers f)
     @ AddTagClicked # map RemoveTagClicked (tags f) @ (if b then [CancelClicked] else [])"
  using assms by (simp add: ScheduleInterviewForm_def Let_def offers_el)

lemma chip_removed_remove1: "distinct cs \<Longrightarrow> chip_removed c cs = remove1 c cs"
  by (simp add: chip_removed_def distinct_remove1_removeAll removeAll_filter_not_eq eq_commute [of c])

text \<open>
  C29. Whatever the user has entered so far, the schedule form offers, besides its two add buttons
  and Cancel, one remove button for each chip it shows, all of them for different chips, and such
  a click removes that chip and no other.
\<close>

theorem schedule_form_chips:
  assumes "execution form_step init_schedule ls f"
    and "case scheduledDate (form_values f) of None \<Rightarrow> True | Some t \<Rightarrow> show_date t \<noteq> None"
  shows "offers (ScheduleInterviewForm show_date tz ctx b f) =
           AddInterviewerClicked # map RemoveInterviewerClicked (interviewers f)
           @ AddTagClicked # map RemoveTagClicked (tags f) @ (if b then [CancelClicked] else [])
       \<and> distinct (offers (ScheduleInterviewForm show_date tz ctx b f))
       \<and> interviewers (schedule_ui_step tz now f (RemoveInterviewerClicked x) Click) = remove1 x (interviewers f)
       \<and> tags (schedule_ui_step tz now f (RemoveTagClicked x) Click) = remove1 x (tags f)"
proof -
  have ok: "form_ok f" by (rule schedule.reachable_inv [OF assms(1) refl])
  then have d: "distinct (interviewers f)" "distinct (tags f)"
    by (simp_all add: form_ok_def interviewer_list.chips_ok_def tag_list.chips_ok_def clean_chips_def)
  then have "distinct (offers (ScheduleInterviewForm show_date tz ctx b f))"
    unfolding schedule_view_offers [OF assms(2)] by (auto simp: distinct_map inj_on_def)
  then show ?thesis
    using schedule_view_offers [OF assms(2)] d
    by (simp add: interviewer_list.remove_chips tag_list.remove_chips chip_removed_remove1 schedule_ui_step_def)
qed

definition two_tags :: schedule_form where
  "two_tags = addTag (setTagInput '' remote '' (addTag (setTagInput ''senior'' init_schedule)))"

lemma two_tags_reached:
  "execution form_step init_schedule [TypeTag ''senior'', AddTag, TypeTag '' remote '', AddTag] two_tags"
  by (rule execution_cons execution_single | simp add: form_step_def two_tags_def)+

lemma two_tags_tags: "tags two_tags = [''senior'', ''remote'']"
  by code_simp

theorem schedule_form_chips_witness:
  "tags (schedule_ui_step 0 0 two_tags (RemoveTagClicked ''senior'') Click) = [''remote'']"
proof -
  have "scheduledDate (form_values two_tags) = None" by code_simp
  then have d: "case scheduledDate (form_values two_tags) of None \<Rightarrow> True | Some t \<Rightarrow> (\<lambda>_. None) t \<noteq> (None :: string option)"
    by simp
  from schedule_form_chips [OF two_tags_reached d, where tz = 0 and now = 0 and x = "''senior''"
      and ctx = "\<lambda>_. \<lparr>item_id = [], field_error = None\<rparr>" and b = True]
  show ?thesis by (simp add: two_tags_tags)
qed

lemma score_field_renders [simp]: "renders (score_field c n l v)"
  by (auto simp: score_field_def Slider_def slider_values_def list_all_iff intro!: everywhere_child_num)

lemma score_field_offers [simp]: "offers (score_field c n l v) = []"
  by (simp add: score_field_def offers_FormItem offers_el Slider_def slider_values_def)

lemma scores_card_shows [simp]: "renders (scores_card ctx v)" "offers (scores_card ctx v) = []"
  by (simp_all add: scores_card_def titled_card_def offers_el)

lemma evaluation_view_renders: "renders (SubmitEvaluationForm ctx b f)"
  by (simp add: SubmitEvaluationForm_def Let_def)

lemma evaluation_view_offers:
  "offers (SubmitEvaluationForm ctx b f) =
     AddStrengthClicked # map RemoveStrengthClicked (strengths f)
     @ AddWeaknessClicked # map RemoveWeaknessClicked (weaknesses f) @ (if b then [CancelEvaluation] else [])"
  by (simp add: SubmitEvaluationForm_def Let_def offers_el)

section \<open>Notes are not sent\<close>

text \<open>
  The schedule form has a field for notes and shows what is typed there, but the request made
  from the form is the same whatever the notes say.
\<close>

theorem notes_never_sent:
  "texts (notes_field c v) = texts (notes_field c v')
   \<and> interview_data to_iso (d\<lparr>data_values := (data_values d)\<lparr>form_notes := v\<rparr>\<rparr>) = interview_data to_iso d
   \<and> new_interview_submit to_iso srv (d\<lparr>data_values := (data_values d)\<lparr>form_notes := v\<rparr>\<rparr>) = new_interview_submit to_iso srv d"
proof -
  have i: "interview_data to_iso (d\<lparr>data_values := (data_values d)\<lparr>form_notes := v\<rparr>\<rparr>) = interview_data to_iso d"
    by (simp add: interview_data_def Let_def)
  then show ?thesis
    by (simp add: new_interview_submit_def fun_eq_iff notes_field_def text_field_def texts_def FormItem_def FormControl_def)
qed

section \<open>Labels and inputs\<close>

lemma view_of_children: "views kids = Inr ns \<Longrightarrow> el tag as hs kids = Inr [El tag as hs ns]"
  by (simp add: el_def views.simps)

lemma input_attrs:
  "\<exists>ks. Input st props hs [] = Inr [El ''input'' ks hs []]
     \<and> (\<forall>k. k \<notin> {''data-slot'', ''type'', ''className''} \<longrightarrow> field ks k = field props k)"
proof -
  have "field (slotted_attrs st ''input'' [(''type'', field props ''type'')] base [''type''] props) k = field props k"
    if "k \<notin> {''data-slot'', ''type'', ''className''}" for base k
    using that unfolding slotted_attrs_def dressed_def by (intro spread_passes) simp_all
  then show ?thesis
    unfolding Input_def by (simp add: view_of_children views.simps)
qed

lemma control_after:
  "k \<notin> fst ` set as \<Longrightarrow> field (as @ control_attrs c) k = field (control_attrs c) k"
  by (induction as) (auto simp: field_def)



end
