(* ===== verification/Toaster_View.thy ===== *)
theory Toaster_View
  imports Toast_Lifecycle View
begin

text \<open>
  The component that shows the toasts of the store, \<^verbatim>\<open>components/ui/toaster.tsx\<close>. Closing a
  toast calls its \<open>onOpenChange\<close>. The components of \<^verbatim>\<open>toast.tsx\<close> it uses only add classes to those
  of the primitives library and are left as tags.
\<close>

datatype toaster_event = OpenChanged string

definition rest_props :: "toast \<Rightarrow> obj" where
  "rest_props t =
     filter (\<lambda>(k, _). k \<notin> set [''id'', ''title'', ''description'', ''action'', ''open'', ''onOpenChange'']) (toast_props t)
     @ [(''open'', Bool (toast_open t))]"

definition toast_card :: "toast \<Rightarrow> toaster_event view" where
  "toast_card t =
     el ''Toast'' ((''key'', Str (toast_id t)) # rest_props t) [(''onOpenChange'', OpenChanged (toast_id t))] [
       box ''div'' [
         and_then (field (toast_props t) ''title'') (box ''ToastTitle'' [child (field (toast_props t) ''title'')]),
         and_then (field (toast_props t) ''description'')
           (box ''ToastDescription'' [child (field (toast_props t) ''description'')])],
       child (field (toast_props t) ''action''),
       box ''ToastClose'' []]"

definition Toaster :: "toast list \<Rightarrow> toaster_event view" where
  "Toaster toasts = box ''ToastProvider'' (map toast_card toasts @ [box ''ToastViewport'' []])"

text \<open>
  C36. From any state of the store, showing a toast makes every subscribed toaster render exactly
  that toast's title and description, an error toast or a plain one, and nothing of the toast that
  was there.
\<close>

theorem toaster_shows_the_toast:
  assumes "execution store_step init_store ls s"
    and "toast ((''title'', Str title) # (''description'', Str descr) # variant) s = (i, s')"
    and "c \<in> set (subscribers s')" and "title \<noteq> []" and "descr \<noteq> []"
    and "variant = [] \<or> variant = [(''variant'', Str ''destructive'')]"
  shows "renders (Toaster (shown s' c)) \<and> texts (Toaster (shown s' c)) = [title, descr]"
proof -
  have inv: "store_inv s"
    using toasts.reachable_inv [OF assms(1) refl] .
  have "shown s' c = [\<lparr>toast_id = i, toast_open = True, toast_props = (''title'', Str title) # (''description'', Str descr) # variant\<rparr>]"
    using inv assms(2,3) by (auto simp: toast_run Let_def store_inv_def notify_def)
  then show ?thesis
    using assms(4-6) by (auto simp: Toaster_def toast_card_def and_then_def texts_def field_def)
qed

theorem toaster_shows_the_toast_witness:
  "texts (Toaster (shown (snd (toast [(''title'', Str ''Error''), (''description'', Str ''No answer'')]
     (useToast_effect 0 init_store))) 0)) = [''Error'', ''No answer'']"
proof -
  let ?props = "(''title'', Str ''Error'') # (''description'', Str ''No answer'') # []"
  have e: "execution store_step init_store [Effect 0] (useToast_effect 0 init_store)"
    by (rule execution_single) (rule step_effect)
  have t: "toast ?props (useToast_effect 0 init_store) =
      (fst (toast ?props (useToast_effect 0 init_store)), snd (toast ?props (useToast_effect 0 init_store)))"
    by simp
  have "0 \<in> set (subscribers (snd (toast ?props (useToast_effect 0 init_store))))"
    by (simp add: toast_run Let_def useToast_effect_def)
  from toaster_shows_the_toast [OF e t this] show ?thesis by simp
qed

end
