(* ===== verification/Tailwind_Build.thy ===== *)
theory Tailwind_Build
  imports Transition "HOL-Library.AList"
begin

text \<open>
  The style sheet build of the web UI, \<^verbatim>\<open>cmd/nzovu/web-ui/scripts/build-tailwind.mjs\<close>: walking the
  template and script directories, collecting the class names they use, the build itself and its
  watch mode. A file system is a tree and a path the list of its segments from the root; the
  order of a directory is the order in which it is listed. The compiler of Tailwind is a parameter.
\<close>

section \<open>Files\<close>

datatype fsnode = File string | Dir "(string \<times> fsnode) list"

type_synonym fspath = "string list"

fun node_at :: "fspath \<Rightarrow> fsnode \<Rightarrow> fsnode option" where
  "node_at [] n = Some n"
| "node_at (p # ps) (File c) = None"
| "node_at (p # ps) (Dir es) = (case map_of es p of None \<Rightarrow> None | Some n \<Rightarrow> node_at ps n)"

definition readFileSync :: "fsnode \<Rightarrow> fspath \<Rightarrow> exn + string" where
  "readFileSync fs p =
     (case node_at p fs of
        None \<Rightarrow> Inl (Error ''ENOENT'')
      | Some (Dir _) \<Rightarrow> Inl (Error ''EISDIR'')
      | Some (File c) \<Rightarrow> Inr c)"

text \<open>Creating the missing directories on the way (\<open>mkdirSync\<close>, recursive) and writing the file.\<close>

fun put_file :: "fspath \<Rightarrow> string \<Rightarrow> fsnode \<Rightarrow> exn + fsnode" where
  "put_file [] c (File _) = Inr (File c)"
| "put_file [] c (Dir _) = Inl (Error ''EISDIR'')"
| "put_file (p # ps) c (File _) = Inl (Error ''ENOTDIR'')"
| "put_file (p # ps) c (Dir es) =
     bind_res (put_file ps c (case map_of es p of Some n \<Rightarrow> n | None \<Rightarrow> if ps = [] then File [] else Dir []))
       (\<lambda>n. Inr (Dir (AList.update p n es)))"

text \<open>\<open>path.extname\<close> of a name: from the last dot on, unless the name starts with it.\<close>

definition extname :: "string \<Rightarrow> string" where
  "extname name =
     (let e = takeWhile (\<lambda>c. c \<noteq> CHR ''.'') (rev name); b = dropWhile (\<lambda>c. c \<noteq> CHR ''.'') (rev name)
      in if length b \<le> 1 \<or> name = ''..'' then [] else CHR ''.'' # rev e)"

definition exts :: "string list" where
  "exts = [''.gohtml'', ''.html'', ''.js'']"

function walk_entries :: "fspath \<Rightarrow> (string \<times> fsnode) list \<Rightarrow> fspath list" where
  "walk_entries dir [] = []"
| "walk_entries dir ((name, Dir es) # rest) = walk_entries (dir @ [name]) es @ walk_entries dir rest"
| "walk_entries dir ((name, File c) # rest) =
     (if extname name \<in> set exts then [dir @ [name]] else []) @ walk_entries dir rest"
  by pat_completeness auto
termination
  by (relation "measure (\<lambda>(_, es). size_list (size_prod (\<lambda>_. 0) size) es)") auto

definition walk :: "fsnode \<Rightarrow> fspath \<Rightarrow> exn + fspath list" where
  "walk fs dir =
     (case node_at dir fs of
        None \<Rightarrow> Inr []
      | Some (File _) \<Rightarrow> Inl (Error ''ENOTDIR'')
      | Some (Dir es) \<Rightarrow> Inr (walk_entries dir es))"

section \<open>Class names\<close>

text \<open>
  The three expressions have one shape: a literal, for the third one white space, a quote, and a
  value that is not empty, up to the next such quote. The value cannot contain the quote and white
  space is no quote, so matching needs no backtracking. \<open>exec_all\<close> is the loop over \<open>exec\<close>
  of a global expression: each match starts where the one before ended.
\<close>

record class_regex =
  re_literal :: string
  re_space :: bool
  re_quote :: char

definition dq_regex :: class_regex where
  "dq_regex = \<lparr>re_literal = ''class='', re_space = False, re_quote = CHR 0x22\<rparr>"

definition sq_regex :: class_regex where
  "sq_regex = \<lparr>re_literal = ''class='', re_space = False, re_quote = CHR 0x27\<rparr>"

definition colon_regex :: class_regex where
  "colon_regex = \<lparr>re_literal = ''class:'', re_space = True, re_quote = CHR 0x22\<rparr>"

definition class_regexes :: "class_regex list" where
  "class_regexes = [dq_regex, sq_regex, colon_regex]"

definition after_literal :: "class_regex \<Rightarrow> string \<Rightarrow> string" where
  "after_literal r s =
     (let t = drop (length (re_literal r)) s in if re_space r then dropWhile js_space t else t)"

definition match_at :: "class_regex \<Rightarrow> string \<Rightarrow> (string \<times> string) option" where
  "match_at r s =
     (if take (length (re_literal r)) s \<noteq> re_literal r then None
      else case after_literal r s of
        [] \<Rightarrow> None
      | c # t \<Rightarrow>
          let v = takeWhile (\<lambda>x. x \<noteq> re_quote r) t; u = dropWhile (\<lambda>x. x \<noteq> re_quote r) t
          in if c = re_quote r \<and> v \<noteq> [] \<and> u \<noteq> [] then Some (v, tl u) else None)"

lemma after_literal_length: "length (after_literal r s) \<le> length s"
  by (auto simp: after_literal_def Let_def intro: order_trans [OF length_dropWhile_le])

lemma match_at_shorter: "match_at r s = Some (v, rest) \<Longrightarrow> length rest < length s"
proof -
  assume m: "match_at r s = Some (v, rest)"
  then obtain c t where t: "after_literal r s = c # t" "rest = tl (dropWhile (\<lambda>x. x \<noteq> re_quote r) t)"
    by (auto simp: match_at_def Let_def split: if_splits list.splits)
  have "length (dropWhile (\<lambda>x. x \<noteq> re_quote r) t) \<le> length t" by (rule length_dropWhile_le)
  then show ?thesis using after_literal_length [of r s] t by simp
qed

function exec_all :: "class_regex \<Rightarrow> string \<Rightarrow> string list" where
  "exec_all r [] = []"
| "exec_all r (c # s) =
     (case match_at r (c # s) of None \<Rightarrow> exec_all r s | Some (v, rest) \<Rightarrow> v # exec_all r rest)"
  by pat_completeness auto
termination
  by (relation "measure (\<lambda>(_, s). length s)") (auto dest: match_at_shorter)

text \<open>\<open>split(/\s+/)\<close> and \<open>filter(Boolean)\<close>\<close>

function split_runs :: "string \<Rightarrow> string list" where
  "split_runs [] = [[]]"
| "split_runs (c # s) =
     (if js_space c then [] # split_runs (dropWhile js_space s)
      else case split_runs s of [] \<Rightarrow> [[c]] | w # ws \<Rightarrow> (c # w) # ws)"
  by pat_completeness auto
termination
  by (relation "measure length") (auto simp: le_imp_less_Suc length_dropWhile_le)

definition class_names :: "string \<Rightarrow> string list" where
  "class_names v = filter (\<lambda>w. w \<noteq> []) (split_runs v)"

text \<open>A \<open>Set\<close> lists its members in the order of their first insertion.\<close>

definition set_add :: "string list \<Rightarrow> string \<Rightarrow> string list" where
  "set_add xs x = (if x \<in> set xs then xs else xs @ [x])"

definition collectCandidates :: "string \<Rightarrow> string list" where
  "collectCandidates content =
     foldl (\<lambda>cs r. foldl (\<lambda>cs v. foldl set_add cs (class_names v)) cs (exec_all r content)) [] class_regexes"

section \<open>The build\<close>

definition srcFile :: "fspath \<Rightarrow> fspath" where
  "srcFile home = home @ [''static'', ''css'', ''input.css'']"

definition outFile :: "fspath \<Rightarrow> fspath" where
  "outFile home = home @ [''static'', ''css'', ''app.css'']"

definition seeds :: "string list" where
  "seeds = [
     ''nzovu-badge'', ''nzovu-badge-good'', ''nzovu-badge-warn'', ''nzovu-badge-muted'',
     ''border-red-500/25'', ''bg-red-500/10'', ''text-red-300'',
     ''border-sky-500/25'', ''bg-sky-500/10'', ''text-sky-300'',
     ''text-emerald-300'', ''text-amber-300'', ''text-zinc-200'']"

definition build_files :: "fspath \<Rightarrow> fsnode \<Rightarrow> exn + fspath list" where
  "build_files home fs =
     bind_res (walk fs (home @ [''templates''])) (\<lambda>ts.
     bind_res (walk fs (home @ [''static'', ''js''])) (\<lambda>js. Inr (ts @ js)))"

fun candidates_of :: "fsnode \<Rightarrow> string list \<Rightarrow> fspath list \<Rightarrow> exn + string list" where
  "candidates_of fs cs [] = Inr cs"
| "candidates_of fs cs (f # fls) =
     bind_res (readFileSync fs f) (\<lambda>content. candidates_of fs (foldl set_add cs (collectCandidates content)) fls)"

text \<open>\<open>path.join\<close> of an absolute path and a name, with the dots resolved.\<close>

definition path_join :: "fspath \<Rightarrow> string \<Rightarrow> fspath" where
  "path_join base name =
     foldl (\<lambda>acc x. if x = [] \<or> x = ''.'' then acc else if x = ''..'' then butlast acc else acc @ [x])
       base (js_split CHR ''/'' name)"

definition loadStylesheet :: "fspath \<Rightarrow> fspath \<Rightarrow> fsnode \<Rightarrow> string \<Rightarrow> fspath option \<Rightarrow> exn + (fspath \<times> string)" where
  "loadStylesheet twRoot home fs name base =
     (if name = ''tailwindcss'' then
        bind_res (readFileSync fs (twRoot @ [''index.css''])) (\<lambda>content. Inr (twRoot, content))
      else
        let target = (if js_starts_with name ''/'' then path_join [] name
                      else path_join (case base of None \<Rightarrow> home | Some b \<Rightarrow> b) name)
        in bind_res (readFileSync fs target) (\<lambda>content. Inr (butlast target, content)))"

text \<open>The compiler gets the source, its path and the loader, and gives the function from classes to CSS.\<close>

type_synonym compiler =
  "string \<Rightarrow> fspath \<Rightarrow> (string \<Rightarrow> fspath option \<Rightarrow> exn + (fspath \<times> string)) \<Rightarrow> exn + (string list \<Rightarrow> string)"

text \<open>The part of \<open>build\<close> up to writing: the style sheet, and the number of candidates logged with it.\<close>

definition prepare :: "compiler \<Rightarrow> fspath \<Rightarrow> fspath \<Rightarrow> fsnode \<Rightarrow> exn + (string \<times> nat)" where
  "prepare compile twRoot home fs =
     bind_res (readFileSync fs (srcFile home)) (\<lambda>source.
     bind_res (build_files home fs) (\<lambda>fls.
     bind_res (candidates_of fs seeds fls) (\<lambda>candidates.
     bind_res (compile source (srcFile home) (loadStylesheet twRoot home fs)) (\<lambda>compiled.
     Inr (compiled candidates, length candidates)))))"

definition built_line :: "nat \<Rightarrow> string" where
  "built_line n = ''built static/css/app.css with '' @ show_nat n @ '' candidates''"

definition write_css :: "fspath \<Rightarrow> string \<times> nat \<Rightarrow> fsnode \<Rightarrow> exn + (fsnode \<times> string)" where
  "write_css home p fs =
     bind_res (put_file (outFile home) (fst p) fs) (\<lambda>fs'. Inr (fs', built_line (snd p)))"

definition build :: "compiler \<Rightarrow> fspath \<Rightarrow> fspath \<Rightarrow> fsnode \<Rightarrow> exn + (fsnode \<times> string)" where
  "build compile twRoot home fs = bind_res (prepare compile twRoot home fs) (\<lambda>p. write_css home p fs)"

section \<open>Watch mode\<close>

text \<open>
  After the first build the directories that exist are watched. A change of a path below one of them
  starts a build, unless it is the output file. A build reads its sources at once, waits for the
  compiler, and writes later: \<open>w_pending\<close> holds what the builds under way will write. A finished
  build changes the output file, which the watcher of its directory reports like any other change.
  Errors are logged.
\<close>

record watch_state =
  w_fs :: fsnode
  w_pending :: "(string \<times> nat) list"
  w_log :: "string list"
  w_errors :: "exn list"

definition triggers :: "fspath \<Rightarrow> fspath list \<Rightarrow> fspath \<Rightarrow> bool" where
  "triggers home dirs p \<longleftrightarrow>
     list_ex (\<lambda>d. prefix d p) (filter (\<lambda>d. d \<noteq> home @ [''static'', ''css'']) dirs)
     \<or> home @ [''static'', ''css''] \<in> set dirs \<and> prefix (home @ [''static'', ''css'']) p \<and> p \<noteq> outFile home"

definition watch_dirs :: "fspath \<Rightarrow> fsnode \<Rightarrow> fspath list" where
  "watch_dirs home fs =
     filter (\<lambda>d. node_at d fs \<noteq> None)
       [home @ [''templates''], home @ [''static'', ''js''], home @ [''static'', ''css'']]"

definition on_change :: "compiler \<Rightarrow> fspath \<Rightarrow> fspath \<Rightarrow> fspath list \<Rightarrow> fspath \<Rightarrow> watch_state \<Rightarrow> watch_state" where
  "on_change compile twRoot home dirs p s =
     (if \<not> triggers home dirs p then s
      else case prepare compile twRoot home (w_fs s) of
        Inl e \<Rightarrow> s\<lparr>w_errors := w_errors s @ [e]\<rparr>
      | Inr q \<Rightarrow> s\<lparr>w_pending := w_pending s @ [q]\<rparr>)"

definition finish :: "compiler \<Rightarrow> fspath \<Rightarrow> fspath \<Rightarrow> fspath list \<Rightarrow> nat \<Rightarrow> watch_state \<Rightarrow> watch_state" where
  "finish compile twRoot home dirs i s =
     (let s' = s\<lparr>w_pending := take i (w_pending s) @ drop (Suc i) (w_pending s)\<rparr>
      in case write_css home (w_pending s ! i) (w_fs s) of
           Inl e \<Rightarrow> s'\<lparr>w_errors := w_errors s @ [e]\<rparr>
         | Inr (fs', line) \<Rightarrow>
             on_change compile twRoot home dirs (outFile home) (s'\<lparr>w_fs := fs', w_log := w_log s @ [line]\<rparr>))"

datatype watch_label = Change fsnode fspath | Finish nat

inductive watch_step ::
  "compiler \<Rightarrow> fspath \<Rightarrow> fspath \<Rightarrow> fspath list \<Rightarrow> watch_state \<Rightarrow> watch_label \<Rightarrow> watch_state \<Rightarrow> bool"
  for compile twRoot home dirs where
  step_change: "watch_step compile twRoot home dirs s (Change fs p) (on_change compile twRoot home dirs p (s\<lparr>w_fs := fs\<rparr>))"
| step_finish: "i < length (w_pending s) \<Longrightarrow>
    watch_step compile twRoot home dirs s (Finish i) (finish compile twRoot home dirs i s)"

inductive_simps watch_step_simps [simp]:
  "watch_step compile twRoot home dirs s (Change fs p) t"
  "watch_step compile twRoot home dirs s (Finish i) t"

section \<open>Sets in insertion order\<close>

lemma set_add_set [simp]: "set (set_add xs x) = insert x (set xs)"
  by (auto simp: set_add_def)

lemma fold_set_add [simp]: "set (foldl set_add cs xs) = set cs \<union> set xs"
  by (induction xs arbitrary: cs) auto

lemma fold_set_add_distinct: "distinct cs \<Longrightarrow> distinct (foldl set_add cs xs)"
  by (induction xs arbitrary: cs) (auto simp: set_add_def)

lemma fold_folds [simp]:
  "set (foldl (\<lambda>cs v. foldl set_add cs (f v)) cs vs) = set cs \<union> (\<Union>v\<in>set vs. set (f v))"
  by (induction vs arbitrary: cs) auto

lemma fold_fold_folds [simp]:
  "set (foldl (\<lambda>cs r. foldl (\<lambda>cs v. foldl set_add cs (f v)) cs (g r)) cs rs) =
     set cs \<union> (\<Union>r\<in>set rs. \<Union>v\<in>set (g r). set (f v))"
  by (induction rs arbitrary: cs) auto

lemma collected: "set (collectCandidates s) = (\<Union>r\<in>set class_regexes. \<Union>v\<in>set (exec_all r s). set (class_names v))"
  by (simp add: collectCandidates_def)

lemma fold_folds_distinct:
  "distinct cs \<Longrightarrow> distinct (foldl (\<lambda>cs v. foldl set_add cs (f v)) cs vs)"
  by (induction vs arbitrary: cs) (auto simp: fold_set_add_distinct)

lemma collected_distinct: "distinct (collectCandidates s)"
  by (simp add: collectCandidates_def class_regexes_def fold_folds_distinct)

end
