(* ===== verification/Class_Scanner.thy ===== *)
theory Class_Scanner
  imports Tailwind_Build
begin

text \<open>
  The scanner of class names is a left inverse of printing: on markup whose only quotes delimit
  class attributes, it finds exactly the names the attributes were printed with.
\<close>

section \<open>Scanning up to a quote\<close>

text \<open>What can stand before the opening quote of a match.\<close>

definition opens :: "class_regex \<Rightarrow> string \<Rightarrow> bool" where
  "opens r a \<longleftrightarrow> (\<exists>w. a = re_literal r @ w \<and> (if re_space r then list_all js_space w else w = []))"

lemma dropWhile_first: "dropWhile P s = c # t \<Longrightarrow> \<exists>w. s = w @ c # t \<and> list_all P w \<and> \<not> P c"
  unfolding dropWhile_eq_Cons_conv
  by (intro exI [of _ "takeWhile P s"]) (simp add: list_all_iff, blast dest: set_takeWhileD)

lemma first_quote: "a @ q # b = a' @ q # b' \<Longrightarrow> q \<notin> set a \<Longrightarrow> q \<notin> set a' \<Longrightarrow> a = a' \<and> b = b'"
proof (induction a arbitrary: a')
  case Nil
  then show ?case by (cases a') auto
next
  case (Cons x a)
  then show ?case by (cases a') auto
qed

lemma match_opens:
  assumes "match_at r (a @ re_quote r # b) = Some x" "re_quote r \<notin> set a"
    and "re_quote r \<notin> set (re_literal r)" "\<not> js_space (re_quote r)"
  shows "opens r a"
proof -
  let ?s = "a @ re_quote r # b"
  obtain t where t: "take (length (re_literal r)) ?s = re_literal r" "after_literal r ?s = re_quote r # t"
    using assms(1) by (auto simp: match_at_def Let_def split: if_splits list.splits)
  let ?d = "drop (length (re_literal r)) ?s"
  have s: "?s = re_literal r @ ?d" using t(1) by (metis append_take_drop_id)
  have "\<exists>w. ?d = w @ re_quote r # t \<and> (if re_space r then list_all js_space w else w = [])"
    using t(2) dropWhile_first [of js_space ?d] by (auto simp: after_literal_def Let_def split: if_splits)
  then obtain w where w: "?d = w @ re_quote r # t" "if re_space r then list_all js_space w else w = []"
    by blast
  have "re_quote r \<notin> set w"
    using w(2) assms(4) by (auto simp: list_all_iff split: if_splits)
  then have "a = re_literal r @ w"
    using first_quote [of a "re_quote r" b "re_literal r @ w" t] s w(1) assms(2,3) by simp
  then show ?thesis using w(2) by (auto simp: opens_def)
qed

lemma exec_all_step: "match_at r (c # s) = None \<Longrightarrow> exec_all r (c # s) = exec_all r s"
  by simp

lemma exec_all_skip:
  assumes "re_quote r \<notin> set a" "re_quote r \<notin> set (re_literal r)" "\<not> js_space (re_quote r)"
    and "\<And>a'. a' \<noteq> [] \<Longrightarrow> suffix a' a \<Longrightarrow> \<not> opens r (a' @ c)" and "re_quote r \<notin> set c"
  shows "exec_all r (a @ c @ re_quote r # b) = exec_all r (c @ re_quote r # b)"
  using assms(1,4)
proof (induction a)
  case (Cons x a)
  have "\<not> opens r ((x # a) @ c)" using Cons.prems(2) [of "x # a"] by simp
  then have "match_at r (((x # a) @ c) @ re_quote r # b) = None"
    using match_opens [of r "(x # a) @ c" b] Cons.prems(1) assms(2,3,5) by (cases "match_at r (((x # a) @ c) @ re_quote r # b)") auto
  moreover have "exec_all r (a @ c @ re_quote r # b) = exec_all r (c @ re_quote r # b)"
    using Cons.IH Cons.prems by (simp add: suffix_ConsI)
  ultimately show ?case by simp
qed simp

lemma match_needs_quote: "match_at r s = Some x \<Longrightarrow> re_quote r \<in> set s"
proof -
  assume "match_at r s = Some x"
  then obtain t where "after_literal r s = re_quote r # t"
    by (auto simp: match_at_def Let_def split: if_splits list.splits)
  then have "re_quote r \<in> set (after_literal r s)" by simp
  then show ?thesis
    by (auto simp: after_literal_def Let_def dest: set_dropWhileD in_set_dropD split: if_splits)
qed

lemma exec_all_no_quote: "re_quote r \<notin> set s \<Longrightarrow> exec_all r s = []"
proof (induction s)
  case (Cons c s)
  then have "match_at r (c # s) = None"
    using match_needs_quote [of r "c # s"] by (cases "match_at r (c # s)") auto
  then show ?case using Cons by simp
qed simp

lemma up_to_quote:
  "q \<notin> set v \<Longrightarrow> takeWhile (\<lambda>x. x \<noteq> q) (v @ q # b) = v"
  "q \<notin> set v \<Longrightarrow> dropWhile (\<lambda>x. x \<noteq> q) (v @ q # b) = q # b"
  by (induction v) auto

lemma exec_all_value:
  assumes "re_literal r = l # ls" "\<not> re_space r" "re_quote r \<notin> set v" "v \<noteq> []"
  shows "exec_all r (re_literal r @ re_quote r # v @ re_quote r # b) = v # exec_all r b"
proof -
  have "match_at r (re_literal r @ re_quote r # v @ re_quote r # b) = Some (v, b)"
    using assms(2-) by (simp add: match_at_def after_literal_def up_to_quote Let_def)
  then show ?thesis using assms(1) by simp
qed

section \<open>Splitting at white space\<close>

lemma split_runs_word: "list_all (\<lambda>c. \<not> js_space c) w \<Longrightarrow> split_runs w = [w]"
  by (induction w) auto

lemma split_runs_next:
  "list_all (\<lambda>c. \<not> js_space c) w \<Longrightarrow> js_space c \<Longrightarrow>
     split_runs (w @ c # s) = w # split_runs (dropWhile js_space s)"
  by (induction w) auto

text \<open>A class name of the kind the scanner is made for.\<close>

definition plain_name :: "string \<Rightarrow> bool" where
  "plain_name c \<longleftrightarrow>
     c \<noteq> [] \<and> list_all (\<lambda>x. \<not> js_space x \<and> x \<noteq> CHR 0x22 \<and> x \<noteq> CHR 0x27) c \<and> last c \<noteq> CHR '':'' \<and> last c \<noteq> CHR ''=''"

lemma plain_no_space: "plain_name c \<Longrightarrow> list_all (\<lambda>x. \<not> js_space x) c \<and> c \<noteq> []"
  by (auto simp: plain_name_def list_all_iff)

lemma list_nonempty_induct_plain [consumes 1, case_names single cons]:
  assumes "xs \<noteq> []" "\<And>x. P [x]" "\<And>x y ys. P (y # ys) \<Longrightarrow> P (x # y # ys)"
  shows "P xs"
  using assms(1)
proof (induction xs)
  case (Cons x xs)
  then show ?case using assms(2,3) by (cases xs) auto
qed simp

lemma split_runs_join:
  assumes "cs \<noteq> []" "list_all plain_name cs"
  shows "split_runs (js_join '' '' cs) = cs"
  using assms
proof (induction cs rule: list_nonempty_induct_plain)
  case (single c)
  then show ?case by (simp add: split_runs_word plain_no_space)
next
  case (cons c d cs)
  then have "dropWhile js_space (js_join '' '' (d # cs)) = js_join '' '' (d # cs)"
    by (cases d; cases cs) (auto simp: plain_name_def)
  then show ?case
    using cons plain_no_space [of c] by (simp add: split_runs_next js_space_def)
qed

lemma class_names_join:
  "list_all plain_name cs \<Longrightarrow> class_names (js_join '' '' cs) = cs"
  using split_runs_join [of cs]
  by (cases "cs = []") (auto simp: class_names_def list_all_iff plain_name_def intro!: filter_True)

section \<open>Markup\<close>

text \<open>
  Elements as text and an attribute with its class names; the text has no quotes. \<open>markup\<close> prints
  elements and the text after them.
\<close>

definition plain_text :: "string \<Rightarrow> bool" where
  "plain_text t \<longleftrightarrow> CHR 0x22 \<notin> set t \<and> CHR 0x27 \<notin> set t"

fun markup :: "(string \<times> string list) list \<Rightarrow> string \<Rightarrow> string" where
  "markup [] rest = rest"
| "markup ((t, cs) # els) rest =
     t @ ''class='' @ CHR 0x22 # js_join '' '' cs @ CHR 0x22 # markup els rest"

definition plain_element :: "string \<times> string list \<Rightarrow> bool" where
  "plain_element e \<longleftrightarrow> plain_text (fst e) \<and> snd e \<noteq> [] \<and> list_all plain_name (snd e)"

lemma joined_set: "set (js_join '' '' cs) \<subseteq> insert (CHR '' '') (\<Union> (set ` set cs))"
  by (induction "'' ''" cs rule: js_join.induct) auto

lemma joined_plain:
  assumes "list_all plain_name cs" "cs \<noteq> []"
  shows "js_join '' '' cs \<noteq> []" "plain_text (js_join '' '' cs)"
    "last (js_join '' '' cs) \<notin> {CHR '':'', CHR ''=''}" "\<not> js_space (last (js_join '' '' cs))"
proof -
  have n: "js_join '' '' cs \<noteq> [] \<and> last (js_join '' '' cs) = last (last cs)"
    using assms
    by (induction "'' ''" cs rule: js_join.induct) (auto simp: plain_name_def)
  have l: "plain_name (last cs)" using assms by (simp add: list_all_iff)
  then show "js_join '' '' cs \<noteq> []" "last (js_join '' '' cs) \<notin> {CHR '':'', CHR ''=''}"
    using n by (auto simp: plain_name_def)
  have "last (last cs) \<in> set (last cs)" using l by (simp add: plain_name_def)
  then show "\<not> js_space (last (js_join '' '' cs))"
    using n l by (auto simp: plain_name_def list_all_iff)
  show "plain_text (js_join '' '' cs)"
    using joined_set [of cs] assms(1) by (auto simp: plain_text_def plain_name_def list_all_iff)
qed

text \<open>The three expressions on markup.\<close>

lemma regex_parts [simp]:
  "re_literal dq_regex = ''class=''" "\<not> re_space dq_regex" "re_quote dq_regex = CHR 0x22"
  "re_literal sq_regex = ''class=''" "\<not> re_space sq_regex" "re_quote sq_regex = CHR 0x27"
  "re_literal colon_regex = ''class:''" "re_space colon_regex" "re_quote colon_regex = CHR 0x22"
  by (simp_all add: dq_regex_def sq_regex_def colon_regex_def)

lemma quotes_no_space [simp]: "\<not> js_space CHR 0x22" "\<not> js_space CHR 0x27"
  by (simp_all add: js_space_def)

lemma dq_element:
  assumes "plain_text t" "plain_text v" "v \<noteq> []"
  shows "exec_all dq_regex (t @ ''class='' @ CHR 0x22 # v @ CHR 0x22 # s) = v # exec_all dq_regex s"
proof -
  have "exec_all dq_regex (t @ ''class='' @ CHR 0x22 # v @ CHR 0x22 # s) =
      exec_all dq_regex (''class='' @ CHR 0x22 # v @ CHR 0x22 # s)"
    using exec_all_skip [of dq_regex t "''class=''" "v @ CHR 0x22 # s"] assms(1)
    by (simp add: opens_def plain_text_def)
  also have "\<dots> = v # exec_all dq_regex s"
    using exec_all_value [of dq_regex "CHR ''c''" "''lass=''" v s] assms(2,3)
    by (simp add: plain_text_def)
  finally show ?thesis .
qed

text \<open>The third expression finds nothing: no quote follows a colon or white space.\<close>

lemma colon_opens_last: "opens colon_regex a \<Longrightarrow> last a = CHR '':'' \<or> js_space (last a)"
  by (auto simp: opens_def list_all_iff split: if_splits)

lemma colon_skip:
  assumes "CHR 0x22 \<notin> set a" "a \<noteq> [] \<Longrightarrow> last a \<noteq> CHR '':'' \<and> \<not> js_space (last a)"
  shows "exec_all colon_regex (a @ CHR 0x22 # b) = exec_all colon_regex b"
proof -
  have "\<not> opens colon_regex a'" if "a' \<noteq> []" "suffix a' a" for a'
    using that assms(2) colon_opens_last [of a'] by (auto simp: suffix_def)
  then have "exec_all colon_regex (a @ CHR 0x22 # b) = exec_all colon_regex (CHR 0x22 # b)"
    using exec_all_skip [of colon_regex a "[]" b] assms(1) by simp
  also have "\<dots> = exec_all colon_regex b"
    by (rule exec_all_step) (simp add: match_at_def)
  finally show ?thesis .
qed

lemma markup_scans:
  assumes "list_all plain_element els" "plain_text rest"
  shows "exec_all dq_regex (markup els rest) = map (\<lambda>e. js_join '' '' (snd e)) els"
    and "exec_all colon_regex (markup els rest) = []"
    and "exec_all sq_regex (markup els rest) = []"
proof -
  show "exec_all dq_regex (markup els rest) = map (\<lambda>e. js_join '' '' (snd e)) els"
    using assms
  proof (induction els rest rule: markup.induct)
    case (2 t cs els rest)
    then show ?case
      using dq_element [of t "js_join '' '' cs" "markup els rest"] joined_plain [of cs]
      by (simp add: plain_element_def)
  qed (simp add: exec_all_no_quote plain_text_def)
  show "exec_all colon_regex (markup els rest) = []"
    using assms
  proof (induction els rest rule: markup.induct)
    case (2 t cs els rest)
    let ?v = "js_join '' '' cs"
    have p: "plain_text t" "plain_text ?v" "?v \<noteq> []" "last ?v \<noteq> CHR '':''" "\<not> js_space (last ?v)"
      using 2(2) joined_plain [of cs] by (auto simp: plain_element_def)
    have "exec_all colon_regex ((t @ ''class='') @ CHR 0x22 # ?v @ CHR 0x22 # markup els rest) =
        exec_all colon_regex (?v @ CHR 0x22 # markup els rest)"
      by (rule colon_skip) (use p(1) in \<open>auto simp: plain_text_def js_space_def\<close>)
    also have "\<dots> = exec_all colon_regex (markup els rest)"
      by (rule colon_skip) (use p in \<open>auto simp: plain_text_def\<close>)
    finally show ?case using 2 by simp
  qed (simp add: exec_all_no_quote plain_text_def)
  have "CHR 0x27 \<notin> set (markup els rest)"
    using assms by (induction els rest rule: markup.induct) (auto simp: plain_text_def plain_element_def dest: joined_plain(2))
  then show "exec_all sq_regex (markup els rest) = []"
    by (simp add: exec_all_no_quote)
qed



end
