(* ===== verification/Tailwind_Props.thy ===== *)
theory Tailwind_Props
  imports Tailwind_Build
begin

text \<open>
  What the style sheet build guarantees: the walk finds exactly the files of the wanted kinds, what
  they use reaches the compiler, the output file is the only file written, and a write never starts
  another build. Builds that overlap can finish out of order; if they finish in order, the last
  change wins.
\<close>

section \<open>Trees\<close>

text \<open>The names of a directory are distinct.\<close>

function entries_ok :: "(string \<times> fsnode) list \<Rightarrow> bool" where
  "entries_ok [] \<longleftrightarrow> True"
| "entries_ok ((name, Dir es) # rest) \<longleftrightarrow> name \<notin> fst ` set rest \<and> entries_ok es \<and> entries_ok rest"
| "entries_ok ((name, File c) # rest) \<longleftrightarrow> name \<notin> fst ` set rest \<and> entries_ok rest"
  by pat_completeness auto
termination
  by (relation "measure (\<lambda>es. size_list (size_prod (\<lambda>_. 0) size) es)") auto

fun tree_ok :: "fsnode \<Rightarrow> bool" where
  "tree_ok (File c) \<longleftrightarrow> True"
| "tree_ok (Dir es) \<longleftrightarrow> entries_ok es"

lemma entries_ok_member: "entries_ok es \<Longrightarrow> map_of es n = Some d \<Longrightarrow> tree_ok d"
  by (induction es rule: entries_ok.induct) (auto split: if_splits)

lemma tree_ok_at: "node_at p n = Some m \<Longrightarrow> tree_ok n \<Longrightarrow> tree_ok m"
  by (induction p n rule: node_at.induct) (auto split: option.splits dest: entries_ok_member)

lemma node_at_append: "node_at (p @ q) n = (case node_at p n of None \<Rightarrow> None | Some m \<Rightarrow> node_at q m)"
  by (induction p n rule: node_at.induct) (auto split: option.splits)

definition wanted :: "fspath \<Rightarrow> bool" where
  "wanted p \<longleftrightarrow> p \<noteq> [] \<and> extname (last p) \<in> set exts"

lemma walk_complete:
  "node_at rel (Dir es) = Some (File c) \<Longrightarrow> wanted rel \<Longrightarrow> dir @ rel \<in> set (walk_entries dir es)"
proof (induction dir es arbitrary: rel rule: walk_entries.induct)
  case (2 dir name es rest)
  then obtain p ps where rel: "rel = p # ps" by (cases rel) (auto simp: wanted_def)
  show ?case
  proof (cases "p = name")
    case True
    then have ps: "node_at ps (Dir es) = Some (File c)" using 2 rel by simp
    then have "wanted ps" using 2(4) rel by (cases ps) (auto simp: wanted_def)
    then show ?thesis using 2(1) [OF ps] rel True by simp
  qed (use 2 rel in auto)
next
  case (3 dir name c' rest)
  then obtain p ps where rel: "rel = p # ps" by (cases rel) (auto simp: wanted_def)
  then show ?case
    using 3 by (cases ps; cases "p = name") (auto simp: wanted_def)
qed (auto simp: wanted_def neq_Nil_conv)

lemma walk_sound:
  "f \<in> set (walk_entries dir es) \<Longrightarrow> entries_ok es \<Longrightarrow>
     \<exists>rel c. f = dir @ rel \<and> wanted rel \<and> node_at rel (Dir es) = Some (File c)"
proof (induction dir es rule: walk_entries.induct)
  case (2 dir name es rest)
  show ?case
  proof (cases "f \<in> set (walk_entries (dir @ [name]) es)")
    case True
    then obtain rel c where "f = (dir @ [name]) @ rel" "wanted rel" "node_at rel (Dir es) = Some (File c)"
      using 2 by auto
    then show ?thesis by (intro exI [of _ "name # rel"]) (auto simp: wanted_def)
  next
    case False
    then obtain rel c where r: "f = dir @ rel" "wanted rel" "node_at rel (Dir rest) = Some (File c)"
      using 2 by auto
    then obtain p ps where rel: "rel = p # ps" by (cases rel) (auto simp: wanted_def)
    have "p \<noteq> name"
      using 2(4) r(3) rel by (auto split: option.splits dest: map_of_SomeD intro: rev_image_eqI)
    then show ?thesis using r rel by auto
  qed
next
  case (3 dir name c' rest)
  show ?case
  proof (cases "f \<in> set (walk_entries dir rest)")
    case True
    then obtain rel c where r: "f = dir @ rel" "wanted rel" "node_at rel (Dir rest) = Some (File c)"
      using 3 by auto
    then obtain p ps where rel: "rel = p # ps" by (cases rel) (auto simp: wanted_def)
    have "p \<noteq> name"
      using 3(3) r(3) rel by (auto split: option.splits dest: map_of_SomeD intro: rev_image_eqI)
    then show ?thesis using r rel by auto
  next
    case False
    then show ?thesis
      using 3(2) by (intro exI [of _ "[name]"]) (auto simp: wanted_def split: if_splits)
  qed
qed auto

section \<open>Writing the output\<close>

lemma put_file_here: "put_file p c n = Inr n' \<Longrightarrow> node_at p n' = Some (File c)"
  by (induction p c n arbitrary: n' rule: put_file.induct)
    (auto simp: bind_res_def AList.update_conv' split: sum.splits option.splits)

lemma put_file_frame: "put_file p c n = Inr n' \<Longrightarrow> p \<parallel> q \<Longrightarrow> node_at q n' = node_at q n"
proof (induction p c n arbitrary: q n' rule: put_file.induct)
  case (4 p ps c es)
  let ?m = "case map_of es p of Some n \<Rightarrow> n | None \<Rightarrow> if ps = [] then File [] else Dir []"
  obtain m where m: "put_file ps c ?m = Inr m" "n' = Dir (AList.update p m es)"
    using 4(2) by (auto simp: bind_res_def split: sum.splits)
  obtain x xs where q: "q = x # xs"
    using 4(3) by (cases q) auto
  show ?case
  proof (cases "x = p")
    case True
    then have "ps \<parallel> xs" using 4(3) q by (auto simp: parallel_def)
    then have "node_at xs m = node_at xs ?m" and "xs \<noteq> []" and "ps \<noteq> []" using 4(1) [OF m(1)] by auto
    then show ?thesis using True q m(2) by (cases xs) (auto simp: AList.update_conv' split: option.splits)
  qed (simp add: q m(2) AList.update_conv')
qed auto

lemma same_files:
  assumes "\<And>q. prefix d q \<Longrightarrow> node_at q fs' = node_at q fs"
  shows "walk fs' d = walk fs d" "prefix d p \<Longrightarrow> readFileSync fs' p = readFileSync fs p"
  using assms [of d] assms [of p] by (simp_all add: walk_def readFileSync_def)

lemma walked_below:
  assumes "walk fs d = Inr ps" "tree_ok fs"
  shows "f \<in> set ps \<longleftrightarrow> (\<exists>rel c. f = d @ rel \<and> wanted rel \<and> node_at f fs = Some (File c))"
proof (cases "node_at d fs")
  case None
  then show ?thesis using assms(1) by (auto simp: walk_def node_at_append)
next
  case (Some n)
  then obtain es where n: "n = Dir es" "ps = walk_entries d es"
    using assms(1) by (auto simp: walk_def split: fsnode.splits)
  then have "entries_ok es" using tree_ok_at [OF Some assms(2)] by simp
  then show ?thesis
    using walk_sound [of f d es] walk_complete [of _ es _ d] n(2) Some
    by (auto simp: node_at_append n(1))
qed

lemma candidates_of_set:
  "candidates_of fs cs ps = Inr cands \<Longrightarrow>
     set cands = set cs \<union> {c. \<exists>f\<in>set ps. \<exists>content. readFileSync fs f = Inr content \<and> c \<in> set (collectCandidates content)}
     \<and> (distinct cs \<longrightarrow> distinct cands)"
proof (induction ps arbitrary: cs)
  case (Cons f ps)
  then obtain content where c: "readFileSync fs f = Inr content"
      "candidates_of fs (foldl set_add cs (collectCandidates content)) ps = Inr cands"
    by (auto simp: bind_res_def split: sum.splits)
  show ?case
    using Cons.IH [OF c(2)] c(1) by (auto simp: fold_set_add_distinct)
qed simp

lemma read_iff [simp]: "readFileSync fs p = Inr c \<longleftrightarrow> node_at p fs = Some (File c)"
  by (auto simp: readFileSync_def split: option.splits fsnode.splits)

text \<open>A path of a template or script, and a class name that some such file uses.\<close>

definition source_path :: "fspath \<Rightarrow> fspath \<Rightarrow> bool" where
  "source_path home p \<longleftrightarrow>
     (\<exists>d rel. d \<in> {[''templates''], [''static'', ''js'']} \<and> wanted rel \<and> p = home @ d @ rel)"

definition uses_class :: "fspath \<Rightarrow> fsnode \<Rightarrow> string \<Rightarrow> bool" where
  "uses_class home fs c \<longleftrightarrow>
     (\<exists>p content. source_path home p \<and> node_at p fs = Some (File content) \<and> c \<in> set (collectCandidates content))"

lemma prepare_cases:
  assumes "prepare compile tw home fs = Inr q"
  obtains source ts js g cands where
    "node_at (srcFile home) fs = Some (File source)"
    "walk fs (home @ [''templates'']) = Inr ts" "walk fs (home @ [''static'', ''js'']) = Inr js"
    "candidates_of fs seeds (ts @ js) = Inr cands"
    "compile source (srcFile home) (loadStylesheet tw home fs) = Inr g"
    "q = (g cands, length cands)"
  using assms that
  by (auto simp: prepare_def build_files_def bind_res_def split: sum.splits)

lemma candidates_used:
  assumes "walk fs (home @ [''templates'']) = Inr ts" "walk fs (home @ [''static'', ''js'']) = Inr js"
    and "candidates_of fs seeds (ts @ js) = Inr cands" and "tree_ok fs"
  shows "set cands = set seeds \<union> Collect (uses_class home fs)" and "distinct cands"
proof -
  note w = walked_below [OF assms(1,4)] walked_below [OF assms(2,4)]
  have "set cands = set seeds \<union> {c. \<exists>f\<in>set (ts @ js). \<exists>content. node_at f fs = Some (File content) \<and> c \<in> set (collectCandidates content)}"
    using candidates_of_set [OF assms(3)] by simp
  also have "{c. \<exists>f\<in>set (ts @ js). \<exists>content. node_at f fs = Some (File content) \<and> c \<in> set (collectCandidates content)} =
      Collect (uses_class home fs)"
  proof -
    have "f \<in> set (ts @ js) \<longleftrightarrow> source_path home f \<and> (\<exists>x. node_at f fs = Some (File x))" for f
      by (auto simp: w source_path_def)
    then show ?thesis by (simp add: uses_class_def Bex_def set_eq_iff) blast
  qed
  finally show "set cands = set seeds \<union> Collect (uses_class home fs)" .
  have "distinct seeds" by (simp add: seeds_def)
  then show "distinct cands" using candidates_of_set [OF assms(3)] by blast
qed

text \<open>
  C10. A build that succeeds writes the style sheet the compiler makes from a list without
  duplicates, of exactly the fixed names and the class names that the templates and scripts use,
  wherever they lie below the two directories, and logs the length of that list. The output is the
  only file it writes.
\<close>

theorem build_compiles_every_class:
  assumes "build compile tw home fs = Inr (fs', line)" and "tree_ok fs"
  shows "\<exists>source g cands. node_at (srcFile home) fs = Some (File source)
     \<and> compile source (srcFile home) (loadStylesheet tw home fs) = Inr g
     \<and> node_at (outFile home) fs' = Some (File (g cands))
     \<and> set cands = set seeds \<union> Collect (uses_class home fs) \<and> distinct cands
     \<and> line = built_line (length cands)
     \<and> (\<forall>q. outFile home \<parallel> q \<longrightarrow> node_at q fs' = node_at q fs)"
proof -
  obtain q where q: "prepare compile tw home fs = Inr q" "write_css home q fs = Inr (fs', line)"
    using assms(1) by (auto simp: build_def bind_res_def split: sum.splits)
  from q(1) show ?thesis
  proof (cases rule: prepare_cases)
    case (1 source ts js g cands)
    have w: "put_file (outFile home) (g cands) fs = Inr fs'" "line = built_line (length cands)"
      using q(2) 1(6) by (auto simp: write_css_def bind_res_def split: sum.splits)
    show ?thesis
      using 1(1,5) w(2) put_file_here [OF w(1)] put_file_frame [OF w(1)] candidates_used [OF 1(2,3,4) assms(2)]
      by blast
  qed
qed

text \<open>A small site: one page, the style sheet's source, and a compiler that lists the classes.\<close>

definition page_with :: "string \<Rightarrow> fsnode" where
  "page_with cls = Dir [
     (''templates'', Dir [(''pages'', Dir [(''a.gohtml'', File (''<p class='' @ CHR 0x22 # cls @ CHR 0x22 # ''>''))]), (''README.md'', File [])]),
     (''static'', Dir [(''css'', Dir [(''input.css'', File ''@import'')])])]"

definition list_compiler :: compiler where
  "list_compiler source src load = Inr (js_join '' '')"

lemma page_with_class: "uses_class [] (page_with ''grid'') ''grid''"
proof -
  have "''grid'' \<in> set (collectCandidates (''<p class='' @ CHR 0x22 # ''grid'' @ CHR 0x22 # ''>''))"
    by code_simp
  moreover have "source_path [] [''templates'', ''pages'', ''a.gohtml'']"
    unfolding source_path_def
    by (rule exI [of _ "[''templates'']"], rule exI [of _ "[''pages'', ''a.gohtml'']"])
      (simp add: wanted_def extname_def exts_def)
  ultimately show ?thesis
    unfolding uses_class_def page_with_def
    by (intro exI [of _ "[''templates'', ''pages'', ''a.gohtml'']"]) simp
qed

theorem build_compiles_every_class_witness:
  "\<exists>fs' line cands. build list_compiler [] [] (page_with ''grid'') = Inr (fs', line)
     \<and> node_at [''static'', ''css'', ''app.css''] fs' = Some (File (js_join '' '' cands)) \<and> ''grid'' \<in> set cands"
proof -
  have "\<not> isl (build list_compiler [] [] (page_with ''grid''))" by code_simp
  then obtain fs' line where b: "build list_compiler [] [] (page_with ''grid'') = Inr (fs', line)"
    by (cases "build list_compiler [] [] (page_with ''grid'')") auto
  have "tree_ok (page_with ''grid'')" by (simp add: page_with_def)
  from build_compiles_every_class [OF b this] page_with_class show ?thesis
    using b by (auto simp: list_compiler_def outFile_def)
qed

section \<open>Watching\<close>

lemma output_never_triggers: "set dirs \<subseteq> {home @ [''templates''], home @ [''static'', ''js''], home @ [''static'', ''css'']} \<Longrightarrow>
    \<not> triggers home dirs (outFile home)"
  by (auto simp: triggers_def outFile_def list_ex_iff)

lemma watch_dirs_known:
  "set (watch_dirs home fs) \<subseteq> {home @ [''templates''], home @ [''static'', ''js''], home @ [''static'', ''css'']}"
  by (auto simp: watch_dirs_def)

lemma finish_pending:
  "w_pending (finish compile tw home (watch_dirs home fs0) i s) = take i (w_pending s) @ drop (Suc i) (w_pending s)"
  using output_never_triggers [OF watch_dirs_known]
  by (simp add: finish_def on_change_def Let_def split: sum.splits)

fun is_finish :: "watch_label \<Rightarrow> bool" where
  "is_finish (Finish i) = True"
| "is_finish (Change fs p) = False"

lemma step_pending:
  assumes "watch_step compile tw home (watch_dirs home fs0) s l t"
  shows "length (w_pending t) + (if is_finish l then 1 else 0) \<le> length (w_pending s) + (if is_finish l then 0 else 1)"
    and "is_finish l \<Longrightarrow> Suc (length (w_pending t)) = length (w_pending s)"
  using assms by (cases l; auto simp: finish_pending on_change_def split: sum.splits)+

text \<open>
  C12. A change starts at most one build, and the output a build writes never starts another: while
  nothing else changes, every finished build leaves one less under way, so as many builds finish as
  are under way and then watching is quiet. Over any stretch of time no more builds finish than
  were under way or than there were changes.
\<close>

theorem watching_settles:
  assumes "execution (watch_step compile tw home (watch_dirs home fs0)) s ls t"
  shows "length (filter is_finish ls) + length (w_pending t)
       \<le> length (w_pending s) + length (filter (\<lambda>l. \<not> is_finish l) ls)
     \<and> (list_all is_finish ls \<longrightarrow> length ls + length (w_pending t) = length (w_pending s))"
  using assms
proof (induction rule: execution.induct)
  case (exec_snoc s ls t l u)
  show ?case
    using exec_snoc.IH step_pending [OF exec_snoc.hyps(2)] by (auto split: if_splits)
qed simp

text \<open>Two builds under way at once: the page changed from one class to another before the first was written.\<close>

definition watch_start :: watch_state where
  "watch_start = \<lparr>w_fs = page_with ''flex'', w_pending = [], w_log = [], w_errors = []\<rparr>"

abbreviation "sample_dirs \<equiv> watch_dirs [] (page_with ''flex'')"
abbreviation "sample_page \<equiv> [''templates'', ''pages'', ''a.gohtml'']"

definition overlapping :: "watch_label list \<Rightarrow> watch_state" where
  "overlapping finishes =
     foldl (\<lambda>s l. case l of
         Change fs p \<Rightarrow> on_change list_compiler [] [] sample_dirs p (s\<lparr>w_fs := fs\<rparr>)
       | Finish i \<Rightarrow> finish list_compiler [] [] sample_dirs i s)
     watch_start ([Change (page_with ''grid'') sample_page, Change (page_with ''block'') sample_page] @ finishes)"

lemma overlapping_pending: "length (w_pending (overlapping [])) = 2" "length (w_pending (overlapping [Finish 1])) = 1"
    "w_pending (overlapping [Finish 1, Finish 0]) = []"
  by code_simp+

lemma overlapping_steps:
  "watch_step list_compiler [] [] sample_dirs (overlapping []) (Finish 1) (overlapping [Finish 1])"
  "watch_step list_compiler [] [] sample_dirs (overlapping [Finish 1]) (Finish 0) (overlapping [Finish 1, Finish 0])"
  using overlapping_pending by (simp_all add: overlapping_def)

lemma overlapping_execution:
  "execution (watch_step list_compiler [] [] sample_dirs) watch_start
     [Change (page_with ''grid'') sample_page, Change (page_with ''block'') sample_page, Finish 1, Finish 0]
     (overlapping [Finish 1, Finish 0])"
proof -
  let ?s = "\<lambda>s c. on_change list_compiler [] [] sample_dirs sample_page (s\<lparr>w_fs := page_with c\<rparr>)"
  have o: "?s (?s watch_start ''grid'') ''block'' = overlapping []"
    by (simp add: overlapping_def)
  show ?thesis
    by (rule execution_cons [where t = "?s watch_start ''grid''"], simp,
        rule execution_cons [where t = "overlapping []"], simp add: o,
        rule execution_cons, rule overlapping_steps(1), rule execution_single, rule overlapping_steps(2))
qed

theorem watching_settles_witness: "length (w_pending (overlapping [Finish 1, Finish 0])) \<le> 0"
proof -
  have "execution (watch_step list_compiler [] [] sample_dirs) (overlapping []) [Finish 1, Finish 0] (overlapping [Finish 1, Finish 0])"
    by (rule execution_cons, rule overlapping_steps(1), rule execution_single, rule overlapping_steps(2))
  from watching_settles [OF this] show ?thesis by (simp add: overlapping_pending(1))
qed

text \<open>
  Builds that overlap are not ordered: two quick changes start two builds, and when the first
  takes longer to compile than the second, its older style sheet stays in the output although
  nothing is under way any more.
\<close>

theorem overlapping_builds_can_leave_old_output:
  "\<exists>t. execution (watch_step list_compiler [] [] sample_dirs) watch_start
       [Change (page_with ''grid'') sample_page, Change (page_with ''block'') sample_page, Finish 1, Finish 0] t
     \<and> w_pending t = [] \<and> w_errors t = []
     \<and> (\<exists>q. prepare list_compiler [] [] (w_fs t) = Inr q \<and> node_at (outFile []) (w_fs t) \<noteq> Some (File (fst q)))"
proof -
  let ?t = "overlapping [Finish 1, Finish 0]"
  have e: "w_errors ?t = []" by code_simp
  have "case prepare list_compiler [] [] (w_fs ?t) of Inl _ \<Rightarrow> False
      | Inr q \<Rightarrow> node_at (outFile []) (w_fs ?t) \<noteq> Some (File (fst q))"
    by code_simp
  then obtain q where "prepare list_compiler [] [] (w_fs ?t) = Inr q"
      "node_at (outFile []) (w_fs ?t) \<noteq> Some (File (fst q))"
    by (cases "prepare list_compiler [] [] (w_fs ?t)") simp_all
  then show ?thesis
    using overlapping_execution overlapping_pending(3) e by blast
qed

section \<open>Builds that finish in order\<close>

definition writable :: "fspath \<Rightarrow> fsnode \<Rightarrow> bool" where
  "writable home fs \<longleftrightarrow>
     (\<exists>es. node_at (home @ [''static'', ''css'']) fs = Some (Dir es) \<and> (\<forall>ds. map_of es ''app.css'' \<noteq> Some (Dir ds)))"

lemma put_file_in_dir:
  "node_at p n = Some (Dir es) \<Longrightarrow> (\<forall>ds. map_of es x \<noteq> Some (Dir ds)) \<Longrightarrow> \<exists>n'. put_file (p @ [x]) c n = Inr n'"
proof (induction p n rule: node_at.induct)
  case (1 n)
  then show ?case by (cases "map_of es x"; cases "the (map_of es x)") auto
qed (auto split: option.splits)

lemma write_css_ok:
  assumes "writable home fs"
  obtains fs' where "write_css home q fs = Inr (fs', built_line (snd q))" "writable home fs'"
    "node_at (outFile home) fs' = Some (File (fst q))"
proof -
  obtain es where es: "node_at (home @ [''static'', ''css'']) fs = Some (Dir es)" "\<forall>ds. map_of es ''app.css'' \<noteq> Some (Dir ds)"
    using assms by (auto simp: writable_def)
  obtain fs' where p: "put_file (outFile home) (fst q) fs = Inr fs'"
    using put_file_in_dir [OF es] by (auto simp: outFile_def)
  note out = put_file_here [OF p]
  then have "node_at ((home @ [''static'', ''css'']) @ [''app.css'']) fs' = Some (File (fst q))"
    by (simp add: outFile_def)
  then obtain m where "node_at (home @ [''static'', ''css'']) fs' = Some m" "node_at [''app.css''] m = Some (File (fst q))"
    by (subst (asm) node_at_append) (auto split: option.splits)
  then have "writable home fs'"
    by (cases m) (auto simp: writable_def split: option.splits)
  then show thesis using that p out by (simp add: write_css_def)
qed

lemma finish_first:
  assumes "w_pending s = q # qs" "writable home (w_fs s)"
  shows "w_pending (finish c tw home (watch_dirs home fs0) 0 s) = qs"
    "writable home (w_fs (finish c tw home (watch_dirs home fs0) 0 s))"
    "node_at (outFile home) (w_fs (finish c tw home (watch_dirs home fs0) 0 s)) = Some (File (fst q))"
    "w_errors (finish c tw home (watch_dirs home fs0) 0 s) = w_errors s"
proof -
  obtain fs' where "write_css home q (w_fs s) = Inr (fs', built_line (snd q))" "writable home fs'"
      "node_at (outFile home) fs' = Some (File (fst q))"
    using write_css_ok [OF assms(2)] .
  then show "w_pending (finish c tw home (watch_dirs home fs0) 0 s) = qs"
      "writable home (w_fs (finish c tw home (watch_dirs home fs0) 0 s))"
      "node_at (outFile home) (w_fs (finish c tw home (watch_dirs home fs0) 0 s)) = Some (File (fst q))"
      "w_errors (finish c tw home (watch_dirs home fs0) 0 s) = w_errors s"
    using assms(1) output_never_triggers [OF watch_dirs_known]
    by (simp_all add: finish_def on_change_def Let_def)
qed

lemma execution_consD: "execution step s (l # ls) u \<Longrightarrow> \<exists>t. step s l t \<and> execution step t ls u"
proof (induction ls arbitrary: u rule: rev_induct)
  case Nil
  then show ?case by (auto elim: execution_snocE [where ls = "[]", simplified])
next
  case (snoc m ls)
  from snoc.prems obtain t where "execution step s (l # ls) t" "step t m u"
    by (metis append_Cons execution_snocE)
  then show ?case using snoc.IH by (meson execution.exec_snoc)
qed

lemma flushed:
  "execution (watch_step c tw home (watch_dirs home fs0)) s (replicate (length qs) (Finish 0)) t \<Longrightarrow>
     w_pending s = qs \<Longrightarrow> qs \<noteq> [] \<Longrightarrow> writable home (w_fs s) \<Longrightarrow>
     w_pending t = [] \<and> w_errors t = w_errors s \<and> node_at (outFile home) (w_fs t) = Some (File (fst (last qs)))"
proof (induction qs arbitrary: s)
  case (Cons q qs)
  let ?u = "finish c tw home (watch_dirs home fs0) 0 s"
  have e: "execution (watch_step c tw home (watch_dirs home fs0)) ?u (replicate (length qs) (Finish 0)) t"
    using Cons.prems(1) by (auto dest!: execution_consD)
  note f = finish_first [OF Cons.prems(2,4), of c tw fs0]
  show ?case
    using Cons.IH [OF e f(1)] f e by (cases qs) auto
qed simp

text \<open>
  C20. When builds finish in the order they started, the last change wins: after a change that
  starts a build, and once all builds under way are written in order, the output is the style sheet
  of the files as the change left them, and no error is added.
\<close>

theorem last_change_wins:
  assumes "triggers home (watch_dirs home fs0) p" and "prepare c tw home fs = Inr q" and "writable home fs"
    and "execution (watch_step c tw home (watch_dirs home fs0)) s
           (Change fs p # replicate (Suc (length (w_pending s))) (Finish 0)) t"
  shows "w_pending t = [] \<and> w_errors t = w_errors s \<and> node_at (outFile home) (w_fs t) = Some (File (fst q))"
proof -
  let ?u = "on_change c tw home (watch_dirs home fs0) p (s\<lparr>w_fs := fs\<rparr>)"
  have u: "w_pending ?u = w_pending s @ [q]" "w_fs ?u = fs" "w_errors ?u = w_errors s"
    using assms(1,2) by (simp_all add: on_change_def)
  have "execution (watch_step c tw home (watch_dirs home fs0)) ?u (replicate (length (w_pending s @ [q])) (Finish 0)) t"
    using execution_consD [OF assms(4)] by simp
  from flushed [OF this u(1)] show ?thesis using u assms(3) by simp
qed

theorem last_change_wins_witness:
  "\<exists>t :: watch_state. w_pending t = [] \<and> node_at (outFile []) (w_fs t) = Some (File (fst (projr (prepare list_compiler [] [] (page_with ''grid'')))))"
proof -
  let ?fs = "page_with ''grid''"
  let ?u = "on_change list_compiler [] [] sample_dirs sample_page (watch_start\<lparr>w_fs := ?fs\<rparr>)"
  have t: "triggers [] sample_dirs sample_page" by code_simp
  have "\<not> isl (prepare list_compiler [] [] ?fs)" by code_simp
  then have q: "prepare list_compiler [] [] ?fs = Inr (projr (prepare list_compiler [] [] ?fs))"
    by (cases "prepare list_compiler [] [] ?fs") auto
  have w: "writable [] ?fs" by (simp add: writable_def page_with_def)
  have "w_pending ?u \<noteq> []" using t q by (cases "prepare list_compiler [] [] ?fs") (auto simp: on_change_def)
  then have "execution (watch_step list_compiler [] [] sample_dirs) watch_start
      (Change ?fs sample_page # replicate (Suc (length (w_pending watch_start))) (Finish 0)) (finish list_compiler [] [] sample_dirs 0 ?u)"
    by (auto intro!: execution_cons [where t = ?u] execution_single simp: watch_start_def)
  from last_change_wins [OF t q w this] show ?thesis by blast
qed

end
