(* ===== verification/Page_Script.thy ===== *)
theory Page_Script
  imports Transition
begin

text \<open>
  The script of the broker's web UI, \<^verbatim>\<open>cmd/nzovu/web-ui/static/js/app.js\<close>: copying to the
  clipboard, the confirmation of forms and the fields that depend on a select. The state is the part
  of the document the script looks up; an element that is missing is \<open>None\<close>. Elements that the
  page library swaps in come as the server renders them: not yet initialised, with no listeners.
\<close>

section \<open>Copying\<close>

text \<open>
  A click: the \<open>data-copy\<close> attribute of the closest element that has one, if the target is an element
  and there is one, and whether the browser has a clipboard. The result is the text written to it.
\<close>

definition copy_click :: "bool \<Rightarrow> string option option \<Rightarrow> bool \<Rightarrow> string option" where
  "copy_click is_element closest clipboard =
     (if \<not> is_element then None
      else case closest of
        None \<Rightarrow> None
      | Some attr \<Rightarrow>
          if \<not> clipboard then None else Some (case attr of None \<Rightarrow> [] | Some s \<Rightarrow> s))"

section \<open>Confirmation\<close>

record html_form =
  f_htmx :: bool
  f_confirm :: "string option"

datatype event_target = FormTarget html_form | InForm html_form | OutsideForms | NoElement

text \<open>
  A handler's effect: the messages it asks the user to confirm, and whether it prevents the default.
  \<open>ok\<close> is what the user answers.
\<close>

definition ask :: "(string \<Rightarrow> bool) \<Rightarrow> html_form \<Rightarrow> string list \<times> bool" where
  "ask ok form =
     (case f_confirm form of
        None \<Rightarrow> ([], False)
      | Some m \<Rightarrow> if m = [] then ([], False) else ([m], \<not> ok m))"

definition on_submit :: "(string \<Rightarrow> bool) \<Rightarrow> event_target \<Rightarrow> string list \<times> bool" where
  "on_submit ok tgt =
     (case tgt of
        FormTarget form \<Rightarrow> if f_htmx form then ([], False) else ask ok form
      | _ \<Rightarrow> ([], False))"

definition on_htmx_confirm :: "(string \<Rightarrow> bool) \<Rightarrow> event_target \<Rightarrow> string list \<times> bool" where
  "on_htmx_confirm ok elt =
     (case elt of
        FormTarget form \<Rightarrow> ask ok form
      | InForm form \<Rightarrow> ask ok form
      | _ \<Rightarrow> ([], False))"

text \<open>
  Submitting a form: the submit event, and for a form with a request attribute the page library's
  confirm event in place of the native submission. What is asked, and whether the form is sent.
\<close>

definition submission :: "(string \<Rightarrow> bool) \<Rightarrow> html_form \<Rightarrow> string list \<times> bool" where
  "submission ok form =
     (let (asked, prevented) = on_submit ok (FormTarget form)
      in if f_htmx form
         then let (asked', prevented') = on_htmx_confirm ok (FormTarget form) in (asked @ asked', \<not> prevented')
         else (asked, \<not> prevented))"

text \<open>
  A form whose markup asks for confirmation is sent only if the user confirms, and the user is
  asked exactly once, whether the browser or the page library sends it; other forms are sent without
  asking.
\<close>

theorem forms_ask_once:
  "submission ok form =
     (case f_confirm form of
        None \<Rightarrow> ([], True)
      | Some m \<Rightarrow> if m = [] then ([], True) else ([m], ok m))"
  by (auto simp: submission_def on_submit_def on_htmx_confirm_def ask_def split: option.split)

section \<open>Fields that depend on a select\<close>

record select_el =
  s_value :: string
  toggleInitialized :: bool
  change_listeners :: nat

record input_el =
  is_input :: bool
  i_value :: string
  i_required :: bool

record tls_field =
  f_disabled :: bool
  container_hidden :: "bool option"

record document =
  queueType :: "select_el option"
  exclusivity_section :: "bool option"
  exclusivity_key :: "input_el option"
  scheduleType :: "select_el option"
  cron_section :: "bool option"
  calendar_section :: "bool option"
  cron_expression :: "input_el option"
  timezone_input :: "input_el option"
  transportMode :: "select_el option"
  tls_fields :: "string \<Rightarrow> tls_field option"

text \<open>The sections are given by whether they have the class \<open>hidden\<close>.\<close>

definition input_of :: "input_el option \<Rightarrow> input_el option" where
  "input_of e = (case e of None \<Rightarrow> None | Some i \<Rightarrow> if is_input i then Some i else None)"

definition toggleExclusivityKey :: "select_el \<Rightarrow> document \<Rightarrow> document" where
  "toggleExclusivityKey q d =
     (case (exclusivity_section d, input_of (exclusivity_key d)) of
        (Some _, Some inp) \<Rightarrow>
          let exclusive = (s_value q = ''exclusive'');
              inp' = inp\<lparr>i_required := exclusive\<rparr>
          in d\<lparr>exclusivity_section := Some (\<not> exclusive),
               exclusivity_key := Some (if exclusive then inp' else inp'\<lparr>i_value := []\<rparr>)\<rparr>
      | _ \<Rightarrow> d)"

definition toggleScheduleType :: "select_el \<Rightarrow> document \<Rightarrow> document" where
  "toggleScheduleType q d =
     (case (cron_section d, calendar_section d, input_of (cron_expression d), input_of (timezone_input d)) of
        (Some _, Some _, Some ce, Some tz) \<Rightarrow>
          let cron = (s_value q = ''cron'')
          in d\<lparr>cron_section := Some (\<not> cron), calendar_section := Some cron,
               cron_expression := Some (ce\<lparr>i_required := cron\<rparr>),
               timezone_input := Some (tz\<lparr>i_required := \<not> cron\<rparr>)\<rparr>
      | _ \<Rightarrow> d)"

definition tls_names :: "string list" where
  "tls_names = [''tlsServerName'', ''caCertFile'', ''clientCertFile'', ''clientKeyFile'', ''skipTLSVerify'']"

definition toggle_tls_field :: "bool \<Rightarrow> document \<Rightarrow> string \<Rightarrow> document" where
  "toggle_tls_field tlsEnabled d name =
     (case tls_fields d name of
        None \<Rightarrow> d
      | Some f \<Rightarrow>
          d\<lparr>tls_fields := (tls_fields d)(name \<mapsto>
             \<lparr>f_disabled = False, container_hidden = map_option (\<lambda>_. \<not> tlsEnabled) (container_hidden f)\<rparr>)\<rparr>)"

definition toggleTLSFields :: "select_el \<Rightarrow> document \<Rightarrow> document" where
  "toggleTLSFields q d = foldl (toggle_tls_field (s_value q = ''tls'')) d tls_names"

text \<open>
  \<open>initializeFormToggles\<close>: each select once. The listener added is the function above with this
  select.
\<close>

definition initialized :: "select_el \<Rightarrow> select_el" where
  "initialized q = q\<lparr>toggleInitialized := True, change_listeners := Suc (change_listeners q)\<rparr>"

definition initialize_queue_type :: "document \<Rightarrow> document" where
  "initialize_queue_type d =
     (case queueType d of
        None \<Rightarrow> d
      | Some q \<Rightarrow>
          if toggleInitialized q then d
          else toggleExclusivityKey (initialized q) (d\<lparr>queueType := Some (initialized q)\<rparr>))"

definition initialize_schedule_type :: "document \<Rightarrow> document" where
  "initialize_schedule_type d =
     (case scheduleType d of
        None \<Rightarrow> d
      | Some q \<Rightarrow>
          if toggleInitialized q then d
          else toggleScheduleType (initialized q) (d\<lparr>scheduleType := Some (initialized q)\<rparr>))"

definition initialize_transport_mode :: "document \<Rightarrow> document" where
  "initialize_transport_mode d =
     (case transportMode d of
        None \<Rightarrow> d
      | Some q \<Rightarrow>
          if toggleInitialized q then d
          else toggleTLSFields (initialized q) (d\<lparr>transportMode := Some (initialized q)\<rparr>))"

definition initializeFormToggles :: "document \<Rightarrow> document" where
  "initializeFormToggles d = initialize_transport_mode (initialize_schedule_type (initialize_queue_type d))"

text \<open>The user picks an option: every listener of the select runs.\<close>

definition pick_queue_type :: "string \<Rightarrow> document \<Rightarrow> document" where
  "pick_queue_type v d =
     (case queueType d of
        None \<Rightarrow> d
      | Some q \<Rightarrow>
          let q' = q\<lparr>s_value := v\<rparr>
          in (toggleExclusivityKey q' ^^ change_listeners q') (d\<lparr>queueType := Some q'\<rparr>))"

definition pick_schedule_type :: "string \<Rightarrow> document \<Rightarrow> document" where
  "pick_schedule_type v d =
     (case scheduleType d of
        None \<Rightarrow> d
      | Some q \<Rightarrow>
          let q' = q\<lparr>s_value := v\<rparr>
          in (toggleScheduleType q' ^^ change_listeners q') (d\<lparr>scheduleType := Some q'\<rparr>))"

definition pick_transport_mode :: "string \<Rightarrow> document \<Rightarrow> document" where
  "pick_transport_mode v d =
     (case transportMode d of
        None \<Rightarrow> d
      | Some q \<Rightarrow>
          let q' = q\<lparr>s_value := v\<rparr>
          in (toggleTLSFields q' ^^ change_listeners q') (d\<lparr>transportMode := Some q'\<rparr>))"

section \<open>A page and what happens to it\<close>

definition fresh_select :: "select_el option \<Rightarrow> bool" where
  "fresh_select q \<longleftrightarrow> (case q of None \<Rightarrow> True | Some s \<Rightarrow> \<not> toggleInitialized s \<and> change_listeners s = 0)"

definition fresh_document :: "document \<Rightarrow> bool" where
  "fresh_document d \<longleftrightarrow> fresh_select (queueType d) \<and> fresh_select (scheduleType d) \<and> fresh_select (transportMode d)"

text \<open>
  Loading runs the script on a fresh document. A swap replaces the content by a fresh one, or leaves
  these elements alone; either way the script runs again. The user types into the key field while
  its section shows.
\<close>

datatype page_label =
    Swap document
  | SwapElsewhere
  | PickQueueType string
  | PickScheduleType string
  | PickTransportMode string
  | TypeKey string

inductive page_step :: "document \<Rightarrow> page_label \<Rightarrow> document \<Rightarrow> bool" where
  swap: "fresh_document d' \<Longrightarrow> page_step d (Swap d') (initializeFormToggles d')"
| swap_elsewhere: "page_step d SwapElsewhere (initializeFormToggles d)"
| pick_queue: "page_step d (PickQueueType v) (pick_queue_type v d)"
| pick_schedule: "page_step d (PickScheduleType v) (pick_schedule_type v d)"
| pick_transport: "page_step d (PickTransportMode v) (pick_transport_mode v d)"
| type_key: "exclusivity_section d = Some False \<Longrightarrow> exclusivity_key d = Some i \<Longrightarrow>
    page_step d (TypeKey v) (d\<lparr>exclusivity_key := Some (i\<lparr>i_value := v\<rparr>)\<rparr>)"

definition page_loaded :: "document \<Rightarrow> bool" where
  "page_loaded d \<longleftrightarrow> (\<exists>d'. fresh_document d' \<and> d = initializeFormToggles d')"

text \<open>A select that is set up once, and a group of fields that shows what the select says.\<close>

definition set_up :: "select_el option \<Rightarrow> bool" where
  "set_up q \<longleftrightarrow> (case q of None \<Rightarrow> True | Some s \<Rightarrow> toggleInitialized s \<and> change_listeners s = 1)"

definition queue_synced :: "document \<Rightarrow> bool" where
  "queue_synced d \<longleftrightarrow>
     (case (queueType d, exclusivity_section d, input_of (exclusivity_key d)) of
        (Some q, Some hidden, Some inp) \<Rightarrow>
          hidden = (s_value q \<noteq> ''exclusive'') \<and> i_required inp = (s_value q = ''exclusive'')
          \<and> (hidden \<longrightarrow> i_value inp = [])
      | _ \<Rightarrow> True)"

definition schedule_synced :: "document \<Rightarrow> bool" where
  "schedule_synced d \<longleftrightarrow>
     (case (scheduleType d, cron_section d, calendar_section d, input_of (cron_expression d), input_of (timezone_input d)) of
        (Some q, Some cron_hidden, Some calendar_hidden, Some ce, Some tz) \<Rightarrow>
          cron_hidden = (s_value q \<noteq> ''cron'') \<and> calendar_hidden = (s_value q = ''cron'')
          \<and> i_required ce = (s_value q = ''cron'') \<and> i_required tz = (s_value q \<noteq> ''cron'')
      | _ \<Rightarrow> True)"

definition tls_synced :: "document \<Rightarrow> bool" where
  "tls_synced d \<longleftrightarrow>
     (case transportMode d of
        None \<Rightarrow> True
      | Some q \<Rightarrow>
          list_all (\<lambda>n. case tls_fields d n of
              None \<Rightarrow> True
            | Some f \<Rightarrow> \<not> f_disabled f \<and> container_hidden f \<in> {None, Some (s_value q \<noteq> ''tls'')}) tls_names)"

definition page_ok :: "document \<Rightarrow> bool" where
  "page_ok d \<longleftrightarrow>
     set_up (queueType d) \<and> set_up (scheduleType d) \<and> set_up (transportMode d)
     \<and> queue_synced d \<and> schedule_synced d \<and> tls_synced d"

section \<open>Setting up\<close>

lemma toggle_frames [simp]:
  "queueType (toggleExclusivityKey q d) = queueType d" "scheduleType (toggleExclusivityKey q d) = scheduleType d"
  "transportMode (toggleExclusivityKey q d) = transportMode d" "schedule_synced (toggleExclusivityKey q d) = schedule_synced d"
  "tls_synced (toggleExclusivityKey q d) = tls_synced d"
  "queueType (toggleScheduleType q d) = queueType d" "scheduleType (toggleScheduleType q d) = scheduleType d"
  "transportMode (toggleScheduleType q d) = transportMode d" "queue_synced (toggleScheduleType q d) = queue_synced d"
  "tls_synced (toggleScheduleType q d) = tls_synced d"
  by (auto simp: toggleExclusivityKey_def toggleScheduleType_def schedule_synced_def queue_synced_def
      tls_synced_def Let_def split: option.split)

lemma toggle_tls_frames [simp]:
  "queueType (toggle_tls_field b d n) = queueType d" "scheduleType (toggle_tls_field b d n) = scheduleType d"
  "transportMode (toggle_tls_field b d n) = transportMode d" "queue_synced (toggle_tls_field b d n) = queue_synced d"
  "schedule_synced (toggle_tls_field b d n) = schedule_synced d"
  by (auto simp: toggle_tls_field_def queue_synced_def schedule_synced_def split: option.split)

lemma fold_tls_frames [simp]:
  "queueType (foldl (toggle_tls_field b) d ns) = queueType d" "scheduleType (foldl (toggle_tls_field b) d ns) = scheduleType d"
  "transportMode (foldl (toggle_tls_field b) d ns) = transportMode d"
  "queue_synced (foldl (toggle_tls_field b) d ns) = queue_synced d"
  "schedule_synced (foldl (toggle_tls_field b) d ns) = schedule_synced d"
  by (induction ns arbitrary: d) auto

lemma fold_tls_fields:
  "tls_fields (foldl (toggle_tls_field b) d ns) n =
     (if n \<in> set ns then map_option (\<lambda>f. \<lparr>f_disabled = False, container_hidden = map_option (\<lambda>_. \<not> b) (container_hidden f)\<rparr>) (tls_fields d n)
      else tls_fields d n)"
  by (induction ns arbitrary: d) (auto simp: toggle_tls_field_def option.map_comp comp_def split: option.split)

lemma set_select_frames [simp]:
  "queue_synced (d\<lparr>scheduleType := q\<rparr>) = queue_synced d" "queue_synced (d\<lparr>transportMode := q\<rparr>) = queue_synced d"
  "schedule_synced (d\<lparr>queueType := q\<rparr>) = schedule_synced d" "schedule_synced (d\<lparr>transportMode := q\<rparr>) = schedule_synced d"
  "tls_synced (d\<lparr>queueType := q\<rparr>) = tls_synced d" "tls_synced (d\<lparr>scheduleType := q\<rparr>) = tls_synced d"
  by (simp_all add: queue_synced_def schedule_synced_def tls_synced_def split: option.split)

lemma no_select_synced [simp]:
  "queueType d = None \<Longrightarrow> queue_synced d" "scheduleType d = None \<Longrightarrow> schedule_synced d"
  "transportMode d = None \<Longrightarrow> tls_synced d"
  by (simp_all add: queue_synced_def schedule_synced_def tls_synced_def)

lemma toggles_sync [simp]:
  "queueType d = Some q \<Longrightarrow> queue_synced (toggleExclusivityKey q d)"
  "scheduleType d = Some q \<Longrightarrow> schedule_synced (toggleScheduleType q d)"
  by (auto simp: toggleExclusivityKey_def toggleScheduleType_def queue_synced_def schedule_synced_def
      input_of_def Let_def split: option.splits if_splits)

lemma tls_sync [simp]: "transportMode d = Some q \<Longrightarrow> tls_synced (toggleTLSFields q d)"
  by (auto simp: tls_synced_def toggleTLSFields_def fold_tls_fields list_all_iff split: option.split)

lemma toggleTLS_frames [simp]:
  "queueType (toggleTLSFields q d) = queueType d" "scheduleType (toggleTLSFields q d) = scheduleType d"
  "transportMode (toggleTLSFields q d) = transportMode d" "queue_synced (toggleTLSFields q d) = queue_synced d"
  "schedule_synced (toggleTLSFields q d) = schedule_synced d"
  by (simp_all add: toggleTLSFields_def)

lemmas page_code = initialize_queue_type_def initialize_schedule_type_def initialize_transport_mode_def
  initializeFormToggles_def initialized_def set_up_def fresh_select_def

lemma fresh_becomes_ok: "fresh_document d \<Longrightarrow> page_ok (initializeFormToggles d)"
  by (auto simp: page_ok_def fresh_document_def page_code split: option.splits)

lemma ok_stays: "page_ok d \<Longrightarrow> initializeFormToggles d = d"
  by (auto simp: page_ok_def page_code split: option.splits)

lemma picks_keep_ok:
  "page_ok d \<Longrightarrow> page_ok (pick_queue_type v d)" "page_ok d \<Longrightarrow> page_ok (pick_schedule_type v d)"
  "page_ok d \<Longrightarrow> page_ok (pick_transport_mode v d)"
  by (auto simp: page_ok_def pick_queue_type_def pick_schedule_type_def pick_transport_mode_def set_up_def Let_def
      split: option.splits)

lemma typing_keeps_ok:
  "page_ok d \<Longrightarrow> exclusivity_section d = Some False \<Longrightarrow> exclusivity_key d = Some i \<Longrightarrow>
     page_ok (d\<lparr>exclusivity_key := Some (i\<lparr>i_value := v\<rparr>)\<rparr>)"
  by (auto simp: page_ok_def queue_synced_def schedule_synced_def tls_synced_def input_of_def split: option.splits if_splits)

lemma page_ok_step: "page_step d l d' \<Longrightarrow> page_ok d \<Longrightarrow> page_ok d'"
  by (induction rule: page_step.induct) (auto simp: fresh_becomes_ok ok_stays picks_keep_ok typing_keeps_ok)

lemma page_ok_loaded: "page_loaded d \<Longrightarrow> page_ok d"
  by (auto simp: page_loaded_def fresh_becomes_ok)

interpretation page_script: invariant_system page_loaded page_step page_ok
  by unfold_locales (auto intro: page_ok_loaded page_ok_step)

text \<open>
  C11. However often content is swapped and the script runs again: every select has exactly one
  change listener, running the script once more changes nothing, and the dependent fields show what
  the selects say. The key section shows just for an exclusive queue, and then the key is required,
  otherwise it is empty; of the cron and calendar sections the one of the schedule's type shows and
  its field is required; the TLS fields show just for TLS.
\<close>

theorem toggles_in_sync:
  assumes "execution page_step d ls d'" and "page_loaded d"
  shows "page_ok d' \<and> initializeFormToggles d' = d'"
  using page_script.reachable_inv [OF assms] ok_stays by blast

definition queue_form :: document where
  "queue_form = \<lparr>
     queueType = Some \<lparr>s_value = ''simple'', toggleInitialized = False, change_listeners = 0\<rparr>,
     exclusivity_section = Some True,
     exclusivity_key = Some \<lparr>is_input = True, i_value = [], i_required = False\<rparr>,
     scheduleType = None, cron_section = None, calendar_section = None, cron_expression = None,
     timezone_input = None, transportMode = None, tls_fields = (\<lambda>_. None)\<rparr>"

theorem toggles_in_sync_witness:
  "let d = pick_queue_type ''simple'' (initializeFormToggles (pick_queue_type ''exclusive'' (initializeFormToggles queue_form)))
   in page_ok d \<and> exclusivity_section d = Some True"
proof -
  let ?d0 = "initializeFormToggles queue_form"
  let ?d1 = "pick_queue_type ''exclusive'' ?d0"
  let ?d2 = "pick_queue_type ''simple'' (initializeFormToggles ?d1)"
  have "page_step ?d0 (PickQueueType ''exclusive'') ?d1" "page_step ?d1 SwapElsewhere (initializeFormToggles ?d1)"
    "page_step (initializeFormToggles ?d1) (PickQueueType ''simple'') ?d2"
    by (rule page_step.intros)+
  then have e: "execution page_step ?d0 [PickQueueType ''exclusive'', SwapElsewhere, PickQueueType ''simple''] ?d2"
    by (intro execution_cons execution_single)
  have "page_loaded ?d0"
    unfolding page_loaded_def
    by (rule exI [of _ queue_form]) (simp add: fresh_document_def fresh_select_def queue_form_def)
  note ok = toggles_in_sync [OF e this]
  have "exclusivity_section ?d2 = Some True"
    by (simp add: queue_form_def page_code pick_queue_type_def toggleExclusivityKey_def input_of_def)
  then show ?thesis using ok by (simp add: Let_def)
qed

end
