(* ===== verification/Spec2Isabelle.thy ===== *)
theory Spec2Isabelle
  imports
    JS_Prelude Transition TS_Types Api_Types Http_Action Api_Client Api_Calls Api_Contract
    Api_Modules Eval_Stats SSE_Hook SSE_Lifecycle Ui_Action Query_Hooks Live_Updates
    Toast_Store Toast_Lifecycle View Ui_Kit Ui_Primitives Chip_List Schedule_Form Schedule_Page
    Evaluation_Form Evaluation_Page Interview_Detail Interview_Lifecycle Interviews_Page
    Reports_Page Queues_Page Evaluations_Page Dashboard_Page Navigation Date_Picker Form_Kit
    Form_Views Toaster_View Tailwind_Build Class_Scanner Tailwind_Props Page_Script
begin

text \<open>
  A development on the JavaScript and TypeScript code of the Nzovu repository: the web frontend of its
  interview platform (\<^verbatim>\<open>examples/interview-platform/frontend\<close>, paths below are relative to
  it unless they start with \<^verbatim>\<open>cmd\<close>), and the script and the style sheet build of the broker's web
  UI (\<^verbatim>\<open>cmd/nzovu/web-ui\<close>). The message broker itself is a Go program and not part of it.

  \<^bold>\<open>The program.\<close> Pages call the server through \<open>APIClient\<close> or through the modules of
  \<^verbatim>\<open>lib/api\<close>, which share one axios instance. React Query caches the answers under keys; mutations and
  server-sent events invalidate keys, and a toast tells the user. Two pages are forms whose submit
  creates an interview or an evaluation; the page of an interview starts, completes or cancels it.
  The web UI is rendered by the server: one script adds confirmation and dependent fields to its forms,
  and a build script collects the class names of its templates for the style sheet.

  \<^bold>\<open>Foundations.\<close> \<open>JS_Prelude\<close> has the values, operators and string methods of
  JavaScript the code uses, and exceptions as values of a sum type; \<open>Transition\<close> has labelled
  executions and the interfaces for invariants (\<open>invariant_system\<close>, and
  \<open>guarded_system\<close> for executions that avoid some operations), interpreted by every component with
  a step relation, and for refinement of an abstract machine (\<open>refining_system\<close>);
  \<open>TS_Types\<close> and \<open>Api_Types\<close> have structural types, the values that inhabit them, and
  the interfaces of \<^verbatim>\<open>lib/types/api.ts\<close> and \<^verbatim>\<open>types/index.ts\<close>;
  \<open>Http_Action\<close> and \<open>Ui_Action\<close> have asynchronous code as state passing: the requests
  sent, the console, and the calls to toasts, cache and router, in order; \<open>View\<close>,
  \<open>Ui_Kit\<close> and \<open>Form_Kit\<close> have what a component renders, as a tree or the exception it
  throws, and the shared components of \<^verbatim>\<open>components/ui\<close> with behaviour of their own;
  \<open>Ui_Primitives\<close> has those that dress an element, with the properties they pass on to it. The
  pages use the latter as tags, and \<open>Form_Views\<close> relates the two for the inputs of the forms.

  \<^bold>\<open>Components.\<close>
  \<open>Api_Client\<close>, \<open>Api_Calls\<close>, \<open>Api_Contract\<close>: \<^verbatim>\<open>lib/api/client.ts\<close>, the specification of each method as
  a row of a table, and the refinement of that table by the code; the route table of the backend.
  \<open>Api_Modules\<close>, \<open>Eval_Stats\<close>: the modules of \<^verbatim>\<open>lib/api\<close> and the evaluation statistics.
  \<open>SSE_Hook\<close>, \<open>SSE_Lifecycle\<close>: \<^verbatim>\<open>hooks/useSSE.ts\<close>; the state holds every \<open>EventSource\<close> ever
  opened and the running timers, and the steps are the hook's functions and the browser's events.
  \<open>Query_Hooks\<close>, \<open>Live_Updates\<close>: \<^verbatim>\<open>lib/hooks\<close> and \<^verbatim>\<open>components/SSEProvider.tsx\<close>, with an interface for
  query keys (\<open>key_factory\<close>).
  \<open>Toast_Store\<close>, \<open>Toast_Lifecycle\<close>, \<open>Toaster_View\<close>: \<^verbatim>\<open>hooks/use-toast.ts\<close> and the toaster.
  \<open>Chip_List\<close>, \<open>Schedule_Form\<close>, \<open>Schedule_Page\<close>, \<open>Date_Picker\<close>, \<open>Evaluation_Form\<close>,
  \<open>Evaluation_Page\<close>, \<open>Form_Views\<close>: the two forms, their pages and views; the four lists of chips are
  interpretations of one interface (\<open>chip_list\<close>).
  \<open>Interview_Detail\<close>, \<open>Interview_Lifecycle\<close>: the page of one interview, and its executions together with
  the backend's status rules.
  \<open>Interviews_Page\<close>, \<open>Reports_Page\<close>, \<open>Queues_Page\<close>, \<open>Evaluations_Page\<close>, \<open>Dashboard_Page\<close>,
  \<open>Navigation\<close>: the other pages, the layouts, the side bar and the route guard.
  \<open>Tailwind_Build\<close>, \<open>Class_Scanner\<close>, \<open>Tailwind_Props\<close>: \<^verbatim>\<open>scripts/build-tailwind.mjs\<close> of the web UI.
  \<open>Page_Script\<close>: \<^verbatim>\<open>static/js/app.js\<close> of the web UI.

  \<^bold>\<open>What is shown.\<close> Refinement of the client's specification, the types of its results and
  its error behaviour; one connection, cleaning up and retrying of the SSE hook over all executions, and the
  machine of four states it refines; one toast, fresh ids and removal of closed toasts; what a submit of each
  form sends, for every way the form was filled in; the life cycle of an interview under the page's actions, and
  how each action ends; which cached queries an event or a mutation refreshes; statistics with bounds; exactness
  of the search; when pages render and where their links lead; the scanner of class names as a left inverse of
  printing; that a build compiles every class and watching becomes quiet; that the dependent fields follow their
  selects however often content is swapped.

  \<^bold>\<open>Abstractions.\<close> Numbers are exact rationals and \<open>NaN\<close>, so rounding of
  floating point and infinities are left out; strings are lists of Latin-1 characters, and characters outside
  are written in ASCII; a \<open>Date\<close> is its time value and local time is at a fixed offset; one
  asynchronous function runs to its end before the next, except where executions interleave them (the SSE hook,
  the toast timers, the dialogs of the interview page, builds in watch mode). In the pages, class
  names and icons are modelled only where computed. React Query, axios, Clerk, the form library, \<open>twMerge\<close>,
  \<open>cva\<close>, Tailwind's compiler and htmx are arguments of the definitions, with what the code relies
  on as named predicates (\<open>key_matching\<close>, \<open>resolver_ok\<close>, \<open>route_matcher\<close>,
  and the server's response types), each of which has an instance in a witness. No fuel is used: the loops are
  recursions with a measure, on the rest of the string, the size of the directory tree, or the list.

  \<^bold>\<open>Not modelled.\<close> Configuration constants; the vendored Swagger UI and htmx; the matcher by
  which Next.js decides to run the middleware; drift of the clock's offset (daylight saving); the Go code of the
  broker and of the example backends.
\<close>

end
